(* ===== verification/Broker_Prelude.thy ===== *)
theory Broker_Prelude
  imports Main "HOL-Library.Word" "HOL-Library.AList" "HOL-Library.Char_ord" "HOL-Library.Sublist"
begin

text \<open>
  The shared vocabulary of the development: the Rust types the broker is written with (bytes,
  fixed-width integers, \<open>Result\<close>, \<open>Duration\<close>, \<open>Instant\<close>, \<open>HashMap\<close>, \<open>Read\<close>/\<open>Write\<close> streams) as
  HOL types, and the generic facts about them that the component theories use.

  \<^item> \<open>Result<T, E>\<close> is the sum \<open>'e + 'a\<close>, read through the abbreviations \<open>Ok\<close> and \<open>Err\<close>.
  \<^item> \<open>Duration\<close> and \<open>Instant\<close> are natural numbers of nanoseconds; \<open>saturating_sub\<close> and
    \<open>checked_duration_since(..).unwrap_or(ZERO)\<close> are the truncated subtraction of \<open>nat\<close>.
  \<^item> \<open>HashMap<K, V>\<close> is an association list with distinct keys; the order of the list stands for
    the unspecified iteration order. The contract the components rely on is the locale
    \<open>keyed_map\<close>, interpreted here on the association-list operations.
  \<^item> A \<open>Read\<close> stream is the bytes that will still arrive, followed by the end of the stream or an
    I/O error. A \<open>Write\<close> stream is the bytes delivered so far and the number it can still take.
\<close>

section \<open>Types\<close>

type_synonym byte = "8 word"
type_synonym bytes = "byte list"
type_synonym u32 = "32 word"
type_synonym u64 = "64 word"
type_synonym duration = nat
type_synonym instant = nat

type_synonym ('e, 'a) result = "'e + 'a"

abbreviation Ok :: "'a \<Rightarrow> ('e, 'a) result" where "Ok x \<equiv> Inr x"
abbreviation Err :: "'e \<Rightarrow> ('e, 'a) result" where "Err e \<equiv> Inl e"

abbreviation from_secs :: "nat \<Rightarrow> duration" where "from_secs n \<equiv> n * 1000000000"
abbreviation from_millis :: "nat \<Rightarrow> duration" where "from_millis n \<equiv> n * 1000000"
abbreviation from_micros :: "nat \<Rightarrow> duration" where "from_micros n \<equiv> n * 1000"

definition as_millis :: "duration \<Rightarrow> nat" where
  "as_millis d = d div 1000000"

definition U64_MAX :: nat where
  "U64_MAX = 2 ^ 64 - 1"

definition U32_MAX :: nat where
  "U32_MAX = 2 ^ 32 - 1"

text \<open>The largest \<open>Instant\<close> of the Unix targets (an \<open>i64\<close> of seconds and 999 999 999 nanoseconds), and
  \<open>now.checked_add(ttl).unwrap_or(now)\<close>.\<close>

definition INSTANT_MAX :: instant where
  "INSTANT_MAX = (2 ^ 63 - 1) * 1000000000 + 999999999"

definition add_or_now :: "instant \<Rightarrow> duration \<Rightarrow> instant" where
  "add_or_now now ttl = (if now + ttl \<le> INSTANT_MAX then now + ttl else now)"

named_theorems hm_simps \<open>rewriting of the hash-map operations\<close>
named_theorems wf_intros \<open>preservation of the components' invariants\<close>

section \<open>Results\<close>

fun result_bind :: "('e, 'a) result \<Rightarrow> ('a \<Rightarrow> ('e, 'b) result) \<Rightarrow> ('e, 'b) result" where
  "result_bind (Err e) f = Err e"
| "result_bind (Ok x) f = f x"

fun map_err :: "('e \<Rightarrow> 'f) \<Rightarrow> ('e, 'a) result \<Rightarrow> ('f, 'a) result" where
  "map_err g (Err e) = Err (g e)"
| "map_err g (Ok x) = Ok x"

fun is_ok :: "('e, 'a) result \<Rightarrow> bool" where
  "is_ok (Err e) = False"
| "is_ok (Ok x) = True"

section \<open>Hash maps\<close>

type_synonym ('k, 'v) hash_map = "('k \<times> 'v) list"

definition hm_empty :: "('k, 'v) hash_map" where
  "hm_empty = []"

definition hm_get :: "('k, 'v) hash_map \<Rightarrow> 'k \<Rightarrow> 'v option" where
  "hm_get m k = map_of m k"

definition hm_insert :: "'k \<Rightarrow> 'v \<Rightarrow> ('k, 'v) hash_map \<Rightarrow> ('k, 'v) hash_map" where
  "hm_insert k v m = AList.update k v m"

definition hm_remove :: "'k \<Rightarrow> ('k, 'v) hash_map \<Rightarrow> ('k, 'v) hash_map" where
  "hm_remove k m = AList.delete k m"

definition hm_retain :: "('k \<Rightarrow> 'v \<Rightarrow> bool) \<Rightarrow> ('k, 'v) hash_map \<Rightarrow> ('k, 'v) hash_map" where
  "hm_retain P m = filter (\<lambda>(k, v). P k v) m"

definition hm_len :: "('k, 'v) hash_map \<Rightarrow> nat" where
  "hm_len m = length m"

definition hm_contains :: "('k, 'v) hash_map \<Rightarrow> 'k \<Rightarrow> bool" where
  "hm_contains m k = (hm_get m k \<noteq> None)"

definition hm_ok :: "('k, 'v) hash_map \<Rightarrow> bool" where
  "hm_ok m = distinct (map fst m)"

text \<open>What every user of a keyed map relies on: lookups after an update, and an invariant that
  every operation keeps.\<close>

locale keyed_map =
  fixes empty :: "'m"
    and get :: "'m \<Rightarrow> 'k \<Rightarrow> 'v option"
    and insert :: "'k \<Rightarrow> 'v \<Rightarrow> 'm \<Rightarrow> 'm"
    and remove :: "'k \<Rightarrow> 'm \<Rightarrow> 'm"
    and retain :: "('k \<Rightarrow> 'v \<Rightarrow> bool) \<Rightarrow> 'm \<Rightarrow> 'm"
    and len :: "'m \<Rightarrow> nat"
    and ok :: "'m \<Rightarrow> bool"
  assumes ok_empty: "ok empty"
    and ok_insert: "ok m \<Longrightarrow> ok (insert k v m)"
    and ok_remove: "ok m \<Longrightarrow> ok (remove k m)"
    and ok_retain: "ok m \<Longrightarrow> ok (retain P m)"
    and get_empty: "get empty k = None"
    and get_insert: "get (insert k v m) k' = (if k' = k then Some v else get m k')"
    and get_remove: "get (remove k m) k' = (if k' = k then None else get m k')"
    and get_retain: "ok m \<Longrightarrow> get (retain P m) k =
      (case get m k of None \<Rightarrow> None | Some v \<Rightarrow> if P k v then Some v else None)"
    and len_empty: "len empty = 0"
    and len_insert: "len (insert k v m) = (if get m k = None then Suc (len m) else len m)"
    and len_remove_le: "len (remove k m) \<le> len m"
    and len_retain_le: "len (retain P m) \<le> len m"
begin

lemma get_insert_remove:
  "get (insert k v (remove k m)) = get (insert k v m)"
  by (rule ext) (simp add: get_insert get_remove)

lemma get_remove_insert_new:
  assumes "get m k = None"
  shows "get (remove k (insert k v m)) = get m"
  using assms by (intro ext) (simp add: get_insert get_remove)

lemma get_retain_SomeD:
  assumes "ok m" "get (retain P m) k = Some v"
  shows "get m k = Some v \<and> P k v"
  using assms by (auto simp: get_retain split: option.splits if_splits)

lemma get_retain_keeps:
  assumes "ok m" "get m k = Some v" "P k v"
  shows "get (retain P m) k = Some v"
  using assms by (simp add: get_retain)

lemma len_insert_le:
  "len (insert k v m) \<le> Suc (len m)"
  by (simp add: len_insert)

lemma len_insert_bound:
  assumes "len m < b"
  shows "len (insert k v m) \<le> b"
  using assms by (simp add: len_insert)

end

lemma result_bind_Ok_iff [simp]:
  "result_bind r f = Ok y \<longleftrightarrow> (\<exists>x. r = Ok x \<and> f x = Ok y)"
  by (cases r) auto

lemma map_err_Ok_iff [simp]: "map_err g r = Ok x \<longleftrightarrow> r = Ok x"
  by (cases r) auto

lemma hm_length_update:
  "length (AList.update k v m) = (if map_of m k = None then Suc (length m) else length m)"
  by (induction m) auto

lemma hm_map_of_retain:
  assumes "distinct (map fst m)"
  shows "map_of (filter (\<lambda>(k, v). P k v) m) k =
    (case map_of m k of None \<Rightarrow> None | Some v \<Rightarrow> if P k v then Some v else None)"
  using assms
proof (induction m)
  case (Cons p m)
  obtain k' v' where p: "p = (k', v')" by (cases p)
  have "map_of m k' = None" using Cons.prems p by (simp add: map_of_eq_None_iff)
  moreover have "map_of (filter (\<lambda>(k, v). P k v) m) k' = None"
    using Cons.prems p by (auto simp: map_of_eq_None_iff)
  ultimately show ?case using Cons p by (auto split: option.splits)
qed simp

interpretation hm: keyed_map
  hm_empty
  hm_get
  hm_insert
  hm_remove
  hm_retain
  hm_len
  hm_ok
proof unfold_locales
  fix m :: "('a, 'b) hash_map" and P k
  show "hm_ok m \<Longrightarrow> hm_get (hm_retain P m) k =
      (case hm_get m k of None \<Rightarrow> None | Some v \<Rightarrow> if P k v then Some v else None)"
    by (simp add: hm_ok_def hm_get_def hm_retain_def hm_map_of_retain)
  show "hm_ok m \<Longrightarrow> hm_ok (hm_retain P m)"
    by (auto simp: hm_ok_def hm_retain_def intro: distinct_map_filter)
  show "hm_len (hm_retain P m) \<le> hm_len m"
    by (simp add: hm_len_def hm_retain_def)
  show "hm_len (hm_remove k m) \<le> hm_len m"
    by (simp add: hm_len_def hm_remove_def AList.length_delete_le)
qed (simp_all add: hm_ok_def hm_empty_def hm_get_def hm_insert_def hm_remove_def hm_len_def
      distinct_update distinct_delete update_conv' delete_conv' hm_length_update)

lemmas [hm_simps] =
  hm.ok_empty hm.ok_insert hm.ok_remove hm.ok_retain
  hm.get_empty hm.get_insert hm.get_remove hm.get_retain
  hm.len_empty hm.len_insert

end
