(* ===== verification/Rust_Strings.thy ===== *)
theory Rust_Strings
  imports Broker_Prelude
begin

text \<open>
  The string operations of the Rust standard library the broker uses, on strings as their UTF-8
  bytes: character classes, \<open>split_once\<close>, \<open>split\<close>, \<open>str::parse::<u64>\<close>, decimal and lower-case hex
  rendering, and \<open>PathBuf::join\<close> on Unix. Every delimiter and class is ASCII, so working on bytes
  gives the result working on characters does.
\<close>

section \<open>Character classes\<close>

abbreviation char_code :: "char \<Rightarrow> nat" where "char_code c \<equiv> of_char c"

definition is_ascii_digit :: "char \<Rightarrow> bool" where
  "is_ascii_digit c = (48 \<le> char_code c \<and> char_code c \<le> 57)"

definition is_ascii_lower :: "char \<Rightarrow> bool" where
  "is_ascii_lower c = (97 \<le> char_code c \<and> char_code c \<le> 122)"

definition is_ascii_upper :: "char \<Rightarrow> bool" where
  "is_ascii_upper c = (65 \<le> char_code c \<and> char_code c \<le> 90)"

definition is_lower_hex :: "char \<Rightarrow> bool" where
  "is_lower_hex c = (is_ascii_digit c \<or> (97 \<le> char_code c \<and> char_code c \<le> 102))"

section \<open>Splitting\<close>

fun split_once :: "char \<Rightarrow> string \<Rightarrow> (string \<times> string) option" where
  "split_once d [] = None"
| "split_once d (c # cs) =
    (if c = d then Some ([], cs)
     else (case split_once d cs of None \<Rightarrow> None | Some (a, b) \<Rightarrow> Some (c # a, b)))"

fun split_on :: "char \<Rightarrow> string \<Rightarrow> string list" where
  "split_on d [] = [[]]"
| "split_on d (c # cs) =
    (if c = d then [] # split_on d cs
     else (case split_on d cs of [] \<Rightarrow> [[c]] | x # xs \<Rightarrow> (c # x) # xs))"

section \<open>Numbers\<close>

definition digit_val :: "char \<Rightarrow> nat" where
  "digit_val c = char_code c - 48"

definition digits_val :: "string \<Rightarrow> nat" where
  "digits_val s = foldl (\<lambda>n c. n * 10 + digit_val c) 0 s"

text \<open>\<open>str::parse::<u64>\<close>: one optional plus sign, at least one digit, and no overflow.\<close>

definition parse_u64 :: "string \<Rightarrow> nat option" where
  "parse_u64 s =
    (let ds = (case s of c # cs \<Rightarrow> if c = CHR ''+'' then cs else s | [] \<Rightarrow> s) in
     if ds = [] \<or> \<not> list_all is_ascii_digit ds \<or> digits_val ds > U64_MAX then None
     else Some (digits_val ds))"

definition digit_char :: "nat \<Rightarrow> char" where
  "digit_char n = char_of (48 + n)"

fun show_nat :: "nat \<Rightarrow> string" where
  "show_nat n = (if n < 10 then [digit_char n] else show_nat (n div 10) @ [digit_char (n mod 10)])"

declare show_nat.simps [simp del]

section \<open>Hexadecimal\<close>

definition nibble_to_hex :: "byte \<Rightarrow> char" where
  "nibble_to_hex n =
    (if n \<le> 9 then char_of (48 + unat n)
     else if n \<le> 15 then char_of (97 + (unat n - 10))
     else undefined)"

definition hex_byte :: "byte \<Rightarrow> string" where
  "hex_byte b = [nibble_to_hex (drop_bit 4 b), nibble_to_hex (and b 0x0F)]"

fun hex_string :: "bytes \<Rightarrow> string" where
  "hex_string [] = []"
| "hex_string (b # bs) = hex_byte b @ hex_string bs"

section \<open>Unix paths\<close>

text \<open>\<open>PathBuf::join\<close> on Unix: an absolute leaf replaces the base, otherwise a separator is added
  unless the base is empty or already ends with one.\<close>

definition path_join :: "string \<Rightarrow> string \<Rightarrow> string" where
  "path_join base leaf =
    (if leaf \<noteq> [] \<and> hd leaf = CHR ''/'' then leaf
     else if base = [] \<or> last base = CHR ''/'' then base @ leaf
     else base @ CHR ''/'' # leaf)"

section \<open>Splitting: lemmas\<close>

lemma split_once_None_iff: "split_once d s = None \<longleftrightarrow> d \<notin> set s"
  by (induction s) (auto split: option.splits)

lemma split_once_append: "d \<notin> set a \<Longrightarrow> split_once d (a @ d # b) = Some (a, b)"
  by (induction a) auto

lemma split_once_SomeD:
  "split_once d s = Some (a, b) \<Longrightarrow> s = a @ d # b \<and> d \<notin> set a"
  by (induction s arbitrary: a) (fastforce split: option.splits if_splits)+

lemma split_once_Some_iff:
  "split_once d s = Some (a, b) \<longleftrightarrow> s = a @ d # b \<and> d \<notin> set a"
  by (metis split_once_append split_once_SomeD)

lemma split_on_not_Nil [simp]: "split_on d s \<noteq> []"
  by (induction s) (auto split: list.splits)

lemma split_on_no_delim: "d \<notin> set s \<Longrightarrow> split_on d s = [s]"
  by (induction s) auto

lemma split_on_append:
  "d \<notin> set a \<Longrightarrow> split_on d (a @ d # b) = a # split_on d b"
  by (induction a) auto

text \<open>Splitting is the inverse of joining with the delimiter.\<close>

lemma split_on_singleton_iff: "split_on d s = [x] \<longleftrightarrow> s = x \<and> d \<notin> set s"
proof (cases "d \<in> set s")
  case True
  then obtain a b where "s = a @ d # b" "d \<notin> set a" by (metis split_list_first)
  then show ?thesis by (simp add: split_on_append)
qed (auto simp: split_on_no_delim)

lemma split_on_Cons_iff:
  "xs \<noteq> [] \<Longrightarrow> split_on d s = x # xs \<longleftrightarrow>
    (\<exists>rest. s = x @ d # rest \<and> d \<notin> set x \<and> split_on d rest = xs)"
proof (cases "d \<in> set s")
  case True
  then obtain a b where s: "s = a @ d # b" "d \<notin> set a" by (metis split_list_first)
  assume "xs \<noteq> []"
  with s show ?thesis
    by (auto simp: split_on_append) (metis list.inject split_on_append)+
qed (auto simp: split_on_no_delim split_on_append)

section \<open>Numbers: lemmas\<close>

lemma digit_char_props [simp]:
  assumes "n < 10"
  shows "is_ascii_digit (digit_char n)" "digit_val (digit_char n) = n"
  using assms by (simp_all add: is_ascii_digit_def digit_char_def digit_val_def)

lemma digits_val_snoc: "digits_val (s @ [c]) = digits_val s * 10 + digit_val c"
  by (simp add: digits_val_def)

lemma show_nat_digits: "list_all is_ascii_digit (show_nat n)"
proof (induction n rule: show_nat.induct)
  case (1 n)
  then show ?case by (cases "n < 10") (simp_all add: show_nat.simps [of n])
qed

lemma show_nat_not_Nil [simp]: "show_nat n \<noteq> []"
  by (simp add: show_nat.simps [of n])

lemma digits_val_show_nat [simp]: "digits_val (show_nat n) = n"
proof (induction n rule: show_nat.induct)
  case (1 n)
  then show ?case
    by (cases "n < 10") (simp_all add: show_nat.simps [of n] digits_val_snoc, simp add: digits_val_def)
qed

lemma show_nat_inject [simp]: "show_nat m = show_nat n \<longleftrightarrow> m = n"
  by (metis digits_val_show_nat)

section \<open>Hexadecimal: lemmas\<close>

lemma nibble_to_hex_inject:
  assumes "m \<le> 15" "n \<le> 15" "nibble_to_hex m = nibble_to_hex n"
  shows "m = n"
proof -
  have "unat m \<le> 15" "unat n \<le> 15" using assms(1,2) by (simp_all add: word_le_nat_alt)
  moreover have "(m \<le> 9) = (unat m \<le> 9)" "(n \<le> 9) = (unat n \<le> 9)"
    by (simp_all add: word_le_nat_alt)
  ultimately have "unat m = unat n"
    using assms by (auto simp: nibble_to_hex_def char_of_eq_iff take_bit_nat_eq_self
        dest!: arg_cong [where f = char_code] split: if_splits)
  then show ?thesis by (simp add: word_unat_eq_iff)
qed

lemma byte_nibbles:
  "drop_bit 4 (b :: byte) \<le> 15" "and b 0x0F \<le> (15 :: byte)"
proof -
  have "unat (drop_bit 4 b) = unat b div 16" unfolding unat_drop_bit_eq by (simp add: drop_bit_eq_div)
  moreover have "unat b < 256" using unsigned_less [of b, where ?'a = nat] by simp
  ultimately show "drop_bit 4 b \<le> 15" by (simp add: word_le_nat_alt)
  show "and b 0x0F \<le> (15 :: byte)" by (rule word_and_le1)
qed

lemma byte_of_nibbles:
  "push_bit 4 (drop_bit 4 b) + and b 0x0F = (b :: byte)"
proof -
  have "and b 0x0F = take_bit 4 b"
    by (simp add: take_bit_eq_mask mask_eq_exp_minus_1)
  then show ?thesis by (simp add: bits_ident)
qed

lemma hex_byte_inject [simp]: "hex_byte a = hex_byte b \<longleftrightarrow> a = b"
proof
  assume "hex_byte a = hex_byte b"
  then have "drop_bit 4 a = drop_bit 4 b" "and a 0x0F = and b 0x0F"
    by (auto simp: hex_byte_def intro!: nibble_to_hex_inject byte_nibbles)
  then show "a = b" by (metis byte_of_nibbles)
qed simp

lemma hex_byte_length [simp]: "length (hex_byte b) = 2"
  by (simp add: hex_byte_def)

lemma hex_string_length [simp]: "length (hex_string bs) = 2 * length bs"
  by (induction bs) simp_all

lemma hex_string_inject [simp]: "hex_string xs = hex_string ys \<longleftrightarrow> xs = ys"
proof
  show "hex_string xs = hex_string ys \<Longrightarrow> xs = ys"
  proof (induction xs arbitrary: ys)
    case Nil
    then have "length (hex_string ys) = 0" by simp
    then show ?case by simp
  next
    case (Cons x xs)
    then have "length (hex_string ys) \<noteq> 0" by (metis hex_string_length length_greater_0_conv list.discI mult_eq_0_iff neq0_conv zero_neq_numeral)
    then obtain y ys' where "ys = y # ys'" by (cases ys) auto
    with Cons show ?case by simp
  qed
qed simp

lemma nibble_to_hex_lower:
  assumes "n \<le> 15"
  shows "is_lower_hex (nibble_to_hex n)"
proof -
  have "unat n \<le> 15" using assms by (simp add: word_le_nat_alt)
  then show ?thesis
    using assms by (auto simp: is_lower_hex_def is_ascii_digit_def nibble_to_hex_def word_le_nat_alt
        take_bit_nat_eq_self)
qed

lemma hex_string_lower: "list_all is_lower_hex (hex_string bs)"
  by (induction bs) (auto simp: hex_byte_def byte_nibbles intro!: nibble_to_hex_lower)

lemma lower_hex_not_dash: "list_all is_lower_hex s \<Longrightarrow> CHR ''-'' \<notin> set s"
  by (auto simp: list_all_iff is_lower_hex_def is_ascii_digit_def)

lemma path_join_inject:
  assumes "hd a \<noteq> CHR ''/''" "hd b \<noteq> CHR ''/''" "path_join d a = path_join d b"
  shows "a = b"
  using assms by (auto simp: path_join_def split: if_splits)

end
