(* ===== verification/Wire_Framing.thy ===== *)
theory Wire_Framing
  imports Broker_Prelude
begin

text \<open>
  The v1 wire format: the outer framing \<open>[u8 version][u32 LE length][body]\<close> over byte streams
  (\<open>protocol/framing.rs\<close>), the buffer-level codec and constructors of the \<open>Frame\<close> envelope
  (\<open>protocol/frame_ext.rs\<close>), the shared envelope validation (\<open>protocol/validate.rs\<close>) and the
  payload-protocol registry (\<open>protocol/registry.rs\<close>). The prost encoding of a \<open>Frame\<close> is
  generated code: \<open>encode_framed\<close> and \<open>try_decode_framed\<close> take the encoder and the decoder as
  arguments.
\<close>

unbundle bit_operations_syntax

section \<open>Constants\<close>

definition FRAMING_VERSION_V1 :: byte where
  "FRAMING_VERSION_V1 = 1"

definition MAX_FRAME_SIZE_BYTES :: nat where
  "MAX_FRAME_SIZE_BYTES = 16 * 1024 * 1024"

definition MAX_HELLO_SIZE_BYTES :: nat where
  "MAX_HELLO_SIZE_BYTES = 64 * 1024"

definition ENVELOPE_VERSION :: byte where
  "ENVELOPE_VERSION = FRAMING_VERSION_V1"

definition MAX_FRAME_BYTES :: nat where
  "MAX_FRAME_BYTES = MAX_FRAME_SIZE_BYTES"

definition MAX_HELLO_BYTES :: nat where
  "MAX_HELLO_BYTES = MAX_HELLO_SIZE_BYTES"

definition FRAME_HEADER_BYTES :: nat where
  "FRAME_HEADER_BYTES = 5"

section \<open>Byte streams\<close>

datatype io_error_kind = UnexpectedEofKind | WouldBlock | TimedOut
  | InvalidData | InvalidInput | PermissionDenied | NotFound | WriteZero | Interrupted
  | ConnectionRefused | ConnectionReset | BrokenPipe | NotConnected | AlreadyExists | AddrInUse | OtherKind

record io_error =
  ioe_kind :: io_error_kind
  ioe_raw_os_error :: "int option"

text \<open>What a \<open>Read\<close> stream will still deliver, and how it then ends.\<close>

datatype stream_end = Eof | Fault io_error

record reader =
  rd_bytes :: bytes
  rd_end :: stream_end

text \<open>What a \<open>Write\<close> stream has delivered, how many bytes it takes before it fails (\<open>None\<close> when
  it never does), the error of the failure, and the outcome of a \<open>flush\<close>.\<close>

record writer =
  wr_out :: bytes
  wr_room :: "nat option"
  wr_fault :: io_error
  wr_flush :: "io_error option"

definition eof_error :: io_error where
  "eof_error = \<lparr> ioe_kind = UnexpectedEofKind, ioe_raw_os_error = None \<rparr>"

text \<open>\<open>Read::read_exact\<close>: all the bytes asked for, or an error with everything consumed.\<close>

definition read_exact :: "nat \<Rightarrow> reader \<Rightarrow> (io_error, bytes) result \<times> reader" where
  "read_exact n r =
    (if n \<le> length (rd_bytes r)
     then (Ok (take n (rd_bytes r)), r\<lparr> rd_bytes := drop n (rd_bytes r) \<rparr>)
     else (Err (case rd_end r of Eof \<Rightarrow> eof_error | Fault e \<Rightarrow> e), r\<lparr> rd_bytes := [] \<rparr>))"

text \<open>\<open>Write::write_all\<close>: a failing write may already have delivered a prefix.\<close>

definition write_all :: "bytes \<Rightarrow> writer \<Rightarrow> (io_error, unit) result \<times> writer" where
  "write_all bs w =
    (case wr_room w of
       None \<Rightarrow> (Ok (), w\<lparr> wr_out := wr_out w @ bs \<rparr>)
     | Some n \<Rightarrow>
         if length bs \<le> n
         then (Ok (), w\<lparr> wr_out := wr_out w @ bs, wr_room := Some (n - length bs) \<rparr>)
         else (Err (wr_fault w), w\<lparr> wr_out := wr_out w @ take n bs, wr_room := Some 0 \<rparr>))"

definition flush :: "writer \<Rightarrow> (io_error, unit) result" where
  "flush w = (case wr_flush w of None \<Rightarrow> Ok () | Some e \<Rightarrow> Err e)"

section \<open>Framing\<close>

text \<open>The decode error of prost is the type parameter \<open>'d\<close>.\<close>

datatype 'd framing_error =
    UnsupportedFramingVersion byte byte
  | FrameTooLarge nat nat
  | UnexpectedEof string
  | Io io_error
  | Decode 'd

definition read_exact_or_eof ::
  "nat \<Rightarrow> string \<Rightarrow> reader \<Rightarrow> ('d framing_error, bytes) result \<times> reader" where
  "read_exact_or_eof n context r =
    (case read_exact n r of
       (Ok bs, r') \<Rightarrow> (Ok bs, r')
     | (Err e, r') \<Rightarrow>
         if ioe_kind e = UnexpectedEofKind then (Err (UnexpectedEof context), r')
         else (Err (Io e), r'))"

definition u32_from_le_bytes :: "bytes \<Rightarrow> u32" where
  "u32_from_le_bytes bs =
     ucast (bs ! 0) OR push_bit 8 (ucast (bs ! 1)) OR
     push_bit 16 (ucast (bs ! 2)) OR push_bit 24 (ucast (bs ! 3))"

definition u32_to_le_bytes :: "u32 \<Rightarrow> bytes" where
  "u32_to_le_bytes w =
     [ucast w, ucast (drop_bit 8 w), ucast (drop_bit 16 w), ucast (drop_bit 24 w)]"

definition read_frame_with_cap ::
  "reader \<Rightarrow> nat \<Rightarrow> ('d framing_error, bytes) result \<times> reader" where
  "read_frame_with_cap r max_bytes =
    (case read_exact_or_eof 1 ''framing byte'' r of
       (Err e, r1) \<Rightarrow> (Err e, r1)
     | (Ok version_buf, r1) \<Rightarrow>
         let version = version_buf ! 0 in
         if version \<noteq> ENVELOPE_VERSION
         then (Err (UnsupportedFramingVersion version ENVELOPE_VERSION), r1)
         else
           (case read_exact_or_eof 4 ''body length header'' r1 of
              (Err e, r2) \<Rightarrow> (Err e, r2)
            | (Ok len_buf, r2) \<Rightarrow>
                let n = unat (u32_from_le_bytes len_buf) in
                if n > max_bytes then (Err (FrameTooLarge n max_bytes), r2)
                else if n > 0 then read_exact_or_eof n ''frame body'' r2
                else (Ok [], r2)))"

definition read_frame :: "reader \<Rightarrow> ('d framing_error, bytes) result \<times> reader" where
  "read_frame r = read_frame_with_cap r MAX_FRAME_BYTES"

definition write_frame_header :: "bytes \<Rightarrow> bytes" where
  "write_frame_header body =
    (let body_len_u32 = word_of_nat (length body) :: u32 in
     [ENVELOPE_VERSION,
      ucast (body_len_u32 AND 0xFF),
      ucast (drop_bit 8 body_len_u32 AND 0xFF),
      ucast (drop_bit 16 body_len_u32 AND 0xFF),
      ucast (drop_bit 24 body_len_u32 AND 0xFF)])"

definition write_frame :: "writer \<Rightarrow> bytes \<Rightarrow> ('d framing_error, nat) result \<times> writer" where
  "write_frame w body =
    (if length body > MAX_FRAME_BYTES
     then (Err (FrameTooLarge (length body) MAX_FRAME_BYTES), w)
     else
       let header = write_frame_header body in
       case write_all header w of
         (Err e, w1) \<Rightarrow> (Err (Io e), w1)
       | (Ok _, w1) \<Rightarrow>
           (case (if body = [] then (Ok (), w1) else write_all body w1) of
              (Err e, w2) \<Rightarrow> (Err (Io e), w2)
            | (Ok _, w2) \<Rightarrow>
                (case flush w2 of
                   Err e \<Rightarrow> (Err (Io e), w2)
                 | Ok _ \<Rightarrow> (Ok (length header + length body), w2))))"

section \<open>Payload-protocol registry\<close>

definition PROTOCOL_VERSION :: u32 where
  "PROTOCOL_VERSION = 1"

definition CONTROL_PAYLOAD_PROTOCOL :: u32 where
  "CONTROL_PAYLOAD_PROTOCOL = 0x00"

definition ADMIN_PAYLOAD_PROTOCOL :: u32 where
  "ADMIN_PAYLOAD_PROTOCOL = 0xAD01"

definition BACKEND_HANDLE_PROBE_PAYLOAD_PROTOCOL :: u32 where
  "BACKEND_HANDLE_PROBE_PAYLOAD_PROTOCOL = 0xB232"

definition HANDOFF_PAYLOAD_PROTOCOL :: u32 where
  "HANDOFF_PAYLOAD_PROTOCOL = 0xD0FF"

definition CONSUMER_PAYLOAD_PROTOCOL_MIN :: u32 where
  "CONSUMER_PAYLOAD_PROTOCOL_MIN = 0x7000"

definition CONSUMER_PAYLOAD_PROTOCOL_MAX :: u32 where
  "CONSUMER_PAYLOAD_PROTOCOL_MAX = 0x7EFF"

definition PRIVATE_USE_PAYLOAD_PROTOCOL_MIN :: u32 where
  "PRIVATE_USE_PAYLOAD_PROTOCOL_MIN = 0xF000"

definition PRIVATE_USE_PAYLOAD_PROTOCOL_MAX :: u32 where
  "PRIVATE_USE_PAYLOAD_PROTOCOL_MAX = 0xFFFF"

definition ZCCACHE_PAYLOAD_PROTOCOL :: u32 where
  "ZCCACHE_PAYLOAD_PROTOCOL = 0x7A63"

definition CLUD_PAYLOAD_PROTOCOL :: u32 where
  "CLUD_PAYLOAD_PROTOCOL = 0x7C4C"

definition FBUILD_PAYLOAD_PROTOCOL :: u32 where
  "FBUILD_PAYLOAD_PROTOCOL = 0x7EB1"

definition FIRST_PARTY_PAYLOAD_PROTOCOLS :: "u32 list" where
  "FIRST_PARTY_PAYLOAD_PROTOCOLS =
    [CONTROL_PAYLOAD_PROTOCOL, ADMIN_PAYLOAD_PROTOCOL,
     BACKEND_HANDLE_PROBE_PAYLOAD_PROTOCOL, HANDOFF_PAYLOAD_PROTOCOL]"

text \<open>The loop of \<open>is_first_party\<close> from \<open>index\<close> on.\<close>

function is_first_party_from :: "nat \<Rightarrow> u32 \<Rightarrow> bool" where
  "is_first_party_from index i =
    (if index < length FIRST_PARTY_PAYLOAD_PROTOCOLS
     then (if FIRST_PARTY_PAYLOAD_PROTOCOLS ! index = i then True
           else is_first_party_from (index + 1) i)
     else False)"
  by pat_completeness auto
termination is_first_party_from
  by (relation "measure (\<lambda>(index, _). length FIRST_PARTY_PAYLOAD_PROTOCOLS - index)") auto

definition is_first_party :: "u32 \<Rightarrow> bool" where
  "is_first_party i = is_first_party_from 0 i"

definition is_registered_consumer_id :: "u32 \<Rightarrow> bool" where
  "is_registered_consumer_id i =
    (i \<ge> CONSUMER_PAYLOAD_PROTOCOL_MIN \<and> i \<le> CONSUMER_PAYLOAD_PROTOCOL_MAX)"

definition is_private_use_id :: "u32 \<Rightarrow> bool" where
  "is_private_use_id i =
    (i \<ge> PRIVATE_USE_PAYLOAD_PROTOCOL_MIN \<and> i \<le> PRIVATE_USE_PAYLOAD_PROTOCOL_MAX)"

text \<open>The two compile-time assertions of the macro: whether the constant is accepted.\<close>

definition register_payload_protocol :: "u32 \<Rightarrow> bool" where
  "register_payload_protocol i =
    (\<not> is_first_party i \<and> (is_registered_consumer_id i \<or> is_private_use_id i))"

section \<open>The Frame envelope\<close>

datatype frame_kind = FrameKindRequest | FrameKindResponse | FrameKindEvent | FrameKindCancel

datatype payload_encoding_tag = EncodingNone | EncodingZstd | EncodingSnappy | EncodingLz4

text \<open>prost keeps enumeration fields as raw \<open>i32\<close> values.\<close>

fun frame_kind_i32 :: "frame_kind \<Rightarrow> int" where
  "frame_kind_i32 FrameKindRequest = 0"
| "frame_kind_i32 FrameKindResponse = 1"
| "frame_kind_i32 FrameKindEvent = 2"
| "frame_kind_i32 FrameKindCancel = 3"

definition frame_kind_try_from :: "int \<Rightarrow> frame_kind option" where
  "frame_kind_try_from i =
    (if i = 0 then Some FrameKindRequest else if i = 1 then Some FrameKindResponse
     else if i = 2 then Some FrameKindEvent else if i = 3 then Some FrameKindCancel else None)"

fun payload_encoding_i32 :: "payload_encoding_tag \<Rightarrow> int" where
  "payload_encoding_i32 EncodingNone = 0"
| "payload_encoding_i32 EncodingZstd = 1"
| "payload_encoding_i32 EncodingSnappy = 2"
| "payload_encoding_i32 EncodingLz4 = 3"

definition payload_encoding_try_from :: "int \<Rightarrow> payload_encoding_tag option" where
  "payload_encoding_try_from i =
    (if i = 0 then Some EncodingNone else if i = 1 then Some EncodingZstd
     else if i = 2 then Some EncodingSnappy else if i = 3 then Some EncodingLz4 else None)"

record frame =
  fr_envelope_version :: u32
  fr_kind :: int
  fr_payload_protocol :: u32
  fr_payload :: bytes
  fr_request_id :: u64
  fr_payload_encoding :: int
  fr_deadline_unix_ms :: u64
  fr_traceparent :: string
  fr_tracestate :: string

definition frame_request :: "u32 \<Rightarrow> bytes \<Rightarrow> frame" where
  "frame_request payload_protocol payload =
    \<lparr> fr_envelope_version = PROTOCOL_VERSION, fr_kind = frame_kind_i32 FrameKindRequest,
      fr_payload_protocol = payload_protocol, fr_payload = payload, fr_request_id = 0,
      fr_payload_encoding = payload_encoding_i32 EncodingNone, fr_deadline_unix_ms = 0,
      fr_traceparent = [], fr_tracestate = [] \<rparr>"

definition frame_response_to :: "frame \<Rightarrow> bytes \<Rightarrow> frame" where
  "frame_response_to request payload =
    \<lparr> fr_envelope_version = PROTOCOL_VERSION, fr_kind = frame_kind_i32 FrameKindResponse,
      fr_payload_protocol = fr_payload_protocol request, fr_payload = payload,
      fr_request_id = fr_request_id request,
      fr_payload_encoding = payload_encoding_i32 EncodingNone, fr_deadline_unix_ms = 0,
      fr_traceparent = fr_traceparent request, fr_tracestate = fr_tracestate request \<rparr>"

definition with_request_id :: "frame \<Rightarrow> u64 \<Rightarrow> frame" where
  "with_request_id f request_id = f\<lparr> fr_request_id := request_id \<rparr>"

text \<open>\<open>encode\<close> is prost's \<open>Frame::encode_to_vec\<close>; \<open>encoded_len\<close> is the length of what it writes.\<close>

definition encode_framed :: "(frame \<Rightarrow> bytes) \<Rightarrow> frame \<Rightarrow> ('d framing_error, bytes) result" where
  "encode_framed encode f =
    (let body_len = length (encode f) in
     if body_len > MAX_FRAME_BYTES then Err (FrameTooLarge body_len MAX_FRAME_BYTES)
     else Ok (ENVELOPE_VERSION # u32_to_le_bytes (word_of_nat body_len) @ encode f))"

record decoded_framed =
  df_frame :: frame
  df_consumed :: nat

definition try_decode_framed ::
  "(bytes \<Rightarrow> ('d, frame) result) \<Rightarrow> bytes \<Rightarrow> ('d framing_error, decoded_framed option) result" where
  "try_decode_framed decode buf =
    (if buf = [] then Ok None
     else if buf ! 0 \<noteq> ENVELOPE_VERSION
     then Err (UnsupportedFramingVersion (buf ! 0) ENVELOPE_VERSION)
     else if length buf < FRAME_HEADER_BYTES then Ok None
     else
       let body_len = unat (u32_from_le_bytes [buf ! 1, buf ! 2, buf ! 3, buf ! 4]) in
       if body_len > MAX_FRAME_BYTES then Err (FrameTooLarge body_len MAX_FRAME_BYTES)
       else
         let total = FRAME_HEADER_BYTES + body_len in
         if length buf < total then Ok None
         else
           (case decode (drop FRAME_HEADER_BYTES (take total buf)) of
              Err e \<Rightarrow> Err (Decode e)
            | Ok f \<Rightarrow> Ok (Some \<lparr> df_frame = f, df_consumed = total \<rparr>)))"

section \<open>Endpoint identities\<close>

record endpoint =
  ep_namespace_id :: string
  ep_path :: string

datatype endpoint_name_error = EndpointEmpty | PrefixedPipeName string

definition to_ascii_lowercase_char :: "char \<Rightarrow> char" where
  "to_ascii_lowercase_char c =
    (let n = of_char c :: nat in if 65 \<le> n \<and> n \<le> 90 then char_of (n + 32) else c)"

definition to_ascii_lowercase :: "string \<Rightarrow> string" where
  "to_ascii_lowercase s = map to_ascii_lowercase_char s"

definition windows_pipe_prefix :: string where
  "windows_pipe_prefix = [CHR 0x5C, CHR 0x5C, CHR ''.'', CHR 0x5C] @ ''pipe'' @ [CHR 0x5C]"

definition windows_pipe :: "string \<Rightarrow> string \<Rightarrow> (endpoint_name_error, endpoint) result" where
  "windows_pipe namespace_id pipe_name =
    (if pipe_name = [] then Err EndpointEmpty
     else
       let lowered = map (\<lambda>c. if c = CHR ''/'' then CHR 0x5C else c) (to_ascii_lowercase pipe_name) in
       if prefix windows_pipe_prefix lowered then Err (PrefixedPipeName pipe_name)
       else Ok \<lparr> ep_namespace_id = namespace_id, ep_path = pipe_name \<rparr>)"

definition unix_socket :: "string \<Rightarrow> string \<Rightarrow> (endpoint_name_error, endpoint) result" where
  "unix_socket namespace_id socket_path =
    (if socket_path = [] then Err EndpointEmpty
     else Ok \<lparr> ep_namespace_id = namespace_id, ep_path = socket_path \<rparr>)"

section \<open>Envelope validation\<close>

datatype frame_validation_error =
    EnvelopeVersion u32
  | Kind frame_kind int
  | PayloadProtocol u32 u32
  | PayloadEncoding int

definition validate_frame_envelope ::
  "frame \<Rightarrow> frame_kind \<Rightarrow> u32 \<Rightarrow> (frame_validation_error, unit) result" where
  "validate_frame_envelope f expected_kind expected_payload_protocol =
    (if fr_envelope_version f \<noteq> PROTOCOL_VERSION
     then Err (EnvelopeVersion (fr_envelope_version f))
     else if frame_kind_try_from (fr_kind f) \<noteq> Some expected_kind
     then Err (Kind expected_kind (fr_kind f))
     else if fr_payload_protocol f \<noteq> expected_payload_protocol
     then Err (PayloadProtocol expected_payload_protocol (fr_payload_protocol f))
     else if payload_encoding_try_from (fr_payload_encoding f) \<noteq> Some EncodingNone
     then Err (PayloadEncoding (fr_payload_encoding f))
     else Ok ())"

declare is_first_party_from.simps [simp del]

lemma u32_to_le_bytes_length [simp]:
  "length (u32_to_le_bytes w) = 4"
  by (simp add: u32_to_le_bytes_def)

lemma u32_le_bytes_roundtrip [simp]:
  "u32_from_le_bytes (u32_to_le_bytes w) = w"
proof (rule bit_word_eqI)
  fix n assume n: "n < LENGTH(32)"
  have "24 + (n - 24) = n \<or> n - 16 < 8" by arith
  then show "bit (u32_from_le_bytes (u32_to_le_bytes w)) n = bit w n"
    using n by (auto simp: u32_from_le_bytes_def u32_to_le_bytes_def bit_simps)
qed

lemma write_frame_header_layout:
  "write_frame_header body = ENVELOPE_VERSION # u32_to_le_bytes (word_of_nat (length body))"
proof -
  have mask: "ucast (w AND 0xFF) = (ucast w :: byte)" for w :: u32
  proof -
    have eq: "(0xFF :: u32) = mask 8" by (simp add: mask_eq_exp_minus_1)
    show ?thesis unfolding eq by (rule bit_word_eqI) (auto simp: bit_simps)
  qed
  show ?thesis
    by (simp add: write_frame_header_def u32_to_le_bytes_def mask Let_def)
qed

lemma frame_len_fits [simp]:
  assumes "n \<le> MAX_FRAME_BYTES"
  shows "unat (word_of_nat n :: u32) = n"
proof -
  have "n < 2 ^ 32"
    using assms by (simp add: MAX_FRAME_BYTES_def MAX_FRAME_SIZE_BYTES_def)
  then show ?thesis by (simp add: unat_of_nat take_bit_nat_eq_self)
qed


lemma read_exact_or_eof_prefix:
  assumes "rd_bytes r = bs @ rest"
  shows "read_exact_or_eof (length bs) c r = (Ok bs, r\<lparr> rd_bytes := rest \<rparr>)"
  using assms by (simp add: read_exact_or_eof_def read_exact_def)

lemma read_frame_with_cap_wire:
  assumes "length body \<le> MAX_FRAME_BYTES" "length body \<le> max_bytes"
    and "rd_bytes r = write_frame_header body @ body @ rest"
  shows "(read_frame_with_cap r max_bytes :: ('d framing_error, bytes) result \<times> reader) = (Ok body, r\<lparr> rd_bytes := rest \<rparr>)"
proof -
  let ?h = "u32_to_le_bytes (word_of_nat (length body))"
  have 1: "(read_exact_or_eof (length [ENVELOPE_VERSION]) c r :: ('d framing_error, bytes) result \<times> reader)
      = (Ok [ENVELOPE_VERSION], r\<lparr> rd_bytes := ?h @ body @ rest \<rparr>)" for c
    by (rule read_exact_or_eof_prefix) (simp add: assms write_frame_header_layout)
  have 2: "(read_exact_or_eof (length ?h) c (r\<lparr> rd_bytes := ?h @ body @ rest \<rparr>)
        :: ('d framing_error, bytes) result \<times> reader)
      = (Ok ?h, r\<lparr> rd_bytes := body @ rest \<rparr>)" for c
    by (subst read_exact_or_eof_prefix) auto
  have 3: "(read_exact_or_eof (length body) c (r\<lparr> rd_bytes := body @ rest \<rparr>)
        :: ('d framing_error, bytes) result \<times> reader)
      = (Ok body, r\<lparr> rd_bytes := rest \<rparr>)" for c
    by (subst read_exact_or_eof_prefix) auto
  show ?thesis
    using 1 2 3 assms by (auto simp: read_frame_with_cap_def Let_def)
qed

lemma write_frame_delivers:
  assumes "length body \<le> MAX_FRAME_BYTES" "wr_room w = None" "wr_flush w = None"
  shows "write_frame w body =
    (Ok (5 + length body), w\<lparr> wr_out := wr_out w @ write_frame_header body @ body \<rparr>)"
  using assms
  by (cases "body = []")
    (simp_all add: write_frame_def write_all_def flush_def Let_def write_frame_header_layout)

lemma is_first_party_from_iff:
  "is_first_party_from index i \<longleftrightarrow> i \<in> set (drop index FIRST_PARTY_PAYLOAD_PROTOCOLS)"
proof (induction index i rule: is_first_party_from.induct)
  case (1 index i)
  show ?case
    using 1 by (subst is_first_party_from.simps)
      (auto simp: Cons_nth_drop_Suc [symmetric])
qed

lemma is_first_party_iff:
  "is_first_party i \<longleftrightarrow> i \<in> set FIRST_PARTY_PAYLOAD_PROTOCOLS"
  by (simp add: is_first_party_def is_first_party_from_iff)

lemmas registry_defs =
  FIRST_PARTY_PAYLOAD_PROTOCOLS_def CONTROL_PAYLOAD_PROTOCOL_def ADMIN_PAYLOAD_PROTOCOL_def
  BACKEND_HANDLE_PROBE_PAYLOAD_PROTOCOL_def HANDOFF_PAYLOAD_PROTOCOL_def
  CONSUMER_PAYLOAD_PROTOCOL_MIN_def CONSUMER_PAYLOAD_PROTOCOL_MAX_def
  PRIVATE_USE_PAYLOAD_PROTOCOL_MIN_def PRIVATE_USE_PAYLOAD_PROTOCOL_MAX_def
  ZCCACHE_PAYLOAD_PROTOCOL_def CLUD_PAYLOAD_PROTOCOL_def FBUILD_PAYLOAD_PROTOCOL_def

lemma register_payload_protocol_iff:
  "register_payload_protocol i \<longleftrightarrow> is_registered_consumer_id i \<or> is_private_use_id i"
  by (auto simp: register_payload_protocol_def is_first_party_iff is_registered_consumer_id_def
      is_private_use_id_def registry_defs)

lemma framed_header_nth:
  "[(u32_to_le_bytes w @ xs) ! 0, (u32_to_le_bytes w @ xs) ! Suc 0,
    (u32_to_le_bytes w @ xs) ! 2, (u32_to_le_bytes w @ xs) ! 3] = u32_to_le_bytes w"
  by (simp add: u32_to_le_bytes_def)

lemma try_decode_framed_complete:
  assumes "length body \<le> MAX_FRAME_BYTES"
  shows "try_decode_framed decode (ENVELOPE_VERSION # u32_to_le_bytes (word_of_nat (length body)) @ body @ rest) =
    (case decode body of
       Err e \<Rightarrow> Err (Decode e)
     | Ok f \<Rightarrow> Ok (Some \<lparr> df_frame = f, df_consumed = 5 + length body \<rparr>))"
  using assms
  by (simp add: try_decode_framed_def framed_header_nth FRAME_HEADER_BYTES_def Let_def
        drop_take drop_Cons')

lemma try_decode_framed_short:
  assumes "length body \<le> MAX_FRAME_BYTES" and "n < 5 + length body"
  shows "try_decode_framed decode
    (take n (ENVELOPE_VERSION # u32_to_le_bytes (word_of_nat (length body)) @ body)) = Ok None"
proof (cases "n < 5")
  case True
  then show ?thesis
    by (cases n) (simp_all add: try_decode_framed_def FRAME_HEADER_BYTES_def)
next
  case False
  then have "take n (ENVELOPE_VERSION # u32_to_le_bytes (word_of_nat (length body)) @ body)
      = ENVELOPE_VERSION # u32_to_le_bytes (word_of_nat (length body)) @ take (n - 5) body"
    by (cases n) simp_all
  then show ?thesis
    using assms False
    by (simp add: try_decode_framed_def framed_header_nth FRAME_HEADER_BYTES_def Let_def)
qed

lemma header_split:
  assumes "5 \<le> length buf"
  shows "\<exists>rest. buf = [buf ! 0, buf ! 1, buf ! 2, buf ! 3, buf ! 4] @ rest"
  using assms
  by (rule_tac x = "drop 5 buf" in exI)
    (auto intro!: nth_equalityI simp: nth_Cons numeral_eq_Suc split: nat.splits)

section \<open>Properties\<close>

text \<open>C36: writing a frame and reading it back. On a stream that takes every byte, \<open>write_frame\<close>
  delivers a 5-byte header and the body and reports their number; \<open>read_frame_with_cap\<close>, under any
  cap the body fits in, returns exactly that body from a stream that starts with those bytes and
  leaves whatever follows unread.\<close>

theorem framing_roundtrip:
  assumes "length body \<le> MAX_FRAME_BYTES" "length body \<le> max_bytes"
    and "wr_room w = None" "wr_flush w = None"
  shows "\<exists>wire. length wire = 5 + length body \<and>
    write_frame w body = (Ok (length wire), w\<lparr> wr_out := wr_out w @ wire \<rparr>) \<and>
    (\<forall>r rest. (read_frame_with_cap (r\<lparr> rd_bytes := wire @ rest \<rparr>) max_bytes
         :: ('d framing_error, bytes) result \<times> reader)
       = (Ok body, r\<lparr> rd_bytes := rest \<rparr>))"
proof -
  let ?wire = "write_frame_header body @ body"
  have len: "length ?wire = 5 + length body" by (simp add: write_frame_header_layout)
  have "(read_frame_with_cap (r\<lparr> rd_bytes := ?wire @ rest \<rparr>) max_bytes
        :: ('d framing_error, bytes) result \<times> reader)
      = (Ok body, r\<lparr> rd_bytes := rest \<rparr>)" for r rest
    by (subst read_frame_with_cap_wire [OF assms(1,2), where rest = rest]) simp_all
  then show ?thesis
    using write_frame_delivers [OF assms(1,3,4)] len by (intro exI [of _ ?wire]) simp
qed

theorem framing_roundtrip_witness:
  "\<exists>wire. length wire = 7 \<and>
    write_frame \<lparr> wr_out = [9], wr_room = None, wr_fault = eof_error, wr_flush = None \<rparr> [0xAA, 0xBB]
      = (Ok (length wire),
         \<lparr> wr_out = 9 # wire, wr_room = None, wr_fault = eof_error, wr_flush = None \<rparr>) \<and>
    (\<forall>r rest. read_frame_with_cap (r\<lparr> rd_bytes := wire @ rest \<rparr>) MAX_HELLO_BYTES
       = (Ok [0xAA, 0xBB], r\<lparr> rd_bytes := rest \<rparr>))"
  using framing_roundtrip [of "[0xAA, 0xBB]" MAX_HELLO_BYTES
      "\<lparr> wr_out = [9], wr_room = None, wr_fault = eof_error, wr_flush = None \<rparr>"]
  by (simp add: MAX_FRAME_BYTES_def MAX_FRAME_SIZE_BYTES_def MAX_HELLO_BYTES_def
      MAX_HELLO_SIZE_BYTES_def)

text \<open>Incremental decoding of an encoded frame. Given a codec that decodes what it encodes,
  every proper prefix of the wire bytes asks for more input, and the complete bytes, whatever
  follows them in the buffer, give back the frame and exactly the number of bytes it occupied.\<close>

lemma try_decode_encode_framed:
  assumes "decode (encode f) = Ok f" and "encode_framed encode f = Ok wire"
  shows "(\<forall>n < length wire. try_decode_framed decode (take n wire) = Ok None) \<and>
    (\<forall>rest. try_decode_framed decode (wire @ rest)
       = Ok (Some \<lparr> df_frame = f, df_consumed = length wire \<rparr>))"
proof -
  have fits: "length (encode f) \<le> MAX_FRAME_BYTES"
    and wire: "wire = ENVELOPE_VERSION # u32_to_le_bytes (word_of_nat (length (encode f))) @ encode f"
    using assms(2) by (auto simp: encode_framed_def Let_def split: if_splits)
  have len: "length wire = 5 + length (encode f)" by (simp add: wire)
  have "try_decode_framed decode (take n wire) = Ok None" if "n < length wire" for n
    using try_decode_framed_short [OF fits] that unfolding len unfolding wire .
  moreover have "try_decode_framed decode (wire @ rest)
      = Ok (Some \<lparr> df_frame = f, df_consumed = length wire \<rparr>)" for rest
    using try_decode_framed_complete [OF fits, of decode rest] assms(1) by (simp add: wire)
  ultimately show ?thesis by blast
qed

text \<open>C37: the buffer decoder and the stream reader agree on every input: where the stream reader
  stops early the buffer decoder asks for more, where it fails with a framing error the buffer
  decoder fails with the same error, and where it returns a body the buffer decoder decodes that
  body and consumes exactly what the reader read.\<close>

theorem try_decode_framed_agrees:
  "(case read_frame \<lparr> rd_bytes = buf, rd_end = Eof \<rparr> of
      (Err (UnexpectedEof _), _) \<Rightarrow> try_decode_framed decode buf = Ok None
    | (Err e, _) \<Rightarrow> try_decode_framed decode buf = Err e
    | (Ok body, r) \<Rightarrow> try_decode_framed decode buf =
        (case decode body of
           Err e \<Rightarrow> Err (Decode e)
         | Ok f \<Rightarrow> Ok (Some \<lparr> df_frame = f, df_consumed = length buf - length (rd_bytes r) \<rparr>)))"
proof (cases buf)
  case Nil
  then show ?thesis
    by (simp add: read_frame_def read_frame_with_cap_def read_exact_or_eof_def read_exact_def
          eof_error_def try_decode_framed_def)
next
  case (Cons v bs)
  show ?thesis
  proof (cases "5 \<le> length buf")
    case True
    then obtain b1 b2 b3 b4 rest where bs: "bs = [b1, b2, b3, b4] @ rest"
      using header_split [of buf] Cons by auto
    show ?thesis
      by (auto simp: Cons bs read_frame_def read_frame_with_cap_def read_exact_or_eof_def read_exact_def
          eof_error_def try_decode_framed_def Let_def FRAME_HEADER_BYTES_def u32_from_le_bytes_def
          numeral_eq_Suc split: sum.splits)
  next
    case False
    then show ?thesis using Cons
      by (auto simp: read_frame_def read_frame_with_cap_def read_exact_or_eof_def read_exact_def
          eof_error_def try_decode_framed_def Let_def FRAME_HEADER_BYTES_def)
  qed
qed

text \<open>The envelope check accepts a frame exactly when all four envelope fields have the
  expected values, and every refusal names the first offending field in the order version, kind,
  payload protocol, encoding, with the value found.\<close>

lemma validate_frame_envelope_spec:
  "validate_frame_envelope f k p =
    (if fr_envelope_version f \<noteq> 1 then Err (EnvelopeVersion (fr_envelope_version f))
     else if fr_kind f \<noteq> frame_kind_i32 k then Err (Kind k (fr_kind f))
     else if fr_payload_protocol f \<noteq> p then Err (PayloadProtocol p (fr_payload_protocol f))
     else if fr_payload_encoding f \<noteq> 0 then Err (PayloadEncoding (fr_payload_encoding f))
     else Ok ())"
  by (cases k) (auto simp: validate_frame_envelope_def frame_kind_try_from_def
      payload_encoding_try_from_def PROTOCOL_VERSION_def)

end
