(* ===== verification/Pipe_Names.thy ===== *)
theory Pipe_Names
  imports Rust_Strings Wire_Framing
begin

text \<open>
  Canonical pipe names: \<open>lifecycle/names.rs\<close>, \<open>lifecycle/names_v2.rs\<close> and the hashing of
  \<open>lifecycle/sid.rs\<close>. What the operating system answers (environment, user id) and the BLAKE3 hash
  are fields of the \<open>host\<close> record.
\<close>

section \<open>Pipe names\<close>

datatype sid_error = PlatformLookup string

datatype pipe_path_error =
    InvalidName string string
  | PathTooLong nat nat string
  | Sid sid_error

record pipe_path =
  pp_windows :: "string option"
  pp_unix :: "string option"

definition WINDOWS_MAX_PATH :: nat where "WINDOWS_MAX_PATH = 260"

definition MACOS_SUN_PATH_MAX :: nat where "MACOS_SUN_PATH_MAX = 104"

definition LINUX_SUN_PATH_MAX :: nat where "LINUX_SUN_PATH_MAX = 108"

definition PIPE_PREFIX :: string where "PIPE_PREFIX = ''rpb-v1''"

text \<open>The compilation target and what the process reads from its environment. \<open>host_blake3\<close> is the
  32-byte digest of the \<open>blake3\<close> crate.\<close>

datatype platform = Windows | Macos | Linux

record host =
  host_platform :: platform
  host_xdg_runtime_dir :: "string option"
  host_tmpdir :: "string option"
  host_uid :: nat
  host_blake3 :: "bytes \<Rightarrow> bytes"

definition string_bytes :: "string \<Rightarrow> bytes" where
  "string_bytes s = map (\<lambda>c. word_of_nat (char_code c)) s"

definition hash_to_16_hex :: "(bytes \<Rightarrow> bytes) \<Rightarrow> bytes \<Rightarrow> string" where
  "hash_to_16_hex blake3 input = hex_string (take 8 (blake3 input))"

definition service_name_char :: "char \<Rightarrow> bool" where
  "service_name_char c = (is_ascii_lower c \<or> is_ascii_digit c \<or> c = CHR ''-'')"

fun validate_service_name_chars :: "string \<Rightarrow> string \<Rightarrow> (pipe_path_error, unit) result" where
  "validate_service_name_chars name [] = Ok ()"
| "validate_service_name_chars name (c # cs) =
    (if service_name_char c then validate_service_name_chars name cs
     else if is_ascii_upper c
     then Err (InvalidName name
       ''uppercase letters are forbidden (case-only collisions with lowercase names would silently merge under Windows named-pipe semantics)'')
     else Err (InvalidName name ''only lowercase ASCII letters, digits, and '-' allowed''))"

definition validate_service_name :: "string \<Rightarrow> (pipe_path_error, unit) result" where
  "validate_service_name name =
    (if name = [] then Err (InvalidName name ''service name must be at least 1 character'')
     else if length name > 64
     then Err (InvalidName name ''service name must be 64 characters or fewer'')
     else validate_service_name_chars name name)"

fun validate_version_parts :: "string \<Rightarrow> string list \<Rightarrow> (pipe_path_error, unit) result" where
  "validate_version_parts version [] = Ok ()"
| "validate_version_parts version (p # ps) =
    (if p = [] \<or> \<not> list_all is_ascii_digit p
     then Err (InvalidName version ''MAJOR/MINOR/PATCH must be non-empty digits'')
     else validate_version_parts version ps)"

definition prerelease_char :: "char \<Rightarrow> bool" where
  "prerelease_char c = (is_ascii_lower c \<or> is_ascii_digit c \<or> c = CHR ''.'')"

fun validate_version_tail :: "string \<Rightarrow> string \<Rightarrow> (pipe_path_error, unit) result" where
  "validate_version_tail version [] = Ok ()"
| "validate_version_tail version (c # cs) =
    (if prerelease_char c then validate_version_tail version cs
     else Err (InvalidName version ''pre-release tail allows only [a-z0-9.]''))"

definition validate_version :: "string \<Rightarrow> (pipe_path_error, unit) result" where
  "validate_version version =
    (if version = [] then Err (InvalidName version ''version must not be empty'')
     else
       let (core, prerelease) =
             (case split_once (CHR ''-'') version of
                Some (core, tail) \<Rightarrow> (core, Some tail)
              | None \<Rightarrow> (version, None));
           parts = split_on (CHR ''.'') core
       in if length parts \<noteq> 3
          then Err (InvalidName version ''version core must be MAJOR.MINOR.PATCH'')
          else result_bind (validate_version_parts version parts)
            (\<lambda>_. case prerelease of
               None \<Rightarrow> Ok ()
             | Some tail \<Rightarrow>
                 if tail = []
                 then Err (InvalidName version ''pre-release suffix after '-' must not be empty'')
                 else validate_version_tail version tail))"

fun validate_sid_hash_chars :: "string \<Rightarrow> string \<Rightarrow> (pipe_path_error, unit) result" where
  "validate_sid_hash_chars s [] = Ok ()"
| "validate_sid_hash_chars s (c # cs) =
    (if \<not> is_lower_hex c then Err (InvalidName s ''user_sid_hash must be lowercase hex'')
     else validate_sid_hash_chars s cs)"

definition validate_sid_hash :: "string \<Rightarrow> (pipe_path_error, unit) result" where
  "validate_sid_hash s =
    (if length s \<noteq> 16
     then Err (InvalidName s ''user_sid_hash must be exactly 16 hex characters'')
     else validate_sid_hash_chars s s)"

definition unix_broker_socket_dir :: "host \<Rightarrow> string" where
  "unix_broker_socket_dir h =
    (case host_platform h of
       Macos \<Rightarrow>
         path_join (case host_tmpdir h of Some d \<Rightarrow> d | None \<Rightarrow> ''/tmp'')
           (''.rp-'' @ show_nat (host_uid h))
     | _ \<Rightarrow>
         (case host_xdg_runtime_dir h of
            Some d \<Rightarrow> path_join (path_join d ''running-process'') ''broker''
          | None \<Rightarrow> ''/tmp/running-process-'' @ show_nat (host_uid h) @ ''/broker''))"

definition build_pipe_path :: "host \<Rightarrow> string \<Rightarrow> (pipe_path_error, pipe_path) result" where
  "build_pipe_path h name =
    (if host_platform h = Windows
     then
       let path = windows_pipe_prefix @ name in
       if length path > WINDOWS_MAX_PATH
       then Err (PathTooLong (length path) WINDOWS_MAX_PATH ''Windows MAX_PATH'')
       else Ok \<lparr> pp_windows = Some path, pp_unix = None \<rparr>
     else
       let dir = unix_broker_socket_dir h;
           leaf = (if host_platform h = Macos
                   then hash_to_16_hex (host_blake3 h) (string_bytes name) @ ''.sock''
                   else name @ ''.sock'');
           candidate = path_join dir leaf;
           limit = (if host_platform h = Macos then MACOS_SUN_PATH_MAX else LINUX_SUN_PATH_MAX);
           limit_label = (if host_platform h = Macos then ''macOS sun_path'' else ''Linux sun_path'')
       in if length candidate \<ge> limit
          then Err (PathTooLong (length candidate) (limit - 1) limit_label)
          else Ok \<lparr> pp_windows = None, pp_unix = Some candidate \<rparr>)"

definition shared_broker_pipe :: "host \<Rightarrow> string \<Rightarrow> (pipe_path_error, pipe_path) result" where
  "shared_broker_pipe h user_sid_hash =
    result_bind (validate_sid_hash user_sid_hash)
      (\<lambda>_. build_pipe_path h (PIPE_PREFIX @ ''-'' @ user_sid_hash @ ''-shared''))"

definition private_broker_pipe ::
  "host \<Rightarrow> string \<Rightarrow> string \<Rightarrow> (pipe_path_error, pipe_path) result" where
  "private_broker_pipe h user_sid_hash service =
    result_bind (validate_sid_hash user_sid_hash)
      (\<lambda>_. result_bind (validate_service_name service)
      (\<lambda>_. build_pipe_path h (PIPE_PREFIX @ ''-'' @ user_sid_hash @ ''-svc-'' @ service)))"

definition explicit_instance_pipe ::
  "host \<Rightarrow> string \<Rightarrow> string \<Rightarrow> (pipe_path_error, pipe_path) result" where
  "explicit_instance_pipe h user_sid_hash name =
    result_bind (validate_sid_hash user_sid_hash)
      (\<lambda>_. result_bind (validate_service_name name)
      (\<lambda>_. build_pipe_path h (PIPE_PREFIX @ ''-'' @ user_sid_hash @ ''-inst-'' @ name)))"

definition backend_pipe :: "host \<Rightarrow> string \<Rightarrow> bytes \<Rightarrow> (pipe_path_error, pipe_path) result" where
  "backend_pipe h user_sid_hash random128 =
    result_bind (validate_sid_hash user_sid_hash)
      (\<lambda>_. build_pipe_path h (PIPE_PREFIX @ ''-'' @ user_sid_hash @ ''-be-'' @ hex_string random128))"

section \<open>Version 2 pipe names\<close>

definition PIPE_PREFIX_V2 :: string where "PIPE_PREFIX_V2 = ''rpb-v2''"

fun validate_sid_hash_v2_chars :: "string \<Rightarrow> string \<Rightarrow> (pipe_path_error, unit) result" where
  "validate_sid_hash_v2_chars s [] = Ok ()"
| "validate_sid_hash_v2_chars s (c # cs) =
    (if \<not> (is_lower_hex c \<or> (65 \<le> char_code c \<and> char_code c \<le> 70)) \<or> is_ascii_upper c
     then Err (InvalidName s ''sid_hash must be lowercase hex digits'')
     else validate_sid_hash_v2_chars s cs)"

definition validate_sid_hash_v2 :: "string \<Rightarrow> (pipe_path_error, unit) result" where
  "validate_sid_hash_v2 s =
    (if s = [] then Err (InvalidName s ''sid_hash must be at least 1 character'')
     else if length s \<noteq> 16
     then Err (InvalidName s ''sid_hash must be exactly 16 hex characters'')
     else validate_sid_hash_v2_chars s s)"

definition v2_program_pipe :: "string \<Rightarrow> string \<Rightarrow> u32 \<Rightarrow> (pipe_path_error, string) result" where
  "v2_program_pipe program sid_hash pipe_idx =
    result_bind (validate_service_name program)
      (\<lambda>_. result_bind (validate_sid_hash_v2 sid_hash)
      (\<lambda>_. Ok (PIPE_PREFIX_V2 @ ''-'' @ program @ ''-'' @ sid_hash @ ''-'' @
              show_nat (unat pipe_idx))))"

abbreviation digit_string :: "string \<Rightarrow> bool" where
  "digit_string s \<equiv> s \<noteq> [] \<and> list_all is_ascii_digit s"

section \<open>Validation: lemmas\<close>

lemma validate_service_name_chars_iff:
  "validate_service_name_chars name cs = Ok () \<longleftrightarrow> list_all service_name_char cs"
  by (induction cs) auto

lemma validate_service_name_iff:
  "validate_service_name name = Ok () \<longleftrightarrow>
    name \<noteq> [] \<and> length name \<le> 64 \<and> list_all service_name_char name"
  by (auto simp: validate_service_name_def validate_service_name_chars_iff)

lemma validate_sid_hash_chars_iff:
  "validate_sid_hash_chars s cs = Ok () \<longleftrightarrow> list_all is_lower_hex cs"
  by (induction cs) auto

lemma validate_sid_hash_iff:
  "validate_sid_hash s = Ok () \<longleftrightarrow> length s = 16 \<and> list_all is_lower_hex s"
  by (auto simp: validate_sid_hash_def validate_sid_hash_chars_iff)

lemma lower_hex_not_upper:
  "is_lower_hex c \<Longrightarrow> \<not> is_ascii_upper c"
  by (auto simp: is_lower_hex_def is_ascii_digit_def is_ascii_upper_def)

lemma validate_sid_hash_v2_chars_iff:
  "validate_sid_hash_v2_chars s cs = Ok () \<longleftrightarrow> list_all is_lower_hex cs"
  by (induction cs) (auto simp: is_lower_hex_def is_ascii_digit_def is_ascii_upper_def)

lemma validate_sid_hash_v2_iff:
  "validate_sid_hash_v2 s = Ok () \<longleftrightarrow> length s = 16 \<and> list_all is_lower_hex s"
  by (auto simp: validate_sid_hash_v2_def validate_sid_hash_v2_chars_iff)

lemma validate_version_parts_iff:
  "validate_version_parts v ps = Ok () \<longleftrightarrow> list_all (\<lambda>p. p \<noteq> [] \<and> list_all is_ascii_digit p) ps"
  by (induction ps) auto

lemma validate_version_tail_iff:
  "validate_version_tail v cs = Ok () \<longleftrightarrow> list_all prerelease_char cs"
  by (induction cs) auto

lemma digits_no_delim:
  assumes "list_all is_ascii_digit s"
  shows "CHR ''-'' \<notin> set s" "CHR ''.'' \<notin> set s"
  using assms by (auto simp: list_all_iff is_ascii_digit_def)

lemma split_on_three:
  "split_on d s = [x, y, z] \<longleftrightarrow>
    s = x @ d # y @ d # z \<and> d \<notin> set x \<and> d \<notin> set y \<and> d \<notin> set z"
  by (auto simp: split_on_Cons_iff split_on_singleton_iff)

lemma length_3_conv: "length xs = 3 \<longleftrightarrow> (\<exists>x y z. xs = [x, y, z])"
  by (auto simp: numeral_3_eq_3 length_Suc_conv)

lemma validate_version_plain:
  assumes "split_once (CHR ''-'') v = None"
  shows "validate_version v = Ok () \<longleftrightarrow>
    (\<exists>a b c. split_on (CHR ''.'') v = [a, b, c] \<and> digit_string a \<and> digit_string b \<and> digit_string c)"
proof (cases "length (split_on (CHR ''.'') v) = 3")
  case True
  then have "v \<noteq> []" by auto
  with True assms show ?thesis
    by (auto simp: validate_version_def Let_def length_3_conv validate_version_parts_iff)
next
  case False
  with assms show ?thesis by (auto simp: validate_version_def Let_def length_3_conv)
qed

lemma validate_version_tailed:
  assumes "split_once (CHR ''-'') v = Some (core, t)"
  shows "validate_version v = Ok () \<longleftrightarrow>
    (\<exists>a b c. split_on (CHR ''.'') core = [a, b, c] \<and>
      digit_string a \<and> digit_string b \<and> digit_string c) \<and> t \<noteq> [] \<and> list_all prerelease_char t"
proof -
  have "v \<noteq> []" using assms by auto
  show ?thesis
  proof (cases "length (split_on (CHR ''.'') core) = 3")
    case True
    with assms \<open>v \<noteq> []\<close> show ?thesis
      by (auto simp: validate_version_def Let_def length_3_conv validate_version_parts_iff
          validate_version_tail_iff)
  next
    case False
    with assms \<open>v \<noteq> []\<close> show ?thesis
      by (auto simp: validate_version_def Let_def length_3_conv)
  qed
qed

lemma validate_version_iff:
  "validate_version version = Ok () \<longleftrightarrow>
    (\<exists>a b c tail. version = a @ ''.'' @ b @ ''.'' @ c @ tail \<and>
      digit_string a \<and> digit_string b \<and> digit_string c \<and>
      (tail = [] \<or> (\<exists>t. tail = CHR ''-'' # t \<and> t \<noteq> [] \<and> list_all prerelease_char t)))"
  (is "?L \<longleftrightarrow> ?R")
proof
  assume L: ?L
  show ?R
  proof (cases "split_once (CHR ''-'') version")
    case None
    with L obtain a b c where "version = a @ ''.'' @ b @ ''.'' @ c @ []"
      and "digit_string a" "digit_string b" "digit_string c"
      by (auto simp: validate_version_plain split_on_three)
    then show ?R by blast
  next
    case (Some p)
    obtain core t where p: "p = (core, t)" by (cases p)
    with L Some obtain a b c where "core = a @ ''.'' @ b @ ''.'' @ c"
      and "digit_string a" "digit_string b" "digit_string c" and "t \<noteq> []" "list_all prerelease_char t"
      by (auto simp: validate_version_tailed split_on_three)
    moreover have "version = core @ CHR ''-'' # t"
      using Some p by (simp add: split_once_Some_iff)
    ultimately have "version = a @ ''.'' @ b @ ''.'' @ c @ CHR ''-'' # t" by simp
    then show ?R
      using \<open>digit_string a\<close> \<open>digit_string b\<close> \<open>digit_string c\<close> \<open>t \<noteq> []\<close> \<open>list_all prerelease_char t\<close>
      by blast
  qed
next
  assume ?R
  then obtain a b c tail where v: "version = a @ ''.'' @ b @ ''.'' @ c @ tail"
    and d: "digit_string a" "digit_string b" "digit_string c"
    and t: "tail = [] \<or> (\<exists>t. tail = CHR ''-'' # t \<and> t \<noteq> [] \<and> list_all prerelease_char t)"
    by blast
  let ?core = "a @ CHR ''.'' # b @ CHR ''.'' # c"
  have parts: "split_on (CHR ''.'') ?core = [a, b, c]"
    using d by (simp add: split_on_three digits_no_delim)
  have core: "CHR ''-'' \<notin> set ?core" using d by (simp add: digits_no_delim)
  from t show ?L
  proof
    assume "tail = []"
    then have "version = ?core" using v by simp
    then show ?L using d parts core by (simp add: validate_version_plain split_once_None_iff)
  next
    assume "\<exists>t. tail = CHR ''-'' # t \<and> t \<noteq> [] \<and> list_all prerelease_char t"
    then obtain t where t: "tail = CHR ''-'' # t" "t \<noteq> []" "list_all prerelease_char t" by blast
    then have "split_once (CHR ''-'') version = Some (?core, t)"
      using core v by (simp add: split_once_Some_iff)
    then show ?L using d parts t by (simp add: validate_version_tailed)
  qed
qed

section \<open>Names: lemmas\<close>

lemma build_pipe_path_inject:
  assumes "host_platform h \<noteq> Macos" "a \<noteq> []" "b \<noteq> []" "hd a \<noteq> CHR ''/''" "hd b \<noteq> CHR ''/''"
    and "build_pipe_path h a = Ok p" "build_pipe_path h b = Ok p"
  shows "a = b"
proof (cases "host_platform h = Windows")
  case True
  with assms(6,7) show ?thesis
    by (auto simp: build_pipe_path_def Let_def split: if_splits)
next
  case False
  let ?d = "unix_broker_socket_dir h"
  have "path_join ?d (a @ ''.sock'') = path_join ?d (b @ ''.sock'')"
    using False assms(1,6,7) by (auto simp: build_pipe_path_def Let_def split: if_splits)
  then have "a @ ''.sock'' = b @ ''.sock''"
    by (rule path_join_inject [rotated 2]) (use assms in auto)
  then show ?thesis by simp
qed

lemma PIPE_PREFIX_props [simp]:
  "PIPE_PREFIX @ s \<noteq> []" "hd (PIPE_PREFIX @ s) \<noteq> CHR ''/''"
  by (simp_all add: PIPE_PREFIX_def)

lemma build_broker_pipe_inject:
  assumes "host_platform h \<noteq> Macos" "length s = 16" "length s' = 16"
    and "build_pipe_path h (PIPE_PREFIX @ ''-'' @ s @ x) = Ok p"
    and "build_pipe_path h (PIPE_PREFIX @ ''-'' @ s' @ x') = Ok p"
  shows "s = s' \<and> x = x'"
proof -
  have "PIPE_PREFIX @ ''-'' @ s @ x = PIPE_PREFIX @ ''-'' @ s' @ x'"
    by (rule build_pipe_path_inject [OF assms(1) _ _ _ _ assms(4,5)]) (simp_all del: append_assoc append.simps)
  then show ?thesis using assms(2,3) by simp
qed

lemma backend_pipe_OkD:
  assumes "backend_pipe h s r = Ok p"
  shows "length s = 16 \<and> build_pipe_path h (PIPE_PREFIX @ ''-'' @ s @ ''-be-'' @ hex_string r) = Ok p"
  using assms by (auto simp: backend_pipe_def validate_sid_hash_iff)

lemma last_delim_unique:
  fixes x :: string
  assumes "x @ d # n = x' @ d # n'" "d \<notin> set n" "d \<notin> set n'"
  shows "x = x' \<and> n = n'"
proof -
  have eq: "rev n @ d # rev x = rev n' @ d # rev x'"
    using arg_cong [OF assms(1), of rev] by simp
  have "Some (rev n, rev x) = split_once d (rev n @ d # rev x)"
    using assms(2) by (simp add: split_once_append)
  also have "\<dots> = Some (rev n', rev x')"
    unfolding eq using assms(3) by (simp add: split_once_append)
  finally show ?thesis by simp
qed

section \<open>Properties\<close>

text \<open>The version validator accepts exactly the strings of the documented grammar: three
  non-empty groups of ASCII digits separated by dots, then nothing or a dash and at least one
  character of \<open>[a-z0-9.]\<close>.\<close>

lemma validate_version_grammar:
  "is_ok (validate_version v) \<longleftrightarrow>
    (\<exists>a b c tail. v = a @ ''.'' @ b @ ''.'' @ c @ tail \<and>
      digit_string a \<and> digit_string b \<and> digit_string c \<and>
      (tail = [] \<or> (\<exists>t. tail = CHR ''-'' # t \<and> t \<noteq> [] \<and> list_all prerelease_char t)))"
proof -
  have "is_ok (validate_version v) \<longleftrightarrow> validate_version v = Ok ()"
    by (cases "validate_version v") auto
  then show ?thesis by (simp only: validate_version_iff)
qed

text \<open>A version-2 program pipe name determines the program, the user hash and the pipe index it
  was built from, even though program names may contain dashes, and never starts like a version-1
  broker name.\<close>

lemma v2_program_pipe_injective:
  assumes "v2_program_pipe program sid idx = Ok name"
  shows "(v2_program_pipe program' sid' idx' = Ok name \<longrightarrow>
      program' = program \<and> sid' = sid \<and> idx' = idx) \<and> \<not> prefix PIPE_PREFIX name"
proof -
  have shape: "name = ''rpb-v2-'' @ (p @ ''-'' @ s) @ CHR ''-'' # show_nat (unat i) \<and> length s = 16"
    if "v2_program_pipe p s i = Ok name" for p s i
    using that by (auto simp: v2_program_pipe_def PIPE_PREFIX_V2_def validate_sid_hash_v2_iff)
  have dash: "CHR ''-'' \<notin> set (show_nat n)" for n
    by (rule digits_no_delim(1) [OF show_nat_digits])
  have "program' = program \<and> sid' = sid \<and> idx' = idx"
    if "v2_program_pipe program' sid' idx' = Ok name"
  proof -
    have "(program @ ''-'' @ sid) @ CHR ''-'' # show_nat (unat idx)
        = (program' @ ''-'' @ sid') @ CHR ''-'' # show_nat (unat idx')"
      using shape [OF assms] shape [OF that] by simp
    then have "program @ ''-'' @ sid = program' @ ''-'' @ sid' \<and>
        show_nat (unat idx) = show_nat (unat idx')"
      by (rule last_delim_unique) (rule dash)+
    then show ?thesis
      using shape [OF assms] shape [OF that] by (simp add: word_unat_eq_iff)
  qed
  moreover have "\<not> prefix PIPE_PREFIX name"
    using shape [OF assms] by (simp add: PIPE_PREFIX_def)
  ultimately show ?thesis by blast
qed

end
