(* ===== verification/Service_Definitions.thy ===== *)
theory Service_Definitions
  imports Pipe_Names
begin

text \<open>
  Service definitions and the policies over them: broker instances (\<open>server/instance.rs\<close>), the
  version floor and allow list (\<open>server/version_allow_list.rs\<close>), and the validation and loading of
  definition files (\<open>server/service_def_loader.rs\<close>). File paths are joined by the Unix rule.
\<close>

section \<open>Service definitions and broker instances\<close>

record service_definition =
  sd_service_name :: string
  sd_binary_path :: string
  sd_isolation :: int
  sd_explicit_instance :: string
  sd_per_version_binary_dir :: string
  sd_min_version :: string
  sd_version_allow_list :: "string list"
  sd_labels :: "(string \<times> string) list"

datatype broker_isolation = PrivateBroker | SharedBroker | ExplicitInstance

definition broker_isolation_try_from :: "int \<Rightarrow> broker_isolation option" where
  "broker_isolation_try_from i =
    (if i = 0 then Some PrivateBroker else if i = 1 then Some SharedBroker
     else if i = 2 then Some ExplicitInstance else None)"

datatype broker_instance_key = Shared | Private string | Explicit string

datatype broker_instance_error = InstancePipePath pipe_path_error | InstanceInvalidIsolation string

definition from_service_definition ::
  "service_definition \<Rightarrow> (broker_instance_error, broker_instance_key) result" where
  "from_service_definition d =
    result_bind (map_err InstancePipePath (validate_service_name (sd_service_name d)))
      (\<lambda>_. case broker_isolation_try_from (sd_isolation d) of
         Some PrivateBroker \<Rightarrow> Ok (Private (sd_service_name d))
       | Some SharedBroker \<Rightarrow> Ok Shared
       | Some ExplicitInstance \<Rightarrow>
           if sd_explicit_instance d = []
           then Err (InstanceInvalidIsolation ''EXPLICIT_INSTANCE requires explicit_instance'')
           else result_bind (map_err InstancePipePath (validate_service_name (sd_explicit_instance d)))
             (\<lambda>_. Ok (Explicit (sd_explicit_instance d)))
       | None \<Rightarrow> Err (InstanceInvalidIsolation ''unknown BrokerIsolation value''))"

fun instance_id :: "broker_instance_key \<Rightarrow> string" where
  "instance_id Shared = ''shared''"
| "instance_id (Private service_name) = ''private:'' @ service_name"
| "instance_id (Explicit name) = ''explicit:'' @ name"

definition instance_pipe_path ::
  "host \<Rightarrow> broker_instance_key \<Rightarrow> string \<Rightarrow> (broker_instance_error, pipe_path) result" where
  "instance_pipe_path h key user_sid_hash =
    map_err InstancePipePath
      (case key of
         Shared \<Rightarrow> shared_broker_pipe h user_sid_hash
       | Private service_name \<Rightarrow> private_broker_pipe h user_sid_hash service_name
       | Explicit name \<Rightarrow> explicit_instance_pipe h user_sid_hash name)"

section \<open>Version policy\<close>

datatype version_policy_block = BelowMinVersion | OutsideAllowList

definition parse_semver_core :: "string \<Rightarrow> (nat \<times> nat \<times> nat) option" where
  "parse_semver_core version =
    (let core = (case split_once (CHR ''-'') version of None \<Rightarrow> version | Some (core, _) \<Rightarrow> core) in
     case split_on (CHR ''.'') core of
       p0 # ps0 \<Rightarrow>
         (case parse_u64 p0 of None \<Rightarrow> None | Some major \<Rightarrow>
         (case ps0 of [] \<Rightarrow> None | p1 # ps1 \<Rightarrow>
         (case parse_u64 p1 of None \<Rightarrow> None | Some minor \<Rightarrow>
         (case ps1 of [] \<Rightarrow> None | p2 # ps2 \<Rightarrow>
         (case parse_u64 p2 of None \<Rightarrow> None | Some patch \<Rightarrow>
          if ps2 \<noteq> [] then None else Some (major, minor, patch))))))
     | [] \<Rightarrow> None)"

datatype ordering = Less | Equal | Greater

definition cmp_nat :: "nat \<Rightarrow> nat \<Rightarrow> ordering" where
  "cmp_nat a b = (if a < b then Less else if a = b then Equal else Greater)"

fun cmp_core :: "nat \<times> nat \<times> nat \<Rightarrow> nat \<times> nat \<times> nat \<Rightarrow> ordering" where
  "cmp_core (a0, a1, a2) (b0, b1, b2) =
    (if cmp_nat a0 b0 \<noteq> Equal then cmp_nat a0 b0
     else if cmp_nat a1 b1 \<noteq> Equal then cmp_nat a1 b1
     else cmp_nat a2 b2)"

definition compare_semver_core :: "string \<Rightarrow> string \<Rightarrow> ordering option" where
  "compare_semver_core left right =
    (case parse_semver_core left of None \<Rightarrow> None | Some l \<Rightarrow>
     (case parse_semver_core right of None \<Rightarrow> None | Some r \<Rightarrow> Some (cmp_core l r)))"

definition check_version_allowed ::
  "string \<Rightarrow> service_definition \<Rightarrow> (version_policy_block, unit) result" where
  "check_version_allowed wanted_version service =
    (if sd_min_version service \<noteq> [] \<and>
        compare_semver_core wanted_version (sd_min_version service) = Some Less
     then Err BelowMinVersion
     else if sd_version_allow_list service \<noteq> [] \<and>
        \<not> list_ex (\<lambda>allowed. allowed = wanted_version) (sd_version_allow_list service)
     then Err OutsideAllowList
     else Ok ())"

section \<open>Loading service definitions\<close>

definition SERVICE_DEF_EXTENSION :: string where "SERVICE_DEF_EXTENSION = ''servicedef''"

datatype 'd service_definition_error =
    ServiceDefIo io_error
  | ServiceDefDecode 'd
  | ServiceDefInvalidName pipe_path_error
  | InsecureDirectory string
  | ServiceNameMismatch string string
  | InvalidPath string string string
  | InvalidIsolation string

text \<open>\<open>Path::is_absolute\<close>. On Windows a path is absolute when it has a verbatim, device or UNC
  prefix, or a drive letter, a colon and a separator.\<close>

definition is_sep :: "char \<Rightarrow> bool" where
  "is_sep c = (c = CHR 0x5C \<or> c = CHR ''/'')"

definition is_ascii_alpha :: "char \<Rightarrow> bool" where
  "is_ascii_alpha c = (is_ascii_lower c \<or> is_ascii_upper c)"

definition windows_unc_prefix :: "string \<Rightarrow> bool" where
  "windows_unc_prefix s =
    (let server = takeWhile (\<lambda>c. \<not> is_sep c) s;
         after = drop (length server + 1) s;
         share = takeWhile (\<lambda>c. \<not> is_sep c) after
     in server \<noteq> [] \<and> share \<noteq> [])"

definition path_is_absolute :: "platform \<Rightarrow> string \<Rightarrow> bool" where
  "path_is_absolute p s =
    (if p \<noteq> Windows then s \<noteq> [] \<and> hd s = CHR ''/''
     else if 2 \<le> length s \<and> is_sep (s ! 0) \<and> is_sep (s ! 1)
     then take 4 s = [CHR 0x5C, CHR 0x5C, CHR ''?'', CHR 0x5C] \<or>
          (4 \<le> length s \<and> s ! 2 = CHR ''.'' \<and> is_sep (s ! 3)) \<or>
          windows_unc_prefix (drop 2 s)
     else 3 \<le> length s \<and> is_ascii_alpha (s ! 0) \<and> s ! 1 = CHR '':'' \<and> is_sep (s ! 2))"

definition validate_absolute_path ::
  "platform \<Rightarrow> string \<Rightarrow> string \<Rightarrow> ('d service_definition_error, unit) result" where
  "validate_absolute_path p field v =
    (if v = [] then Err (InvalidPath field v ''must not be empty'')
     else if \<not> path_is_absolute p v then Err (InvalidPath field v ''must be absolute'')
     else Ok ())"

fun validate_versions :: "string list \<Rightarrow> ('d service_definition_error, unit) result" where
  "validate_versions [] = Ok ()"
| "validate_versions (v # vs) =
    result_bind (map_err ServiceDefInvalidName (validate_version v)) (\<lambda>_. validate_versions vs)"

definition validate_isolation ::
  "service_definition \<Rightarrow> ('d service_definition_error, unit) result" where
  "validate_isolation d =
    (case broker_isolation_try_from (sd_isolation d) of
       Some ExplicitInstance \<Rightarrow>
         if sd_explicit_instance d = []
         then Err (InvalidIsolation ''EXPLICIT_INSTANCE requires explicit_instance'')
         else map_err ServiceDefInvalidName (validate_service_name (sd_explicit_instance d))
     | Some _ \<Rightarrow>
         if sd_explicit_instance d \<noteq> []
         then Err (InvalidIsolation
           ''explicit_instance must be empty unless isolation is EXPLICIT_INSTANCE'')
         else Ok ()
     | None \<Rightarrow> Err (InvalidIsolation ''unknown BrokerIsolation value''))"

definition validate_service_definition_for_service ::
  "platform \<Rightarrow> service_definition \<Rightarrow> string \<Rightarrow> ('d service_definition_error, unit) result" where
  "validate_service_definition_for_service p d expected_service =
    result_bind (map_err ServiceDefInvalidName (validate_service_name expected_service)) (\<lambda>_.
    result_bind (map_err ServiceDefInvalidName (validate_service_name (sd_service_name d))) (\<lambda>_.
    if sd_service_name d \<noteq> expected_service
    then Err (ServiceNameMismatch expected_service (sd_service_name d))
    else
      result_bind (validate_absolute_path p ''binary_path'' (sd_binary_path d)) (\<lambda>_.
      result_bind
        (if sd_per_version_binary_dir d \<noteq> []
         then validate_absolute_path p ''per_version_binary_dir'' (sd_per_version_binary_dir d)
         else Ok ()) (\<lambda>_.
      result_bind
        (if sd_min_version d \<noteq> []
         then map_err ServiceDefInvalidName (validate_version (sd_min_version d))
         else Ok ()) (\<lambda>_.
      result_bind (validate_versions (sd_version_allow_list d)) (\<lambda>_.
      validate_isolation d))))))"

definition service_definition_path ::
  "string \<Rightarrow> string \<Rightarrow> ('d service_definition_error, string) result" where
  "service_definition_path root service_name =
    result_bind (map_err ServiceDefInvalidName (validate_service_name service_name))
      (\<lambda>_. Ok (path_join root (service_name @ ''.'' @ SERVICE_DEF_EXTENSION)))"

definition ensure_loadable_service_definition_dir ::
  "(string \<Rightarrow> (io_error, bool) result) \<Rightarrow> string \<Rightarrow> ('d service_definition_error, unit) result" where
  "ensure_loadable_service_definition_dir dir_is_private path =
    (case dir_is_private path of
       Err e \<Rightarrow> Err (ServiceDefIo e)
     | Ok private \<Rightarrow> if \<not> private then Err (InsecureDirectory path) else Ok ())"

text \<open>\<open>load\<close>, \<open>reload\<close> and \<open>lookup_or_reload\<close> are the same operation. Directory permissions, file
  contents and the protobuf decoder are arguments.\<close>

definition load_service_definition ::
  "platform \<Rightarrow> (string \<Rightarrow> (io_error, bool) result) \<Rightarrow> (string \<Rightarrow> (io_error, bytes) result) \<Rightarrow>
   (bytes \<Rightarrow> ('d, service_definition) result) \<Rightarrow> string \<Rightarrow> string \<Rightarrow>
   ('d service_definition_error, service_definition) result" where
  "load_service_definition p dir_is_private read_file decode root service_name =
    result_bind (ensure_loadable_service_definition_dir dir_is_private root) (\<lambda>_.
    result_bind (service_definition_path root service_name) (\<lambda>path.
    result_bind (map_err ServiceDefIo (read_file path)) (\<lambda>bytes.
    result_bind (map_err ServiceDefDecode (decode bytes)) (\<lambda>definition.
    result_bind (validate_service_definition_for_service p definition service_name) (\<lambda>_.
    Ok definition)))))"
definition ensure_service_definition_dir ::
  "(string \<Rightarrow> (io_error, unit) result) \<Rightarrow> (string \<Rightarrow> (io_error, bool) result) \<Rightarrow> string \<Rightarrow>
   ('d service_definition_error, unit) result" where
  "ensure_service_definition_dir ensure_private_dir dir_is_private path =
    result_bind (map_err ServiceDefIo (ensure_private_dir path))
      (\<lambda>_. ensure_loadable_service_definition_dir dir_is_private path)"

text \<open>The files are a map from paths to contents; \<open>write_fault\<close> says which writes fail.\<close>

definition write_service_definition ::
  "platform \<Rightarrow> (string \<Rightarrow> (io_error, unit) result) \<Rightarrow> (string \<Rightarrow> (io_error, bool) result) \<Rightarrow>
   (service_definition \<Rightarrow> bytes) \<Rightarrow> (string \<Rightarrow> io_error option) \<Rightarrow> string \<Rightarrow> service_definition \<Rightarrow>
   (string \<Rightarrow> bytes option) \<Rightarrow>
   ('d service_definition_error, string) result \<times> (string \<Rightarrow> bytes option)" where
  "write_service_definition p ensure_private_dir dir_is_private encode write_fault root d files =
    (case result_bind (ensure_service_definition_dir ensure_private_dir dir_is_private root) (\<lambda>_.
          result_bind (validate_service_definition_for_service p d (sd_service_name d)) (\<lambda>_.
          service_definition_path root (sd_service_name d))) of
       Err e \<Rightarrow> (Err e, files)
     | Ok path \<Rightarrow>
         (case write_fault path of
            Some e \<Rightarrow> (Err (ServiceDefIo e), files)
          | None \<Rightarrow> (Ok path, files(path \<mapsto> encode d))))"

definition read_stored :: "(string \<Rightarrow> bytes option) \<Rightarrow> string \<Rightarrow> (io_error, bytes) result" where
  "read_stored files path =
    (case files path of
       None \<Rightarrow> Err \<lparr> ioe_kind = NotFound, ioe_raw_os_error = None \<rparr>
     | Some b \<Rightarrow> Ok b)"

text \<open>The part of a pipe name after the user hash, for each kind of broker instance.\<close>

fun instance_suffix :: "broker_instance_key \<Rightarrow> string" where
  "instance_suffix Shared = ''-shared''"
| "instance_suffix (Private service_name) = ''-svc-'' @ service_name"
| "instance_suffix (Explicit name) = ''-inst-'' @ name"

section \<open>Broker instances: lemmas\<close>

lemma instance_suffix_inject: "instance_suffix k = instance_suffix k' \<longleftrightarrow> k = k'"
  by (cases k; cases k') simp_all

lemma instance_pipe_path_OkD:
  assumes "instance_pipe_path h k s = Ok p"
  shows "length s = 16 \<and> build_pipe_path h (PIPE_PREFIX @ ''-'' @ s @ instance_suffix k) = Ok p"
  using assms
  by (cases k) (auto simp: instance_pipe_path_def shared_broker_pipe_def private_broker_pipe_def
      explicit_instance_pipe_def validate_sid_hash_iff)

lemma instance_suffix_not_backend: "instance_suffix k \<noteq> ''-be-'' @ x"
  by (cases k) simp_all

section \<open>Versions: lemmas\<close>

lemma parse_u64_digits:
  assumes "digit_string s"
  shows "parse_u64 s = (if digits_val s \<le> U64_MAX then Some (digits_val s) else None)"
proof -
  have "hd s \<noteq> CHR ''+''" using assms by (cases s) (auto simp: is_ascii_digit_def)
  then have "(case s of c # cs \<Rightarrow> if c = CHR ''+'' then cs else s | [] \<Rightarrow> s) = s"
    by (cases s) auto
  then show ?thesis using assms by (simp add: parse_u64_def Let_def)
qed

lemma parse_semver_core_valid:
  assumes "v = a @ ''.'' @ b @ ''.'' @ c @ tail"
    and "digit_string a" "digit_string b" "digit_string c"
    and "tail = [] \<or> (\<exists>t. tail = CHR ''-'' # t)"
  shows "parse_semver_core v =
    (if digits_val a \<le> U64_MAX \<and> digits_val b \<le> U64_MAX \<and> digits_val c \<le> U64_MAX
     then Some (digits_val a, digits_val b, digits_val c) else None)"
proof -
  let ?core = "a @ CHR ''.'' # b @ CHR ''.'' # c"
  have core: "CHR ''-'' \<notin> set ?core" using assms by (simp add: digits_no_delim)
  have "(case split_once (CHR ''-'') v of None \<Rightarrow> v | Some (core, _) \<Rightarrow> core) = ?core"
  proof (cases "tail = []")
    case True
    then have "split_once (CHR ''-'') v = None"
      using core assms(1) by (simp add: split_once_None_iff)
    then show ?thesis using True assms(1) by simp
  next
    case False
    then obtain t where "split_once (CHR ''-'') v = Some (?core, t)"
      using core assms(1,5) by (auto simp: split_once_Some_iff)
    then show ?thesis by simp
  qed
  moreover have "split_on (CHR ''.'') ?core = [a, b, c]"
    using assms by (simp add: split_on_three digits_no_delim)
  ultimately show ?thesis
    using assms(2-4) by (simp add: parse_semver_core_def Let_def parse_u64_digits)
qed

lemma cmp_core_Less:
  "cmp_core (a0, a1, a2) (b0, b1, b2) = Less \<longleftrightarrow>
    a0 < b0 \<or> (a0 = b0 \<and> (a1 < b1 \<or> (a1 = b1 \<and> a2 < b2)))"
  by (auto simp: cmp_nat_def)

section \<open>Properties\<close>



text \<open>The version policy on versions whose numbers fit in 64 bits. A requested version is blocked
  as below the floor exactly when its numeric core is lexicographically smaller than the floor's
  (pre-release tails play no part), otherwise as outside the allow list exactly when there is a
  list and it is absent from it, and otherwise accepted.\<close>

lemma check_version_allowed_numeric:
  assumes "w = a @ ''.'' @ b @ ''.'' @ c @ t" "digit_string a" "digit_string b" "digit_string c"
    and "t = [] \<or> (\<exists>u. t = CHR ''-'' # u)"
    and "sd_min_version d = a' @ ''.'' @ b' @ ''.'' @ c' @ t'"
    and "digit_string a'" "digit_string b'" "digit_string c'"
    and "t' = [] \<or> (\<exists>u. t' = CHR ''-'' # u)"
    and "\<forall>s \<in> {a, b, c, a', b', c'}. digits_val s \<le> U64_MAX"
  shows "check_version_allowed w d =
    (if digits_val a < digits_val a' \<or> (digits_val a = digits_val a' \<and>
         (digits_val b < digits_val b' \<or> (digits_val b = digits_val b' \<and> digits_val c < digits_val c')))
     then Err BelowMinVersion
     else if sd_version_allow_list d \<noteq> [] \<and> w \<notin> set (sd_version_allow_list d)
     then Err OutsideAllowList
     else Ok ())"
proof -
  have "compare_semver_core w (sd_min_version d) = Some (cmp_core
      (digits_val a, digits_val b, digits_val c) (digits_val a', digits_val b', digits_val c'))"
    using parse_semver_core_valid [OF assms(1-5)] parse_semver_core_valid [OF assms(6-10)] assms(11)
    by (simp add: compare_semver_core_def)
  moreover have "sd_min_version d \<noteq> []" using assms(6) by simp
  ultimately show ?thesis
    by (auto simp: check_version_allowed_def cmp_core_Less list_ex_iff simp del: cmp_core.simps)
qed

text \<open>The floor does not apply to a version with a number of 2^64 or more. Such a version passes
  the version validator, its core does not parse, and the comparison with the floor is skipped, so
  it is never blocked as below the floor however small its other numbers are.\<close>

lemma version_floor_skipped_on_overflow:
  assumes "w = a @ ''.'' @ b @ ''.'' @ c @ t" "digit_string a" "digit_string b" "digit_string c"
    and "t = [] \<or> (\<exists>u. t = CHR ''-'' # u \<and> u \<noteq> [] \<and> list_all prerelease_char u)"
    and "digits_val a > U64_MAX \<or> digits_val b > U64_MAX \<or> digits_val c > U64_MAX"
  shows "validate_version w = Ok () \<and> check_version_allowed w d \<noteq> Err BelowMinVersion"
proof -
  have "parse_semver_core w = None"
    using parse_semver_core_valid [OF assms(1-4)] assms(5,6) by auto
  then have "check_version_allowed w d \<noteq> Err BelowMinVersion"
    by (simp add: check_version_allowed_def compare_semver_core_def)
  moreover have "validate_version w = Ok ()"
    unfolding validate_version_iff using assms(1-5) by blast
  ultimately show ?thesis by blast
qed

text \<open>What a loaded service definition guarantees. Whatever the file system and the decoder
  return, a definition is only handed out for the service that was asked for, from a private
  directory, with an absolute binary path and a well-formed version floor, and it resolves to a
  broker instance.\<close>

lemma load_service_definition_sound:
  assumes "load_service_definition p dir_is_private read_file decode root name = Ok d"
  shows "sd_service_name d = name \<and> is_ok (validate_service_name name) \<and>
    dir_is_private root = Ok True \<and> path_is_absolute p (sd_binary_path d) \<and>
    (sd_min_version d = [] \<or> validate_version (sd_min_version d) = Ok ()) \<and>
    (\<exists>k. from_service_definition d = Ok k)"
proof -
  from assms have v: "validate_service_definition_for_service p d name
      = (Ok () :: ('a service_definition_error, unit) result)"
    and dir: "dir_is_private root = Ok True"
    by (auto simp: load_service_definition_def ensure_loadable_service_definition_dir_def
        split: sum.splits if_splits)
  from v have n: "sd_service_name d = name" "validate_service_name name = Ok ()"
    and "path_is_absolute p (sd_binary_path d)"
    and "sd_min_version d = [] \<or> validate_version (sd_min_version d) = Ok ()"
    and iso: "validate_isolation d = (Ok () :: ('a service_definition_error, unit) result)"
    by (auto simp: validate_service_definition_for_service_def validate_absolute_path_def
        split: if_splits)
  moreover have "\<exists>k. from_service_definition d = Ok k"
    using n iso by (auto simp: from_service_definition_def validate_isolation_def
        split: option.splits broker_isolation.splits if_splits)
  ultimately show ?thesis using dir by simp
qed

text \<open>C39: a service definition that was written successfully is the one a later load of that service
  returns, given a codec that decodes what it encodes; the other files are untouched.\<close>

theorem write_then_load_service_definition:
  assumes "write_service_definition p ensure_private_dir dir_is_private encode write_fault root d files
      = (Ok path :: ('d service_definition_error, string) result, files')"
    and "decode (encode d) = (Ok d :: ('d, service_definition) result)"
  shows "load_service_definition p dir_is_private (read_stored files') decode root (sd_service_name d)
      = Ok d \<and> (\<forall>other. other \<noteq> path \<longrightarrow> files' other = files other)"
proof -
  from assms(1) have
    "ensure_service_definition_dir ensure_private_dir dir_is_private root
      = (Ok () :: ('d service_definition_error, unit) result)"
    and valid: "validate_service_definition_for_service p d (sd_service_name d)
      = (Ok () :: ('d service_definition_error, unit) result)"
    and path: "service_definition_path root (sd_service_name d)
      = (Ok path :: ('d service_definition_error, string) result)"
    and files: "files' = files(path \<mapsto> encode d)"
    by (auto simp: write_service_definition_def split: sum.splits option.splits)
  then have "ensure_loadable_service_definition_dir dir_is_private root
      = (Ok () :: ('d service_definition_error, unit) result)"
    by (simp add: ensure_service_definition_dir_def)
  then have dir: "dir_is_private root = Ok True"
    by (auto simp: ensure_loadable_service_definition_dir_def split: sum.splits if_splits)
  have "load_service_definition p dir_is_private (read_stored files') decode root (sd_service_name d)
      = Ok d"
    using dir valid path files assms(2)
    by (simp add: load_service_definition_def ensure_loadable_service_definition_dir_def
        read_stored_def)
  then show ?thesis using files by simp
qed

theorem write_then_load_service_definition_witness:
  "\<exists>path files' d. load_service_definition Linux (\<lambda>_. Ok True) (read_stored files')
     (\<lambda>_. Ok d :: (unit, service_definition) result) ''/etc/rp'' (sd_service_name d) = Ok d \<and>
     files' path = Some [7]"
proof -
  let ?d = "\<lparr> sd_service_name = ''zccache'', sd_binary_path = ''/bin/z'',
     sd_isolation = 1, sd_explicit_instance = [], sd_per_version_binary_dir = [],
     sd_min_version = ''1.0.0'', sd_version_allow_list = [''1.2.0''], sd_labels = [] \<rparr>"
  let ?path = "''/etc/rp/zccache.servicedef''"
  have "service_definition_path ''/etc/rp'' ''zccache''
      = (Ok ?path :: (unit service_definition_error, string) result)"
    by code_simp
  moreover have "validate_service_definition_for_service Linux ?d ''zccache''
      = (Ok () :: (unit service_definition_error, unit) result)"
    by code_simp
  ultimately have "write_service_definition Linux (\<lambda>_. Ok ()) (\<lambda>_. Ok True) (\<lambda>_. [7]) (\<lambda>_. None)
      ''/etc/rp'' ?d Map.empty
      = (Ok ?path :: (unit service_definition_error, string) result, [?path \<mapsto> [7]])"
    by (simp add: write_service_definition_def ensure_service_definition_dir_def
        ensure_loadable_service_definition_dir_def)
  from write_then_load_service_definition [OF this, of "\<lambda>_. Ok ?d"]
  show ?thesis by (intro exI [of _ ?path] exI [of _ "[?path \<mapsto> [7]]"] exI [of _ ?d]) simp
qed

end
