(* ===== verification/Backend_Registry.thy ===== *)
theory Backend_Registry
  imports Service_Definitions
begin

text \<open>
  Daemon identities (\<open>backend_lifecycle/identity.rs\<close>) and the table of verified backends keyed by
  broker instance, service, version and executable hash (\<open>server/backend_registry.rs\<close>). Whether a
  process is alive is an answer of the operating system: the argument \<open>is_alive\<close>.
\<close>

section \<open>Daemon identity\<close>

record daemon_process =
  dp_pid :: u32
  dp_exe_path :: string
  dp_exe_sha256 :: bytes
  dp_boot_id :: string
  dp_ipc_endpoint :: endpoint
  dp_started_at_unix_ms :: u64
  dp_idle_timeout_secs :: "u32 option"

text \<open>The generated protobuf message of the same name.\<close>

record proto_daemon_process =
  pdp_pid :: u32
  pdp_exe_path :: string
  pdp_exe_sha256 :: bytes
  pdp_ipc_endpoint :: "endpoint option"
  pdp_started_at_unix_ms :: u64
  pdp_boot_id :: string
  pdp_idle_timeout_secs :: "u32 option"

datatype identity_error =
    MissingEndpoint
  | InvalidSha256Length nat
  | CurrentExe io_error
  | IdentityIo io_error

definition to_proto :: "daemon_process \<Rightarrow> proto_daemon_process" where
  "to_proto d =
    \<lparr> pdp_pid = dp_pid d, pdp_exe_path = dp_exe_path d, pdp_exe_sha256 = dp_exe_sha256 d,
      pdp_ipc_endpoint = Some (dp_ipc_endpoint d),
      pdp_started_at_unix_ms = dp_started_at_unix_ms d, pdp_boot_id = dp_boot_id d,
      pdp_idle_timeout_secs = dp_idle_timeout_secs d \<rparr>"

definition daemon_process_try_from ::
  "proto_daemon_process \<Rightarrow> (identity_error, daemon_process) result" where
  "daemon_process_try_from p =
    (case pdp_ipc_endpoint p of
       None \<Rightarrow> Err MissingEndpoint
     | Some e \<Rightarrow>
         if length (pdp_exe_sha256 p) \<noteq> 32
         then Err (InvalidSha256Length (length (pdp_exe_sha256 p)))
         else Ok \<lparr> dp_pid = pdp_pid p, dp_exe_path = pdp_exe_path p,
                   dp_exe_sha256 = pdp_exe_sha256 p, dp_boot_id = pdp_boot_id p,
                   dp_ipc_endpoint = e, dp_started_at_unix_ms = pdp_started_at_unix_ms p,
                   dp_idle_timeout_secs = pdp_idle_timeout_secs p \<rparr>)"

text \<open>A backend handle: the service tuple and the verified identity.\<close>

record backend_handle =
  bh_service_name :: string
  bh_service_version :: string
  bh_daemon_process :: daemon_process

section \<open>Registry\<close>

record backend_key =
  bk_instance :: broker_instance_key
  bk_service_name :: string
  bk_service_version :: string
  bk_exe_sha256 :: string

definition backend_key_new ::
  "broker_instance_key \<Rightarrow> string \<Rightarrow> string \<Rightarrow> string \<Rightarrow> backend_key" where
  "backend_key_new i service_name service_version exe_sha256 =
    \<lparr> bk_instance = i, bk_service_name = service_name, bk_service_version = service_version,
      bk_exe_sha256 = exe_sha256 \<rparr>"

type_synonym backend_registry = "(backend_key, backend_handle) hash_map"

definition registry_new :: backend_registry where
  "registry_new = hm_empty"

definition registry_len :: "backend_registry \<Rightarrow> nat" where
  "registry_len r = hm_len r"

definition registry_is_empty :: "backend_registry \<Rightarrow> bool" where
  "registry_is_empty r = (r = [])"

definition hex_lower :: "bytes \<Rightarrow> string" where
  "hex_lower bs = hex_string bs"

definition registry_insert ::
  "broker_instance_key \<Rightarrow> backend_handle \<Rightarrow> backend_registry \<Rightarrow>
   backend_handle option \<times> backend_registry" where
  "registry_insert i h r =
    (let key = backend_key_new i (bh_service_name h) (bh_service_version h)
                 (hex_lower (dp_exe_sha256 (bh_daemon_process h)))
     in (hm_get r key, hm_insert key h r))"

definition registry_get ::
  "backend_registry \<Rightarrow> broker_instance_key \<Rightarrow> string \<Rightarrow> string \<Rightarrow> string \<Rightarrow> backend_handle option" where
  "registry_get r i service_name service_version exe_sha256 =
    hm_get r (backend_key_new i service_name service_version exe_sha256)"

fun get_any_build ::
  "backend_registry \<Rightarrow> broker_instance_key \<Rightarrow> string \<Rightarrow> string \<Rightarrow> backend_handle option" where
  "get_any_build [] i service_name service_version = None"
| "get_any_build ((key, h) # r) i service_name service_version =
    (if bk_instance key = i \<and> bk_service_name key = service_name \<and>
        bk_service_version key = service_version
     then Some h
     else get_any_build r i service_name service_version)"

text \<open>\<open>retain\<close> visits every entry once, pushing the keys it drops.\<close>

fun prune_stale_loop ::
  "(backend_handle \<Rightarrow> bool) \<Rightarrow> backend_registry \<Rightarrow> backend_key list \<times> backend_registry" where
  "prune_stale_loop is_alive [] = ([], [])"
| "prune_stale_loop is_alive ((key, h) # r) =
    (let (removed, kept) = prune_stale_loop is_alive r in
     if \<not> is_alive h then (key # removed, kept) else (removed, (key, h) # kept))"

definition prune_stale ::
  "(backend_handle \<Rightarrow> bool) \<Rightarrow> backend_registry \<Rightarrow> backend_key list \<times> backend_registry" where
  "prune_stale is_alive r = prune_stale_loop is_alive r"

text \<open>Hello negotiation metadata (\<open>RegisteredBackend\<close> of \<open>hello_handler.rs\<close>).\<close>

record registered_backend =
  rb_service_definition :: service_definition
  rb_daemon_version :: string
  rb_backend_pipe :: string
  rb_server_capabilities :: u64

definition registered_backend_of :: "service_definition \<Rightarrow> backend_handle \<Rightarrow> registered_backend" where
  "registered_backend_of d h =
    \<lparr> rb_service_definition = d, rb_daemon_version = bh_service_version h,
      rb_backend_pipe = ep_path (dp_ipc_endpoint (bh_daemon_process h)),
      rb_server_capabilities = 0 \<rparr>"

definition registry_registered_backend_for ::
  "backend_registry \<Rightarrow> broker_instance_key \<Rightarrow> service_definition \<Rightarrow> string \<Rightarrow> string \<Rightarrow>
   registered_backend option" where
  "registry_registered_backend_for r i d service_version expected_exe_sha256 =
    map_option (registered_backend_of d)
      (registry_get r i (sd_service_name d) service_version expected_exe_sha256)"

definition registered_backend_for_any_build ::
  "backend_registry \<Rightarrow> broker_instance_key \<Rightarrow> service_definition \<Rightarrow> string \<Rightarrow>
   registered_backend option" where
  "registered_backend_for_any_build r i d service_version =
    map_option (registered_backend_of d)
      (get_any_build r i (sd_service_name d) service_version)"

section \<open>Invariant\<close>

text \<open>Every entry is filed under the key of its own handle.\<close>

definition registry_wf :: "backend_registry \<Rightarrow> bool" where
  "registry_wf r = (hm_ok r \<and> (\<forall>(key, h) \<in> set r.
     bk_service_name key = bh_service_name h \<and> bk_service_version key = bh_service_version h \<and>
     bk_exe_sha256 key = hex_lower (dp_exe_sha256 (bh_daemon_process h))))"

lemma backend_key_eqI:
  fixes a b :: backend_key
  assumes "bk_instance a = bk_instance b" "bk_service_name a = bk_service_name b"
    "bk_service_version a = bk_service_version b" "bk_exe_sha256 a = bk_exe_sha256 b"
  shows "a = b"
  using assms by (cases a; cases b) simp

lemma hm_get_SomeD: "hm_get m k = Some v \<Longrightarrow> (k, v) \<in> set m"
  by (simp add: hm_get_def map_of_SomeD)

lemma hm_get_iff: "hm_ok m \<Longrightarrow> hm_get m k = Some v \<longleftrightarrow> (k, v) \<in> set m"
  by (simp add: hm_get_def hm_ok_def)

lemma set_hm_insert:
  "set (hm_insert k v m) \<subseteq> insert (k, v) (set m)"
  unfolding hm_insert_def by (induction m) auto

lemma registry_wf_new [wf_intros]: "registry_wf registry_new"
  by (simp add: registry_wf_def registry_new_def hm_empty_def hm_ok_def)

lemma registry_wf_insert [wf_intros]:
  assumes "registry_wf r"
  shows "registry_wf (snd (registry_insert i h r))"
  using assms set_hm_insert
  by (fastforce simp: registry_wf_def registry_insert_def Let_def backend_key_new_def hm_simps)

lemma prune_stale_eq:
  "prune_stale is_alive r =
    (map fst (filter (\<lambda>(k, h). \<not> is_alive h) r), hm_retain (\<lambda>k h. is_alive h) r)"
  unfolding prune_stale_def hm_retain_def
  by (induction is_alive r rule: prune_stale_loop.induct) (auto simp: Let_def split: prod.splits)

lemma registry_wf_prune [wf_intros]:
  assumes "registry_wf r"
  shows "registry_wf (snd (prune_stale is_alive r))"
  using assms by (auto simp: registry_wf_def prune_stale_eq hm_simps) (auto simp: hm_retain_def)

section \<open>Properties\<close>

text \<open>A routing lookup never aliases builds. In a registry whose entries are filed under their
  own handle's key (an invariant of insertion and pruning), the lookup finds a backend exactly for
  the build registered last under that service, version and executable hash; inserting another
  build of the same version leaves it reachable; and whatever is found runs the requested service,
  version and executable.\<close>

lemma registry_hash_exact:
  assumes "registry_wf r" and "registry_insert i h r = (old, r')"
  shows "registry_wf r' \<and>
    registry_get r' i (bh_service_name h) (bh_service_version h)
      (hex_lower (dp_exe_sha256 (bh_daemon_process h))) = Some h \<and>
    (\<forall>j n v s. (j, n, v, s) \<noteq> (i, bh_service_name h, bh_service_version h,
        hex_lower (dp_exe_sha256 (bh_daemon_process h))) \<longrightarrow> registry_get r' j n v s = registry_get r j n v s) \<and>
    (\<forall>j n v s g. registry_get r' j n v (hex_lower s) = Some g \<longrightarrow>
       bh_service_name g = n \<and> bh_service_version g = v \<and> dp_exe_sha256 (bh_daemon_process g) = s)"
proof -
  have wf: "registry_wf r'" using registry_wf_insert [OF assms(1)] assms(2) by (metis snd_conv)
  have r': "r' = hm_insert (backend_key_new i (bh_service_name h) (bh_service_version h)
      (hex_lower (dp_exe_sha256 (bh_daemon_process h)))) h r"
    using assms(2) by (auto simp: registry_insert_def Let_def)
  have "bh_service_name g = n \<and> bh_service_version g = v \<and> dp_exe_sha256 (bh_daemon_process g) = s"
    if "registry_get r' j n v (hex_lower s) = Some g" for j n v s g
    using wf hm_get_SomeD [OF that [unfolded registry_get_def]]
    by (auto simp: registry_wf_def backend_key_new_def hex_lower_def)
  moreover have "registry_get r' j n v s = registry_get r j n v s"
    if "(j, n, v, s) \<noteq> (i, bh_service_name h, bh_service_version h,
        hex_lower (dp_exe_sha256 (bh_daemon_process h)))" for j n v s
    using that by (auto simp: r' registry_get_def hm.get_insert backend_key_new_def)
  moreover have "registry_get r' i (bh_service_name h) (bh_service_version h)
      (hex_lower (dp_exe_sha256 (bh_daemon_process h))) = Some h"
    by (simp add: r' registry_get_def hm.get_insert)
  ultimately show ?thesis using wf by blast
qed

text \<open>Pruning removes exactly the backends whose process is gone: the keys reported are those of
  dead handles, every live handle is still found under its key, and no dead one is.\<close>

lemma prune_stale_exact:
  assumes "registry_wf r" and "prune_stale is_alive r = (removed, r')"
  shows "registry_wf r' \<and>
    (\<forall>k. hm_get r' k = (case hm_get r k of Some h \<Rightarrow> if is_alive h then Some h else None | None \<Rightarrow> None)) \<and>
    (\<forall>k. k \<in> set removed \<longleftrightarrow> (\<exists>h. hm_get r k = Some h \<and> \<not> is_alive h)) \<and>
    hm_len r' + length removed = hm_len r"
proof -
  have ok: "hm_ok r" using assms(1) by (simp add: registry_wf_def)
  have r': "r' = hm_retain (\<lambda>k h. is_alive h) r" "removed = map fst (filter (\<lambda>(k, h). \<not> is_alive h) r)"
    using assms(2) by (auto simp: prune_stale_eq)
  have "length (filter (\<lambda>(k, h). is_alive h) r) + length (filter (\<lambda>(k, h). \<not> is_alive h) r) = length r"
    using sum_length_filter_compl [of "\<lambda>(k, h). is_alive h" r] by (simp add: case_prod_unfold)
  then have "hm_len r' + length removed = hm_len r"
    by (simp add: r' hm_len_def hm_retain_def)
  moreover have "registry_wf r'" using registry_wf_prune [OF assms(1)] assms(2) by (metis snd_conv)
  ultimately show ?thesis
    using ok by (auto simp: r' hm_simps hm_get_iff [OF ok] image_iff split: option.splits)
qed

text \<open>The daemon identity survives the protobuf form: converting a well-formed identity (a 32-byte
  hash) to the message and back gives it unchanged, and a message is accepted exactly when it has an
  endpoint and a 32-byte hash.\<close>

lemma daemon_identity_roundtrip:
  "(length (dp_exe_sha256 d) = 32 \<longrightarrow> daemon_process_try_from (to_proto d) = Ok d) \<and>
   (is_ok (daemon_process_try_from p) \<longleftrightarrow>
      pdp_ipc_endpoint p \<noteq> None \<and> length (pdp_exe_sha256 p) = 32)"
  by (auto simp: daemon_process_try_from_def to_proto_def split: option.splits)

end
