(* ===== verification/Budget_Windows.thy ===== *)
theory Budget_Windows
  imports Backend_Registry
begin

text \<open>
  Fixed budget windows. Four parts of the broker count events in a window that starts over once it
  has run its length: spawn attempts, backend crashes, failed handoffs and Hellos of one peer. The
  locale \<open>fixed_window\<close> states what they share; each of those theories interprets it on its own
  window record. Its lemmas are about the retry hint: it is never longer than the window, never
  zero for a fresh window, and waiting for it always suffices.
\<close>

definition elapsed_since :: "instant \<Rightarrow> instant \<Rightarrow> duration" where
  "elapsed_since started_at now = now - started_at"

definition retry_after :: "instant \<Rightarrow> instant \<Rightarrow> duration \<Rightarrow> duration" where
  "retry_after window_started_at now window = window - elapsed_since window_started_at now"

lemma retry_after_le: "retry_after t now w \<le> w"
  by (simp add: retry_after_def)

locale fixed_window =
  fixes started :: "'s \<Rightarrow> instant"
    and used :: "'s \<Rightarrow> nat"
    and fresh :: "instant \<Rightarrow> 's"
    and refresh :: "'s \<Rightarrow> instant \<Rightarrow> duration \<Rightarrow> 's"
  assumes started_fresh: "started (fresh now) = now"
    and used_fresh: "used (fresh now) = 0"
    and refresh_within: "now - started s < w \<Longrightarrow> refresh s now w = s"
    and started_refresh_expired: "0 < w \<Longrightarrow> w \<le> now - started s \<Longrightarrow> started (refresh s now w) = now"
    and used_refresh_expired: "0 < w \<Longrightarrow> w \<le> now - started s \<Longrightarrow> used (refresh s now w) = 0"
begin

lemma refresh_fresh: "0 < w \<Longrightarrow> refresh (fresh now) now w = fresh now"
  by (rule refresh_within) (simp add: started_fresh)

lemma used_refresh_le: "0 < w \<Longrightarrow> used (refresh s now w) \<le> used s"
  by (cases "now - started s < w") (simp_all add: refresh_within used_refresh_expired)

lemma started_refresh_le:
  assumes "0 < w" "started s \<le> now"
  shows "started (refresh s now w) \<le> now"
  using assms by (cases "now - started s < w") (simp_all add: refresh_within started_refresh_expired)

lemma elapsed_refresh_less:
  assumes "0 < w"
  shows "now - started (refresh s now w) < w"
  using assms by (cases "now - started s < w") (simp_all add: refresh_within started_refresh_expired)

lemma refresh_idem:
  assumes "0 < w"
  shows "refresh (refresh s now w) now w = refresh s now w"
  by (rule refresh_within) (rule elapsed_refresh_less [OF assms])

lemma hint_positive:
  assumes "0 < w"
  shows "0 < retry_after (started (refresh s now w)) now w"
  using elapsed_refresh_less [OF assms, of now s] by (simp add: retry_after_def elapsed_since_def)

text \<open>Waiting for the hint is enough: the window has started over by then.\<close>

lemma hint_suffices:
  assumes "0 < w" "started s \<le> now" "now + retry_after (started s) now w \<le> later"
  shows "used (refresh s later w) = 0"
proof (rule used_refresh_expired [OF assms(1)])
  show "w \<le> later - started s"
    using assms(2,3) by (simp add: retry_after_def elapsed_since_def)
qed

end

end
