(* ===== verification/Spawn_Coordinator.thy ===== *)
theory Spawn_Coordinator
  imports Budget_Windows
begin

text \<open>
  Spawn coordination (\<open>server/spawn_coordinator.rs\<close>): the per-backend attempt budget with its
  single-flight flag and spawn-storm signal, and the spawn lock file with its identity check. The
  lock is modelled over an explicit file system: which file a path names, which files are locked,
  and what another process does between opening and locking.
\<close>

section \<open>Budget\<close>

definition DEFAULT_SPAWN_ATTEMPTS_PER_WINDOW :: nat where
  "DEFAULT_SPAWN_ATTEMPTS_PER_WINDOW = 3"

definition DEFAULT_SPAWN_BUDGET_WINDOW :: duration where
  "DEFAULT_SPAWN_BUDGET_WINDOW = from_secs 30"

record spawn_budget_config =
  sbc_max_attempts :: nat
  sbc_window :: duration

definition spawn_budget_config_new :: "nat \<Rightarrow> duration \<Rightarrow> spawn_budget_config" where
  "spawn_budget_config_new max_attempts window =
    \<lparr> sbc_max_attempts = max max_attempts 1,
      sbc_window = (if window = 0 then from_millis 1 else window) \<rparr>"

definition spawn_budget_config_default :: spawn_budget_config where
  "spawn_budget_config_default =
    \<lparr> sbc_max_attempts = DEFAULT_SPAWN_ATTEMPTS_PER_WINDOW,
      sbc_window = DEFAULT_SPAWN_BUDGET_WINDOW \<rparr>"

record spawn_budget_state =
  sbs_window_started_at :: instant
  sbs_attempts_used :: nat
  sbs_in_flight :: bool
  sbs_storm_signaled :: bool

definition spawn_budget_state_new :: "instant \<Rightarrow> spawn_budget_state" where
  "spawn_budget_state_new now =
    \<lparr> sbs_window_started_at = now, sbs_attempts_used = 0, sbs_in_flight = False,
      sbs_storm_signaled = False \<rparr>"

definition spawn_budget_refresh ::
  "spawn_budget_state \<Rightarrow> instant \<Rightarrow> duration \<Rightarrow> spawn_budget_state" where
  "spawn_budget_refresh s now window =
    (if elapsed_since (sbs_window_started_at s) now \<ge> window
     then s\<lparr> sbs_window_started_at := now, sbs_attempts_used := 0, sbs_in_flight := False,
             sbs_storm_signaled := False \<rparr>
     else s)"

record spawn_coordinator =
  sc_config :: spawn_budget_config
  sc_states :: "(backend_key, spawn_budget_state) hash_map"

definition spawn_coordinator_with_config :: "spawn_budget_config \<Rightarrow> spawn_coordinator" where
  "spawn_coordinator_with_config config = \<lparr> sc_config = config, sc_states = hm_empty \<rparr>"

definition spawn_coordinator_new :: spawn_coordinator where
  "spawn_coordinator_new = spawn_coordinator_with_config spawn_budget_config_default"

record spawn_permit =
  sp_key :: backend_key
  sp_attempt_number :: nat
  sp_remaining_after_begin :: nat

datatype spawn_outcome = Success | Failed

datatype spawn_begin_error =
    AlreadyInProgress
  | BudgetExhausted duration nat bool

text \<open>\<open>entry(key).or_insert_with(SpawnBudgetState::new(now))\<close> followed by \<open>refresh\<close>.\<close>

definition spawn_entry :: "spawn_coordinator \<Rightarrow> backend_key \<Rightarrow> instant \<Rightarrow> spawn_budget_state" where
  "spawn_entry c key now =
    spawn_budget_refresh
      (case hm_get (sc_states c) key of Some s \<Rightarrow> s | None \<Rightarrow> spawn_budget_state_new now)
      now (sbc_window (sc_config c))"

definition spawn_set ::
  "backend_key \<Rightarrow> spawn_budget_state \<Rightarrow> spawn_coordinator \<Rightarrow> spawn_coordinator" where
  "spawn_set key s c = c\<lparr> sc_states := hm_insert key s (sc_states c) \<rparr>"

definition try_begin ::
  "spawn_coordinator \<Rightarrow> backend_key \<Rightarrow> instant \<Rightarrow>
   (spawn_begin_error, spawn_permit) result \<times> spawn_coordinator" where
  "try_begin c key now =
    (let s = spawn_entry c key now in
     if sbs_in_flight s then (Err AlreadyInProgress, spawn_set key s c)
     else if sbs_attempts_used s \<ge> sbc_max_attempts (sc_config c)
     then
       (Err (BudgetExhausted
          (retry_after (sbs_window_started_at s) now (sbc_window (sc_config c))) 0
          (\<not> sbs_storm_signaled s)),
        spawn_set key (s\<lparr> sbs_storm_signaled := True \<rparr>) c)
     else
       let s' = s\<lparr> sbs_attempts_used := sbs_attempts_used s + 1, sbs_in_flight := True \<rparr> in
       (Ok \<lparr> sp_key = key, sp_attempt_number = sbs_attempts_used s',
             sp_remaining_after_begin = sbc_max_attempts (sc_config c) - sbs_attempts_used s' \<rparr>,
        spawn_set key s' c))"

definition finish ::
  "spawn_coordinator \<Rightarrow> backend_key \<Rightarrow> spawn_outcome \<Rightarrow> instant \<Rightarrow> spawn_coordinator" where
  "finish c key outcome now =
    (case hm_get (sc_states c) key of
       None \<Rightarrow> c
     | Some s0 \<Rightarrow>
         let s = (spawn_budget_refresh s0 now (sbc_window (sc_config c)))\<lparr> sbs_in_flight := False \<rparr> in
         spawn_set key
           (if outcome = Success
            then s\<lparr> sbs_window_started_at := now, sbs_attempts_used := 0, sbs_storm_signaled := False \<rparr>
            else s) c)"

record spawn_budget_snapshot =
  sbn_key :: backend_key
  sbn_attempts_used :: nat
  sbn_remaining :: nat
  sbn_in_flight :: bool
  sbn_retry_after :: "duration option"

definition snapshot_for ::
  "backend_key \<Rightarrow> spawn_budget_state \<Rightarrow> spawn_budget_config \<Rightarrow> instant \<Rightarrow> spawn_budget_snapshot" where
  "snapshot_for key s config now =
    (let remaining = sbc_max_attempts config - sbs_attempts_used s in
     \<lparr> sbn_key = key, sbn_attempts_used = sbs_attempts_used s, sbn_remaining = remaining,
       sbn_in_flight = sbs_in_flight s,
       sbn_retry_after =
         (if remaining = 0
          then Some (retry_after (sbs_window_started_at s) now (sbc_window config)) else None) \<rparr>)"

definition snapshot ::
  "spawn_coordinator \<Rightarrow> backend_key \<Rightarrow> instant \<Rightarrow> spawn_budget_snapshot \<times> spawn_coordinator" where
  "snapshot c key now =
    (let s = spawn_entry c key now in
     (snapshot_for key s (sc_config c) now, spawn_set key s c))"

section \<open>Runs\<close>

text \<open>A sequence of calls on one coordinator, with what each \<open>try_begin\<close> answered.\<close>

datatype spawn_op =
    OpBegin backend_key instant
  | OpFinish backend_key spawn_outcome instant
  | OpSnapshot backend_key instant

type_synonym begin_log = "(backend_key \<times> (spawn_begin_error, spawn_permit) result) list"

fun op_time :: "spawn_op \<Rightarrow> instant" where
  "op_time (OpBegin k t) = t"
| "op_time (OpFinish k out t) = t"
| "op_time (OpSnapshot k t) = t"

fun spawn_run :: "spawn_op list \<Rightarrow> spawn_coordinator \<Rightarrow> begin_log \<times> spawn_coordinator" where
  "spawn_run [] c = ([], c)"
| "spawn_run (OpBegin k t # ops) c =
    (let (r, c1) = try_begin c k t; (log, c2) = spawn_run ops c1 in ((k, r) # log, c2))"
| "spawn_run (OpFinish k out t # ops) c = spawn_run ops (finish c k out t)"
| "spawn_run (OpSnapshot k t # ops) c = spawn_run ops (snd (snapshot c k t))"

fun is_storm_trip :: "(spawn_begin_error, spawn_permit) result \<Rightarrow> bool" where
  "is_storm_trip (Err (BudgetExhausted d r trip)) = trip"
| "is_storm_trip _ = False"

fun is_exhausted :: "(spawn_begin_error, spawn_permit) result \<Rightarrow> bool" where
  "is_exhausted (Err (BudgetExhausted d r trip)) = True"
| "is_exhausted _ = False"

definition count_for ::
  "((spawn_begin_error, spawn_permit) result \<Rightarrow> bool) \<Rightarrow> backend_key \<Rightarrow> begin_log \<Rightarrow> nat" where
  "count_for P key log = length (filter (\<lambda>(k, r). k = key \<and> P r) log)"

section \<open>Spawn lock\<close>

record spawn_lock_file_identity =
  slf_device :: nat
  slf_file :: nat

datatype spawn_lock_error =
    LockOpen string io_error
  | AlreadyLocked string
  | LockFailed string io_error
  | DeletedOrRecreated string "spawn_lock_file_identity option" "spawn_lock_file_identity option"
  | LockIdentity string io_error

record spawn_lock_guard =
  slg_file :: spawn_lock_file_identity
  slg_path :: string
  slg_identity :: "spawn_lock_file_identity option"

text \<open>The part of the operating system the lock uses: which file each path names, which files carry
  an exclusive lock, the identity of the next file to be created, and the errors its calls report
  (\<open>None\<close> when the call goes through).\<close>

record lock_os =
  los_names :: "string \<Rightarrow> spawn_lock_file_identity option"
  los_locked :: "spawn_lock_file_identity set"
  los_next :: spawn_lock_file_identity
  los_open_error :: "io_error option"
  los_lock_error :: "io_error option"
  los_file_identity_error :: "io_error option"
  los_path_identity_error :: "io_error option"

definition EWOULDBLOCK :: int where "EWOULDBLOCK = 11"

definition is_lock_conflict :: "io_error \<Rightarrow> bool" where
  "is_lock_conflict e = (ioe_raw_os_error e = Some EWOULDBLOCK)"

text \<open>\<open>open\<close> with \<open>create\<close>: the file the path names, created when there is none.\<close>

definition open_lock_file ::
  "string \<Rightarrow> lock_os \<Rightarrow> (io_error, spawn_lock_file_identity) result \<times> lock_os" where
  "open_lock_file path os =
    (case los_open_error os of
       Some e \<Rightarrow> (Err e, os)
     | None \<Rightarrow>
         (case los_names os path of
            Some f \<Rightarrow> (Ok f, os)
          | None \<Rightarrow> (Ok (los_next os), os\<lparr> los_names := (los_names os)(path \<mapsto> los_next os) \<rparr>)))"

definition try_lock_file ::
  "spawn_lock_file_identity \<Rightarrow> lock_os \<Rightarrow> (io_error, unit) result \<times> lock_os" where
  "try_lock_file f os =
    (case los_lock_error os of
       Some e \<Rightarrow> (Err e, os)
     | None \<Rightarrow>
         if f \<in> los_locked os
         then (Err \<lparr> ioe_kind = WouldBlock, ioe_raw_os_error = Some EWOULDBLOCK \<rparr>, os)
         else (Ok (), os\<lparr> los_locked := insert f (los_locked os) \<rparr>))"

definition try_unlock_file :: "spawn_lock_file_identity \<Rightarrow> lock_os \<Rightarrow> lock_os" where
  "try_unlock_file f os = os\<lparr> los_locked := los_locked os - {f} \<rparr>"

definition file_identity ::
  "spawn_lock_file_identity \<Rightarrow> lock_os \<Rightarrow> (io_error, spawn_lock_file_identity option) result" where
  "file_identity f os =
    (case los_file_identity_error os of Some e \<Rightarrow> Err e | None \<Rightarrow> Ok (Some f))"

definition path_identity ::
  "string \<Rightarrow> lock_os \<Rightarrow> (io_error, spawn_lock_file_identity option) result" where
  "path_identity path os =
    (case los_path_identity_error os of
       Some e \<Rightarrow> Err e
     | None \<Rightarrow>
         (case los_names os path of
            None \<Rightarrow> Err \<lparr> ioe_kind = NotFound, ioe_raw_os_error = Some 2 \<rparr>
          | Some f \<Rightarrow> Ok (Some f)))"

definition lock_identity_error ::
  "string \<Rightarrow> spawn_lock_file_identity \<Rightarrow> io_error \<Rightarrow> lock_os \<Rightarrow>
   (spawn_lock_error, spawn_lock_guard) result \<times> lock_os" where
  "lock_identity_error path f e os = (Err (LockIdentity path e), try_unlock_file f os)"

definition acquire_spawn_lock_with_hook ::
  "string \<Rightarrow> (lock_os \<Rightarrow> lock_os) \<Rightarrow> lock_os \<Rightarrow>
   (spawn_lock_error, spawn_lock_guard) result \<times> lock_os" where
  "acquire_spawn_lock_with_hook path before_lock os0 =
    (case open_lock_file path os0 of
       (Err e, os) \<Rightarrow> (Err (LockOpen path e), os)
     | (Ok f, os) \<Rightarrow>
         (case try_lock_file f (before_lock os) of
            (Err e, os) \<Rightarrow>
              (Err (if is_lock_conflict e then AlreadyLocked path else LockFailed path e), os)
          | (Ok _, os) \<Rightarrow>
              (case file_identity f os of
                 Err e \<Rightarrow> lock_identity_error path f e os
               | Ok opened_identity \<Rightarrow>
                   (case path_identity path os of
                      Err e \<Rightarrow>
                        if ioe_kind e = NotFound
                        then (Err (DeletedOrRecreated path opened_identity None), try_unlock_file f os)
                        else lock_identity_error path f e os
                    | Ok current_identity \<Rightarrow>
                        if opened_identity \<noteq> current_identity
                        then (Err (DeletedOrRecreated path opened_identity current_identity),
                              try_unlock_file f os)
                        else (Ok \<lparr> slg_file = f, slg_path = path, slg_identity = opened_identity \<rparr>,
                              os)))))"

definition acquire_spawn_lock ::
  "string \<Rightarrow> lock_os \<Rightarrow> (spawn_lock_error, spawn_lock_guard) result \<times> lock_os" where
  "acquire_spawn_lock path os = acquire_spawn_lock_with_hook path (\<lambda>os. os) os"

definition spawn_lock_guard_drop :: "spawn_lock_guard \<Rightarrow> lock_os \<Rightarrow> lock_os" where
  "spawn_lock_guard_drop g os = try_unlock_file (slg_file g) os"

section \<open>Budget: lemmas\<close>

interpretation sbw: fixed_window
  sbs_window_started_at
  sbs_attempts_used
  spawn_budget_state_new
  spawn_budget_refresh
  by unfold_locales (auto simp: spawn_budget_state_new_def spawn_budget_refresh_def elapsed_since_def)

lemma spawn_set_simps [simp]:
  "sc_config (spawn_set key s c) = sc_config c"
  "hm_get (sc_states (spawn_set key s c)) k = (if k = key then Some s else hm_get (sc_states c) k)"
  by (simp_all add: spawn_set_def hm.get_insert)

lemma try_begin_config [simp]: "sc_config (snd (try_begin c key now)) = sc_config c"
  by (simp add: try_begin_def Let_def)

lemma finish_config [simp]: "sc_config (finish c key out now) = sc_config c"
  by (simp add: finish_def Let_def split: option.splits)

lemma snapshot_config [simp]: "sc_config (snd (snapshot c key now)) = sc_config c"
  by (simp add: snapshot_def Let_def)

lemma try_begin_other:
  "k \<noteq> key \<Longrightarrow> hm_get (sc_states (snd (try_begin c key now))) k = hm_get (sc_states c) k"
  by (simp add: try_begin_def Let_def)

lemma finish_other:
  "k \<noteq> key \<Longrightarrow> hm_get (sc_states (finish c key out now)) k = hm_get (sc_states c) k"
  by (simp add: finish_def Let_def split: option.splits)

lemma snapshot_other:
  "k \<noteq> key \<Longrightarrow> hm_get (sc_states (snd (snapshot c key now))) k = hm_get (sc_states c) k"
  by (simp add: snapshot_def Let_def)

lemma spawn_entry_within:
  assumes "hm_get (sc_states c) key = Some s"
    and "now - sbs_window_started_at s < sbc_window (sc_config c)"
  shows "spawn_entry c key now = s"
  using assms by (simp add: spawn_entry_def sbw.refresh_within)

lemma finish_within:
  assumes "hm_get (sc_states c) key = Some s"
    and "now - sbs_window_started_at s < sbc_window (sc_config c)"
  shows "finish c key Failed now = spawn_set key (s\<lparr> sbs_in_flight := False \<rparr>) c"
  using assms by (simp add: finish_def sbw.refresh_within Let_def)

lemma snapshot_within:
  assumes "hm_get (sc_states c) key = Some s"
    and "now - sbs_window_started_at s < sbc_window (sc_config c)"
  shows "hm_get (sc_states (snd (snapshot c key now))) key = Some s"
  using assms by (simp add: snapshot_def spawn_entry_within Let_def)

text \<open>One \<open>try_begin\<close> inside the window, as a change of the counters.\<close>

lemma try_begin_within:
  assumes "hm_get (sc_states c) key = Some s"
    and "now - sbs_window_started_at s < sbc_window (sc_config c)"
    and "try_begin c key now = (r, c')"
  shows "\<exists>s'. hm_get (sc_states c') key = Some s' \<and>
      sbs_window_started_at s' = sbs_window_started_at s \<and>
      sbs_attempts_used s' = sbs_attempts_used s + (if is_ok r then 1 else 0) \<and>
      (is_ok r \<longrightarrow> sbs_attempts_used s < sbc_max_attempts (sc_config c)) \<and>
      sbs_storm_signaled s' = (sbs_storm_signaled s \<or> is_exhausted r) \<and>
      is_storm_trip r = (is_exhausted r \<and> \<not> sbs_storm_signaled s)"
  using assms by (auto simp: try_begin_def spawn_entry_within Let_def split: if_splits)

lemma count_for_simps [simp]:
  "count_for P key [] = 0"
  "count_for P key ((k, r) # log) = (if k = key \<and> P r then 1 else 0) + count_for P key log"
  by (simp_all add: count_for_def)

lemma spawn_run_window:
  assumes "spawn_run ops c = (log, c')"
    and "hm_get (sc_states c) key = Some s"
    and "sbs_attempts_used s \<le> sbc_max_attempts (sc_config c)"
    and "\<forall>x \<in> set ops. op_time x - sbs_window_started_at s < sbc_window (sc_config c)"
    and "\<forall>t. OpFinish key Success t \<notin> set ops"
  shows "sbs_attempts_used s + count_for is_ok key log \<le> sbc_max_attempts (sc_config c) \<and>
    count_for is_storm_trip key log =
      (if \<not> sbs_storm_signaled s \<and> count_for is_exhausted key log > 0 then 1 else 0)"
  using assms
proof (induction ops c arbitrary: log c' s rule: spawn_run.induct)
  case (2 k t ops c)
  obtain r c1 where b: "try_begin c k t = (r, c1)" by fastforce
  obtain log' where run: "spawn_run ops c1 = (log', c')" and log: "log = (k, r) # log'"
    using "2.prems"(1) b by (auto split: prod.splits)
  have cfg: "sc_config c1 = sc_config c" using try_begin_config [of c k t] b by simp
  show ?case
  proof (cases "k = key")
    case True
    from try_begin_within [of c key s t r c1] obtain s' where s':
      "hm_get (sc_states c1) key = Some s'" "sbs_window_started_at s' = sbs_window_started_at s"
      "sbs_attempts_used s' = sbs_attempts_used s + (if is_ok r then 1 else 0)"
      "is_ok r \<longrightarrow> sbs_attempts_used s < sbc_max_attempts (sc_config c)"
      "sbs_storm_signaled s' = (sbs_storm_signaled s \<or> is_exhausted r)"
      "is_storm_trip r = (is_exhausted r \<and> \<not> sbs_storm_signaled s)"
      using b True "2.prems"(2,4) by auto
    have "sbs_attempts_used s' + count_for is_ok key log' \<le> sbc_max_attempts (sc_config c) \<and>
      count_for is_storm_trip key log' =
        (if \<not> sbs_storm_signaled s' \<and> count_for is_exhausted key log' > 0 then 1 else 0)"
      using "2.IH" [OF b [symmetric] refl run s'(1)] s' "2.prems" cfg by auto
    then show ?thesis using s' log True by auto
  next
    case False
    have "hm_get (sc_states c1) key = Some s"
      using try_begin_other [of key k c t] False b "2.prems"(2) by simp
    from "2.IH" [OF b [symmetric] refl run this] show ?thesis
      using "2.prems" cfg log False by auto
  qed
next
  case (3 k out t ops c)
  show ?case
  proof (cases "k = key")
    case True
    then have "out = Failed" using "3.prems"(5) by (cases out) auto
    then have "hm_get (sc_states (finish c k out t)) key = Some (s\<lparr> sbs_in_flight := False \<rparr>)"
      using True "3.prems"(2,4) by (simp add: finish_within)
    from "3.IH" [OF _ this] show ?thesis using "3.prems" by simp
  next
    case False
    then have "hm_get (sc_states (finish c k out t)) key = Some s"
      using "3.prems"(2) by (simp add: finish_other)
    from "3.IH" [OF _ this] show ?thesis using "3.prems" by simp
  qed
next
  case (4 k t ops c)
  have "hm_get (sc_states (snd (snapshot c k t))) key = Some s"
    using "4.prems"(2,4) by (cases "k = key") (simp_all add: snapshot_within snapshot_other)
  from "4.IH" [OF _ this] show ?case using "4.prems" by simp
qed auto

section \<open>Spawn lock: lemmas\<close>

lemma acquire_Ok:
  assumes "acquire_spawn_lock_with_hook path hook os = (Ok g, os')"
  shows "\<exists>f os1. open_lock_file path os = (Ok f, os1) \<and> f \<notin> los_locked (hook os1) \<and>
    g = \<lparr> slg_file = f, slg_path = path, slg_identity = Some f \<rparr> \<and>
    os' = (hook os1)\<lparr> los_locked := insert f (los_locked (hook os1)) \<rparr> \<and>
    los_names os' path = Some f"
  using assms
  by (auto simp: acquire_spawn_lock_with_hook_def try_lock_file_def file_identity_def
      path_identity_def lock_identity_error_def split: prod.splits sum.splits option.splits if_splits)

lemma acquire_Err:
  assumes "acquire_spawn_lock_with_hook path hook os = (Err e, os')"
    and "open_lock_file path os = (Ok f, os1)"
  shows "los_locked os' = los_locked (hook os1)"
  using assms
  by (auto simp: acquire_spawn_lock_with_hook_def try_lock_file_def file_identity_def
      path_identity_def lock_identity_error_def try_unlock_file_def
      split: sum.splits option.splits if_splits)

section \<open>Properties\<close>

text \<open>C27: the spawn budget. Over any sequence of begins, failed finishes and snapshots, on any
  backends, whose times lie in the budget window a backend's state is in, and with no successful
  spawn of that backend, the attempts granted to it together with those already used never exceed
  the configured maximum, and the spawn storm is signalled exactly once: at the first refusal for an
  exhausted budget, and never again in that window.\<close>

theorem spawn_budget_bounded:
  assumes "spawn_run ops c = (log, c')"
    and "hm_get (sc_states c) key = Some s"
    and "sbs_attempts_used s \<le> sbc_max_attempts (sc_config c)"
    and "\<forall>x \<in> set ops. op_time x - sbs_window_started_at s < sbc_window (sc_config c)"
    and "\<forall>t. OpFinish key Success t \<notin> set ops"
  shows "sbs_attempts_used s + count_for is_ok key log \<le> sbc_max_attempts (sc_config c) \<and>
    count_for is_storm_trip key log =
      (if \<not> sbs_storm_signaled s \<and> count_for is_exhausted key log > 0 then 1 else 0)"
  by (rule spawn_run_window [OF assms])

theorem spawn_budget_bounded_witness:
  "let k = backend_key_new Shared ''z'' ''1.0.0'' ''h'';
       c = spawn_set k (spawn_budget_state_new 0)
             (spawn_coordinator_with_config (spawn_budget_config_new 1 100));
       log = fst (spawn_run [OpBegin k 1, OpBegin k 2, OpFinish k Failed 3, OpBegin k 4, OpBegin k 5] c)
   in count_for is_ok k log \<le> 1 \<and> count_for is_storm_trip k log = 1"
proof -
  let ?k = "backend_key_new Shared ''z'' ''1.0.0'' ''h''"
  let ?c = "spawn_set ?k (spawn_budget_state_new 0)
      (spawn_coordinator_with_config (spawn_budget_config_new 1 100))"
  let ?ops = "[OpBegin ?k 1, OpBegin ?k 2, OpFinish ?k Failed 3, OpBegin ?k 4, OpBegin ?k 5]"
  have "count_for is_exhausted ?k (fst (spawn_run ?ops ?c)) > 0" by code_simp
  then show ?thesis
    using spawn_budget_bounded [of ?ops ?c "fst (spawn_run ?ops ?c)" "snd (spawn_run ?ops ?c)" ?k
        "spawn_budget_state_new 0"]
    unfolding Let_def
    by (simp add: spawn_budget_state_new_def spawn_coordinator_with_config_def
        spawn_budget_config_new_def)
qed

text \<open>The retry hint of an exhausted budget is honest. It is positive and at most the window, and
  a begin after waiting for it is granted as the first attempt of a new window.\<close>

lemma spawn_retry_after_honest:
  assumes "try_begin c key now = (Err (BudgetExhausted d n trip), c1)"
    and "0 < sbc_window (sc_config c)" "0 < sbc_max_attempts (sc_config c)"
    and "\<forall>s. hm_get (sc_states c) key = Some s \<longrightarrow> sbs_window_started_at s \<le> now"
    and "now + d \<le> later"
  shows "0 < d \<and> d \<le> sbc_window (sc_config c) \<and>
    (\<exists>p c2. try_begin c1 key later = (Ok p, c2) \<and> sp_attempt_number p = 1)"
proof -
  define w s where "w = sbc_window (sc_config c)" and "s = spawn_entry c key now"
  have d: "d = retry_after (sbs_window_started_at s) now w"
    and c1: "c1 = spawn_set key (s\<lparr> sbs_storm_signaled := True \<rparr>) c"
    using assms(1) by (auto simp: try_begin_def Let_def s_def w_def split: if_splits)
  obtain s0 where s: "s = spawn_budget_refresh s0 now w" and "sbs_window_started_at s0 \<le> now"
    using assms(4) by (auto simp: s_def spawn_entry_def w_def sbw.started_fresh split: option.splits)
  then have le: "sbs_window_started_at s \<le> now"
    using sbw.started_refresh_le assms(2) by (simp add: w_def)
  have pos: "0 < d" unfolding d s using assms(2) by (intro sbw.hint_positive) (simp add: w_def)
  have "w \<le> later - sbs_window_started_at s"
    using assms(5) le unfolding d by (simp add: retry_after_def elapsed_since_def)
  then have "\<exists>p c2. try_begin c1 key later = (Ok p, c2) \<and> sp_attempt_number p = 1"
    using assms(3)
    by (simp add: c1 try_begin_def spawn_entry_def spawn_budget_refresh_def elapsed_since_def Let_def
        flip: w_def)
  then show ?thesis using pos d retry_after_le by (simp add: w_def)
qed

text \<open>Single flight lasts as long as the budget window, no longer. While an attempt is in flight, a
  second begin for the same backend is refused as already in progress exactly as long as the window
  has not run out; after that the flag is cleared and the second begin is granted although the first
  attempt has not finished.\<close>

lemma single_flight_until_window_end:
  assumes "hm_get (sc_states c) key = Some s" "sbs_in_flight s" "0 < sbc_max_attempts (sc_config c)"
  shows "(if now - sbs_window_started_at s < sbc_window (sc_config c)
          then fst (try_begin c key now) = Err AlreadyInProgress
          else \<exists>p. fst (try_begin c key now) = Ok p \<and> sp_attempt_number p = 1)"
  using assms
  by (auto simp: try_begin_def spawn_entry_def spawn_budget_refresh_def elapsed_since_def Let_def)

text \<open>The spawn lock excludes and never leaks. Whatever other processes do between opening and
  locking, a granted guard holds a lock nobody held at that moment, on the very file its path names
  after the acquisition; every refused acquisition leaves the set of locked files as the other
  processes left it.\<close>

lemma spawn_lock_exclusive:
  "(case acquire_spawn_lock_with_hook path hook os of
      (Ok g, os') \<Rightarrow>
        los_names os' path = Some (slg_file g) \<and> slg_path g = path \<and>
        slg_identity g = Some (slg_file g) \<and> slg_file g \<in> los_locked os' \<and>
        (\<exists>os1. open_lock_file path os = (Ok (slg_file g), os1) \<and> slg_file g \<notin> los_locked (hook os1) \<and>
          los_locked (spawn_lock_guard_drop g os') = los_locked (hook os1))
    | (Err e, os') \<Rightarrow>
        los_locked os' = (case open_lock_file path os of
          (Ok _, os1) \<Rightarrow> los_locked (hook os1) | (Err _, _) \<Rightarrow> los_locked os))"
proof -
  obtain r os' where eq: "acquire_spawn_lock_with_hook path hook os = (r, os')" by fastforce
  show ?thesis
  proof (cases r)
    case (Inl e)
    have "los_locked os' = los_locked os" if "open_lock_file path os = (Err x, os1)" for x os1
      using that eq Inl by (auto simp: acquire_spawn_lock_with_hook_def open_lock_file_def
          split: option.splits)
    then show ?thesis
      using acquire_Err [of path hook os e os'] eq Inl by (auto split: prod.splits sum.splits)
  next
    case (Inr g)
    with acquire_Ok [of path hook os g os'] eq show ?thesis
      by (auto simp: spawn_lock_guard_drop_def try_unlock_file_def)
  qed
qed

end
