(* ===== verification/Backend_Recovery.thy ===== *)
theory Backend_Recovery
  imports Spawn_Coordinator
begin

text \<open>
  What the broker does after a backend fails: the crash-recovery policy (\<open>server/recovery.rs\<close>) and
  the suppression of failing connection handoffs (\<open>server/handoff/fallback.rs\<close>). Both count in the
  fixed windows of \<open>Budget_Windows\<close>.
\<close>

section \<open>Crash recovery\<close>

definition DEFAULT_RECOVERY_RETRY_BACKOFF :: duration where
  "DEFAULT_RECOVERY_RETRY_BACKOFF = from_millis 250"

definition DEFAULT_RECOVERY_BUDGET_WINDOW :: duration where
  "DEFAULT_RECOVERY_BUDGET_WINDOW = DEFAULT_SPAWN_BUDGET_WINDOW"

record backend_recovery_policy =
  brp_retry_backoff :: duration
  brp_budget_window :: duration

definition non_zero_duration :: "duration \<Rightarrow> duration" where
  "non_zero_duration d = (if d = 0 then from_millis 1 else d)"

definition backend_recovery_policy_new :: "duration \<Rightarrow> duration \<Rightarrow> backend_recovery_policy" where
  "backend_recovery_policy_new retry_backoff budget_window =
    \<lparr> brp_retry_backoff = non_zero_duration retry_backoff,
      brp_budget_window = non_zero_duration budget_window \<rparr>"

definition backend_recovery_policy_default :: backend_recovery_policy where
  "backend_recovery_policy_default =
    \<lparr> brp_retry_backoff = DEFAULT_RECOVERY_RETRY_BACKOFF,
      brp_budget_window = DEFAULT_RECOVERY_BUDGET_WINDOW \<rparr>"

record backend_recovery_entry =
  bre_window_started_at :: instant
  bre_crashes_in_window :: nat

definition backend_recovery_entry_new :: "instant \<Rightarrow> backend_recovery_entry" where
  "backend_recovery_entry_new now = \<lparr> bre_window_started_at = now, bre_crashes_in_window = 0 \<rparr>"

definition backend_recovery_entry_refresh ::
  "backend_recovery_entry \<Rightarrow> instant \<Rightarrow> duration \<Rightarrow> backend_recovery_entry" where
  "backend_recovery_entry_refresh e now budget_window =
    (if elapsed_since (bre_window_started_at e) now \<ge> budget_window
     then e\<lparr> bre_window_started_at := now, bre_crashes_in_window := 0 \<rparr>
     else e)"

record backend_recovery_state =
  brs_policy :: backend_recovery_policy
  brs_entries :: "(backend_key, backend_recovery_entry) hash_map"

definition recovery_with_policy :: "backend_recovery_policy \<Rightarrow> backend_recovery_state" where
  "recovery_with_policy policy = \<lparr> brs_policy = policy, brs_entries = hm_empty \<rparr>"

datatype backend_recovery_refusal_reason = BackendUnavailable

datatype backend_recovery_decision =
    Retry duration nat
  | Refuse backend_recovery_refusal_reason duration

definition record_crash ::
  "backend_recovery_state \<Rightarrow> backend_key \<Rightarrow> instant \<Rightarrow>
   backend_recovery_decision \<times> backend_recovery_state" where
  "record_crash st key now =
    (let w = brp_budget_window (brs_policy st);
         e0 = (case hm_get (brs_entries st) key of
                 Some e \<Rightarrow> e | None \<Rightarrow> backend_recovery_entry_new now);
         e1 = backend_recovery_entry_refresh e0 now w;
         e = e1\<lparr> bre_crashes_in_window := min (bre_crashes_in_window e1 + 1) U32_MAX \<rparr>
     in ((if bre_crashes_in_window e = 1 then Retry (brp_retry_backoff (brs_policy st)) 1
          else Refuse BackendUnavailable (retry_after (bre_window_started_at e) now w)),
         st\<lparr> brs_entries := hm_insert key e (brs_entries st) \<rparr>))"

definition recovery_record_success ::
  "backend_recovery_state \<Rightarrow> backend_key \<Rightarrow> backend_recovery_state" where
  "recovery_record_success st key = st\<lparr> brs_entries := hm_remove key (brs_entries st) \<rparr>"

text \<open>Successive crashes of one backend.\<close>

fun crash_run ::
  "backend_recovery_state \<Rightarrow> backend_key \<Rightarrow> instant list \<Rightarrow>
   backend_recovery_decision list \<times> backend_recovery_state" where
  "crash_run st key [] = ([], st)"
| "crash_run st key (t # ts) =
    (let (d, st1) = record_crash st key t; (ds, st2) = crash_run st1 key ts in (d # ds, st2))"

section \<open>Handoff fallback\<close>

definition DEFAULT_HANDOFF_FAILED_ATTEMPTS_PER_WINDOW :: nat where
  "DEFAULT_HANDOFF_FAILED_ATTEMPTS_PER_WINDOW = 8"

definition DEFAULT_HANDOFF_FAILED_ATTEMPT_WINDOW :: duration where
  "DEFAULT_HANDOFF_FAILED_ATTEMPT_WINDOW = from_secs 30"

record handoff_fallback_policy =
  hfp_max_failed_attempts_per_window :: nat
  hfp_failed_attempt_window :: duration

definition handoff_fallback_policy_new :: "nat \<Rightarrow> duration \<Rightarrow> handoff_fallback_policy" where
  "handoff_fallback_policy_new max_failed window =
    \<lparr> hfp_max_failed_attempts_per_window = max max_failed 1,
      hfp_failed_attempt_window = (if window = 0 then from_millis 1 else window) \<rparr>"

definition handoff_fallback_policy_default :: handoff_fallback_policy where
  "handoff_fallback_policy_default =
    \<lparr> hfp_max_failed_attempts_per_window = DEFAULT_HANDOFF_FAILED_ATTEMPTS_PER_WINDOW,
      hfp_failed_attempt_window = DEFAULT_HANDOFF_FAILED_ATTEMPT_WINDOW \<rparr>"

record handoff_attempt_inputs =
  hai_client_supports_handoff :: bool
  hai_service_policy_enabled :: bool
  hai_fd_pressure_disabled :: bool
  hai_backend_adopted_existing :: bool

definition handoff_attempt_inputs_new :: "bool \<Rightarrow> bool \<Rightarrow> bool \<Rightarrow> handoff_attempt_inputs" where
  "handoff_attempt_inputs_new client service fd_pressure =
    \<lparr> hai_client_supports_handoff = client, hai_service_policy_enabled = service,
      hai_fd_pressure_disabled = fd_pressure, hai_backend_adopted_existing = False \<rparr>"

definition handoff_inputs_enabled :: handoff_attempt_inputs where
  "handoff_inputs_enabled = handoff_attempt_inputs_new True True False"

definition handoff_inputs_adopted_backend :: "bool \<Rightarrow> handoff_attempt_inputs" where
  "handoff_inputs_adopted_backend client =
    \<lparr> hai_client_supports_handoff = client, hai_service_policy_enabled = True,
      hai_fd_pressure_disabled = False, hai_backend_adopted_existing = True \<rparr>"

datatype handoff_fallback_reason =
    ClientUnsupported
  | ServicePolicyDisabled
  | FdPressureDisabled
  | FailedAttemptRateLimited
  | ReasonPermissionDenied
  | ReasonIntegrityMismatch
  | ReasonBackendAckTimeout
  | AdoptedBackend

record handoff_fallback_decision =
  hfd_reason :: handoff_fallback_reason
  hfd_retry_after :: "duration option"

definition fallback_decision_new :: "handoff_fallback_reason \<Rightarrow> handoff_fallback_decision" where
  "fallback_decision_new reason = \<lparr> hfd_reason = reason, hfd_retry_after = None \<rparr>"

definition fallback_decision_with_retry_after ::
  "handoff_fallback_reason \<Rightarrow> duration \<Rightarrow> handoff_fallback_decision" where
  "fallback_decision_with_retry_after reason d = \<lparr> hfd_reason = reason, hfd_retry_after = Some d \<rparr>"

datatype handoff_attempt_decision =
    Attempt
  | FallbackToReconnect handoff_fallback_decision

datatype handoff_attempt_failure = PermissionDeniedFailure | IntegrityMismatch | BackendAckTimeout

fun failure_reason :: "handoff_attempt_failure \<Rightarrow> handoff_fallback_reason" where
  "failure_reason PermissionDeniedFailure = ReasonPermissionDenied"
| "failure_reason IntegrityMismatch = ReasonIntegrityMismatch"
| "failure_reason BackendAckTimeout = ReasonBackendAckTimeout"

record failed_attempt_window =
  faw_started_at :: instant
  faw_count :: nat

definition failed_attempt_window_new :: "instant \<Rightarrow> failed_attempt_window" where
  "failed_attempt_window_new now = \<lparr> faw_started_at = now, faw_count = 0 \<rparr>"

text \<open>\<open>checked_duration_since(..).is_some_and(..)\<close>: a clock reading before the start never expires
  the window.\<close>

definition refresh_if_expired ::
  "failed_attempt_window \<Rightarrow> instant \<Rightarrow> duration \<Rightarrow> failed_attempt_window" where
  "refresh_if_expired e now window =
    (if faw_started_at e \<le> now \<and> now - faw_started_at e \<ge> window
     then e\<lparr> faw_started_at := now, faw_count := 0 \<rparr>
     else e)"

definition failed_window_retry_after :: "failed_attempt_window \<Rightarrow> instant \<Rightarrow> duration \<Rightarrow> duration" where
  "failed_window_retry_after e now window = window - (now - faw_started_at e)"

record handoff_fallback_state =
  hfs_policy :: handoff_fallback_policy
  hfs_failed_attempts :: "(backend_key, failed_attempt_window) hash_map"

definition fallback_with_policy :: "handoff_fallback_policy \<Rightarrow> handoff_fallback_state" where
  "fallback_with_policy policy = \<lparr> hfs_policy = policy, hfs_failed_attempts = hm_empty \<rparr>"

definition fallback :: "handoff_fallback_reason \<Rightarrow> handoff_attempt_decision" where
  "fallback reason = FallbackToReconnect (fallback_decision_new reason)"

definition rate_limit_for ::
  "handoff_fallback_state \<Rightarrow> backend_key \<Rightarrow> instant \<Rightarrow> duration option \<times> handoff_fallback_state" where
  "rate_limit_for st backend now =
    (let w = hfp_failed_attempt_window (hfs_policy st) in
     case hm_get (hfs_failed_attempts st) backend of
       None \<Rightarrow> (None, st)
     | Some e0 \<Rightarrow>
         let e = refresh_if_expired e0 now w;
             st' = st\<lparr> hfs_failed_attempts := hm_insert backend e (hfs_failed_attempts st) \<rparr>
         in if faw_count e < hfp_max_failed_attempts_per_window (hfs_policy st) then (None, st')
            else (Some (failed_window_retry_after e now w), st'))"

definition should_attempt ::
  "handoff_fallback_state \<Rightarrow> backend_key \<Rightarrow> handoff_attempt_inputs \<Rightarrow> instant \<Rightarrow>
   handoff_attempt_decision \<times> handoff_fallback_state" where
  "should_attempt st backend inputs now =
    (if \<not> hai_client_supports_handoff inputs then (fallback ClientUnsupported, st)
     else if \<not> hai_service_policy_enabled inputs then (fallback ServicePolicyDisabled, st)
     else if hai_fd_pressure_disabled inputs then (fallback FdPressureDisabled, st)
     else if hai_backend_adopted_existing inputs then (fallback AdoptedBackend, st)
     else
       (case rate_limit_for st backend now of
          (Some d, st') \<Rightarrow>
            (FallbackToReconnect (fallback_decision_with_retry_after FailedAttemptRateLimited d), st')
        | (None, st') \<Rightarrow> (Attempt, st')))"

definition record_failed_attempt ::
  "handoff_fallback_state \<Rightarrow> backend_key \<Rightarrow> handoff_attempt_failure \<Rightarrow> instant \<Rightarrow>
   handoff_attempt_decision \<times> handoff_fallback_state" where
  "record_failed_attempt st backend failure now =
    (let e0 = (case hm_get (hfs_failed_attempts st) backend of
                 Some e \<Rightarrow> e | None \<Rightarrow> failed_attempt_window_new now);
         e1 = refresh_if_expired e0 now (hfp_failed_attempt_window (hfs_policy st));
         e = e1\<lparr> faw_count := min (faw_count e1 + 1) (hfp_max_failed_attempts_per_window (hfs_policy st)) \<rparr>
     in (fallback (failure_reason failure),
         st\<lparr> hfs_failed_attempts := hm_insert backend e (hfs_failed_attempts st) \<rparr>))"

definition fallback_record_success ::
  "handoff_fallback_state \<Rightarrow> backend_key \<Rightarrow> handoff_fallback_state" where
  "fallback_record_success st backend =
    st\<lparr> hfs_failed_attempts := hm_remove backend (hfs_failed_attempts st) \<rparr>"

definition failed_attempt_count ::
  "handoff_fallback_state \<Rightarrow> backend_key \<Rightarrow> instant \<Rightarrow> nat \<times> handoff_fallback_state" where
  "failed_attempt_count st backend now =
    (case hm_get (hfs_failed_attempts st) backend of
       None \<Rightarrow> (0, st)
     | Some e0 \<Rightarrow>
         let e = refresh_if_expired e0 now (hfp_failed_attempt_window (hfs_policy st)) in
         (faw_count e, st\<lparr> hfs_failed_attempts := hm_insert backend e (hfs_failed_attempts st) \<rparr>))"

text \<open>Successive failed handoffs to one backend.\<close>

fun failure_run ::
  "handoff_fallback_state \<Rightarrow> backend_key \<Rightarrow> (handoff_attempt_failure \<times> instant) list \<Rightarrow>
   handoff_fallback_state" where
  "failure_run st backend [] = st"
| "failure_run st backend ((f, t) # fs) =
    failure_run (snd (record_failed_attempt st backend f t)) backend fs"

section \<open>Crash recovery: lemmas\<close>

interpretation crw: fixed_window
  bre_window_started_at
  bre_crashes_in_window
  backend_recovery_entry_new
  backend_recovery_entry_refresh
  by unfold_locales
    (auto simp: backend_recovery_entry_new_def backend_recovery_entry_refresh_def elapsed_since_def)

interpretation faw: fixed_window
  faw_started_at
  faw_count
  failed_attempt_window_new
  refresh_if_expired
  by unfold_locales (auto simp: failed_attempt_window_new_def refresh_if_expired_def)

lemma record_crash_again:
  assumes "hm_get (brs_entries st) key = Some e" "1 \<le> bre_crashes_in_window e"
    and "t - bre_window_started_at e < brp_budget_window (brs_policy st)"
    and "record_crash st key t = (d, st')"
  shows "d = Refuse BackendUnavailable
      (retry_after (bre_window_started_at e) t (brp_budget_window (brs_policy st))) \<and>
    brs_policy st' = brs_policy st \<and>
    (\<exists>e'. hm_get (brs_entries st') key = Some e' \<and> 1 \<le> bre_crashes_in_window e' \<and>
      bre_window_started_at e' = bre_window_started_at e)"
  using assms
  by (auto simp: record_crash_def crw.refresh_within Let_def hm.get_insert U32_MAX_def)

lemma crash_run_again:
  assumes "hm_get (brs_entries st) key = Some e" "1 \<le> bre_crashes_in_window e"
    and "\<forall>t \<in> set ts. t - bre_window_started_at e < brp_budget_window (brs_policy st)"
  shows "fst (crash_run st key ts) = map (\<lambda>t. Refuse BackendUnavailable
      (retry_after (bre_window_started_at e) t (brp_budget_window (brs_policy st)))) ts"
  using assms
proof (induction ts arbitrary: st e)
  case (Cons t ts)
  obtain d st' where r: "record_crash st key t = (d, st')" by fastforce
  from record_crash_again [OF Cons.prems(1,2) _ r] Cons.prems(3) obtain e' where
    "d = Refuse BackendUnavailable
      (retry_after (bre_window_started_at e) t (brp_budget_window (brs_policy st)))"
    "brs_policy st' = brs_policy st" "hm_get (brs_entries st') key = Some e'"
    "1 \<le> bre_crashes_in_window e'" "bre_window_started_at e' = bre_window_started_at e" by auto
  then show ?case using Cons.IH [of st' e'] Cons.prems(3) r by (auto split: prod.splits)
qed simp

section \<open>Handoff fallback: lemmas\<close>

lemma failure_run_window:
  assumes "hm_get (hfs_failed_attempts st) backend = Some e"
    and "faw_count e \<le> hfp_max_failed_attempts_per_window (hfs_policy st)"
    and "\<forall>(f, t) \<in> set fs. t - faw_started_at e < hfp_failed_attempt_window (hfs_policy st)"
  shows "hfs_policy (failure_run st backend fs) = hfs_policy st \<and>
    hm_get (hfs_failed_attempts (failure_run st backend fs)) backend =
      Some (e\<lparr> faw_count := min (faw_count e + length fs)
        (hfp_max_failed_attempts_per_window (hfs_policy st)) \<rparr>)"
  using assms
proof (induction fs arbitrary: st e)
  case (Cons p fs)
  obtain f t where p: "p = (f, t)" by (cases p)
  let ?m = "hfp_max_failed_attempts_per_window (hfs_policy st)"
  let ?e = "e\<lparr> faw_count := min (faw_count e + 1) ?m \<rparr>"
  let ?st = "snd (record_failed_attempt st backend f t)"
  have 1: "hm_get (hfs_failed_attempts ?st) backend = Some ?e" and 2: "hfs_policy ?st = hfs_policy st"
    using Cons.prems p
    by (simp_all add: record_failed_attempt_def faw.refresh_within Let_def hm.get_insert)
  show ?case using Cons.IH [OF 1] Cons.prems(3) p 2 by auto
qed simp

section \<open>Properties\<close>

text \<open>One retry per window. For a backend with no crash on record, the first crash is answered
  with the configured back-off, every further crash inside the window that opened then with a
  refusal whose hint is the rest of that window; once the backend is reported healthy the next crash
  gets a retry again.\<close>

lemma recovery_one_retry_per_window:
  assumes "hm_get (brs_entries st) key = None"
    and "0 < brp_budget_window (brs_policy st)"
    and "\<forall>t \<in> set ts. t0 \<le> t \<and> t - t0 < brp_budget_window (brs_policy st)"
  shows "fst (crash_run st key (t0 # ts)) =
      Retry (brp_retry_backoff (brs_policy st)) 1 #
      map (\<lambda>t. Refuse BackendUnavailable (brp_budget_window (brs_policy st) - (t - t0))) ts \<and>
    hm_get (brs_entries (recovery_record_success (snd (crash_run st key (t0 # ts))) key)) key = None"
proof -
  obtain d st' where r: "record_crash st key t0 = (d, st')" by fastforce
  have d: "d = Retry (brp_retry_backoff (brs_policy st)) 1" and pol: "brs_policy st' = brs_policy st"
    and e: "hm_get (brs_entries st') key = Some \<lparr> bre_window_started_at = t0, bre_crashes_in_window = 1 \<rparr>"
    using r assms(1,2)
    by (auto simp: record_crash_def Let_def crw.refresh_fresh hm.get_insert U32_MAX_def
        backend_recovery_entry_new_def backend_recovery_entry_refresh_def elapsed_since_def)
  have "fst (crash_run st' key ts) =
      map (\<lambda>t. Refuse BackendUnavailable (brp_budget_window (brs_policy st) - (t - t0))) ts"
    using crash_run_again [OF e, of ts] assms(3) pol by (simp add: retry_after_def elapsed_since_def)
  then show ?thesis
    using r d by (auto simp: recovery_record_success_def hm.get_remove split: prod.splits)
qed

text \<open>Failing handoffs are suppressed at the limit and nowhere before. After any run of failed
  handoffs to a backend inside one window, a request that qualifies for handoff may attempt it
  exactly when fewer than the configured number have failed; otherwise it falls back to a reconnect
  whose hint is the rest of the window; and after a success attempts are allowed again.\<close>

lemma handoff_suppressed_at_limit:
  assumes "hm_get (hfs_failed_attempts st) backend = None"
    and "0 < hfp_failed_attempt_window (hfs_policy st)"
    and "\<forall>(f, t) \<in> set fs. t0 \<le> t \<and> t - t0 < hfp_failed_attempt_window (hfs_policy st)"
    and "t0 \<le> now" "now - t0 < hfp_failed_attempt_window (hfs_policy st)"
    and "0 < hfp_max_failed_attempts_per_window (hfs_policy st)"
  shows "fst (should_attempt (failure_run st backend ((f0, t0) # fs)) backend handoff_inputs_enabled now) =
      (if 1 + length fs < hfp_max_failed_attempts_per_window (hfs_policy st) then Attempt
       else FallbackToReconnect \<lparr> hfd_reason = FailedAttemptRateLimited,
         hfd_retry_after = Some (hfp_failed_attempt_window (hfs_policy st) - (now - t0)) \<rparr>) \<and>
    fst (should_attempt (fallback_record_success (failure_run st backend ((f0, t0) # fs)) backend)
      backend handoff_inputs_enabled now) = Attempt"
proof -
  let ?m = "hfp_max_failed_attempts_per_window (hfs_policy st)"
  let ?st = "snd (record_failed_attempt st backend f0 t0)"
  let ?e = "\<lparr> faw_started_at = t0, faw_count = 1 \<rparr>"
  have e: "hm_get (hfs_failed_attempts ?st) backend = Some ?e" and pol: "hfs_policy ?st = hfs_policy st"
    using assms(1,2,6)
    by (auto simp: record_failed_attempt_def Let_def faw.refresh_fresh hm.get_insert
        failed_attempt_window_new_def refresh_if_expired_def)
  have "hfs_policy (failure_run ?st backend fs) = hfs_policy st \<and>
      hm_get (hfs_failed_attempts (failure_run ?st backend fs)) backend =
      Some (?e\<lparr> faw_count := min (1 + length fs) ?m \<rparr>)"
    using failure_run_window [OF e, of fs] assms(3,6) pol by auto
  then show ?thesis
    using assms(4,5)
    by (auto simp: should_attempt_def rate_limit_for_def Let_def faw.refresh_within
        handoff_inputs_enabled_def handoff_attempt_inputs_new_def failed_window_retry_after_def
        fallback_decision_with_retry_after_def fallback_record_success_def hm.get_remove
        split: option.splits)
qed

end
