(* ===== verification/Handoff_Tokens.thy ===== *)
theory Handoff_Tokens
  imports Backend_Recovery
begin

text \<open>
  One-time handoff tokens and what is built on them: the bounded token store
  (\<open>server/handoff/handoff_token.rs\<close>), the registry of handoffs awaiting a backend acknowledgement
  (\<open>server/handoff/ack.rs\<close>), the backend's acceptance check (\<open>backend_lib/accept_handed_off.rs\<close>) and
  the bounded backlog of parked handoffs (\<open>server/handoff/pending.rs\<close>). What the registry relies on
  in the store is the locale \<open>token_revocation\<close>, and what makes a token one-time is \<open>one_time_store\<close>.
\<close>

section \<open>Token store\<close>

definition HANDOFF_TOKEN_BYTES :: nat where
  "HANDOFF_TOKEN_BYTES = 16"

definition DEFAULT_MAX_PENDING_HANDOFF_TOKENS :: nat where
  "DEFAULT_MAX_PENDING_HANDOFF_TOKENS = 1024"

definition DEFAULT_HANDOFF_TOKEN_TTL :: duration where
  "DEFAULT_HANDOFF_TOKEN_TTL = from_secs 30"

definition DEFAULT_HANDOFF_TOKEN_COLLISION_ATTEMPTS :: nat where
  "DEFAULT_HANDOFF_TOKEN_COLLISION_ATTEMPTS = 16"

type_synonym handoff_token = bytes

record handoff_token_store_config =
  htc_max_pending_tokens :: nat
  htc_token_ttl :: duration
  htc_collision_attempts :: nat

definition handoff_token_store_config_new :: "nat \<Rightarrow> duration \<Rightarrow> handoff_token_store_config" where
  "handoff_token_store_config_new max_pending ttl =
    \<lparr> htc_max_pending_tokens = max max_pending 1,
      htc_token_ttl = (if ttl = 0 then from_millis 1 else ttl),
      htc_collision_attempts = DEFAULT_HANDOFF_TOKEN_COLLISION_ATTEMPTS \<rparr>"

definition with_collision_attempts ::
  "handoff_token_store_config \<Rightarrow> nat \<Rightarrow> handoff_token_store_config" where
  "with_collision_attempts c n = c\<lparr> htc_collision_attempts := max n 1 \<rparr>"

definition handoff_token_store_config_default :: handoff_token_store_config where
  "handoff_token_store_config_default =
    \<lparr> htc_max_pending_tokens = DEFAULT_MAX_PENDING_HANDOFF_TOKENS,
      htc_token_ttl = DEFAULT_HANDOFF_TOKEN_TTL,
      htc_collision_attempts = DEFAULT_HANDOFF_TOKEN_COLLISION_ATTEMPTS \<rparr>"

record pending_handoff_token =
  pht_expires_at :: instant

record handoff_token_store =
  hts_config :: handoff_token_store_config
  hts_pending :: "(handoff_token, pending_handoff_token) hash_map"

datatype handoff_token_error =
    TokenRandom string
  | PendingLimitReached nat
  | TokenCollisionExhausted nat
  | TokenMismatch
  | TokenExpired
  | TokenNotPending

definition token_store_with_config :: "handoff_token_store_config \<Rightarrow> handoff_token_store" where
  "token_store_with_config config = \<lparr> hts_config = config, hts_pending = hm_empty \<rparr>"

definition token_store_new :: handoff_token_store where
  "token_store_new = token_store_with_config handoff_token_store_config_default"

definition token_pending_len :: "handoff_token_store \<Rightarrow> nat" where
  "token_pending_len s = hm_len (hts_pending s)"

definition prune_expired_except ::
  "instant \<Rightarrow> handoff_token option \<Rightarrow> handoff_token_store \<Rightarrow> nat \<times> handoff_token_store" where
  "prune_expired_except now except s =
    (let kept = hm_retain (\<lambda>token p. except = Some token \<or> now < pht_expires_at p) (hts_pending s) in
     (hm_len (hts_pending s) - hm_len kept, s\<lparr> hts_pending := kept \<rparr>))"

definition prune_expired :: "instant \<Rightarrow> handoff_token_store \<Rightarrow> nat \<times> handoff_token_store" where
  "prune_expired now s = prune_expired_except now None s"

text \<open>The candidate loop: \<open>next_random128 k\<close> is what the \<open>k\<close>-th call of the random source returns.\<close>

fun issue_loop ::
  "instant \<Rightarrow> (nat \<Rightarrow> (handoff_token_error, bytes) result) \<Rightarrow> nat \<Rightarrow> nat \<Rightarrow> handoff_token_store \<Rightarrow>
   (handoff_token_error, handoff_token) result \<times> handoff_token_store" where
  "issue_loop now next_random128 k 0 s =
    (Err (TokenCollisionExhausted (htc_collision_attempts (hts_config s))), s)"
| "issue_loop now next_random128 k (Suc n) s =
    (case next_random128 k of
       Err e \<Rightarrow> (Err e, s)
     | Ok token \<Rightarrow>
         if hm_contains (hts_pending s) token then issue_loop now next_random128 (Suc k) n s
         else (Ok token,
               s\<lparr> hts_pending := hm_insert token
                 \<lparr> pht_expires_at = add_or_now now (htc_token_ttl (hts_config s)) \<rparr> (hts_pending s) \<rparr>))"

definition issue_with_random128 ::
  "instant \<Rightarrow> (nat \<Rightarrow> (handoff_token_error, bytes) result) \<Rightarrow> handoff_token_store \<Rightarrow>
   (handoff_token_error, handoff_token) result \<times> handoff_token_store" where
  "issue_with_random128 now next_random128 s0 =
    (let s = snd (prune_expired now s0) in
     if hm_len (hts_pending s) \<ge> htc_max_pending_tokens (hts_config s)
     then (Err (PendingLimitReached (htc_max_pending_tokens (hts_config s))), s)
     else issue_loop now next_random128 0 (htc_collision_attempts (hts_config s)) s)"

definition consume_matching ::
  "handoff_token \<Rightarrow> handoff_token \<Rightarrow> instant \<Rightarrow> handoff_token_store \<Rightarrow>
   (handoff_token_error, unit) result \<times> handoff_token_store" where
  "consume_matching expected presented now s0 =
    (let s = snd (prune_expired_except now (Some expected) s0);
         removed = s\<lparr> hts_pending := hm_remove expected (hts_pending s) \<rparr>
     in case hm_get (hts_pending s) expected of
          None \<Rightarrow> (Err TokenNotPending, s)
        | Some p \<Rightarrow>
            if now \<ge> pht_expires_at p then (Err TokenExpired, removed)
            else if expected \<noteq> presented then (Err TokenMismatch, s)
            else (Ok (), removed))"

definition revoke :: "handoff_token \<Rightarrow> handoff_token_store \<Rightarrow> bool \<times> handoff_token_store" where
  "revoke token s =
    (hm_get (hts_pending s) token \<noteq> None,
     s\<lparr> hts_pending := hm_remove token (hts_pending s) \<rparr>)"

section \<open>Acknowledgement registry\<close>

definition DEFAULT_HANDOFF_ACK_DEADLINE :: duration where
  "DEFAULT_HANDOFF_ACK_DEADLINE = from_secs 5"

record pending_handoff_backend =
  phb_service_name :: string
  phb_backend_pid :: u32

definition pending_backend_for_service :: "string \<Rightarrow> pending_handoff_backend" where
  "pending_backend_for_service service_name =
    \<lparr> phb_service_name = service_name, phb_backend_pid = 0 \<rparr>"

definition pending_backend_new :: "string \<Rightarrow> u32 \<Rightarrow> pending_handoff_backend" where
  "pending_backend_new service_name backend_pid =
    \<lparr> phb_service_name = service_name, phb_backend_pid = backend_pid \<rparr>"

record pending_ack_entry =
  pae_backend :: pending_handoff_backend
  pae_issued_at :: instant
  pae_ack_deadline_at :: instant

record handoff_ack_registry =
  har_ack_deadline :: duration
  har_pending :: "(handoff_token, pending_ack_entry) hash_map"

definition ack_registry_with_deadline :: "duration \<Rightarrow> handoff_ack_registry" where
  "ack_registry_with_deadline ack_deadline =
    \<lparr> har_ack_deadline = (if ack_deadline = 0 then from_millis 1 else ack_deadline),
      har_pending = hm_empty \<rparr>"

definition ack_registry_new :: handoff_ack_registry where
  "ack_registry_new = ack_registry_with_deadline DEFAULT_HANDOFF_ACK_DEADLINE"

definition ack_pending_len :: "handoff_ack_registry \<Rightarrow> nat" where
  "ack_pending_len r = hm_len (har_pending r)"

definition ack_pending_backend ::
  "handoff_ack_registry \<Rightarrow> handoff_token \<Rightarrow> pending_handoff_backend option" where
  "ack_pending_backend r token = map_option pae_backend (hm_get (har_pending r) token)"

definition ack_register ::
  "handoff_token \<Rightarrow> pending_handoff_backend \<Rightarrow> instant \<Rightarrow> handoff_ack_registry \<Rightarrow>
   handoff_ack_registry" where
  "ack_register token backend now r =
    r\<lparr> har_pending := hm_insert token
      \<lparr> pae_backend = backend, pae_issued_at = now,
        pae_ack_deadline_at = add_or_now now (har_ack_deadline r) \<rparr> (har_pending r) \<rparr>"

record acknowledged_handoff =
  ah_token :: handoff_token
  ah_backend :: pending_handoff_backend
  ah_waited :: duration

record expired_handoff =
  eh_token :: handoff_token
  eh_backend :: pending_handoff_backend
  eh_deadline :: duration

datatype handoff_ack_error =
    AckTokenNotPending
  | AckDeadlineExceeded pending_handoff_backend duration

fun ack_attempt_failure :: "handoff_ack_error \<Rightarrow> handoff_attempt_failure option" where
  "ack_attempt_failure AckTokenNotPending = None"
| "ack_attempt_failure (AckDeadlineExceeded b d) = Some BackendAckTimeout"

definition expired_fallback_decision :: "expired_handoff \<Rightarrow> handoff_fallback_decision" where
  "expired_fallback_decision e = fallback_decision_new ReasonBackendAckTimeout"

definition acknowledge ::
  "handoff_token \<Rightarrow> instant \<Rightarrow> handoff_ack_registry \<Rightarrow> handoff_token_store \<Rightarrow>
   (handoff_ack_error, acknowledged_handoff) result \<times> handoff_ack_registry \<times> handoff_token_store" where
  "acknowledge token now r tokens =
    (case hm_get (har_pending r) token of
       None \<Rightarrow> (Err AckTokenNotPending, r, tokens)
     | Some entry \<Rightarrow>
         let r' = r\<lparr> har_pending := hm_remove token (har_pending r) \<rparr>;
             tokens' = snd (revoke token tokens)
         in if now \<ge> pae_ack_deadline_at entry
            then (Err (AckDeadlineExceeded (pae_backend entry) (har_ack_deadline r)), r', tokens')
            else (Ok \<lparr> ah_token = token, ah_backend = pae_backend entry,
                       ah_waited = now - pae_issued_at entry \<rparr>, r', tokens'))"

definition abandon ::
  "handoff_token \<Rightarrow> handoff_ack_registry \<Rightarrow> handoff_token_store \<Rightarrow>
   pending_handoff_backend option \<times> handoff_ack_registry \<times> handoff_token_store" where
  "abandon token r tokens =
    (map_option pae_backend (hm_get (har_pending r) token),
     r\<lparr> har_pending := hm_remove token (har_pending r) \<rparr>, snd (revoke token tokens))"

fun expire_loop ::
  "handoff_token list \<Rightarrow> handoff_ack_registry \<Rightarrow> handoff_token_store \<Rightarrow>
   expired_handoff list \<times> handoff_ack_registry \<times> handoff_token_store" where
  "expire_loop [] r tokens = ([], r, tokens)"
| "expire_loop (token # overdue) r tokens =
    (case hm_get (har_pending r) token of
       None \<Rightarrow> expire_loop overdue r tokens
     | Some entry \<Rightarrow>
         let (expired, r', tokens') =
               expire_loop overdue (r\<lparr> har_pending := hm_remove token (har_pending r) \<rparr>)
                 (snd (revoke token tokens))
         in (\<lparr> eh_token = token, eh_backend = pae_backend entry,
               eh_deadline = har_ack_deadline r \<rparr> # expired, r', tokens'))"

definition expire_overdue ::
  "instant \<Rightarrow> handoff_ack_registry \<Rightarrow> handoff_token_store \<Rightarrow>
   expired_handoff list \<times> handoff_ack_registry \<times> handoff_token_store" where
  "expire_overdue now r tokens =
    expire_loop
      (map fst (filter (\<lambda>(_, entry). now \<ge> pae_ack_deadline_at entry) (har_pending r))) r tokens"

section \<open>Backend acceptance\<close>

record 'c handed_off_payload =
  hop_expected_token :: handoff_token
  hop_presented_token :: bytes
  hop_connection :: 'c

datatype handoff_rejection_reason =
    MissingToken
  | InvalidTokenLength nat nat
  | RejectTokenMismatch
  | RejectTokenExpired
  | RejectTokenNotPending
  | TokenStore handoff_token_error

datatype 'c handoff_acceptance =
    Accepted handoff_token 'c
  | Rejected "'c handed_off_payload" handoff_rejection_reason

fun is_accepted :: "'c handoff_acceptance \<Rightarrow> bool" where
  "is_accepted (Accepted t c) = True"
| "is_accepted (Rejected p r) = False"

fun rejection_reason_from :: "handoff_token_error \<Rightarrow> handoff_rejection_reason" where
  "rejection_reason_from TokenMismatch = RejectTokenMismatch"
| "rejection_reason_from TokenExpired = RejectTokenExpired"
| "rejection_reason_from TokenNotPending = RejectTokenNotPending"
| "rejection_reason_from e = TokenStore e"

definition parse_handoff_token :: "bytes \<Rightarrow> (handoff_rejection_reason, handoff_token) result" where
  "parse_handoff_token token =
    (if token = [] then Err MissingToken
     else if length token \<noteq> HANDOFF_TOKEN_BYTES
     then Err (InvalidTokenLength (length token) HANDOFF_TOKEN_BYTES)
     else Ok token)"

definition accept_handed_off ::
  "'c handed_off_payload \<Rightarrow> instant \<Rightarrow> handoff_token_store \<Rightarrow>
   'c handoff_acceptance \<times> handoff_token_store" where
  "accept_handed_off payload now pending_tokens =
    (case parse_handoff_token (hop_presented_token payload) of
       Err reason \<Rightarrow> (Rejected payload reason, pending_tokens)
     | Ok presented \<Rightarrow>
         (case consume_matching (hop_expected_token payload) presented now pending_tokens of
            (Ok _, tokens) \<Rightarrow> (Accepted (hop_expected_token payload) (hop_connection payload), tokens)
          | (Err e, tokens) \<Rightarrow> (Rejected payload (rejection_reason_from e), tokens)))"

section \<open>Parked handoffs\<close>

definition DEFAULT_MAX_PENDING_HANDOFFS :: nat where
  "DEFAULT_MAX_PENDING_HANDOFFS = 64"

definition DEFAULT_PENDING_HANDOFF_TTL :: duration where
  "DEFAULT_PENDING_HANDOFF_TTL = from_millis 100"

record pending_handoff_queue_config =
  phq_max_pending_handoffs :: nat
  phq_pending_ttl :: duration

definition pending_handoff_queue_config_new :: "nat \<Rightarrow> duration \<Rightarrow> pending_handoff_queue_config" where
  "pending_handoff_queue_config_new max_pending ttl =
    \<lparr> phq_max_pending_handoffs = max max_pending 1,
      phq_pending_ttl = (if ttl = 0 then from_millis 1 else ttl) \<rparr>"

record 'c pending_handoff_entry =
  phe_handoff :: 'c
  phe_expires_at :: instant

record 'c pending_handoff_queue =
  pq_config :: pending_handoff_queue_config
  pq_queue :: "'c pending_handoff_entry list"

record pending_handoff_overflow =
  pho_max_pending_handoffs :: nat

definition pending_queue_with_config :: "pending_handoff_queue_config \<Rightarrow> 'c pending_handoff_queue" where
  "pending_queue_with_config config = \<lparr> pq_config = config, pq_queue = [] \<rparr>"

definition pending_expire :: "instant \<Rightarrow> 'c pending_handoff_queue \<Rightarrow> nat \<times> 'c pending_handoff_queue" where
  "pending_expire now q =
    (let kept = filter (\<lambda>entry. now < phe_expires_at entry) (pq_queue q) in
     (length (pq_queue q) - length kept, q\<lparr> pq_queue := kept \<rparr>))"

definition pending_enqueue ::
  "'c \<Rightarrow> instant \<Rightarrow> 'c pending_handoff_queue \<Rightarrow>
   (pending_handoff_overflow, unit) result \<times> 'c pending_handoff_queue" where
  "pending_enqueue handoff now q0 =
    (let q = snd (pending_expire now q0) in
     if length (pq_queue q) \<ge> phq_max_pending_handoffs (pq_config q)
     then (Err \<lparr> pho_max_pending_handoffs = phq_max_pending_handoffs (pq_config q) \<rparr>, q)
     else (Ok (), q\<lparr> pq_queue := pq_queue q @
       [\<lparr> phe_handoff = handoff, phe_expires_at = add_or_now now (phq_pending_ttl (pq_config q)) \<rparr>] \<rparr>))"

definition pending_dequeue ::
  "instant \<Rightarrow> 'c pending_handoff_queue \<Rightarrow> 'c option \<times> 'c pending_handoff_queue" where
  "pending_dequeue now q0 =
    (let q = snd (pending_expire now q0) in
     case pq_queue q of
       [] \<Rightarrow> (None, q)
     | entry # rest \<Rightarrow> (Some (phe_handoff entry), q\<lparr> pq_queue := rest \<rparr>))"

definition overflow_fallback_decision :: "pending_handoff_overflow \<Rightarrow> handoff_fallback_decision" where
  "overflow_fallback_decision ov = fallback_decision_new FdPressureDisabled"

section \<open>Runs\<close>

text \<open>Sequences of calls on one token store, with the tokens they issued and consumed.\<close>

definition token_pending :: "handoff_token_store \<Rightarrow> handoff_token \<Rightarrow> bool" where
  "token_pending s t = hm_contains (hts_pending s) t"

datatype token_op =
    TokIssue instant "nat \<Rightarrow> (handoff_token_error, bytes) result"
  | TokConsume handoff_token handoff_token instant
  | TokRevoke handoff_token
  | TokPrune instant

datatype token_event = TokenIssued handoff_token | TokenConsumed handoff_token | NoTokenEvent

fun token_step :: "token_op \<Rightarrow> handoff_token_store \<Rightarrow> token_event \<times> handoff_token_store" where
  "token_step (TokIssue now rnd) s =
    (case issue_with_random128 now rnd s of
       (Ok t, s') \<Rightarrow> (TokenIssued t, s') | (Err _, s') \<Rightarrow> (NoTokenEvent, s'))"
| "token_step (TokConsume expected presented now) s =
    (case consume_matching expected presented now s of
       (Ok _, s') \<Rightarrow> (TokenConsumed expected, s') | (Err _, s') \<Rightarrow> (NoTokenEvent, s'))"
| "token_step (TokRevoke t) s = (NoTokenEvent, snd (revoke t s))"
| "token_step (TokPrune now) s = (NoTokenEvent, snd (prune_expired now s))"

fun token_run :: "token_op list \<Rightarrow> handoff_token_store \<Rightarrow> token_event list \<times> handoff_token_store" where
  "token_run [] s = ([], s)"
| "token_run (x # xs) s =
    (let (e, s1) = token_step x s; (es, s2) = token_run xs s1 in (e # es, s2))"

text \<open>Sequences of calls on one backlog: what was accepted and what came out.\<close>

datatype 'c queue_op = QEnqueue 'c instant | QDequeue instant | QExpire instant

fun queue_run ::
  "'c queue_op list \<Rightarrow> 'c pending_handoff_queue \<Rightarrow> 'c list \<times> 'c list \<times> 'c pending_handoff_queue" where
  "queue_run [] q = ([], [], q)"
| "queue_run (QEnqueue x now # ops) q =
    (case pending_enqueue x now q of
       (Ok _, q1) \<Rightarrow> let (ins, outs, q2) = queue_run ops q1 in (x # ins, outs, q2)
     | (Err _, q1) \<Rightarrow> queue_run ops q1)"
| "queue_run (QDequeue now # ops) q =
    (case pending_dequeue now q of
       (Some x, q1) \<Rightarrow> let (ins, outs, q2) = queue_run ops q1 in (ins, x # outs, q2)
     | (None, q1) \<Rightarrow> queue_run ops q1)"
| "queue_run (QExpire now # ops) q = queue_run ops (snd (pending_expire now q))"

text \<open>The invariant of the store: one entry per token, at most the configured number.\<close>

definition token_store_wf :: "handoff_token_store \<Rightarrow> bool" where
  "token_store_wf s = (hm_ok (hts_pending s) \<and>
    hm_len (hts_pending s) \<le> htc_max_pending_tokens (hts_config s))"

text \<open>The interface of the store: success or not, and the issued token.\<close>

definition store_issue ::
  "instant \<times> (nat \<Rightarrow> (handoff_token_error, bytes) result) \<Rightarrow> handoff_token_store \<Rightarrow>
   handoff_token option \<times> handoff_token_store" where
  "store_issue i s =
    (case issue_with_random128 (fst i) (snd i) s of (Ok t, s') \<Rightarrow> (Some t, s') | (Err _, s') \<Rightarrow> (None, s'))"

definition store_consume ::
  "handoff_token \<Rightarrow> handoff_token \<Rightarrow> instant \<Rightarrow> handoff_token_store \<Rightarrow> bool \<times> handoff_token_store" where
  "store_consume e p now s =
    (case consume_matching e p now s of (r, s') \<Rightarrow> (is_ok r, s'))"

section \<open>Contracts\<close>

text \<open>What the acknowledgement registry relies on when it drops a token.\<close>

locale token_revocation =
  fixes pending :: "'s \<Rightarrow> 't \<Rightarrow> bool"
    and revoke_token :: "'t \<Rightarrow> 's \<Rightarrow> 's"
  assumes revoke_gone: "\<not> pending (revoke_token t s) t"
    and revoke_other: "t' \<noteq> t \<Longrightarrow> pending (revoke_token t s) t' = pending s t'"
begin

lemma revoke_shrinks: "pending (revoke_token t s) t' \<Longrightarrow> pending s t'"
  using revoke_gone revoke_other by (cases "t' = t") auto

lemma fold_revoke_iff:
  "pending (fold revoke_token ts s) t \<longleftrightarrow> pending s t \<and> t \<notin> set ts"
proof (induction ts arbitrary: s)
  case (Cons x ts)
  then show ?case using revoke_gone revoke_other by (cases "t = x") auto
qed simp

end

text \<open>What makes the tokens of a store one-time: consuming removes, only issuing adds.\<close>

locale one_time_store = token_revocation pending revoke_token
  for pending :: "'s \<Rightarrow> 't \<Rightarrow> bool" and revoke_token :: "'t \<Rightarrow> 's \<Rightarrow> 's" +
  fixes ok :: "'s \<Rightarrow> bool"
    and issue :: "'i \<Rightarrow> 's \<Rightarrow> 't option \<times> 's"
    and consume :: "'t \<Rightarrow> 't \<Rightarrow> 'n \<Rightarrow> 's \<Rightarrow> bool \<times> 's"
  assumes consume_Ok: "ok s \<Longrightarrow> consume e p n s = (True, s') \<Longrightarrow> e = p \<and> pending s e \<and> \<not> pending s' e"
    and consume_shrinks: "ok s \<Longrightarrow> pending (snd (consume e p n s)) t \<Longrightarrow> pending s t"
    and issue_adds: "ok s \<Longrightarrow> issue i s = (r, s') \<Longrightarrow> pending s' t \<Longrightarrow> pending s t \<or> r = Some t"
begin

lemma consume_balance:
  assumes "ok s" "consume e p n s = (b, s')"
  shows "(if pending s' t then 1 else 0) + (if b \<and> t = e then 1 else 0) \<le> (if pending s t then 1 else (0 :: nat))"
  using consume_Ok [OF assms(1)] consume_shrinks [OF assms(1), of e p n t] assms(2) by (cases b) auto

lemma issue_balance:
  assumes "ok s" "issue i s = (r, s')"
  shows "(if pending s' t then 1 else 0) \<le> (if pending s t then 1 else (0 :: nat)) + (if r = Some t then 1 else 0)"
  using issue_adds [OF assms, of t] by auto

lemma consume_twice:
  assumes "ok s" "consume e p n s = (True, s')" "ok s'"
  shows "\<not> fst (consume e p' n' s')"
  using consume_Ok [OF assms(1,2)] consume_Ok [OF assms(3), of e p' n' "snd (consume e p' n' s')"]
  by (metis prod.collapse)

end

section \<open>Invariant of the store\<close>

lemma token_store_wf_with [wf_intros]: "token_store_wf (token_store_with_config c)"
  by (simp add: token_store_wf_def token_store_with_config_def hm_simps)

lemma prune_expired_except_get:
  assumes "token_store_wf s"
  shows "hm_get (hts_pending (snd (prune_expired_except now ex s))) t =
    (case hm_get (hts_pending s) t of
       None \<Rightarrow> None
     | Some p \<Rightarrow> if ex = Some t \<or> now < pht_expires_at p then Some p else None)"
  using assms by (simp add: prune_expired_except_def Let_def token_store_wf_def hm_simps)

lemma prune_expired_except_config [simp]:
  "hts_config (snd (prune_expired_except now ex s)) = hts_config s"
  by (simp add: prune_expired_except_def Let_def)

lemma token_store_wf_prune [wf_intros]:
  "token_store_wf s \<Longrightarrow> token_store_wf (snd (prune_expired_except now ex s))"
  using hm.len_retain_le [of _ "hts_pending s"]
  by (fastforce simp: token_store_wf_def prune_expired_except_def Let_def hm_simps intro: order_trans)

lemma token_store_wf_remove [wf_intros]:
  "token_store_wf s \<Longrightarrow> token_store_wf (s\<lparr> hts_pending := hm_remove t (hts_pending s) \<rparr>)"
  using hm.len_remove_le [of t "hts_pending s"] by (auto simp: token_store_wf_def hm_simps)

lemma token_store_wf_revoke [wf_intros]: "token_store_wf s \<Longrightarrow> token_store_wf (snd (revoke t s))"
  by (simp add: revoke_def wf_intros)

lemma token_store_wf_consume [wf_intros]:
  "token_store_wf s \<Longrightarrow> token_store_wf (snd (consume_matching e p now s))"
  by (simp add: consume_matching_def Let_def wf_intros split: option.splits)

lemma issue_loop_result:
  assumes "issue_loop now rnd k n s = (r, s')"
  shows "(case r of
      Err e \<Rightarrow> s' = s
    | Ok t \<Rightarrow> hm_get (hts_pending s) t = None \<and>
        s' = s\<lparr> hts_pending := hm_insert t
          \<lparr> pht_expires_at = add_or_now now (htc_token_ttl (hts_config s)) \<rparr> (hts_pending s) \<rparr>)"
  using assms
  by (induction now rnd k n s rule: issue_loop.induct)
    (auto simp: hm_contains_def split: sum.splits if_splits)

lemma token_store_wf_issue [wf_intros]:
  assumes "token_store_wf s"
  shows "token_store_wf (snd (issue_with_random128 now rnd s))"
proof -
  let ?s = "snd (prune_expired now s)"
  have wf: "token_store_wf ?s" unfolding prune_expired_def by (intro wf_intros assms)
  show ?thesis
  proof (cases "hm_len (hts_pending ?s) \<ge> htc_max_pending_tokens (hts_config ?s)")
    case True
    then show ?thesis using wf by (simp add: issue_with_random128_def Let_def)
  next
    case False
    obtain r s' where l: "issue_loop now rnd 0 (htc_collision_attempts (hts_config ?s)) ?s = (r, s')"
      by fastforce
    have "token_store_wf s'"
      using issue_loop_result [OF l] wf False
      by (auto simp: token_store_wf_def hm_simps split: sum.splits)
    then show ?thesis using False l by (simp add: issue_with_random128_def Let_def)
  qed
qed

lemma issue_Ok:
  assumes "token_store_wf s" "issue_with_random128 now rnd s = (Ok t, s')"
  shows "hm_get (hts_pending (snd (prune_expired now s))) t = None \<and>
    hm_get (hts_pending s') t' = (if t' = t
      then Some \<lparr> pht_expires_at = add_or_now now (htc_token_ttl (hts_config s)) \<rparr>
      else hm_get (hts_pending (snd (prune_expired now s))) t')"
proof -
  let ?s = "snd (prune_expired now s)"
  have "issue_loop now rnd 0 (htc_collision_attempts (hts_config ?s)) ?s = (Ok t, s')"
    using assms(2) by (auto simp: issue_with_random128_def Let_def split: if_splits)
  from issue_loop_result [OF this] show ?thesis
    by (simp add: hm.get_insert prune_expired_def)
qed

lemma issue_Err:
  assumes "issue_with_random128 now rnd s = (Err e, s')"
  shows "s' = snd (prune_expired now s)"
proof -
  let ?s = "snd (prune_expired now s)"
  consider "s' = ?s" | "issue_loop now rnd 0 (htc_collision_attempts (hts_config ?s)) ?s = (Err e, s')"
    using assms by (auto simp: issue_with_random128_def Let_def split: if_splits)
  then show ?thesis using issue_loop_result [of now rnd 0 _ ?s "Err e" s'] by cases auto
qed

lemma prune_shrinks:
  "token_store_wf s \<Longrightarrow> token_pending (snd (prune_expired_except now ex s)) t \<Longrightarrow> token_pending s t"
  by (auto simp: token_pending_def hm_contains_def prune_expired_except_get split: option.splits)

lemma consume_shrinks_pending:
  "token_store_wf s \<Longrightarrow> token_pending (snd (consume_matching e p now s)) t \<Longrightarrow> token_pending s t"
  by (auto simp: consume_matching_def token_pending_def hm_contains_def Let_def hm.get_remove
      prune_expired_except_get split: option.splits if_splits)

lemma consume_Ok_pending:
  assumes "token_store_wf s" "consume_matching e p now s = (Ok u, s')"
  shows "e = p \<and> \<not> token_pending s' e \<and>
    (\<exists>q. hm_get (hts_pending s) e = Some q \<and> now < pht_expires_at q)"
  using assms
  by (auto simp: consume_matching_def token_pending_def hm_contains_def Let_def hm.get_remove
      prune_expired_except_get split: option.splits if_splits)

lemma issue_adds_pending:
  assumes "token_store_wf s" "issue_with_random128 now rnd s = (r, s')" "token_pending s' t"
  shows "token_pending s t \<or> r = Ok t"
proof (cases r)
  case (Inl e)
  then have "s' = snd (prune_expired now s)" using assms(2) issue_Err by blast
  then show ?thesis using prune_shrinks [OF assms(1)] assms(3) by (simp add: prune_expired_def)
next
  case (Inr u)
  then have "token_pending (snd (prune_expired now s)) t \<or> t = u"
    using issue_Ok [OF assms(1), of now rnd u s' t] assms(2,3)
    by (auto simp: token_pending_def hm_contains_def split: if_splits)
  then show ?thesis using prune_shrinks [OF assms(1)] Inr by (auto simp: prune_expired_def)
qed

interpretation hts: token_revocation token_pending "\<lambda>t s. snd (revoke t s)"
  by unfold_locales (simp_all add: token_pending_def hm_contains_def revoke_def hm.get_remove)

interpretation hts: one_time_store token_pending "\<lambda>t s. snd (revoke t s)" token_store_wf
  store_issue store_consume
proof
  fix s e p and n :: instant and s' t
  assume wf: "token_store_wf s"
  show "store_consume e p n s = (True, s') \<Longrightarrow> e = p \<and> token_pending s e \<and> \<not> token_pending s' e"
    using consume_Ok_pending [OF wf, of e p n _ s']
    by (auto simp: store_consume_def token_pending_def hm_contains_def split: prod.splits elim!: is_ok.elims)
  show "token_pending (snd (store_consume e p n s)) t \<Longrightarrow> token_pending s t"
    using consume_shrinks_pending [OF wf, of e p n t] by (simp add: store_consume_def split: prod.splits)
  fix i r
  assume "store_issue i s = (r, s')" "token_pending s' t"
  then show "token_pending s t \<or> r = Some t"
    using issue_adds_pending [OF wf, of "fst i" "snd i" _ s' t]
    by (auto simp: store_issue_def split: prod.splits sum.splits)
qed

section \<open>Runs: lemmas\<close>

lemma issue_loop_config: "hts_config (snd (issue_loop now rnd k n s)) = hts_config s"
  by (induction now rnd k n s rule: issue_loop.induct) (auto split: sum.splits)

lemma issue_config: "hts_config (snd (issue_with_random128 now rnd s)) = hts_config s"
  by (simp add: issue_with_random128_def issue_loop_config prune_expired_def Let_def)

lemma token_step_balance:
  assumes "token_store_wf s" "token_step x s = (e, s')"
  shows "(if token_pending s' t then 1 else 0) + (if e = TokenConsumed t then 1 else 0)
      \<le> (if token_pending s t then 1 else 0) + (if e = TokenIssued t then 1 else (0 :: nat)) \<and>
    token_store_wf s' \<and> hts_config s' = hts_config s"
proof (cases x)
  case (TokIssue now rnd)
  obtain r where r: "issue_with_random128 now rnd s = (r, s')"
    and e: "e = (case r of Ok t \<Rightarrow> TokenIssued t | Err _ \<Rightarrow> NoTokenEvent)"
    using assms(2) TokIssue by (auto split: prod.splits sum.splits)
  have "hts_config s' = hts_config s"
    using issue_config [of now rnd s] r by simp
  moreover have "token_store_wf s'" using token_store_wf_issue [OF assms(1), of now rnd] r by simp
  ultimately show ?thesis
    using issue_adds_pending [OF assms(1) r, of t] e by (auto split: sum.splits)
next
  case (TokConsume a b now)
  obtain r where r: "consume_matching a b now s = (r, s')"
    and e: "e = (case r of Ok _ \<Rightarrow> TokenConsumed a | Err _ \<Rightarrow> NoTokenEvent)"
    using assms(2) TokConsume by (auto split: prod.splits sum.splits)
  have "hts_config s' = hts_config s"
    using r by (auto simp: consume_matching_def Let_def split: option.splits if_splits)
  moreover have "token_store_wf s'" using token_store_wf_consume [OF assms(1), of a b now] r by simp
  moreover have "(if token_pending s' t then 1 else 0) + (if is_ok r \<and> t = a then 1 else 0)
      \<le> (if token_pending s t then 1 else (0 :: nat))"
    by (rule hts.consume_balance [OF assms(1), of a b now]) (simp add: store_consume_def r)
  ultimately show ?thesis using e by (auto split: sum.splits if_splits)
next
  case (TokRevoke a)
  then show ?thesis
    using assms hts.revoke_shrinks [of a s t] by (auto simp: revoke_def token_store_wf_remove)
next
  case (TokPrune now)
  then show ?thesis
    using assms prune_shrinks [OF assms(1), of now None t] token_store_wf_prune [OF assms(1), of now None]
    by (auto simp: prune_expired_def)
qed

lemma token_run_balance:
  assumes "token_store_wf s" "token_run xs s = (es, s')"
  shows "(if token_pending s' t then 1 else 0) + count_list es (TokenConsumed t)
      \<le> (if token_pending s t then 1 else 0) + count_list es (TokenIssued t) \<and>
    token_store_wf s' \<and> hts_config s' = hts_config s"
  using assms
proof (induction xs arbitrary: s es)
  case (Cons x xs)
  obtain e s1 where step: "token_step x s = (e, s1)" by fastforce
  obtain es1 where run: "token_run xs s1 = (es1, s')" and es: "es = e # es1"
    using Cons.prems(2) step by (auto split: prod.splits)
  note b = token_step_balance [OF Cons.prems(1) step, of t]
  then show ?case using Cons.IH [OF _ run] es by (auto split: if_splits)
qed simp

lemma expire_loop_result:
  assumes "expire_loop ts r tokens = (ex, r', tokens')" "distinct ts"
    and "\<forall>t \<in> set ts. hm_get (har_pending r) t \<noteq> None"
  shows "map eh_token ex = ts \<and>
    (\<forall>t. hm_get (har_pending r') t = (if t \<in> set ts then None else hm_get (har_pending r) t)) \<and>
    tokens' = fold (\<lambda>t s. snd (revoke t s)) ts tokens"
  using assms
proof (induction ts r tokens arbitrary: ex rule: expire_loop.induct)
  case (2 t ts r tokens)
  then obtain entry where e: "hm_get (har_pending r) t = Some entry" by auto
  let ?r = "r\<lparr> har_pending := hm_remove t (har_pending r) \<rparr>"
  obtain ex1 where run: "expire_loop ts ?r (snd (revoke t tokens)) = (ex1, r', tokens')"
    and ex: "map eh_token ex = t # map eh_token ex1"
    using "2.prems"(1) e by (auto split: prod.splits)
  have "map eh_token ex1 = ts \<and>
    (\<forall>u. hm_get (har_pending r') u = (if u \<in> set ts then None else hm_get (har_pending ?r) u)) \<and>
    tokens' = fold (\<lambda>t s. snd (revoke t s)) ts (snd (revoke t tokens))"
  proof (rule "2.IH"(2) [OF e run])
    show "distinct ts" using "2.prems"(2) by simp
    show "\<forall>u \<in> set ts. hm_get (har_pending ?r) u \<noteq> None"
      using "2.prems"(2,3) by (auto simp: hm.get_remove)
  qed
  then show ?case using ex by (auto simp: hm.get_remove)
qed simp

lemma queue_expire_subseq:
  "subseq (pq_queue (snd (pending_expire now q))) (pq_queue q)"
  by (simp add: pending_expire_def Let_def)

lemma queue_expire_config [simp]: "pq_config (snd (pending_expire now q)) = pq_config q"
  by (simp add: pending_expire_def Let_def)

lemma queue_expire_len: "length (pq_queue (snd (pending_expire now q))) \<le> length (pq_queue q)"
  by (simp add: pending_expire_def Let_def)

lemma queue_run_result:
  assumes "queue_run ops q = (ins, outs, q')"
  shows "subseq (outs @ map phe_handoff (pq_queue q')) (map phe_handoff (pq_queue q) @ ins) \<and>
    (length (pq_queue q) \<le> phq_max_pending_handoffs (pq_config q) \<longrightarrow>
      length (pq_queue q') \<le> phq_max_pending_handoffs (pq_config q'))"
  using assms
proof (induction ops q arbitrary: ins outs rule: queue_run.induct)
  case (2 x now ops q)
  let ?q = "snd (pending_expire now q)"
  have sub: "subseq (map phe_handoff (pq_queue ?q)) (map phe_handoff (pq_queue q))"
    by (intro subseq_map queue_expire_subseq)
  obtain r q1 where en: "pending_enqueue x now q = (r, q1)" by fastforce
  show ?case
  proof (cases r)
    case (Inl e)
    then have q1: "q1 = ?q" using en by (auto simp: pending_enqueue_def Let_def split: if_splits)
    have run: "queue_run ops q1 = (ins, outs, q')" using "2.prems" en Inl by simp
    show ?thesis
      using "2.IH"(1) [OF en [symmetric] Inl run] sub queue_expire_len [of now q]
      by (auto simp: q1 intro: subseq_order.trans list_emb_append_mono)
  next
    case (Inr u)
    then have q1: "map phe_handoff (pq_queue q1) = map phe_handoff (pq_queue ?q) @ [x]"
      "pq_config q1 = pq_config q" "length (pq_queue q1) \<le> phq_max_pending_handoffs (pq_config q)"
      using en by (auto simp: pending_enqueue_def Let_def split: if_splits)
    obtain ins1 where run: "queue_run ops q1 = (ins1, outs, q')" and ins: "ins = x # ins1"
      using "2.prems" en Inr by (auto split: prod.splits)
    have "subseq (outs @ map phe_handoff (pq_queue q')) (map phe_handoff (pq_queue ?q) @ x # ins1)"
      using "2.IH"(2) [OF en [symmetric] Inr run] q1(1) by simp
    moreover have "subseq (map phe_handoff (pq_queue ?q) @ x # ins1)
        (map phe_handoff (pq_queue q) @ x # ins1)"
      using sub by (intro list_emb_append_mono) auto
    ultimately show ?thesis
      using "2.IH"(2) [OF en [symmetric] Inr run] q1 ins by (auto intro: subseq_order.trans)
  qed
next
  case (3 now ops q)
  let ?q = "snd (pending_expire now q)"
  have sub: "subseq (map phe_handoff (pq_queue ?q)) (map phe_handoff (pq_queue q))"
    by (intro subseq_map queue_expire_subseq)
  show ?case
  proof (cases "pq_queue ?q")
    case Nil
    then have d: "pending_dequeue now q = (None, ?q)" by (simp add: pending_dequeue_def Let_def)
    have run: "queue_run ops ?q = (ins, outs, q')" using "3.prems" d by simp
    show ?thesis
      using "3.IH"(1) [OF d [symmetric] refl run] sub Nil queue_expire_len [of now q]
      by (auto intro: subseq_order.trans list_emb_append_mono)
  next
    case (Cons entry rest)
    let ?q1 = "?q\<lparr> pq_queue := rest \<rparr>"
    have d: "pending_dequeue now q = (Some (phe_handoff entry), ?q1)"
      using Cons by (simp add: pending_dequeue_def Let_def)
    obtain outs1 where run: "queue_run ops ?q1 = (ins, outs1, q')" and outs: "outs = phe_handoff entry # outs1"
      using "3.prems" d by (auto split: prod.splits)
    have "subseq (outs @ map phe_handoff (pq_queue q')) (map phe_handoff (pq_queue ?q) @ ins)"
      using "3.IH"(2) [OF d [symmetric] refl run] Cons outs by simp
    then have "subseq (outs @ map phe_handoff (pq_queue q')) (map phe_handoff (pq_queue q) @ ins)"
      using sub by (auto intro: subseq_order.trans list_emb_append_mono)
    then show ?thesis
      using "3.IH"(2) [OF d [symmetric] refl run] queue_expire_len [of now q] Cons by auto
  qed
next
  case (4 now ops q)
  let ?q = "snd (pending_expire now q)"
  have sub: "subseq (map phe_handoff (pq_queue ?q)) (map phe_handoff (pq_queue q))"
    by (intro subseq_map queue_expire_subseq)
  have run: "queue_run ops ?q = (ins, outs, q')" using "4.prems" by simp
  show ?case
    using "4.IH" [OF run] sub queue_expire_len [of now q]
    by (auto intro: subseq_order.trans list_emb_append_mono)
qed auto

lemma expire_overdue_result:
  assumes "hm_ok (har_pending r)" and "expire_overdue now r tokens = (expired, r', tokens')"
  shows "distinct (map eh_token expired) \<and>
    (\<forall>t. t \<in> set (map eh_token expired) \<longleftrightarrow>
       (\<exists>e. hm_get (har_pending r) t = Some e \<and> pae_ack_deadline_at e \<le> now)) \<and>
    (\<forall>t. hm_get (har_pending r') t = (case hm_get (har_pending r) t of
       Some e \<Rightarrow> if pae_ack_deadline_at e \<le> now then None else Some e | None \<Rightarrow> None)) \<and>
    (\<forall>t. token_pending tokens' t \<longleftrightarrow> token_pending tokens t \<and> t \<notin> set (map eh_token expired))"
proof -
  let ?ts = "map fst (filter (\<lambda>(_, entry). now \<ge> pae_ack_deadline_at entry) (har_pending r))"
  have mem: "t \<in> set ?ts \<longleftrightarrow> (\<exists>e. hm_get (har_pending r) t = Some e \<and> pae_ack_deadline_at e \<le> now)" for t
    by (force simp: hm_get_iff [OF assms(1)])
  have dist: "distinct ?ts"
    using assms(1) by (simp add: hm_ok_def distinct_map_filter)
  have "\<forall>t \<in> set ?ts. hm_get (har_pending r) t \<noteq> None"
    unfolding Ball_def mem by auto
  note res = expire_loop_result [OF assms(2) [unfolded expire_overdue_def] dist this]
  then have ex: "map eh_token expired = ?ts" by blast
  have "token_pending tokens' t \<longleftrightarrow> token_pending tokens t \<and> t \<notin> set ?ts" for t
    using res hts.fold_revoke_iff by simp
  then show ?thesis
    unfolding ex using dist mem res by (auto split: option.splits)
qed

section \<open>Properties\<close>

text \<open>C1: a handoff token is used at most once. Over any sequence of issues, consumptions (with any
  presented tokens, at any times), revocations and prunings, the number of times a token is
  consumed never exceeds the number of times it was issued (counting one if it was pending at the
  start), and it is one less while the token is still pending. The store never holds more than its
  configured number of tokens.\<close>

theorem handoff_token_at_most_once:
  assumes "token_store_wf s" and "token_run ops s = (events, s')"
  shows "count_list events (TokenConsumed t) + (if token_pending s' t then 1 else 0)
      \<le> count_list events (TokenIssued t) + (if token_pending s t then 1 else 0) \<and>
    token_pending_len s' \<le> htc_max_pending_tokens (hts_config s)"
  using token_run_balance [OF assms, of t]
  by (auto simp: token_store_wf_def token_pending_len_def)

theorem handoff_token_at_most_once_witness:
  "let s = \<lparr> hts_config = handoff_token_store_config_new 4 100,
             hts_pending = [([1], \<lparr> pht_expires_at = 9 \<rparr>)] \<rparr>
   in fst (token_run [TokConsume [1] [2] 5, TokConsume [1] [1] 6, TokConsume [1] [1] 7] s) =
        [NoTokenEvent, TokenConsumed [1], NoTokenEvent] \<and>
      count_list (fst (token_run [TokConsume [1] [2] 5, TokConsume [1] [1] 6, TokConsume [1] [1] 7] s))
        (TokenConsumed [1]) \<le> 1"
proof -
  let ?s = "\<lparr> hts_config = handoff_token_store_config_new 4 100,
      hts_pending = [([1], \<lparr> pht_expires_at = 9 \<rparr>)] \<rparr>"
  let ?ops = "[TokConsume [1] [2] 5, TokConsume [1] [1] 6, TokConsume [1] [1] 7]"
  have wf: "token_store_wf ?s"
    by (simp add: token_store_wf_def hm_ok_def hm_len_def handoff_token_store_config_new_def)
  have run: "fst (token_run ?ops ?s) = [NoTokenEvent, TokenConsumed [1], NoTokenEvent]"
    by (simp add: consume_matching_def prune_expired_except_def hm_get_def hm_retain_def hm_remove_def)
  have "token_pending ?s [1]" by (simp add: token_pending_def hm_contains_def hm_get_def)
  then show ?thesis
    using handoff_token_at_most_once [OF wf, of ?ops "fst (token_run ?ops ?s)"
        "snd (token_run ?ops ?s)" "[1]"] run
    unfolding Let_def by simp
qed

text \<open>What presenting a token does, on every branch. The answer depends only on whether the expected
  token is pending, unexpired and equal to the presented one, checked in this order; a mismatch
  leaves the expected token pending, a success or an expiry removes it, and no other unexpired token
  is touched.\<close>

lemma consume_matching_exact:
  assumes "token_store_wf s" and "consume_matching expected presented now s = (r, s')"
  shows "r = (case hm_get (hts_pending s) expected of
        None \<Rightarrow> Err TokenNotPending
      | Some p \<Rightarrow> if now \<ge> pht_expires_at p then Err TokenExpired
                  else if expected \<noteq> presented then Err TokenMismatch else Ok ()) \<and>
    hm_get (hts_pending s') expected =
      (if r = Err TokenMismatch then hm_get (hts_pending s) expected else None) \<and>
    (\<forall>t p. t \<noteq> expected \<and> hm_get (hts_pending s) t = Some p \<and> now < pht_expires_at p \<longrightarrow>
       hm_get (hts_pending s') t = Some p)"
  using assms
  by (auto simp: consume_matching_def Let_def hm.get_remove prune_expired_except_get
      split: option.splits if_splits)

text \<open>A pending handoff leaves the acknowledgement registry exactly once. An acknowledgement
  succeeds only for a registered token before its deadline; whether it succeeds or comes too late,
  the entry is gone, the one-time token can no longer be presented, every other entry and token is
  untouched, and any later acknowledgement of the token is refused.\<close>

lemma acknowledge_exactly_once:
  assumes "acknowledge token now r tokens = (res, r', tokens')"
  shows "(is_ok res \<longleftrightarrow> (\<exists>e. hm_get (har_pending r) token = Some e \<and> now < pae_ack_deadline_at e)) \<and>
    (\<forall>t. hm_get (har_pending r') t = (if t = token then None else hm_get (har_pending r) t)) \<and>
    (\<forall>t. token_pending tokens' t \<longleftrightarrow>
       token_pending tokens t \<and> \<not> (t = token \<and> hm_get (har_pending r) token \<noteq> None)) \<and>
    fst (acknowledge token later r' tokens'') = Err AckTokenNotPending"
proof (cases "hm_get (har_pending r) token")
  case None
  then show ?thesis using assms by (auto simp: acknowledge_def)
next
  case (Some e)
  have p: "token_pending (snd (revoke token tokens)) t \<longleftrightarrow> token_pending tokens t \<and> t \<noteq> token" for t
    using hts.fold_revoke_iff [of "[token]" tokens t] by simp
  have "r' = r\<lparr> har_pending := hm_remove token (har_pending r) \<rparr> \<and> tokens' = snd (revoke token tokens) \<and>
      (is_ok res \<longleftrightarrow> now < pae_ack_deadline_at e)"
    using assms Some by (auto simp: acknowledge_def Let_def split: if_splits)
  then show ?thesis
    using p Some by (auto simp: acknowledge_def hm.get_remove)
qed

text \<open>The deadline sweep takes exactly the overdue handoffs. It reports each overdue token once,
  removes exactly those entries, and afterwards exactly the reported tokens can no longer be
  presented.\<close>

lemma expire_overdue_exact:
  assumes "hm_ok (har_pending r)" and "expire_overdue now r tokens = (expired, r', tokens')"
  shows "distinct (map eh_token expired) \<and>
    (\<forall>t. t \<in> set (map eh_token expired) \<longleftrightarrow>
       (\<exists>e. hm_get (har_pending r) t = Some e \<and> pae_ack_deadline_at e \<le> now)) \<and>
    (\<forall>t. hm_get (har_pending r') t = (case hm_get (har_pending r) t of
       Some e \<Rightarrow> if pae_ack_deadline_at e \<le> now then None else Some e | None \<Rightarrow> None)) \<and>
    (\<forall>t. token_pending tokens' t \<longleftrightarrow> token_pending tokens t \<and> t \<notin> set (map eh_token expired))"
  using expire_overdue_result [OF assms] .

text \<open>A backend adopts a handed-off connection exactly when the presented bytes are the 16-byte
  expected token and that token is pending and unexpired; an adopted token is gone, so no second
  payload for it is accepted, and a payload with malformed token bytes leaves the store unchanged.\<close>

lemma accept_handed_off_once:
  fixes payload :: "'c handed_off_payload"
  assumes "token_store_wf s" and "accept_handed_off payload now s = (a, s')"
  shows "(is_accepted a \<longleftrightarrow> length (hop_presented_token payload) = 16 \<and>
      hop_presented_token payload = hop_expected_token payload \<and>
      (\<exists>p. hm_get (hts_pending s) (hop_expected_token payload) = Some p \<and> now < pht_expires_at p)) \<and>
    (is_accepted a \<longrightarrow> (\<forall>(payload' :: 'c handed_off_payload) later. hop_expected_token payload' = hop_expected_token payload \<longrightarrow>
      \<not> is_accepted (fst (accept_handed_off payload' later s')))) \<and>
    (length (hop_presented_token payload) \<noteq> 16 \<longrightarrow> s' = s)"
proof -
  have acc: "is_accepted (fst (accept_handed_off p n st)) \<longleftrightarrow>
      length (hop_presented_token p) = 16 \<and> hop_presented_token p = hop_expected_token p \<and>
      (\<exists>q. hm_get (hts_pending st) (hop_expected_token p) = Some q \<and> n < pht_expires_at q)"
    if "token_store_wf st" for p :: "'c handed_off_payload" and n st
    using that
    by (auto simp: accept_handed_off_def parse_handoff_token_def HANDOFF_TOKEN_BYTES_def
        consume_matching_def prune_expired_except_get Let_def split: option.splits)
  have gone: "hm_get (hts_pending s') (hop_expected_token payload) = None" if "is_accepted a"
    using that assms consume_Ok_pending [OF assms(1), of "hop_expected_token payload" _ now _ s']
    by (auto simp: accept_handed_off_def token_pending_def hm_contains_def
        split: sum.splits prod.splits)
  have "s' = s \<or> s' = snd (consume_matching (hop_expected_token payload) (hop_presented_token payload) now s)"
    using assms(2)
    by (auto simp: accept_handed_off_def parse_handoff_token_def split: sum.splits prod.splits if_splits)
  then have wf': "token_store_wf s'" using assms(1) token_store_wf_consume by metis
  moreover have "s' = s" if "length (hop_presented_token payload) \<noteq> 16"
    using that assms(2)
    by (auto simp: accept_handed_off_def parse_handoff_token_def HANDOFF_TOKEN_BYTES_def split: if_splits)
  ultimately show ?thesis
    using acc [OF assms(1), of payload now] acc [OF wf'] gone assms(2) by auto
qed

text \<open>The backlog of parked handoffs is first-in first-out and bounded. Over any sequence of
  operations, what comes out, followed by what is still queued, is what was queued at the start
  followed by what was accepted, in the same order, with only expired entries left out; and a queue
  within its bound stays within it.\<close>

lemma pending_queue_fifo_bounded:
  assumes "queue_run ops q = (accepted, dequeued, q')"
    and "length (pq_queue q) \<le> phq_max_pending_handoffs (pq_config q)"
  shows "subseq (dequeued @ map phe_handoff (pq_queue q')) (map phe_handoff (pq_queue q) @ accepted) \<and>
    length (pq_queue q') \<le> phq_max_pending_handoffs (pq_config q')"
  using queue_run_result [OF assms(1)] assms(2) by blast

end
