(* ===== verification/Session_Tokens.thy ===== *)
theory Session_Tokens
  imports Broker_Prelude
begin

text \<open>
  Composite session tokens (\<open>server/session_token.rs\<close>): a broker half and one half per daemon, with
  rotation invalidating every session and daemon invalidation only its own. Minting draws 16 bytes
  from the operating system: each minting operation takes the outcome of that draw as an argument.
\<close>

definition SESSION_TOKEN_HALF_BYTES :: nat where
  "SESSION_TOKEN_HALF_BYTES = 16"

definition SESSION_TOKEN_TOTAL_BYTES :: nat where
  "SESSION_TOKEN_TOTAL_BYTES = SESSION_TOKEN_HALF_BYTES * 2"

type_synonym token_half = bytes
type_synonym daemon_id = string

datatype session_token_error = SessionTokenRandom string

datatype session_token_rejection =
    MalformedLength
  | BrokerHalfMismatch
  | DaemonUnknown
  | DaemonHalfMismatch

text \<open>The outcome of filling a 16-byte buffer from the operating system's random source.\<close>

type_synonym random_draw = "(string, bytes) result"

definition token_half_generate :: "random_draw \<Rightarrow> (session_token_error, token_half) result" where
  "token_half_generate draw = map_err SessionTokenRandom draw"

record session_token_authority =
  sta_broker_token :: token_half
  sta_daemon_tokens :: "(daemon_id, token_half) hash_map"

definition authority_with_broker_token :: "token_half \<Rightarrow> session_token_authority" where
  "authority_with_broker_token broker_token =
    \<lparr> sta_broker_token = broker_token, sta_daemon_tokens = hm_empty \<rparr>"

definition authority_new :: "random_draw \<Rightarrow> (session_token_error, session_token_authority) result" where
  "authority_new draw =
    result_bind (token_half_generate draw)
      (\<lambda>t. Ok \<lparr> sta_broker_token = t, sta_daemon_tokens = hm_empty \<rparr>)"

definition rotate_broker_token ::
  "random_draw \<Rightarrow> session_token_authority \<Rightarrow>
   (session_token_error, token_half) result \<times> session_token_authority" where
  "rotate_broker_token draw a =
    (case token_half_generate draw of
       Err e \<Rightarrow> (Err e, a)
     | Ok fresh \<Rightarrow> (Ok fresh, a\<lparr> sta_broker_token := fresh \<rparr>))"

definition register_daemon ::
  "random_draw \<Rightarrow> daemon_id \<Rightarrow> session_token_authority \<Rightarrow>
   (session_token_error, token_half) result \<times> session_token_authority" where
  "register_daemon draw d a =
    (case token_half_generate draw of
       Err e \<Rightarrow> (Err e, a)
     | Ok token \<Rightarrow>
         (Ok token, a\<lparr> sta_daemon_tokens := hm_insert d token (sta_daemon_tokens a) \<rparr>))"

definition invalidate_daemon ::
  "daemon_id \<Rightarrow> session_token_authority \<Rightarrow> bool \<times> session_token_authority" where
  "invalidate_daemon d a =
    (hm_get (sta_daemon_tokens a) d \<noteq> None,
     a\<lparr> sta_daemon_tokens := hm_remove d (sta_daemon_tokens a) \<rparr>)"

definition daemon_count :: "session_token_authority \<Rightarrow> nat" where
  "daemon_count a = hm_len (sta_daemon_tokens a)"

definition compose_presented_token :: "token_half \<Rightarrow> token_half \<Rightarrow> bytes" where
  "compose_presented_token broker_half daemon_half = broker_half @ daemon_half"

definition composed_token_for :: "session_token_authority \<Rightarrow> daemon_id \<Rightarrow> bytes option" where
  "composed_token_for a d =
    (case hm_get (sta_daemon_tokens a) d of
       None \<Rightarrow> None
     | Some daemon_half \<Rightarrow> Some (compose_presented_token (sta_broker_token a) daemon_half))"

definition validate ::
  "session_token_authority \<Rightarrow> bytes \<Rightarrow> daemon_id \<Rightarrow> (session_token_rejection, unit) result" where
  "validate a presented d =
    (if length presented \<noteq> SESSION_TOKEN_TOTAL_BYTES then Err MalformedLength
     else
       let broker_half = take SESSION_TOKEN_HALF_BYTES presented;
           daemon_half = drop SESSION_TOKEN_HALF_BYTES presented
       in if broker_half \<noteq> sta_broker_token a then Err BrokerHalfMismatch
          else
            (case hm_get (sta_daemon_tokens a) d of
               None \<Rightarrow> Err DaemonUnknown
             | Some expected_daemon_token \<Rightarrow>
                 if daemon_half \<noteq> expected_daemon_token then Err DaemonHalfMismatch else Ok ()))"

text \<open>Every half is 16 bytes, as the array type says.\<close>

definition authority_wf :: "session_token_authority \<Rightarrow> bool" where
  "authority_wf a = (hm_ok (sta_daemon_tokens a) \<and>
    length (sta_broker_token a) = SESSION_TOKEN_HALF_BYTES \<and>
    (\<forall>d t. hm_get (sta_daemon_tokens a) d = Some t \<longrightarrow> length t = SESSION_TOKEN_HALF_BYTES))"

definition draw_wf :: "random_draw \<Rightarrow> bool" where
  "draw_wf draw = (case draw of Err _ \<Rightarrow> True | Ok b \<Rightarrow> length b = SESSION_TOKEN_HALF_BYTES)"

section \<open>Lemmas\<close>

lemma authority_wf_with [wf_intros]:
  "length t = SESSION_TOKEN_HALF_BYTES \<Longrightarrow> authority_wf (authority_with_broker_token t)"
  by (simp add: authority_wf_def authority_with_broker_token_def hm_simps)

lemma authority_wf_rotate [wf_intros]:
  "authority_wf a \<Longrightarrow> draw_wf draw \<Longrightarrow> authority_wf (snd (rotate_broker_token draw a))"
  by (cases draw) (auto simp: authority_wf_def rotate_broker_token_def token_half_generate_def draw_wf_def)

lemma authority_wf_register [wf_intros]:
  "authority_wf a \<Longrightarrow> draw_wf draw \<Longrightarrow> authority_wf (snd (register_daemon draw d a))"
  by (cases draw)
    (auto simp: authority_wf_def register_daemon_def token_half_generate_def draw_wf_def hm_simps)

lemma authority_wf_invalidate [wf_intros]:
  "authority_wf a \<Longrightarrow> authority_wf (snd (invalidate_daemon d a))"
  by (auto simp: authority_wf_def invalidate_daemon_def hm_simps)

lemma validate_Ok_iff:
  assumes "authority_wf a"
  shows "validate a presented d = Ok () \<longleftrightarrow> composed_token_for a d = Some presented"
proof -
  have b: "length (sta_broker_token a) = 16" using assms by (simp add: authority_wf_def SESSION_TOKEN_HALF_BYTES_def)
  have d: "length t = 16" if "hm_get (sta_daemon_tokens a) d = Some t" for t
    using assms that by (auto simp: authority_wf_def SESSION_TOKEN_HALF_BYTES_def)
  show ?thesis
  proof
    assume "validate a presented d = Ok ()"
    then show "composed_token_for a d = Some presented"
      by (auto simp: validate_def composed_token_for_def compose_presented_token_def Let_def
          SESSION_TOKEN_HALF_BYTES_def split: if_splits option.splits)
         (metis append_take_drop_id)
  next
    assume "composed_token_for a d = Some presented"
    then obtain t where "hm_get (sta_daemon_tokens a) d = Some t" "presented = sta_broker_token a @ t"
      by (auto simp: composed_token_for_def compose_presented_token_def split: option.splits)
    then show "validate a presented d = Ok ()"
      using b d by (auto simp: validate_def Let_def SESSION_TOKEN_HALF_BYTES_def SESSION_TOKEN_TOTAL_BYTES_def)
  qed
qed

section \<open>Properties\<close>

text \<open>C31: a presented session token is accepted for a daemon exactly when it is the composite token
  the authority would hand out for that daemon now. The authority's halves are 16 bytes long, which
  every operation keeps.\<close>

theorem session_token_accepted_iff_current:
  assumes "authority_wf a"
  shows "is_ok (validate a presented d) \<longleftrightarrow> composed_token_for a d = Some presented"
proof -
  have "is_ok (validate a presented d) \<longleftrightarrow> validate a presented d = Ok ()"
    by (cases "validate a presented d") auto
  then show ?thesis by (simp add: validate_Ok_iff [OF assms])
qed

theorem session_token_accepted_iff_current_witness:
  "let a = snd (register_daemon (Ok (replicate 16 2)) ''zccache''
             (authority_with_broker_token (replicate 16 1)))
   in is_ok (validate a (replicate 16 1 @ replicate 16 2) ''zccache'') \<and>
      \<not> is_ok (validate a (replicate 16 1 @ replicate 16 2) ''fbuild'')"
proof -
  let ?a = "snd (register_daemon (Ok (replicate 16 2)) ''zccache''
      (authority_with_broker_token (replicate 16 1)))"
  have wf: "authority_wf ?a"
    by (intro wf_intros) (simp_all add: SESSION_TOKEN_HALF_BYTES_def draw_wf_def)
  have "composed_token_for ?a ''zccache'' = Some (replicate 16 1 @ replicate 16 2)"
    "composed_token_for ?a ''fbuild'' = None" by code_simp+
  then show ?thesis
    using session_token_accepted_iff_current [OF wf] unfolding Let_def by simp
qed

text \<open>Rotation invalidates every session at once. After the broker half is rotated to a value
  different from the old one, every token that was valid for any daemon is rejected as a broker
  mismatch, whichever daemon it is presented for; a failed rotation changes nothing.\<close>

lemma rotation_invalidates_all:
  assumes "authority_wf a" and "rotate_broker_token draw a = (r, a')"
  shows "(case r of
      Err _ \<Rightarrow> a' = a
    | Ok fresh \<Rightarrow> fresh \<noteq> sta_broker_token a \<longrightarrow>
        (\<forall>d d' presented. is_ok (validate a presented d) \<longrightarrow>
           validate a' presented d' = Err BrokerHalfMismatch))"
proof (cases r)
  case (Inl e)
  then show ?thesis using assms(2) by (auto simp: rotate_broker_token_def split: sum.splits)
next
  case (Inr fresh)
  have a': "a' = a\<lparr> sta_broker_token := fresh \<rparr>"
    using assms(2) Inr by (auto simp: rotate_broker_token_def split: sum.splits)
  have "validate a' presented d' = Err BrokerHalfMismatch"
    if "fresh \<noteq> sta_broker_token a" "is_ok (validate a presented d)" for d d' presented
    using that a' by (auto simp: validate_def Let_def split: if_splits)
  then show ?thesis using Inr by auto
qed

text \<open>Invalidating one daemon only affects its own sessions. After \<open>invalidate_daemon\<close>, a token
  that was valid for that daemon is rejected because the daemon is unknown, and every token is
  judged for every other daemon as before; registering the daemon again makes its old token a
  mismatch unless the same half was drawn.\<close>

lemma invalidation_is_per_daemon:
  assumes "authority_wf a" and "is_ok (validate a presented d)"
  shows "validate (snd (invalidate_daemon d a)) presented d = Err DaemonUnknown \<and>
    (\<forall>d' other. d' \<noteq> d \<longrightarrow> validate (snd (invalidate_daemon d a)) other d' = validate a other d') \<and>
    (\<forall>half. half \<noteq> drop SESSION_TOKEN_HALF_BYTES presented \<longrightarrow>
       validate (snd (register_daemon (Ok half) d a)) presented d = Err DaemonHalfMismatch)"
  using assms(2)
  by (auto simp: validate_def invalidate_daemon_def register_daemon_def token_half_generate_def
      hm_simps Let_def split: if_splits option.splits)

end
