(* ===== verification/Hello_Handler.thy ===== *)
theory Hello_Handler
  imports Handoff_Tokens Session_Tokens
begin

text \<open>
  The Hello exchange: the messages of \<open>proto/broker_v1/broker_v1_envelope.proto\<close>, the decoding of a
  Hello frame, the per-peer rate limiter and the negotiation of \<open>server/hello_handler.rs\<close>, with the
  capability bits of \<open>capabilities.rs\<close> and the trace context of \<open>server/trace_context.rs\<close>. The prost
  decoder of the Hello message, the clock readings and the random source are arguments. The rate
  limiter is an interpretation of \<open>fixed_window\<close>.
\<close>

section \<open>Messages\<close>

record hello =
  he_client_min_protocol :: u32
  he_client_max_protocol :: u32
  he_service_name :: string
  he_wanted_version :: string
  he_client_version :: string
  he_client_capabilities :: u64
  he_auth_token :: bytes
  he_request_id :: string
  he_connection_id :: u64
  he_peer_pid :: u32
  he_client_lib_name :: string
  he_client_lib_version :: string
  he_peer_attestation_nonce :: bytes
  he_capability_token :: bytes
  he_client_keepalive_secs :: u64

record negotiated =
  ng_negotiated_protocol :: u32
  ng_daemon_version :: string
  ng_backend_pipe :: string
  ng_warnings :: "string list"
  ng_server_capabilities :: u64
  ng_keepalive_interval_secs :: u64
  ng_handle_passed_token :: bytes
  ng_connection_id :: u64

record refused =
  rf_reason :: string
  rf_daemon_min_protocol :: u32
  rf_daemon_max_protocol :: u32
  rf_code :: int
  rf_details :: "(string \<times> string) list"
  rf_retry_after_ms :: u64

datatype hello_reply_result = Negotiated negotiated | Refused refused

type_synonym hello_reply = "hello_reply_result option"

datatype error_code = ErrorCodeUnspecified | ErrorVersionUnsupported | ErrorServiceUnknown
  | ErrorBackendSpawnFailed | ErrorRateLimited | ErrorShuttingDown | ErrorPeerRejected
  | ErrorInternal | ErrorVersionBlocked | ErrorFdPressure

fun error_code_i32 :: "error_code \<Rightarrow> int" where
  "error_code_i32 ErrorCodeUnspecified = 0"
| "error_code_i32 ErrorVersionUnsupported = 1"
| "error_code_i32 ErrorServiceUnknown = 2"
| "error_code_i32 ErrorBackendSpawnFailed = 3"
| "error_code_i32 ErrorRateLimited = 4"
| "error_code_i32 ErrorShuttingDown = 5"
| "error_code_i32 ErrorPeerRejected = 6"
| "error_code_i32 ErrorInternal = 7"
| "error_code_i32 ErrorVersionBlocked = 8"
| "error_code_i32 ErrorFdPressure = 9"

definition CAP_HANDLE_PASSING :: u64 where
  "CAP_HANDLE_PASSING = push_bit 0 1"

fun handoff_transport_available :: "platform \<Rightarrow> bool" where
  "handoff_transport_available Windows = True"
| "handoff_transport_available Macos = True"
| "handoff_transport_available Linux = True"

record trace_context =
  tc_request_id :: u64
  tc_traceparent :: string
  tc_tracestate :: string

definition trace_context_from_frame :: "frame \<Rightarrow> trace_context" where
  "trace_context_from_frame f =
    \<lparr> tc_request_id = fr_request_id f, tc_traceparent = fr_traceparent f,
      tc_tracestate = fr_tracestate f \<rparr>"

definition backend_headers :: "trace_context \<Rightarrow> (string \<times> string) list" where
  "backend_headers t =
    (if tc_traceparent t \<noteq> [] then [(''traceparent'', tc_traceparent t)] else []) @
    (if tc_tracestate t \<noteq> [] then [(''tracestate'', tc_tracestate t)] else [])"

section \<open>Refusals\<close>

definition make_refused :: "error_code \<Rightarrow> string \<Rightarrow> u64 \<Rightarrow> refused" where
  "make_refused code reason retry_after_ms =
    \<lparr> rf_reason = reason, rf_daemon_min_protocol = PROTOCOL_VERSION,
      rf_daemon_max_protocol = PROTOCOL_VERSION, rf_code = error_code_i32 code, rf_details = [],
      rf_retry_after_ms = retry_after_ms \<rparr>"

definition refused_reply :: "refused \<Rightarrow> hello_reply" where
  "refused_reply r = Some (Refused r)"

text \<open>A \<open>u64\<close> of milliseconds: at least one, saturated at the largest value.\<close>

definition duration_to_retry_ms :: "duration \<Rightarrow> u64" where
  "duration_to_retry_ms d =
    (let millis = max (as_millis d) 1 in
     if millis \<le> U64_MAX then word_of_nat millis else word_of_nat U64_MAX)"

fun session_token_rejection_reason :: "session_token_rejection \<Rightarrow> string" where
  "session_token_rejection_reason MalformedLength = ''session token malformed: wrong byte length''"
| "session_token_rejection_reason BrokerHalfMismatch =
    ''session invalidated: broker was restarted or rotated since this token was issued''"
| "session_token_rejection_reason DaemonUnknown =
    ''session invalidated: daemon is no longer registered''"
| "session_token_rejection_reason DaemonHalfMismatch =
    ''session invalidated: daemon was restarted since this token was issued''"

section \<open>Hello requests\<close>

record peer_identity =
  peer_pid :: u32
  peer_uid_or_sid :: string

record hello_request =
  hr_frame :: frame
  hr_hello :: hello
  hr_peer :: peer_identity

fun refused_from_validation :: "frame_validation_error \<Rightarrow> refused" where
  "refused_from_validation (EnvelopeVersion _) =
    make_refused ErrorVersionUnsupported ''frame envelope_version is not v1'' 0"
| "refused_from_validation (Kind _ _) =
    make_refused ErrorPeerRejected ''Hello frame kind must be REQUEST'' 0"
| "refused_from_validation (PayloadProtocol _ _) =
    make_refused ErrorPeerRejected ''Hello frame payload_protocol must be control-plane'' 0"
| "refused_from_validation (PayloadEncoding _) =
    make_refused ErrorPeerRejected ''Hello payload must not be compressed'' 0"

definition hello_request_decode ::
  "(bytes \<Rightarrow> ('d, hello) result) \<Rightarrow> frame \<Rightarrow> peer_identity \<Rightarrow> (refused, hello_request) result" where
  "hello_request_decode decode_hello f peer =
    result_bind
      (map_err refused_from_validation
        (validate_frame_envelope f FrameKindRequest CONTROL_PAYLOAD_PROTOCOL))
      (\<lambda>_. result_bind
        (map_err (\<lambda>_. make_refused ErrorPeerRejected ''malformed Hello payload'' 0)
          (decode_hello (fr_payload f)))
        (\<lambda>hello. Ok \<lparr> hr_frame = f, hr_hello = hello, hr_peer = peer \<rparr>))"

definition request_trace_context :: "hello_request \<Rightarrow> trace_context" where
  "request_trace_context r = trace_context_from_frame (hr_frame r)"

definition validate_hello_shape :: "hello \<Rightarrow> peer_identity \<Rightarrow> refused option" where
  "validate_hello_shape hello peer =
    (if he_client_min_protocol hello > PROTOCOL_VERSION \<or> he_client_max_protocol hello < PROTOCOL_VERSION
     then Some (make_refused ErrorVersionUnsupported ''client protocol range does not include v1'' 0)
     else if \<not> is_ok (validate_service_name (he_service_name hello))
     then Some (make_refused ErrorPeerRejected ''invalid service_name'' 0)
     else if length (he_wanted_version hello) > 64 \<or> \<not> is_ok (validate_version (he_wanted_version hello))
     then Some (make_refused ErrorPeerRejected ''invalid wanted_version'' 0)
     else if length (he_client_version hello) > 128
     then Some (make_refused ErrorPeerRejected ''client_version exceeds 128 bytes'' 0)
     else if length (he_client_lib_name hello) > 64 \<or> length (he_client_lib_version hello) > 64
     then Some (make_refused ErrorPeerRejected ''client_lib fields exceed 64 bytes'' 0)
     else if he_peer_pid hello \<noteq> 0 \<and> peer_pid peer \<noteq> 0 \<and> he_peer_pid hello \<noteq> peer_pid peer
     then Some (make_refused ErrorPeerRejected ''peer_pid does not match verified peer'' 0)
     else None)"

definition validate_version_policy :: "hello \<Rightarrow> service_definition \<Rightarrow> refused option" where
  "validate_version_policy hello service =
    (case check_version_allowed (he_wanted_version hello) service of
       Ok _ \<Rightarrow> None
     | Err BelowMinVersion \<Rightarrow>
         Some (make_refused ErrorVersionBlocked ''wanted_version is below min_version'' 30000)
     | Err OutsideAllowList \<Rightarrow>
         Some (make_refused ErrorVersionBlocked ''wanted_version is not in version_allow_list'' 30000))"

section \<open>Rate limiter\<close>

definition DEFAULT_RATE_LIMIT_MAX_PER_WINDOW :: nat where
  "DEFAULT_RATE_LIMIT_MAX_PER_WINDOW = 256"

definition DEFAULT_RATE_LIMIT_WINDOW :: duration where
  "DEFAULT_RATE_LIMIT_WINDOW = from_secs 1"

record peer_rate_window =
  prw_started_at :: instant
  prw_count :: nat

record peer_rate_limiter =
  prl_max_per_window :: nat
  prl_window :: duration
  prl_entries :: "(u32, peer_rate_window) hash_map"

definition rate_limiter_new :: "nat \<Rightarrow> duration \<Rightarrow> peer_rate_limiter" where
  "rate_limiter_new max_per_window window =
    \<lparr> prl_max_per_window = max max_per_window 1,
      prl_window = (if window = 0 then from_millis 1 else window), prl_entries = hm_empty \<rparr>"

definition rate_limiter_default :: peer_rate_limiter where
  "rate_limiter_default =
    rate_limiter_new DEFAULT_RATE_LIMIT_MAX_PER_WINDOW DEFAULT_RATE_LIMIT_WINDOW"

definition rate_window_fresh :: "instant \<Rightarrow> peer_rate_window" where
  "rate_window_fresh now = \<lparr> prw_started_at = now, prw_count = 0 \<rparr>"

definition rate_window_refresh :: "peer_rate_window \<Rightarrow> instant \<Rightarrow> duration \<Rightarrow> peer_rate_window" where
  "rate_window_refresh entry now window =
    (if now - prw_started_at entry \<ge> window
     then entry\<lparr> prw_started_at := now, prw_count := 0 \<rparr> else entry)"

text \<open>\<open>check\<close>: the retry hint of a refusal, or \<open>None\<close> when the Hello is admitted.\<close>

definition rate_check ::
  "u32 \<Rightarrow> instant \<Rightarrow> peer_rate_limiter \<Rightarrow> duration option \<times> peer_rate_limiter" where
  "rate_check pid now l =
    (if pid = 0 then (None, l)
     else
       let entry0 = (case hm_get (prl_entries l) pid of None \<Rightarrow> rate_window_fresh now | Some e \<Rightarrow> e);
           elapsed = now - prw_started_at entry0;
           entry = rate_window_refresh entry0 now (prl_window l)
       in if prw_count entry < prl_max_per_window l
          then (None, l\<lparr> prl_entries :=
                  hm_insert pid (entry\<lparr> prw_count := prw_count entry + 1 \<rparr>) (prl_entries l) \<rparr>)
          else (Some (prl_window l - elapsed),
                l\<lparr> prl_entries := hm_insert pid entry (prl_entries l) \<rparr>))"

section \<open>Handler\<close>

definition DEFAULT_KEEPALIVE_SECS :: u64 where
  "DEFAULT_KEEPALIVE_SECS = 30 * 60"

record hello_handler =
  hh_backends :: "(string, registered_backend) hash_map"
  hh_next_connection_id :: u64
  hh_rate_limiter :: peer_rate_limiter
  hh_handoff_tokens :: handoff_token_store
  hh_handoff_acks :: handoff_ack_registry
  hh_session_tokens :: "session_token_authority option"

definition hello_handler_new :: hello_handler where
  "hello_handler_new =
    \<lparr> hh_backends = hm_empty, hh_next_connection_id = 1, hh_rate_limiter = rate_limiter_default,
      hh_handoff_tokens = token_store_new, hh_handoff_acks = ack_registry_new,
      hh_session_tokens = None \<rparr>"

definition with_session_token_authority ::
  "session_token_authority \<Rightarrow> hello_handler \<Rightarrow> hello_handler" where
  "with_session_token_authority authority h = h\<lparr> hh_session_tokens := Some authority \<rparr>"

definition with_handoff_ack_deadline :: "duration \<Rightarrow> hello_handler \<Rightarrow> hello_handler" where
  "with_handoff_ack_deadline ack_deadline h =
    h\<lparr> hh_handoff_acks := ack_registry_with_deadline ack_deadline \<rparr>"

definition with_rate_limit :: "nat \<Rightarrow> duration \<Rightarrow> hello_handler \<Rightarrow> hello_handler" where
  "with_rate_limit max_per_window window h =
    h\<lparr> hh_rate_limiter := rate_limiter_new max_per_window window \<rparr>"

text \<open>\<open>HelloHandlerError\<close> wraps a \<open>PipePathError\<close>; the versions of the allow list are checked in turn.\<close>

datatype hello_handler_error = HandlerPipePath pipe_path_error

definition validate_service_name_for_result :: "string \<Rightarrow> (hello_handler_error, unit) result" where
  "validate_service_name_for_result name = map_err HandlerPipePath (validate_service_name name)"

definition validate_version_for_result :: "string \<Rightarrow> (hello_handler_error, unit) result" where
  "validate_version_for_result version = map_err HandlerPipePath (validate_version version)"

fun validate_each_version :: "string list \<Rightarrow> (hello_handler_error, unit) result" where
  "validate_each_version [] = Ok ()"
| "validate_each_version (v # vs) =
    result_bind (validate_version_for_result v) (\<lambda>_. validate_each_version vs)"

definition with_backend ::
  "registered_backend \<Rightarrow> hello_handler \<Rightarrow> (hello_handler_error, hello_handler) result" where
  "with_backend backend h =
    (let service = rb_service_definition backend in
     result_bind (validate_service_name_for_result (sd_service_name service)) (\<lambda>_.
     result_bind (if sd_min_version service \<noteq> [] then validate_version_for_result (sd_min_version service)
                  else Ok ()) (\<lambda>_.
     result_bind (validate_each_version (sd_version_allow_list service)) (\<lambda>_.
     Ok (h\<lparr> hh_backends := hm_insert (sd_service_name service) backend (hh_backends h) \<rparr>)))))"

definition validate_session_token :: "hello_handler \<Rightarrow> hello \<Rightarrow> refused option" where
  "validate_session_token h hello =
    (case hh_session_tokens h of
       None \<Rightarrow> None
     | Some authority \<Rightarrow>
         (case validate authority (he_auth_token hello) (he_service_name hello) of
            Ok _ \<Rightarrow> None
          | Err rejection \<Rightarrow>
              Some (make_refused ErrorPeerRejected (session_token_rejection_reason rejection) 0)))"

text \<open>What one Hello reads from its surroundings: the build's platform, the clock at the rate check
  and at the token issue, and the random source of the token.\<close>

record hello_env =
  env_platform :: platform
  env_rate_now :: instant
  env_issue_now :: instant
  env_random128 :: "nat \<Rightarrow> (handoff_token_error, bytes) result"

definition issue_handoff_token ::
  "hello_env \<Rightarrow> u64 \<Rightarrow> string \<Rightarrow> hello_handler \<Rightarrow> bytes \<times> hello_handler" where
  "issue_handoff_token env client_capabilities service_name h =
    (if client_capabilities AND CAP_HANDLE_PASSING = 0 \<or> \<not> handoff_transport_available (env_platform env)
     then ([], h)
     else
       (case issue_with_random128 (env_issue_now env) (env_random128 env) (hh_handoff_tokens h) of
          (Ok token, tokens) \<Rightarrow>
            (token,
             h\<lparr> hh_handoff_tokens := tokens,
                hh_handoff_acks := ack_register token (pending_backend_for_service service_name)
                  (env_issue_now env) (hh_handoff_acks h) \<rparr>)
        | (Err _, tokens) \<Rightarrow> ([], h\<lparr> hh_handoff_tokens := tokens \<rparr>)))"

definition handle_request ::
  "hello_env \<Rightarrow> hello_request \<Rightarrow> hello_handler \<Rightarrow> hello_reply \<times> hello_handler" where
  "handle_request env request h0 =
    (let hello = hr_hello request in
     case validate_hello_shape hello (hr_peer request) of
       Some r \<Rightarrow> (refused_reply r, h0)
     | None \<Rightarrow>
     (case rate_check (peer_pid (hr_peer request)) (env_rate_now env) (hh_rate_limiter h0) of
        (limited, limiter) \<Rightarrow>
        let h = h0\<lparr> hh_rate_limiter := limiter \<rparr> in
        case limited of
          Some wait \<Rightarrow>
            (refused_reply (make_refused ErrorRateLimited ''Hello rate limit exceeded''
               (duration_to_retry_ms wait)), h)
        | None \<Rightarrow>
        (case hm_get (hh_backends h) (he_service_name hello) of
           None \<Rightarrow> (refused_reply (make_refused ErrorServiceUnknown ''service is not registered'' 0), h)
         | Some backend \<Rightarrow>
        (case validate_version_policy hello (rb_service_definition backend) of
           Some r \<Rightarrow> (refused_reply r, h)
         | None \<Rightarrow>
        (case validate_session_token h hello of
           Some r \<Rightarrow> (refused_reply r, h)
         | None \<Rightarrow>
           let connection_id = hh_next_connection_id h;
               h1 = h\<lparr> hh_next_connection_id := hh_next_connection_id h + 1 \<rparr>
           in case issue_handoff_token env (he_client_capabilities hello) (he_service_name hello) h1 of
                (token, h2) \<Rightarrow>
                  (Some (Negotiated
                    \<lparr> ng_negotiated_protocol = PROTOCOL_VERSION,
                      ng_daemon_version = rb_daemon_version backend,
                      ng_backend_pipe = rb_backend_pipe backend, ng_warnings = [],
                      ng_server_capabilities =
                        (if token \<noteq> [] then rb_server_capabilities backend OR CAP_HANDLE_PASSING
                         else rb_server_capabilities backend),
                      ng_keepalive_interval_secs =
                        (if he_client_keepalive_secs hello = 0 then DEFAULT_KEEPALIVE_SECS
                         else he_client_keepalive_secs hello),
                      ng_handle_passed_token = token, ng_connection_id = connection_id \<rparr>), h2))))))"

definition handle_frame ::
  "(bytes \<Rightarrow> ('d, hello) result) \<Rightarrow> hello_env \<Rightarrow> frame \<Rightarrow> peer_identity \<Rightarrow> hello_handler \<Rightarrow>
   hello_reply \<times> hello_handler" where
  "handle_frame decode_hello env f peer h =
    (case hello_request_decode decode_hello f peer of
       Ok request \<Rightarrow> handle_request env request h
     | Err r \<Rightarrow> (refused_reply r, h))"

definition acknowledge_handoff ::
  "handoff_token \<Rightarrow> instant \<Rightarrow> hello_handler \<Rightarrow>
   (handoff_ack_error, acknowledged_handoff) result \<times> hello_handler" where
  "acknowledge_handoff token now h =
    (case acknowledge token now (hh_handoff_acks h) (hh_handoff_tokens h) of
       (r, acks, tokens) \<Rightarrow> (r, h\<lparr> hh_handoff_acks := acks, hh_handoff_tokens := tokens \<rparr>))"

definition expire_overdue_handoffs ::
  "instant \<Rightarrow> hello_handler \<Rightarrow> expired_handoff list \<times> hello_handler" where
  "expire_overdue_handoffs now h =
    (case expire_overdue now (hh_handoff_acks h) (hh_handoff_tokens h) of
       (expired, acks, tokens) \<Rightarrow> (expired, h\<lparr> hh_handoff_acks := acks, hh_handoff_tokens := tokens \<rparr>))"

section \<open>Invariant and runs\<close>

definition rate_limiter_wf :: "peer_rate_limiter \<Rightarrow> bool" where
  "rate_limiter_wf l = (0 < prl_max_per_window l \<and> 0 < prl_window l)"

text \<open>Every token that can still be presented awaits an acknowledgement, so the sweep covers it.\<close>

definition hello_handler_wf :: "hello_handler \<Rightarrow> bool" where
  "hello_handler_wf h =
    (rate_limiter_wf (hh_rate_limiter h) \<and> token_store_wf (hh_handoff_tokens h) \<and>
     hm_ok (har_pending (hh_handoff_acks h)) \<and>
     (\<forall>t. token_pending (hh_handoff_tokens h) t \<longrightarrow> hm_contains (har_pending (hh_handoff_acks h)) t) \<and>
     (case hh_session_tokens h of None \<Rightarrow> True | Some a \<Rightarrow> authority_wf a))"

text \<open>A sequence of checks of the limiter, with which of them were admitted.\<close>

fun rate_run :: "(u32 \<times> instant) list \<Rightarrow> peer_rate_limiter \<Rightarrow> (u32 \<times> bool) list \<times> peer_rate_limiter" where
  "rate_run [] l = ([], l)"
| "rate_run ((pid, now) # checks) l =
    (let (wait, l1) = rate_check pid now l; (rest, l2) = rate_run checks l1
     in ((pid, wait = None) # rest, l2))"

text \<open>Everything that happens to a handler.\<close>

datatype handler_op =
    HandleHello hello_env hello_request
  | Acknowledge handoff_token instant
  | ExpireOverdue instant

fun handler_step :: "handler_op \<Rightarrow> hello_handler \<Rightarrow> hello_handler" where
  "handler_step (HandleHello env request) h = snd (handle_request env request h)"
| "handler_step (Acknowledge token now) h = snd (acknowledge_handoff token now h)"
| "handler_step (ExpireOverdue now) h = snd (expire_overdue_handoffs now h)"

text \<open>The random source draws 16 bytes, so no issued token is empty.\<close>

definition draws_16 :: "(nat \<Rightarrow> (handoff_token_error, bytes) result) \<Rightarrow> bool" where
  "draws_16 rnd = (\<forall>k b. rnd k = Ok b \<longrightarrow> length b = HANDOFF_TOKEN_BYTES)"

text \<open>A sample exchange, for the evaluations below.\<close>

definition sample_service :: service_definition where
  "sample_service =
    \<lparr> sd_service_name = ''zccache'', sd_binary_path = ''/bin/z'', sd_isolation = 0,
      sd_explicit_instance = [], sd_per_version_binary_dir = [], sd_min_version = [],
      sd_version_allow_list = [''1.2.0''], sd_labels = [] \<rparr>"

definition sample_backend :: registered_backend where
  "sample_backend =
    \<lparr> rb_service_definition = sample_service, rb_daemon_version = ''1.2.0'',
      rb_backend_pipe = ''/run/z.sock'', rb_server_capabilities = 2 \<rparr>"

definition sample_hello :: "string \<Rightarrow> hello" where
  "sample_hello wanted =
    \<lparr> he_client_min_protocol = 1, he_client_max_protocol = 1, he_service_name = ''zccache'',
      he_wanted_version = wanted, he_client_version = ''0.1'', he_client_capabilities = 1,
      he_auth_token = [], he_request_id = [], he_connection_id = 0, he_peer_pid = 7,
      he_client_lib_name = [], he_client_lib_version = [], he_peer_attestation_nonce = [],
      he_capability_token = [], he_client_keepalive_secs = 0 \<rparr>"

definition sample_request :: "string \<Rightarrow> hello_request" where
  "sample_request wanted =
    \<lparr> hr_frame = frame_request CONTROL_PAYLOAD_PROTOCOL [], hr_hello = sample_hello wanted,
      hr_peer = \<lparr> peer_pid = 7, peer_uid_or_sid = ''1000'' \<rparr> \<rparr>"

definition sample_env :: hello_env where
  "sample_env =
    \<lparr> env_platform = Linux, env_rate_now = 5, env_issue_now = 6,
      env_random128 = (\<lambda>_. Ok (replicate 16 3)) \<rparr>"

definition sample_handler :: hello_handler where
  "sample_handler = hello_handler_new\<lparr> hh_backends := [(''zccache'', sample_backend)] \<rparr>"

section \<open>Rate limiter: lemmas\<close>

interpretation prw: fixed_window prw_started_at prw_count rate_window_fresh rate_window_refresh
  by unfold_locales (auto simp: rate_window_fresh_def rate_window_refresh_def)

lemma rate_check_zero [simp]: "rate_check 0 now l = (None, l)"
  by (simp add: rate_check_def)

lemma rate_check_frame [simp]:
  "prl_max_per_window (snd (rate_check pid now l)) = prl_max_per_window l"
  "prl_window (snd (rate_check pid now l)) = prl_window l"
  by (simp_all add: rate_check_def Let_def)

lemma rate_check_other:
  "pid' \<noteq> pid \<Longrightarrow> hm_get (prl_entries (snd (rate_check pid now l))) pid' = hm_get (prl_entries l) pid'"
  by (simp add: rate_check_def Let_def hm.get_insert)

lemma rate_limiter_wf_new [wf_intros]: "rate_limiter_wf (rate_limiter_new n w)"
  by (auto simp: rate_limiter_wf_def rate_limiter_new_def max_def)

lemma rate_limiter_wf_check [wf_intros]:
  "rate_limiter_wf l \<Longrightarrow> rate_limiter_wf (snd (rate_check pid now l))"
  by (simp add: rate_limiter_wf_def)

text \<open>One check of a peer whose window is running.\<close>

lemma rate_check_within:
  assumes "pid \<noteq> 0" "hm_get (prl_entries l) pid = Some e" "now - prw_started_at e < prl_window l"
  shows "rate_check pid now l =
    (if prw_count e < prl_max_per_window l
     then (None, l\<lparr> prl_entries := hm_insert pid (e\<lparr> prw_count := prw_count e + 1 \<rparr>) (prl_entries l) \<rparr>)
     else (Some (prl_window l - (now - prw_started_at e)),
           l\<lparr> prl_entries := hm_insert pid e (prl_entries l) \<rparr>))"
  using assms by (simp add: rate_check_def prw.refresh_within)

lemma rate_check_first:
  assumes "pid \<noteq> 0" "hm_get (prl_entries l) pid = None" "rate_limiter_wf l"
  shows "rate_check pid now l =
    (None, l\<lparr> prl_entries := hm_insert pid \<lparr> prw_started_at = now, prw_count = 1 \<rparr> (prl_entries l) \<rparr>)"
  using assms by (simp add: rate_check_def rate_limiter_wf_def prw.refresh_fresh)
    (simp add: rate_window_fresh_def)

lemma rate_run_admitted:
  assumes "pid \<noteq> 0" "rate_limiter_wf l"
    and "\<forall>(_, now) \<in> set checks. t0 \<le> now \<and> now < t0 + prl_window l"
    and "case hm_get (prl_entries l) pid of None \<Rightarrow> c = 0
      | Some e \<Rightarrow> t0 \<le> prw_started_at e \<and> prw_count e = c"
    and "rate_run checks l = (admissions, l')"
  shows "count_list admissions (pid, True) =
    min (prl_max_per_window l - c) (count_list (map fst checks) pid)"
  using assms(2-)
proof (induction checks arbitrary: l c admissions)
  case Nil
  then show ?case by simp
next
  case (Cons x checks)
  obtain p now where x: "x = (p, now)" by (cases x)
  let ?l = "snd (rate_check p now l)"
  obtain rest where rest: "rate_run checks ?l = (rest, l')"
    and adm: "admissions = (p, fst (rate_check p now l) = None) # rest"
    using Cons.prems(4) x by (auto split: prod.splits)
  note IH = Cons.IH [of ?l _ rest, OF _ _ _ rest]
  have times: "\<forall>(_, now) \<in> set checks. t0 \<le> now \<and> now < t0 + prl_window ?l"
    and now: "t0 \<le> now" "now < t0 + prl_window l"
    using Cons.prems(2) x by auto
  have wf: "rate_limiter_wf ?l" using Cons.prems(1) by (rule wf_intros)
  show ?case
  proof (cases "p = pid")
    case False
    then have "count_list rest (pid, True) = min (prl_max_per_window l - c) (count_list (map fst checks) pid)"
      using IH [OF wf times, of c] Cons.prems(3) by (simp add: rate_check_other)
    then show ?thesis using False adm x by simp
  next
    case True
    show ?thesis
    proof (cases "hm_get (prl_entries l) pid")
      case None
      note ck = rate_check_first [OF assms(1) None Cons.prems(1), of now]
      have "count_list rest (pid, True) = min (prl_max_per_window l - 1) (count_list (map fst checks) pid)"
        using IH [OF wf times, of 1] True now by (simp add: ck hm.get_insert)
      then show ?thesis
        using None Cons.prems(1,3) True adm x ck by (auto simp: rate_limiter_wf_def)
    next
      case (Some e)
      then have e: "t0 \<le> prw_started_at e" "prw_count e = c" using Cons.prems(3) by auto
      have "now - prw_started_at e < prl_window l" using e(1) now Cons.prems(1)
        by (auto simp: rate_limiter_wf_def)
      note ck = rate_check_within [OF assms(1) Some this]
      have "count_list rest (pid, True) =
          min (prl_max_per_window l - (if c < prl_max_per_window l then c + 1 else c))
            (count_list (map fst checks) pid)"
        using IH [OF wf times, of "if c < prl_max_per_window l then c + 1 else c"] True e
        by (auto simp: ck hm.get_insert)
      then show ?thesis using True adm x ck e by (auto split: if_splits)
    qed
  qed
qed

text \<open>The hint of a refusal is positive, at most the window, and waiting for it suffices.\<close>

lemma rate_check_hint:
  assumes "rate_limiter_wf l" "rate_check pid now l = (Some wait, l')"
    and "hm_get (prl_entries l) pid = Some e" "prw_started_at e \<le> now"
  shows "0 < wait \<and> wait \<le> prl_window l \<and> fst (rate_check pid (now + wait) l') = None"
proof -
  have pid: "pid \<noteq> 0" using assms(2) by (cases "pid = 0") auto
  have w: "0 < prl_window l" using assms(1) by (simp add: rate_limiter_wf_def)
  have within: "now - prw_started_at e < prl_window l"
  proof (rule ccontr)
    assume "\<not> ?thesis"
    then have "prw_count (rate_window_refresh e now (prl_window l)) = 0"
      using prw.used_refresh_expired [OF w, of now e] by simp
    then show False
      using assms by (simp add: rate_check_def Let_def rate_limiter_wf_def split: if_splits)
  qed
  then have res: "wait = prl_window l - (now - prw_started_at e)" "hm_get (prl_entries l') pid = Some e"
    "prl_window l' = prl_window l" "prl_max_per_window l' = prl_max_per_window l"
    using assms(2) rate_check_within [OF pid assms(3) within] by (auto simp: hm.get_insert split: if_splits)
  then have "prw_count (rate_window_refresh e (now + wait) (prl_window l)) = 0"
    using prw.used_refresh_expired [OF w, of "now + wait" e] assms(4) within by simp
  then show ?thesis
    using res within pid assms(1) by (simp add: rate_check_def Let_def rate_limiter_wf_def)
qed

section \<open>Negotiation: lemmas\<close>

lemma validate_hello_shape_None_iff:
  "validate_hello_shape hello peer = None \<longleftrightarrow>
    he_client_min_protocol hello \<le> PROTOCOL_VERSION \<and> PROTOCOL_VERSION \<le> he_client_max_protocol hello \<and>
    is_ok (validate_service_name (he_service_name hello)) \<and>
    length (he_wanted_version hello) \<le> 64 \<and> is_ok (validate_version (he_wanted_version hello)) \<and>
    length (he_client_version hello) \<le> 128 \<and>
    length (he_client_lib_name hello) \<le> 64 \<and> length (he_client_lib_version hello) \<le> 64 \<and>
    (he_peer_pid hello = 0 \<or> peer_pid peer = 0 \<or> he_peer_pid hello = peer_pid peer)"
  by (auto simp: validate_hello_shape_def not_less not_le)

lemma validate_hello_shape_code:
  "validate_hello_shape hello peer = Some r \<Longrightarrow> rf_code r \<in> {1, 6} \<and> rf_retry_after_ms r = 0"
  by (auto simp: validate_hello_shape_def make_refused_def split: if_splits)

lemma validate_version_policy_None_iff:
  "validate_version_policy hello d = None \<longleftrightarrow> check_version_allowed (he_wanted_version hello) d = Ok ()"
  by (auto simp: validate_version_policy_def split: sum.splits version_policy_block.splits)

lemma validate_version_policy_code:
  "validate_version_policy hello d = Some r \<Longrightarrow> rf_code r = 8 \<and> rf_retry_after_ms r = 30000"
  by (auto simp: validate_version_policy_def make_refused_def split: sum.splits version_policy_block.splits)

lemma validate_session_token_None_iff:
  assumes "case hh_session_tokens h of None \<Rightarrow> True | Some a \<Rightarrow> authority_wf a"
  shows "validate_session_token h hello = None \<longleftrightarrow>
    (case hh_session_tokens h of
       None \<Rightarrow> True
     | Some a \<Rightarrow> composed_token_for a (he_service_name hello) = Some (he_auth_token hello))"
proof (cases "hh_session_tokens h")
  case (Some a)
  then have "validate_session_token h hello = None \<longleftrightarrow>
      validate a (he_auth_token hello) (he_service_name hello) = Ok ()"
    by (auto simp: validate_session_token_def split: sum.splits)
  then show ?thesis using assms Some validate_Ok_iff [of a] by simp
qed (simp add: validate_session_token_def)

lemma validate_session_token_code:
  "validate_session_token h hello = Some r \<Longrightarrow> rf_code r = 6 \<and> rf_retry_after_ms r = 0"
  by (auto simp: validate_session_token_def make_refused_def split: option.splits sum.splits)

lemma validate_session_token_limiter [simp]:
  "validate_session_token (h\<lparr> hh_rate_limiter := l \<rparr>) hello = validate_session_token h hello"
  by (simp add: validate_session_token_def)

lemma duration_to_retry_ms_pos: "duration_to_retry_ms d \<noteq> 0"
proof -
  have "word_of_nat n \<noteq> (0 :: u64)" if "0 < n" "n \<le> U64_MAX" for n
  proof -
    have "n < 2 ^ 64" using that(2) by (simp add: U64_MAX_def)
    then have "unat (word_of_nat n :: u64) = n" by (simp add: unat_of_nat take_bit_nat_eq_self)
    then show ?thesis using that(1) by auto
  qed
  then show ?thesis by (simp add: duration_to_retry_ms_def Let_def U64_MAX_def)
qed

lemmas negotiation_codes =
  validate_hello_shape_code validate_version_policy_code validate_session_token_code

lemma issue_handoff_token_frame:
  assumes "issue_handoff_token env caps name h = (token, h')"
  shows "hh_backends h' = hh_backends h" "hh_next_connection_id h' = hh_next_connection_id h"
    "hh_rate_limiter h' = hh_rate_limiter h" "hh_session_tokens h' = hh_session_tokens h"
  using assms by (auto simp: issue_handoff_token_def split: if_splits prod.splits sum.splits)

lemma issue_loop_drawn: "fst (issue_loop now rnd k n s) = Ok t \<Longrightarrow> \<exists>j. rnd j = Ok t"
  by (induction now rnd k n s rule: issue_loop.induct) (auto split: sum.splits if_splits)

lemma issue_drawn:
  assumes "issue_with_random128 now rnd s = (Ok t, s')" "draws_16 rnd"
  shows "length t = 16"
proof -
  have "\<exists>n s0. issue_loop now rnd 0 n s0 = (Ok t, s')"
    using assms(1) by (auto simp: issue_with_random128_def Let_def split: if_splits)
  then have "\<exists>j. rnd j = Ok t" using issue_loop_drawn by (metis fst_conv)
  then show ?thesis using assms(2) by (auto simp: draws_16_def HANDOFF_TOKEN_BYTES_def)
qed

lemma issue_handoff_token_result:
  assumes "issue_handoff_token env caps name h = (token, h')" "token_store_wf (hh_handoff_tokens h)"
    and "draws_16 (env_random128 env)"
  shows "if token = [] then hh_handoff_acks h' = hh_handoff_acks h \<and>
           (\<forall>t. token_pending (hh_handoff_tokens h') t \<longrightarrow> token_pending (hh_handoff_tokens h) t)
         else length token = 16 \<and> caps AND CAP_HANDLE_PASSING \<noteq> 0 \<and>
           hm_get (hts_pending (hh_handoff_tokens h')) token = Some
             \<lparr> pht_expires_at = add_or_now (env_issue_now env) (htc_token_ttl (hts_config (hh_handoff_tokens h))) \<rparr> \<and>
           hh_handoff_acks h' = ack_register token (pending_backend_for_service name)
             (env_issue_now env) (hh_handoff_acks h) \<and>
           (\<forall>t. token_pending (hh_handoff_tokens h') t \<longrightarrow> t = token \<or> token_pending (hh_handoff_tokens h) t)"
proof -
  obtain r s where i: "issue_with_random128 (env_issue_now env) (env_random128 env) (hh_handoff_tokens h) = (r, s)"
    by fastforce
  note adds = issue_adds_pending [OF assms(2) i]
  show ?thesis
  proof (cases r)
    case (Inl e)
    then show ?thesis using assms(1) adds i by (auto simp: issue_handoff_token_def split: if_splits)
  next
    case (Inr t)
    then have "length t = 16" using issue_drawn i assms(3) by blast
    moreover have "hm_get (hts_pending s) t = Some
        \<lparr> pht_expires_at = add_or_now (env_issue_now env) (htc_token_ttl (hts_config (hh_handoff_tokens h))) \<rparr>"
      using issue_Ok [OF assms(2), of _ _ t s t] i Inr by simp
    ultimately show ?thesis
      using assms(1) i Inr by (auto simp: issue_handoff_token_def dest!: adds split: if_splits)
  qed
qed

lemma handle_request_accepts:
  fixes req :: hello_request and h :: hello_handler
  defines "hello \<equiv> hr_hello req"
  assumes shape: "validate_hello_shape hello (hr_peer req) = None"
    and rate: "fst (rate_check (peer_pid (hr_peer req)) (env_rate_now env) (hh_rate_limiter h)) = None"
    and rest: "hm_get (hh_backends h) (he_service_name hello) = Some b"
      "validate_version_policy hello (rb_service_definition b) = None"
      "validate_session_token h hello = None"
    and issue: "issue_handoff_token env (he_client_capabilities hello) (he_service_name hello)
      (h\<lparr> hh_rate_limiter := snd (rate_check (peer_pid (hr_peer req)) (env_rate_now env) (hh_rate_limiter h)),
         hh_next_connection_id := hh_next_connection_id h + 1 \<rparr>) = (t, h')"
  shows "handle_request env req h = (Some (Negotiated
      \<lparr> ng_negotiated_protocol = 1, ng_daemon_version = rb_daemon_version b,
        ng_backend_pipe = rb_backend_pipe b, ng_warnings = [],
        ng_server_capabilities = (if t \<noteq> [] then rb_server_capabilities b OR CAP_HANDLE_PASSING
          else rb_server_capabilities b),
        ng_keepalive_interval_secs = (if he_client_keepalive_secs hello = 0 then DEFAULT_KEEPALIVE_SECS
          else he_client_keepalive_secs hello),
        ng_handle_passed_token = t, ng_connection_id = hh_next_connection_id h \<rparr>), h')"
proof -
  let ?ck = "rate_check (peer_pid (hr_peer req)) (env_rate_now env) (hh_rate_limiter h)"
  have ck: "?ck = (None, snd ?ck)" using rate by (metis prod.collapse)
  show ?thesis
    using shape rest issue unfolding hello_def
    by (subst handle_request_def, subst ck) (simp add: Let_def PROTOCOL_VERSION_def)
qed

text \<open>The two outcomes of a Hello.\<close>

lemma handle_request_cases:
  obtains (refused) r l where
    "handle_request env req h = (Some (Refused r), h\<lparr> hh_rate_limiter := l \<rparr>)"
    "l \<in> {hh_rate_limiter h,
          snd (rate_check (peer_pid (hr_peer req)) (env_rate_now env) (hh_rate_limiter h))}"
    "rf_code r \<in> {1, 2, 4, 6, 8}" "rf_retry_after_ms r = 0 \<longleftrightarrow> rf_code r \<in> {1, 2, 6}"
    "\<not> (validate_hello_shape (hr_hello req) (hr_peer req) = None \<and>
       fst (rate_check (peer_pid (hr_peer req)) (env_rate_now env) (hh_rate_limiter h)) = None \<and>
       (\<exists>b. hm_get (hh_backends h) (he_service_name (hr_hello req)) = Some b \<and>
         validate_version_policy (hr_hello req) (rb_service_definition b) = None) \<and>
       validate_session_token h (hr_hello req) = None)"
  | (negotiated) n b h' where
    "handle_request env req h = (Some (Negotiated n), h')"
    "validate_hello_shape (hr_hello req) (hr_peer req) = None"
    "fst (rate_check (peer_pid (hr_peer req)) (env_rate_now env) (hh_rate_limiter h)) = None"
    "hm_get (hh_backends h) (he_service_name (hr_hello req)) = Some b"
    "validate_version_policy (hr_hello req) (rb_service_definition b) = None"
    "validate_session_token h (hr_hello req) = None"
    "issue_handoff_token env (he_client_capabilities (hr_hello req)) (he_service_name (hr_hello req))
      (h\<lparr> hh_rate_limiter := snd (rate_check (peer_pid (hr_peer req)) (env_rate_now env) (hh_rate_limiter h)),
         hh_next_connection_id := hh_next_connection_id h + 1 \<rparr>) = (ng_handle_passed_token n, h')"
    "ng_backend_pipe n = rb_backend_pipe b" "ng_daemon_version n = rb_daemon_version b"
    "ng_connection_id n = hh_next_connection_id h" "ng_negotiated_protocol n = 1"
    "ng_server_capabilities n = (if ng_handle_passed_token n \<noteq> []
       then rb_server_capabilities b OR CAP_HANDLE_PASSING else rb_server_capabilities b)"
    "ng_keepalive_interval_secs n \<noteq> 0"
proof -
  let ?hello = "hr_hello req"
  let ?ck = "rate_check (peer_pid (hr_peer req)) (env_rate_now env) (hh_rate_limiter h)"
  consider (shape) r where "validate_hello_shape ?hello (hr_peer req) = Some r"
    | (rate) w where "validate_hello_shape ?hello (hr_peer req) = None" "fst ?ck = Some w"
    | (service) "validate_hello_shape ?hello (hr_peer req) = None" "fst ?ck = None"
        "hm_get (hh_backends h) (he_service_name ?hello) = None"
    | (version) b r where "validate_hello_shape ?hello (hr_peer req) = None" "fst ?ck = None"
        "hm_get (hh_backends h) (he_service_name ?hello) = Some b"
        "validate_version_policy ?hello (rb_service_definition b) = Some r"
    | (token) b r where "validate_hello_shape ?hello (hr_peer req) = None" "fst ?ck = None"
        "hm_get (hh_backends h) (he_service_name ?hello) = Some b"
        "validate_version_policy ?hello (rb_service_definition b) = None"
        "validate_session_token h ?hello = Some r"
    | (ok) b where "validate_hello_shape ?hello (hr_peer req) = None" "fst ?ck = None"
        "hm_get (hh_backends h) (he_service_name ?hello) = Some b"
        "validate_version_policy ?hello (rb_service_definition b) = None"
        "validate_session_token h ?hello = None"
    by fastforce
  then show ?thesis
  proof cases
    case (shape r)
    then show ?thesis using negotiation_codes(1) [OF shape]
      by (intro refused [of r "hh_rate_limiter h"]) (auto simp: handle_request_def refused_reply_def)
  next
    case (rate w)
    then show ?thesis
      by (intro refused [of "make_refused ErrorRateLimited ''Hello rate limit exceeded''
          (duration_to_retry_ms w)" "snd ?ck"])
        (auto simp: handle_request_def refused_reply_def Let_def make_refused_def duration_to_retry_ms_pos
          split: prod.splits)
  next
    case service
    then show ?thesis
      by (intro refused [of "make_refused ErrorServiceUnknown ''service is not registered'' 0" "snd ?ck"])
        (auto simp: handle_request_def refused_reply_def Let_def make_refused_def split: prod.splits)
  next
    case (version b r)
    then show ?thesis using negotiation_codes(2) [OF version(4)]
      by (intro refused [of r "snd ?ck"])
        (auto simp: handle_request_def refused_reply_def Let_def split: prod.splits)
  next
    case (token b r)
    then show ?thesis using negotiation_codes(3) [OF token(5)]
      by (intro refused [of r "snd ?ck"])
        (auto simp: handle_request_def refused_reply_def Let_def split: prod.splits)
  next
    case (ok b)
    let ?h = "h\<lparr> hh_rate_limiter := snd ?ck, hh_next_connection_id := hh_next_connection_id h + 1 \<rparr>"
    obtain t h' where i: "issue_handoff_token env (he_client_capabilities ?hello) (he_service_name ?hello) ?h = (t, h')"
      by fastforce
    note handle_request_accepts [OF ok i]
    moreover have "(if he_client_keepalive_secs ?hello = 0 then DEFAULT_KEEPALIVE_SECS
        else he_client_keepalive_secs ?hello) \<noteq> 0"
      by (simp add: DEFAULT_KEEPALIVE_SECS_def)
    ultimately show ?thesis using ok i by (intro negotiated) auto
  qed
qed

section \<open>Invariant: preservation\<close>

lemma hello_handler_wf_new [wf_intros]: "hello_handler_wf hello_handler_new"
  by (simp add: hello_handler_wf_def hello_handler_new_def rate_limiter_default_def wf_intros
      token_store_new_def ack_registry_new_def ack_registry_with_deadline_def hm_simps
      token_pending_def token_store_with_config_def token_store_wf_def hm_contains_def)

lemma hello_handler_wf_authority [wf_intros]:
  "hello_handler_wf h \<Longrightarrow> authority_wf a \<Longrightarrow> hello_handler_wf (with_session_token_authority a h)"
  by (simp add: hello_handler_wf_def with_session_token_authority_def)

lemma hello_handler_wf_issue:
  assumes "hello_handler_wf h" "issue_handoff_token env caps name h = (token, h')"
  shows "hello_handler_wf h'"
proof -
  obtain r s where i: "issue_with_random128 (env_issue_now env) (env_random128 env) (hh_handoff_tokens h) = (r, s)"
    by fastforce
  have wf: "token_store_wf (hh_handoff_tokens h)" using assms(1) by (simp add: hello_handler_wf_def)
  have "token_store_wf s" using token_store_wf_issue [OF wf] i by (metis snd_conv)
  then show ?thesis
    using assms i
    by (cases r)
      (auto simp: issue_handoff_token_def hello_handler_wf_def ack_register_def hm_contains_def hm_simps
        dest!: issue_adds_pending [OF wf i] split: if_splits)
qed

lemma hello_handler_wf_request [wf_intros]:
  assumes "hello_handler_wf h"
  shows "hello_handler_wf (snd (handle_request env req h))"
proof (cases rule: handle_request_cases [of env req h])
  case (refused r l)
  then have "rate_limiter_wf l"
    using assms rate_limiter_wf_check by (auto simp: hello_handler_wf_def)
  then show ?thesis using refused(1) assms by (simp add: hello_handler_wf_def)
next
  case (negotiated n b h')
  show ?thesis
    unfolding negotiated(1) snd_conv
    by (rule hello_handler_wf_issue [OF _ negotiated(7)])
      (use assms in \<open>simp add: hello_handler_wf_def wf_intros\<close>)
qed

lemma revoke_pending_iff: "token_pending (snd (revoke token s)) t \<longleftrightarrow> token_pending s t \<and> t \<noteq> token"
  using hts.fold_revoke_iff [of "[token]" s t] by simp

lemma hello_handler_wf_acknowledge [wf_intros]:
  assumes "hello_handler_wf h"
  shows "hello_handler_wf (snd (acknowledge_handoff token now h))"
  using assms
  by (auto simp: acknowledge_handoff_def acknowledge_def hello_handler_wf_def Let_def hm_simps
      hm_contains_def revoke_pending_iff wf_intros split: option.splits)

lemma expire_loop_wf:
  assumes "expire_loop ts r tokens = (ex, r', tokens')" "hm_ok (har_pending r)" "token_store_wf tokens"
    and "\<forall>t. token_pending tokens t \<longrightarrow> hm_contains (har_pending r) t"
  shows "hm_ok (har_pending r') \<and> token_store_wf tokens' \<and>
    (\<forall>t. token_pending tokens' t \<longrightarrow> hm_contains (har_pending r') t)"
  using assms
proof (induction ts r tokens arbitrary: ex rule: expire_loop.induct)
  case (2 token overdue r tokens)
  show ?case
  proof (cases "hm_get (har_pending r) token")
    case None
    then show ?thesis using 2 by simp
  next
    case (Some e)
    let ?r = "r\<lparr> har_pending := hm_remove token (har_pending r) \<rparr>"
    obtain ex' where "expire_loop overdue ?r (snd (revoke token tokens)) = (ex', r', tokens')"
      using "2.prems"(1) Some by (auto split: prod.splits)
    then show ?thesis
      using "2.IH"(2) [OF Some, of ex'] "2.prems"(2-4)
      by (simp add: hm_simps hm_contains_def revoke_pending_iff wf_intros)
  qed
qed simp

lemma hello_handler_wf_expire [wf_intros]:
  assumes "hello_handler_wf h"
  shows "hello_handler_wf (snd (expire_overdue_handoffs now h))"
proof -
  obtain ex r t where e: "expire_overdue now (hh_handoff_acks h) (hh_handoff_tokens h) = (ex, r, t)"
    by (metis prod.collapse)
  then show ?thesis
    using expire_loop_wf [OF e [unfolded expire_overdue_def]] assms
    by (simp add: expire_overdue_handoffs_def hello_handler_wf_def)
qed

lemma hello_handler_wf_step [wf_intros]: "hello_handler_wf h \<Longrightarrow> hello_handler_wf (handler_step x h)"
  by (cases x) (simp_all add: wf_intros)

lemma hello_handler_wf_run [wf_intros]:
  "hello_handler_wf h \<Longrightarrow> hello_handler_wf (fold handler_step ops h)"
  by (induction ops arbitrary: h) (simp_all add: wf_intros)

section \<open>A sample exchange\<close>

lemma sample_handler_wf: "hello_handler_wf sample_handler"
  using hello_handler_wf_new by (simp add: sample_handler_def hello_handler_wf_def)

lemma sample_rate: "rate_check 7 5 (hh_rate_limiter sample_handler) =
    (None, (hh_rate_limiter sample_handler)\<lparr> prl_entries := [(7, \<lparr> prw_started_at = 5, prw_count = 1 \<rparr>)] \<rparr>)"
  by (subst rate_check_first)
    (simp_all add: sample_handler_def hello_handler_new_def rate_limiter_default_def rate_limiter_wf_def
      rate_limiter_new_def DEFAULT_RATE_LIMIT_WINDOW_def DEFAULT_RATE_LIMIT_MAX_PER_WINDOW_def hm_empty_def hm_get_def hm_insert_def)

lemma sample_checks:
  "is_ok (validate_service_name ''zccache'')" "is_ok (validate_version ''1.2.0'')"
  by code_simp+

lemma sample_policy:
  "check_version_allowed ''1.2.0'' sample_service = Ok ()"
  "check_version_allowed ''0.9.0'' sample_service = Err OutsideAllowList"
  by (simp_all add: check_version_allowed_def sample_service_def)

lemma sample_refused:
  "handle_request sample_env (sample_request ''0.9'') sample_handler =
    (Some (Refused (make_refused ErrorPeerRejected ''invalid wanted_version'' 0)), sample_handler)"
proof -
  have "\<not> is_ok (validate_version ''0.9'')" by code_simp
  then show ?thesis
    using sample_checks(1)
    by (simp add: handle_request_def sample_request_def sample_hello_def validate_hello_shape_def
        PROTOCOL_VERSION_def refused_reply_def)
qed

lemma sample_negotiated:
  "\<exists>n. handle_request sample_env (sample_request ''1.2.0'') sample_handler =
     (Some (Negotiated n), snd (handle_request sample_env (sample_request ''1.2.0'') sample_handler)) \<and>
   ng_handle_passed_token n = replicate 16 3"
proof -
  have i: "fst (issue_with_random128 6 (\<lambda>_. Ok (replicate 16 3)) token_store_new) = Ok (replicate 16 3)"
    by (simp add: issue_with_random128_def prune_expired_def prune_expired_except_def token_store_new_def
        token_store_with_config_def handoff_token_store_config_default_def hm_empty_def hm_retain_def
        hm_len_def DEFAULT_MAX_PENDING_HANDOFF_TOKENS_def DEFAULT_HANDOFF_TOKEN_COLLISION_ATTEMPTS_def
        eval_nat_numeral hm_contains_def hm_get_def)
  obtain s where s: "issue_with_random128 6 (\<lambda>_. Ok (replicate 16 3)) token_store_new = (Ok (replicate 16 3), s)"
    using i by (metis prod.collapse)
  let ?h = "sample_handler\<lparr> hh_rate_limiter := snd (rate_check 7 5 (hh_rate_limiter sample_handler)),
      hh_next_connection_id := hh_next_connection_id sample_handler + 1 \<rparr>"
  have "fst (issue_handoff_token sample_env 1 ''zccache'' ?h) = replicate 16 3"
    by (simp add: issue_handoff_token_def sample_env_def sample_handler_def hello_handler_new_def
        CAP_HANDLE_PASSING_def s)
  then have it: "issue_handoff_token sample_env 1 ''zccache'' ?h =
      (replicate 16 3, snd (issue_handoff_token sample_env 1 ''zccache'' ?h))"
    by (metis prod.collapse)
  have "\<exists>n. handle_request sample_env (sample_request ''1.2.0'') sample_handler =
      (Some (Negotiated n), snd (issue_handoff_token sample_env 1 ''zccache'' ?h)) \<and>
    ng_handle_passed_token n = replicate 16 3"
    using sample_checks sample_policy sample_rate it
    by (subst handle_request_accepts [where b = sample_backend and t = "replicate 16 3" and
          h' = "snd (issue_handoff_token sample_env 1 ''zccache'' ?h)"])
      (simp_all add: validate_hello_shape_None_iff validate_version_policy_None_iff sample_request_def
        sample_hello_def sample_env_def PROTOCOL_VERSION_def sample_backend_def sample_handler_def
        hello_handler_new_def hm_get_def validate_session_token_def)
  then show ?thesis by auto
qed

section \<open>Properties\<close>

text \<open>C2: a Hello is negotiated exactly when it is admissible: its protocol range contains v1, its names,
  versions and lengths are within the frozen limits, its claimed process id does not contradict the
  verified one, the peer is within its rate, the service is registered and allows the wanted
  version, and, if a session authority is configured, the presented token is the current composite
  token of the service. Every other Hello gets a refusal, never an empty reply.\<close>

theorem hello_negotiated_iff_admissible:
  assumes "hello_handler_wf h"
  shows "fst (handle_request env req h) \<noteq> None \<and>
    ((\<exists>n. fst (handle_request env req h) = Some (Negotiated n)) \<longleftrightarrow>
    (let hello = hr_hello req; pid = peer_pid (hr_peer req) in
     he_client_min_protocol hello \<le> PROTOCOL_VERSION \<and> PROTOCOL_VERSION \<le> he_client_max_protocol hello \<and>
     is_ok (validate_service_name (he_service_name hello)) \<and>
     length (he_wanted_version hello) \<le> 64 \<and> is_ok (validate_version (he_wanted_version hello)) \<and>
     length (he_client_version hello) \<le> 128 \<and>
     length (he_client_lib_name hello) \<le> 64 \<and> length (he_client_lib_version hello) \<le> 64 \<and>
     (he_peer_pid hello = 0 \<or> pid = 0 \<or> he_peer_pid hello = pid) \<and>
     fst (rate_check pid (env_rate_now env) (hh_rate_limiter h)) = None \<and>
     (\<exists>b. hm_get (hh_backends h) (he_service_name hello) = Some b \<and>
       check_version_allowed (he_wanted_version hello) (rb_service_definition b) = Ok ()) \<and>
     (case hh_session_tokens h of
        None \<Rightarrow> True
      | Some a \<Rightarrow> composed_token_for a (he_service_name hello) = Some (he_auth_token hello))))"
    (is "_ \<and> (?N \<longleftrightarrow> ?A)")
proof -
  have auth: "case hh_session_tokens h of None \<Rightarrow> True | Some a \<Rightarrow> authority_wf a"
    using assms by (simp add: hello_handler_wf_def)
  have A: "?A \<longleftrightarrow> validate_hello_shape (hr_hello req) (hr_peer req) = None \<and>
      fst (rate_check (peer_pid (hr_peer req)) (env_rate_now env) (hh_rate_limiter h)) = None \<and>
      (\<exists>b. hm_get (hh_backends h) (he_service_name (hr_hello req)) = Some b \<and>
        validate_version_policy (hr_hello req) (rb_service_definition b) = None) \<and>
      validate_session_token h (hr_hello req) = None"
    unfolding Let_def validate_hello_shape_None_iff validate_version_policy_None_iff
      validate_session_token_None_iff [OF auth] by blast
  show ?thesis
  proof (cases rule: handle_request_cases [of env req h])
    case (refused r l)
    show ?thesis unfolding A using refused(1,5) by simp
  next
    case (negotiated n b h')
    show ?thesis unfolding A using negotiated(1-6) by simp
  qed
qed

theorem hello_negotiated_iff_admissible_witness:
  "(\<exists>n. fst (handle_request sample_env (sample_request ''1.2.0'') sample_handler) = Some (Negotiated n)) \<and>
   \<not> (\<exists>n. fst (handle_request sample_env (sample_request ''0.9.0'') sample_handler) = Some (Negotiated n))"
  using hello_negotiated_iff_admissible [OF sample_handler_wf, of sample_env "sample_request ''1.2.0''"]
    hello_negotiated_iff_admissible [OF sample_handler_wf, of sample_env "sample_request ''0.9.0''"]
    sample_checks sample_policy sample_rate
  by (simp add: sample_request_def sample_hello_def sample_env_def PROTOCOL_VERSION_def Let_def
      sample_backend_def sample_handler_def hello_handler_new_def hm_get_def)

text \<open>A refused Hello has no effect but on the rate counter of the peer: no connection id is used, no
  handoff token is issued or registered. Its code is one of the five documented ones, and it
  carries a retry hint exactly for a rate limit or a blocked version.\<close>

lemma hello_refusal_harmless:
  assumes "handle_request env req h = (Some (Refused r), h')"
  shows "h' = h\<lparr> hh_rate_limiter := hh_rate_limiter h' \<rparr> \<and>
    rf_code r \<in> error_code_i32 ` {ErrorVersionUnsupported, ErrorServiceUnknown, ErrorRateLimited,
      ErrorPeerRejected, ErrorVersionBlocked} \<and>
    (rf_retry_after_ms r \<noteq> 0 \<longleftrightarrow>
      rf_code r \<in> error_code_i32 ` {ErrorRateLimited, ErrorVersionBlocked}) \<and>
    (\<forall>pid. pid \<noteq> peer_pid (hr_peer req) \<longrightarrow>
      hm_get (prl_entries (hh_rate_limiter h')) pid = hm_get (prl_entries (hh_rate_limiter h)) pid)"
proof (cases rule: handle_request_cases [of env req h])
  case (refused r' l)
  have eq: "r' = r" "h' = h\<lparr> hh_rate_limiter := l \<rparr>" using refused(1) assms by auto
  show ?thesis using refused(2-4) unfolding eq by (auto simp: rate_check_other)
next
  case (negotiated n b h'')
  show ?thesis using negotiated(1) assms by simp
qed

text \<open>C26: a handoff token in a reply is usable, and a reply without one promises nothing. A token is only
  given to a client that offered handle passing; it is 16 bytes, the reply advertises the
  capability, an acknowledgement before the deadline completes the handoff of the requested
  service, and a backend presented with it before it expires adopts the connection. Without a token
  the capabilities are the backend's own and no acknowledgement is awaited.\<close>

theorem hello_handoff_token_usable:
  assumes "hello_handler_wf h" and "draws_16 (env_random128 env)"
    and "handle_request env req h = (Some (Negotiated n), h')"
    and "acked < add_or_now (env_issue_now env) (har_ack_deadline (hh_handoff_acks h))"
    and "presented < add_or_now (env_issue_now env) (htc_token_ttl (hts_config (hh_handoff_tokens h)))"
  shows "if ng_handle_passed_token n = []
    then hh_handoff_acks h' = hh_handoff_acks h \<and>
      (\<exists>b. hm_get (hh_backends h) (he_service_name (hr_hello req)) = Some b \<and>
        ng_server_capabilities n = rb_server_capabilities b)
    else he_client_capabilities (hr_hello req) AND CAP_HANDLE_PASSING \<noteq> 0 \<and>
      length (ng_handle_passed_token n) = 16 \<and> bit (ng_server_capabilities n) 0 \<and>
      (\<exists>a. fst (acknowledge_handoff (ng_handle_passed_token n) acked h') = Ok a \<and>
        phb_service_name (ah_backend a) = he_service_name (hr_hello req)) \<and>
      is_accepted (fst (accept_handed_off \<lparr> hop_expected_token = ng_handle_passed_token n,
        hop_presented_token = ng_handle_passed_token n, hop_connection = conn \<rparr>
        presented (hh_handoff_tokens h')))"
proof (cases rule: handle_request_cases [of env req h])
  case (refused r l)
  then show ?thesis using assms(3) by simp
next
  case (negotiated n' b h2)
  let ?t = "ng_handle_passed_token n"
  let ?hello = "hr_hello req"
  have n: "n' = n" "h2 = h'" using negotiated(1) assms(3) by auto
  have wf: "token_store_wf (hh_handoff_tokens h)" "token_store_wf (hh_handoff_tokens h')"
    using assms(1) hello_handler_wf_request [OF assms(1), of env req] assms(3)
    by (auto simp: hello_handler_wf_def)
  note i = issue_handoff_token_result [OF negotiated(7) _ assms(2), unfolded n]
  show ?thesis
  proof (cases "?t = []")
    case True
    then show ?thesis using i wf negotiated(4,12) n by simp
  next
    case False
    have acks: "hh_handoff_acks h' = ack_register ?t (pending_backend_for_service (he_service_name ?hello))
        (env_issue_now env) (hh_handoff_acks h)" using i wf False by simp
    have tok: "length ?t = 16" "he_client_capabilities ?hello AND CAP_HANDLE_PASSING \<noteq> 0"
      "hm_get (hts_pending (hh_handoff_tokens h')) ?t = Some \<lparr> pht_expires_at =
         add_or_now (env_issue_now env) (htc_token_ttl (hts_config (hh_handoff_tokens h))) \<rparr>"
      using i wf False by simp_all
    have "bit (ng_server_capabilities n) 0"
      using negotiated(12) n False by (simp add: bit_or_iff CAP_HANDLE_PASSING_def)
    moreover have "\<exists>a. fst (acknowledge_handoff ?t acked h') = Ok a \<and>
        phb_service_name (ah_backend a) = he_service_name ?hello"
      using assms(4) by (simp add: acknowledge_handoff_def acknowledge_def acks ack_register_def
          hm.get_insert pending_backend_for_service_def Let_def split: prod.splits)
    moreover have "is_accepted (fst (accept_handed_off \<lparr> hop_expected_token = ?t,
        hop_presented_token = ?t, hop_connection = conn \<rparr> presented (hh_handoff_tokens h')))"
      using assms(5) tok wf(2) False by (simp add: accept_handed_off_def parse_handoff_token_def
          HANDOFF_TOKEN_BYTES_def consume_matching_def prune_expired_except_get Let_def)
    ultimately show ?thesis using False tok by simp
  qed
qed

theorem hello_handoff_token_usable_witness:
  "is_accepted (fst (accept_handed_off
     \<lparr> hop_expected_token = replicate 16 3, hop_presented_token = replicate 16 3, hop_connection = () \<rparr> 7
     (hh_handoff_tokens (snd (handle_request sample_env (sample_request ''1.2.0'') sample_handler)))))"
proof -
  obtain n where n: "handle_request sample_env (sample_request ''1.2.0'') sample_handler =
      (Some (Negotiated n), snd (handle_request sample_env (sample_request ''1.2.0'') sample_handler))"
    "ng_handle_passed_token n = replicate 16 3"
    using sample_negotiated by blast
  have "draws_16 (env_random128 sample_env)" by (simp add: draws_16_def sample_env_def HANDOFF_TOKEN_BYTES_def)
  from hello_handoff_token_usable [OF sample_handler_wf this n(1), of 7 7 "()"] n(2) show ?thesis
    by (simp add: sample_env_def sample_handler_def hello_handler_new_def ack_registry_new_def
        ack_registry_with_deadline_def DEFAULT_HANDOFF_ACK_DEADLINE_def token_store_new_def
        token_store_with_config_def handoff_token_store_config_default_def DEFAULT_HANDOFF_TOKEN_TTL_def
        add_or_now_def INSTANT_MAX_def)
qed

text \<open>The rate limit is exact within a window. Of any interleaving of Hellos from any peers whose
  times lie within one window, a peer that had no window before gets exactly the configured number
  admitted, or all of them if it sent fewer.\<close>

lemma rate_limit_exact_per_window:
  assumes "pid \<noteq> 0" and "rate_limiter_wf l" and "hm_get (prl_entries l) pid = None"
    and "\<forall>(_, now) \<in> set checks. t0 \<le> now \<and> now < t0 + prl_window l"
  shows "count_list (fst (rate_run checks l)) (pid, True) =
    min (prl_max_per_window l) (count_list (map fst checks) pid)"
  using rate_run_admitted [OF assms(1,2,4), of 0 "fst (rate_run checks l)" "snd (rate_run checks l)"]
    assms(3) by simp

text \<open>Over any sequence of Hellos, acknowledgements and sweeps, every token that can still be
  presented awaits an acknowledgement, and the stores stay within their bounds; so a sweep after the
  last deadline leaves no usable token behind.\<close>

lemma handler_tokens_covered_by_sweep:
  assumes "hello_handler_wf h" and "h' = fold handler_step ops h"
  shows "hello_handler_wf h' \<and>
    (\<forall>now. (\<forall>t e. hm_get (har_pending (hh_handoff_acks h')) t = Some e \<longrightarrow> pae_ack_deadline_at e \<le> now) \<longrightarrow>
      (\<forall>t. \<not> token_pending (hh_handoff_tokens (snd (expire_overdue_handoffs now h'))) t))"
proof -
  have wf: "hello_handler_wf h'" using assms by (simp add: wf_intros)
  moreover have "\<not> token_pending (hh_handoff_tokens (snd (expire_overdue_handoffs now h'))) t"
    if late: "\<forall>t e. hm_get (har_pending (hh_handoff_acks h')) t = Some e \<longrightarrow> pae_ack_deadline_at e \<le> now" for now t
  proof -
    let ?acks = "hh_handoff_acks h'"
    obtain ex r s where e: "expire_overdue now ?acks (hh_handoff_tokens h') = (ex, r, s)"
      by (metis prod.collapse)
    have ok: "hm_ok (har_pending ?acks)" using wf by (simp add: hello_handler_wf_def)
    have "hm_get (har_pending r) t = None"
      using expire_overdue_result [OF ok e] late by (auto split: option.splits)
    moreover have "token_pending s t \<longrightarrow> hm_contains (har_pending r) t"
      using hello_handler_wf_expire [OF wf, of now] e
      by (simp add: hello_handler_wf_def expire_overdue_handoffs_def)
    ultimately show ?thesis using e by (auto simp: expire_overdue_handoffs_def hm_contains_def)
  qed
  ultimately show ?thesis by blast
qed

end
