(* ===== verification/Backend_Probe.thy ===== *)
theory Backend_Probe
  imports Backend_Registry
begin

text \<open>
  The identity probe of a backend endpoint (\<open>backend_lifecycle/probe.rs\<close>): the request and response
  frames with their 32-byte challenge, their validation on both sides, the deadline-driven reads and
  writes on a non-blocking stream, the check of the answering process
  (\<open>backend_lifecycle/verify_pid.rs\<close>) and the constructor of a verified handle
  (\<open>backend_handle.rs\<close>). The prost codecs, the operating system's answers about a process, and the
  behaviour of the peer are arguments. The poll loops are partial functions; the lemmas
  \<open>..._returns\<close> show that they end when the clock reaches the deadline.
\<close>

section \<open>Non-blocking streams\<close>

text \<open>What successive reads will find: a chunk of bytes, nothing yet, or a failure; when the script is
  exhausted the peer has closed. What successive writes and flushes will meet is described the
  same way; an exhausted script takes everything.\<close>

datatype arrival = Arrive bytes | NotYet | Broken io_error

datatype acceptance = Takes nat | WriteNotYet | WriteBroken io_error

record nb_stream =
  ns_incoming :: "arrival list"
  ns_accepts :: "acceptance list"
  ns_flushes :: "(io_error, unit) result list"
  ns_delivered :: bytes
  ns_waits :: nat

definition would_block :: io_error where
  "would_block = \<lparr> ioe_kind = WouldBlock, ioe_raw_os_error = None \<rparr>"

fun nb_read_script :: "nat \<Rightarrow> arrival list \<Rightarrow> (io_error, bytes) result \<times> arrival list" where
  "nb_read_script want [] = (Ok [], [])"
| "nb_read_script want (Arrive bs # s) =
    (Ok (take want bs), if length bs \<le> want then s else Arrive (drop want bs) # s)"
| "nb_read_script want (NotYet # s) = (Err would_block, s)"
| "nb_read_script want (Broken e # s) = (Err e, Broken e # s)"

definition nb_read :: "nat \<Rightarrow> nb_stream \<Rightarrow> (io_error, bytes) result \<times> nb_stream" where
  "nb_read want s =
    (case nb_read_script want (ns_incoming s) of (r, incoming) \<Rightarrow> (r, s\<lparr> ns_incoming := incoming \<rparr>))"

definition nb_write :: "bytes \<Rightarrow> nb_stream \<Rightarrow> (io_error, nat) result \<times> nb_stream" where
  "nb_write buf s =
    (case ns_accepts s of
       [] \<Rightarrow> (Ok (length buf), s\<lparr> ns_delivered := ns_delivered s @ buf \<rparr>)
     | Takes n # rest \<Rightarrow>
         (Ok (min n (length buf)),
          s\<lparr> ns_delivered := ns_delivered s @ take n buf, ns_accepts := rest \<rparr>)
     | WriteNotYet # rest \<Rightarrow> (Err would_block, s\<lparr> ns_accepts := rest \<rparr>)
     | WriteBroken e # rest \<Rightarrow> (Err e, s))"

definition nb_flush :: "nb_stream \<Rightarrow> (io_error, unit) result \<times> nb_stream" where
  "nb_flush s =
    (case ns_flushes s of
       [] \<Rightarrow> (Ok (), s)
     | r # rest \<Rightarrow> (r, s\<lparr> ns_flushes := rest \<rparr>))"

section \<open>Errors\<close>

datatype 'd endpoint_probe_error =
    ProbeRandom string
  | LocalSocketName io_error
  | ProbeConnect io_error
  | ConfigureNonblocking io_error
  | ProbeTimeout
  | ProbeIo io_error
  | ProbeUnsupportedFramingVersion byte byte
  | ProbeFrameTooLarge nat nat
  | ProbeDecodeFrame 'd
  | ProbeUnexpectedFrame string
  | ProbeMalformedPayload string
  | DecodeDaemonProcess 'd
  | ProbeIdentity identity_error
  | IdentityMismatch string

datatype 'd endpoint_probe_server_error =
    ServerFraming "'d framing_error"
  | ServerDecodeFrame 'd
  | ServerUnexpectedFrame string
  | ServerMalformedPayload string

section \<open>Deadline loops\<close>

text \<open>\<open>clock k\<close> is the time at the \<open>k\<close>-th wait. Passing the deadline is an error; otherwise the thread
  sleeps and the call is repeated.\<close>

definition wait_for_io ::
  "(nat \<Rightarrow> instant) \<Rightarrow> instant \<Rightarrow> nb_stream \<Rightarrow> ('d endpoint_probe_error, unit) result \<times> nb_stream" where
  "wait_for_io clock deadline s =
    (if clock (ns_waits s) \<ge> deadline then (Err ProbeTimeout, s)
     else (Ok (), s\<lparr> ns_waits := ns_waits s + 1 \<rparr>))"

partial_function (option) read_exact_with_deadline ::
  "(nat \<Rightarrow> instant) \<Rightarrow> instant \<Rightarrow> nat \<Rightarrow> bytes \<Rightarrow> nb_stream \<Rightarrow>
   (('d endpoint_probe_error, bytes) result \<times> nb_stream) option" where
  "read_exact_with_deadline clock deadline want got s =
    (if want = 0 then Some (Ok got, s)
     else
       (case nb_read want s of
          (Ok bs, s1) \<Rightarrow>
            if bs = []
            then (case wait_for_io clock deadline s1 of
                    (Err e, s2) \<Rightarrow> Some (Err e, s2)
                  | (Ok _, s2) \<Rightarrow> read_exact_with_deadline clock deadline want got s2)
            else read_exact_with_deadline clock deadline (want - length bs) (got @ bs) s1
        | (Err e, s1) \<Rightarrow>
            if ioe_kind e = WouldBlock
            then (case wait_for_io clock deadline s1 of
                    (Err e', s2) \<Rightarrow> Some (Err e', s2)
                  | (Ok _, s2) \<Rightarrow> read_exact_with_deadline clock deadline want got s2)
            else Some (Err (ProbeIo e), s1)))"

partial_function (option) write_all_with_deadline ::
  "(nat \<Rightarrow> instant) \<Rightarrow> instant \<Rightarrow> bytes \<Rightarrow> nb_stream \<Rightarrow>
   (('d endpoint_probe_error, unit) result \<times> nb_stream) option" where
  "write_all_with_deadline clock deadline buf s =
    (if buf = [] then Some (Ok (), s)
     else
       (case nb_write buf s of
          (Ok written, s1) \<Rightarrow>
            if written = 0
            then Some (Err (ProbeIo \<lparr> ioe_kind = WriteZero, ioe_raw_os_error = None \<rparr>), s1)
            else write_all_with_deadline clock deadline (drop written buf) s1
        | (Err e, s1) \<Rightarrow>
            if ioe_kind e = WouldBlock
            then (case wait_for_io clock deadline s1 of
                    (Err e', s2) \<Rightarrow> Some (Err e', s2)
                  | (Ok _, s2) \<Rightarrow> write_all_with_deadline clock deadline buf s2)
            else Some (Err (ProbeIo e), s1)))"

partial_function (option) flush_with_deadline ::
  "(nat \<Rightarrow> instant) \<Rightarrow> instant \<Rightarrow> nb_stream \<Rightarrow>
   (('d endpoint_probe_error, unit) result \<times> nb_stream) option" where
  "flush_with_deadline clock deadline s =
    (case nb_flush s of
       (Ok _, s1) \<Rightarrow> Some (Ok (), s1)
     | (Err e, s1) \<Rightarrow>
         if ioe_kind e = WouldBlock
         then (case wait_for_io clock deadline s1 of
                 (Err e', s2) \<Rightarrow> Some (Err e', s2)
               | (Ok _, s2) \<Rightarrow> flush_with_deadline clock deadline s2)
         else Some (Err (ProbeIo e), s1))"

section \<open>Probe framing\<close>

text \<open>\<open>parse_probe_frame\<close> over an arbitrary \<open>read_exact\<close>.\<close>

definition parse_probe_frame ::
  "(nat \<Rightarrow> 's \<Rightarrow> (('d endpoint_probe_error, bytes) result \<times> 's) option) \<Rightarrow> 's \<Rightarrow>
   (('d endpoint_probe_error, bytes) result \<times> 's) option" where
  "parse_probe_frame read_exact_fn s0 =
    (case read_exact_fn 1 s0 of
       None \<Rightarrow> None
     | Some (Err e, s1) \<Rightarrow> Some (Err e, s1)
     | Some (Ok version, s1) \<Rightarrow>
         if version ! 0 \<noteq> ENVELOPE_VERSION
         then Some (Err (ProbeUnsupportedFramingVersion (version ! 0) ENVELOPE_VERSION), s1)
         else
           (case read_exact_fn 4 s1 of
              None \<Rightarrow> None
            | Some (Err e, s2) \<Rightarrow> Some (Err e, s2)
            | Some (Ok len, s2) \<Rightarrow>
                let body_length = unat (u32_from_le_bytes len) in
                if body_length > MAX_FRAME_BYTES
                then Some (Err (ProbeFrameTooLarge body_length MAX_FRAME_BYTES), s2)
                else if body_length > 0 then read_exact_fn body_length s2
                else Some (Ok [], s2)))"

definition read_probe_frame :: "reader \<Rightarrow> (('d endpoint_probe_error, bytes) result \<times> reader) option" where
  "read_probe_frame r =
    parse_probe_frame (\<lambda>n r. case read_exact n r of (x, r') \<Rightarrow> Some (map_err ProbeIo x, r')) r"

definition read_probe_frame_with_deadline ::
  "(nat \<Rightarrow> instant) \<Rightarrow> instant \<Rightarrow> nb_stream \<Rightarrow>
   (('d endpoint_probe_error, bytes) result \<times> nb_stream) option" where
  "read_probe_frame_with_deadline clock deadline s =
    parse_probe_frame (\<lambda>n s. read_exact_with_deadline clock deadline n [] s) s"

definition write_probe_frame_with_deadline ::
  "(nat \<Rightarrow> instant) \<Rightarrow> instant \<Rightarrow> bytes \<Rightarrow> nb_stream \<Rightarrow>
   (('d endpoint_probe_error, unit) result \<times> nb_stream) option" where
  "write_probe_frame_with_deadline clock deadline body s =
    (if length body > MAX_FRAME_BYTES
     then Some (Err (ProbeFrameTooLarge (length body) MAX_FRAME_BYTES), s)
     else
       (case write_all_with_deadline clock deadline
               (ENVELOPE_VERSION # u32_to_le_bytes (word_of_nat (length body)) @ body) s of
          None \<Rightarrow> None
        | Some (Err e, s1) \<Rightarrow> Some (Err e, s1)
        | Some (Ok _, s1) \<Rightarrow> flush_with_deadline clock deadline s1))"

section \<open>Requests and responses\<close>

definition PROBE_NONCE_BYTES :: nat where
  "PROBE_NONCE_BYTES = 32"

definition DEFAULT_ENDPOINT_PROBE_TIMEOUT :: duration where
  "DEFAULT_ENDPOINT_PROBE_TIMEOUT = from_millis 500"

definition same_endpoint :: "endpoint \<Rightarrow> endpoint \<Rightarrow> bool" where
  "same_endpoint left right =
    (ep_namespace_id left = ep_namespace_id right \<and> ep_path left = ep_path right)"

record endpoint_probe_request =
  epr_request_id :: u64
  epr_nonce :: bytes
  epr_traceparent :: string
  epr_tracestate :: string

definition endpoint_probe_request_frame :: "u64 \<Rightarrow> bytes \<Rightarrow> frame" where
  "endpoint_probe_request_frame request_id nonce =
    \<lparr> fr_envelope_version = PROTOCOL_VERSION, fr_kind = frame_kind_i32 FrameKindRequest,
      fr_payload_protocol = BACKEND_HANDLE_PROBE_PAYLOAD_PROTOCOL, fr_payload = nonce,
      fr_request_id = request_id, fr_payload_encoding = payload_encoding_i32 EncodingNone,
      fr_deadline_unix_ms = 0, fr_traceparent = [], fr_tracestate = [] \<rparr>"

definition endpoint_probe_response_frame ::
  "(proto_daemon_process \<Rightarrow> bytes) \<Rightarrow> endpoint_probe_request \<Rightarrow> daemon_process \<Rightarrow> frame" where
  "endpoint_probe_response_frame encode_identity request daemon =
    \<lparr> fr_envelope_version = PROTOCOL_VERSION, fr_kind = frame_kind_i32 FrameKindResponse,
      fr_payload_protocol = BACKEND_HANDLE_PROBE_PAYLOAD_PROTOCOL,
      fr_payload = epr_nonce request @ encode_identity (to_proto daemon),
      fr_request_id = epr_request_id request,
      fr_payload_encoding = payload_encoding_i32 EncodingNone, fr_deadline_unix_ms = 0,
      fr_traceparent = epr_traceparent request, fr_tracestate = epr_tracestate request \<rparr>"

definition validate_endpoint_probe_request_frame ::
  "frame \<Rightarrow> ('d endpoint_probe_server_error, unit) result" where
  "validate_endpoint_probe_request_frame f =
    (if fr_envelope_version f \<noteq> PROTOCOL_VERSION
     then Err (ServerUnexpectedFrame ''envelope_version is not v1'')
     else if frame_kind_try_from (fr_kind f) \<noteq> Some FrameKindRequest
     then Err (ServerUnexpectedFrame ''kind is not REQUEST'')
     else if fr_payload_protocol f \<noteq> BACKEND_HANDLE_PROBE_PAYLOAD_PROTOCOL
     then Err (ServerUnexpectedFrame ''payload_protocol is not endpoint probe'')
     else if payload_encoding_try_from (fr_payload_encoding f) \<noteq> Some EncodingNone
     then Err (ServerUnexpectedFrame ''payload is compressed'')
     else if length (fr_payload f) \<noteq> PROBE_NONCE_BYTES
     then Err (ServerMalformedPayload ''nonce must be 32 bytes'')
     else Ok ())"

definition validate_endpoint_probe_response_frame ::
  "frame \<Rightarrow> u64 \<Rightarrow> ('d endpoint_probe_error, unit) result" where
  "validate_endpoint_probe_response_frame f request_id =
    (if fr_envelope_version f \<noteq> PROTOCOL_VERSION
     then Err (ProbeUnexpectedFrame ''envelope_version is not v1'')
     else if frame_kind_try_from (fr_kind f) \<noteq> Some FrameKindResponse
     then Err (ProbeUnexpectedFrame ''kind is not RESPONSE'')
     else if fr_payload_protocol f \<noteq> BACKEND_HANDLE_PROBE_PAYLOAD_PROTOCOL
     then Err (ProbeUnexpectedFrame ''payload_protocol is not endpoint probe'')
     else if fr_request_id f \<noteq> request_id
     then Err (ProbeUnexpectedFrame ''request_id does not match endpoint probe request'')
     else if payload_encoding_try_from (fr_payload_encoding f) \<noteq> Some EncodingNone
     then Err (ProbeUnexpectedFrame ''payload is compressed'')
     else Ok ())"

definition endpoint_probe_request_from_frame ::
  "frame \<Rightarrow> ('d endpoint_probe_server_error, endpoint_probe_request) result" where
  "endpoint_probe_request_from_frame f =
    result_bind (validate_endpoint_probe_request_frame f) (\<lambda>_.
      if length (fr_payload f) \<noteq> PROBE_NONCE_BYTES
      then Err (ServerMalformedPayload ''nonce must be 32 bytes'')
      else Ok \<lparr> epr_request_id = fr_request_id f, epr_nonce = fr_payload f,
                epr_traceparent = fr_traceparent f, epr_tracestate = fr_tracestate f \<rparr>)"

definition decode_response_identity ::
  "(bytes \<Rightarrow> ('d, proto_daemon_process) result) \<Rightarrow> bytes \<Rightarrow> bytes \<Rightarrow>
   ('d endpoint_probe_error, daemon_process) result" where
  "decode_response_identity decode_identity payload expected_nonce =
    (if length payload < PROBE_NONCE_BYTES
     then Err (ProbeMalformedPayload ''payload shorter than nonce'')
     else if take PROBE_NONCE_BYTES payload \<noteq> expected_nonce
     then Err (ProbeUnexpectedFrame ''nonce does not match endpoint probe request'')
     else result_bind
       (map_err DecodeDaemonProcess (decode_identity (drop PROBE_NONCE_BYTES payload)))
       (\<lambda>proto_identity. map_err ProbeIdentity (daemon_process_try_from proto_identity)))"

definition same_daemon_identity :: "daemon_process \<Rightarrow> daemon_process \<Rightarrow> bool" where
  "same_daemon_identity left right =
    (dp_pid left = dp_pid right \<and> dp_exe_path left = dp_exe_path right \<and>
     dp_exe_sha256 left = dp_exe_sha256 right \<and> dp_boot_id left = dp_boot_id right \<and>
     same_endpoint (dp_ipc_endpoint left) (dp_ipc_endpoint right))"

definition identity_mismatch :: "daemon_process \<Rightarrow> daemon_process \<Rightarrow> 'd endpoint_probe_error" where
  "identity_mismatch expected actual =
    IdentityMismatch
      (if dp_pid actual \<noteq> dp_pid expected then ''pid''
       else if dp_exe_path actual \<noteq> dp_exe_path expected then ''exe_path''
       else if dp_exe_sha256 actual \<noteq> dp_exe_sha256 expected then ''exe_sha256''
       else if dp_boot_id actual \<noteq> dp_boot_id expected then ''boot_id''
       else if \<not> same_endpoint (dp_ipc_endpoint actual) (dp_ipc_endpoint expected) then ''ipc_endpoint''
       else ''unknown'')"

section \<open>The responder\<close>

definition read_endpoint_probe_request ::
  "(bytes \<Rightarrow> ('d, frame) result) \<Rightarrow> reader \<Rightarrow>
   ('d endpoint_probe_server_error, endpoint_probe_request) result \<times> reader" where
  "read_endpoint_probe_request decode_frame r =
    (case read_frame r of
       (Err e, r') \<Rightarrow> (Err (ServerFraming e), r')
     | (Ok request_bytes, r') \<Rightarrow>
         (result_bind (map_err ServerDecodeFrame (decode_frame request_bytes))
            endpoint_probe_request_from_frame, r'))"

definition write_endpoint_probe_response ::
  "(frame \<Rightarrow> bytes) \<Rightarrow> (proto_daemon_process \<Rightarrow> bytes) \<Rightarrow> endpoint_probe_request \<Rightarrow> daemon_process \<Rightarrow>
   writer \<Rightarrow> ('d endpoint_probe_server_error, unit) result \<times> writer" where
  "write_endpoint_probe_response encode_frame encode_identity request daemon w =
    (case write_frame w (encode_frame (endpoint_probe_response_frame encode_identity request daemon)) of
       (Err e, w') \<Rightarrow> (Err (ServerFraming e), w')
     | (Ok _, w') \<Rightarrow> (Ok (), w'))"

definition handle_endpoint_probe ::
  "(frame \<Rightarrow> bytes) \<Rightarrow> (bytes \<Rightarrow> ('d, frame) result) \<Rightarrow> (proto_daemon_process \<Rightarrow> bytes) \<Rightarrow>
   daemon_process \<Rightarrow> reader \<Rightarrow> writer \<Rightarrow>
   ('d endpoint_probe_server_error, unit) result \<times> reader \<times> writer" where
  "handle_endpoint_probe encode_frame decode_frame encode_identity daemon r w =
    (case read_endpoint_probe_request decode_frame r of
       (Err e, r') \<Rightarrow> (Err e, r', w)
     | (Ok request, r') \<Rightarrow>
         (case write_endpoint_probe_response encode_frame encode_identity request daemon w of
            (x, w') \<Rightarrow> (x, r', w')))"

section \<open>The prober\<close>

text \<open>What one probe meets: the codecs, the random challenge, the socket name check, the helper thread
  and its connect (\<open>None\<close> when it does not complete in time), the switch to non-blocking mode, the
  write side of the stream, the peer's answer to the bytes it got, and the clock.\<close>

record 'd probe_env =
  pe_encode_frame :: "frame \<Rightarrow> bytes"
  pe_decode_frame :: "bytes \<Rightarrow> ('d, frame) result"
  pe_decode_identity :: "bytes \<Rightarrow> ('d, proto_daemon_process) result"
  pe_nonce :: "(string, bytes) result"
  pe_endpoint_name :: "string \<Rightarrow> (io_error, unit) result"
  pe_spawn_thread :: "(io_error, unit) result"
  pe_connect :: "string \<Rightarrow> (io_error, unit) result option"
  pe_nonblocking :: "(io_error, unit) result"
  pe_stream :: nb_stream
  pe_peer :: "bytes \<Rightarrow> arrival list"
  pe_clock :: "nat \<Rightarrow> instant"
  pe_deadline :: instant

definition connect_endpoint_with_deadline ::
  "'d probe_env \<Rightarrow> endpoint \<Rightarrow> ('d endpoint_probe_error, unit) result" where
  "connect_endpoint_with_deadline env endpoint =
    (if ep_path endpoint = []
     then Err (ProbeConnect \<lparr> ioe_kind = InvalidInput, ioe_raw_os_error = None \<rparr>)
     else result_bind (map_err LocalSocketName (pe_endpoint_name env (ep_path endpoint))) (\<lambda>_.
       result_bind (map_err ProbeConnect (pe_spawn_thread env)) (\<lambda>_.
       case pe_connect env (ep_path endpoint) of
         Some (Ok _) \<Rightarrow> Ok ()
       | Some (Err e) \<Rightarrow> Err (ProbeConnect e)
       | None \<Rightarrow> Err (ProbeConnect \<lparr> ioe_kind = TimedOut, ioe_raw_os_error = None \<rparr>))))"

definition u64_from_le_bytes :: "bytes \<Rightarrow> u64" where
  "u64_from_le_bytes bs = foldr (\<lambda>b acc. ucast b OR push_bit 8 acc) bs 0"

text \<open>The checks on the body of the answer.\<close>

definition check_probe_response ::
  "'d probe_env \<Rightarrow> u64 \<Rightarrow> bytes \<Rightarrow> daemon_process \<Rightarrow> bytes \<Rightarrow> ('d endpoint_probe_error, unit) result" where
  "check_probe_response env request_id nonce expected response_bytes =
    result_bind (map_err ProbeDecodeFrame (pe_decode_frame env response_bytes)) (\<lambda>response_frame.
    result_bind (validate_endpoint_probe_response_frame response_frame request_id) (\<lambda>_.
    result_bind (decode_response_identity (pe_decode_identity env) (fr_payload response_frame) nonce) (\<lambda>actual.
    if \<not> same_daemon_identity actual expected then Err (identity_mismatch expected actual)
    else Ok ())))"

definition probe_endpoint_response ::
  "'d probe_env \<Rightarrow> endpoint \<Rightarrow> daemon_process \<Rightarrow> ('d endpoint_probe_error, unit) result option" where
  "probe_endpoint_response env endpoint expected =
    (case pe_nonce env of
       Err e \<Rightarrow> Some (Err (ProbeRandom e))
     | Ok nonce \<Rightarrow>
       let request_id = u64_from_le_bytes (take 8 nonce);
           request_bytes = pe_encode_frame env (endpoint_probe_request_frame request_id nonce)
       in case result_bind (connect_endpoint_with_deadline env endpoint)
                 (\<lambda>_. map_err ConfigureNonblocking (pe_nonblocking env)) of
            Err e \<Rightarrow> Some (Err e)
          | Ok _ \<Rightarrow>
          (case write_probe_frame_with_deadline (pe_clock env) (pe_deadline env) request_bytes
                  (pe_stream env) of
             None \<Rightarrow> None
           | Some (Err e, s1) \<Rightarrow> Some (Err e)
           | Some (Ok _, s1) \<Rightarrow>
             (case read_probe_frame_with_deadline (pe_clock env) (pe_deadline env)
                     (s1\<lparr> ns_incoming := pe_peer env (ns_delivered s1) \<rparr>) of
                None \<Rightarrow> None
              | Some (Err e, s2) \<Rightarrow> Some (Err e)
              | Some (Ok response_bytes, s2) \<Rightarrow>
                  Some (check_probe_response env request_id nonce expected response_bytes))))"

section \<open>Process verification\<close>

text \<open>What the operating system says about processes and files. \<open>po_open\<close> is \<open>ProcessHandle::open\<close>,
  whose error is an \<open>NotFound\<close> or a \<open>Handle\<close> error; the hash of a file and the canonical form of a
  path may fail.\<close>

datatype verify_pid_error =
    InvalidPid u32
  | ProcessNotFound u32
  | BootIdMismatch string string
  | ExeHash u32 string io_error
  | ExePath u32 io_error
  | ExePathMismatch u32 string string
  | ExeSha256Mismatch u32
  | HandleError u32 io_error
  | GracefulTerminateUnsupported

record process_os =
  po_platform :: platform
  po_boot_id :: string
  po_open :: "u32 \<Rightarrow> (verify_pid_error, unit) result"
  po_exe_path :: "u32 \<Rightarrow> (io_error, string) result"
  po_sha256_file :: "string \<Rightarrow> (io_error, bytes) result"
  po_canonicalize :: "string \<Rightarrow> (io_error, string) result"

definition ascii_lowercase :: "char \<Rightarrow> char" where
  "ascii_lowercase c = (if is_ascii_upper c then char_of (char_code c + 32) else c)"

definition comparable_windows_path :: "string \<Rightarrow> string" where
  "comparable_windows_path path =
    (let path = map (\<lambda>c. if c = CHR 0x5C then CHR ''/'' else c) path;
         path = (if take 4 path = ''//?/'' then drop 4 path else path)
     in map ascii_lowercase path)"

definition canonical_or_self :: "process_os \<Rightarrow> string \<Rightarrow> string" where
  "canonical_or_self po path = (case po_canonicalize po path of Ok p \<Rightarrow> p | Err _ \<Rightarrow> path)"

definition same_exe_path :: "process_os \<Rightarrow> string \<Rightarrow> string \<Rightarrow> bool" where
  "same_exe_path po actual expected =
    (let actual = canonical_or_self po actual; expected = canonical_or_self po expected in
     if po_platform po = Windows
     then comparable_windows_path actual = comparable_windows_path expected
     else actual = expected)"

definition verify_daemon_process ::
  "process_os \<Rightarrow> daemon_process \<Rightarrow> (verify_pid_error, unit) result" where
  "verify_daemon_process po expected =
    (let pid = dp_pid expected in
     if pid = 0 then Err (InvalidPid pid)
     else if dp_boot_id expected \<noteq> [] \<and> po_boot_id po \<noteq> [] \<and> dp_boot_id expected \<noteq> po_boot_id po
     then Err (BootIdMismatch (dp_boot_id expected) (po_boot_id po))
     else result_bind (po_open po pid) (\<lambda>_.
       result_bind (map_err (ExePath pid) (po_exe_path po pid)) (\<lambda>exe_path.
       if \<not> same_exe_path po exe_path (dp_exe_path expected)
       then Err (ExePathMismatch pid (dp_exe_path expected) exe_path)
       else result_bind (map_err (ExeHash pid exe_path) (po_sha256_file po exe_path)) (\<lambda>actual_sha256.
         if actual_sha256 \<noteq> dp_exe_sha256 expected then Err (ExeSha256Mismatch pid) else Ok ()))))"

datatype 'd probe_error =
    EndpointMismatch
  | EndpointResponse "'d endpoint_probe_error"
  | ProbeVerifyPid verify_pid_error

definition probe_endpoint ::
  "process_os \<Rightarrow> 'd probe_env \<Rightarrow> endpoint \<Rightarrow> daemon_process \<Rightarrow> ('d probe_error, unit) result option" where
  "probe_endpoint po env endpoint expected =
    (if \<not> same_endpoint endpoint (dp_ipc_endpoint expected) then Some (Err EndpointMismatch)
     else
       (case verify_daemon_process po expected of
          Err e \<Rightarrow> Some (Err (ProbeVerifyPid e))
        | Ok _ \<Rightarrow> map_option (map_err EndpointResponse) (probe_endpoint_response env endpoint expected)))"

definition probe_with_service ::
  "process_os \<Rightarrow> 'd probe_env \<Rightarrow> string \<Rightarrow> string \<Rightarrow> endpoint \<Rightarrow> daemon_process \<Rightarrow>
   ('d probe_error, backend_handle) result option" where
  "probe_with_service po env service_name service_version endpoint expected =
    map_option (\<lambda>r. result_bind r (\<lambda>_. Ok \<lparr> bh_service_name = service_name,
        bh_service_version = service_version, bh_daemon_process = expected \<rparr>))
      (probe_endpoint po env endpoint expected)"

section \<open>Hypotheses on the surroundings\<close>

text \<open>The clock gets past the deadline after finitely many waits.\<close>

definition clock_reaches :: "(nat \<Rightarrow> instant) \<Rightarrow> instant \<Rightarrow> nat \<Rightarrow> bool" where
  "clock_reaches clock deadline n = (\<forall>k \<ge> n. deadline \<le> clock k)"

text \<open>A peer that serves one probe for \<open>daemon\<close> and sends what it wrote in one chunk.\<close>

definition serving_peer ::
  "(frame \<Rightarrow> bytes) \<Rightarrow> (bytes \<Rightarrow> ('d, frame) result) \<Rightarrow> (proto_daemon_process \<Rightarrow> bytes) \<Rightarrow>
   daemon_process \<Rightarrow> bytes \<Rightarrow> arrival list" where
  "serving_peer encode_frame decode_frame encode_identity daemon request =
    (case handle_endpoint_probe encode_frame decode_frame encode_identity daemon
            \<lparr> rd_bytes = request, rd_end = Eof \<rparr>
            \<lparr> wr_out = [], wr_room = None, wr_fault = eof_error, wr_flush = None \<rparr> of
       (_, _, w) \<Rightarrow> [Arrive (wr_out w)])"

text \<open>A sample backend and a sample probe of it, for the evaluations below.\<close>

definition sample_daemon :: daemon_process where
  "sample_daemon =
    \<lparr> dp_pid = 9, dp_exe_path = ''/bin/z'', dp_exe_sha256 = replicate 32 5, dp_boot_id = ''b'',
      dp_ipc_endpoint = \<lparr> ep_namespace_id = ''n'', ep_path = ''/s'' \<rparr>, dp_started_at_unix_ms = 0,
      dp_idle_timeout_secs = None \<rparr>"

definition sample_process_os :: process_os where
  "sample_process_os =
    \<lparr> po_platform = Linux, po_boot_id = ''b'', po_open = (\<lambda>_. Ok ()), po_exe_path = (\<lambda>_. Ok ''/bin/z''),
      po_sha256_file = (\<lambda>_. Ok (replicate 32 5)), po_canonicalize = (\<lambda>p. Ok p) \<rparr>"

definition sample_probe_request :: frame where
  "sample_probe_request =
    endpoint_probe_request_frame (u64_from_le_bytes (take 8 (replicate 32 1))) (replicate 32 1)"

definition sample_probe_response :: "daemon_process \<Rightarrow> frame" where
  "sample_probe_response d = endpoint_probe_response_frame (\<lambda>_. [2])
    \<lparr> epr_request_id = u64_from_le_bytes (take 8 (replicate 32 1)), epr_nonce = replicate 32 1,
      epr_traceparent = [], epr_tracestate = [] \<rparr> d"

definition sample_probe_env :: "daemon_process \<Rightarrow> string probe_env" where
  "sample_probe_env d =
    (let encode_frame = (\<lambda>f. if fr_kind f = 0 then [0] else [1]);
         decode_frame = (\<lambda>bs. Ok (if bs = [0] then sample_probe_request else sample_probe_response d))
     in \<lparr> pe_encode_frame = encode_frame, pe_decode_frame = decode_frame,
          pe_decode_identity = (\<lambda>_. Ok (to_proto d)), pe_nonce = Ok (replicate 32 1),
          pe_endpoint_name = (\<lambda>_. Ok ()), pe_spawn_thread = Ok (), pe_connect = (\<lambda>_. Some (Ok ())),
          pe_nonblocking = Ok (),
          pe_stream = \<lparr> ns_incoming = [], ns_accepts = [], ns_flushes = [], ns_delivered = [], ns_waits = 0 \<rparr>,
          pe_peer = serving_peer encode_frame decode_frame (\<lambda>_. [2]) d,
          pe_clock = (\<lambda>k. k), pe_deadline = 3 \<rparr>)"

section \<open>Deadline loops: lemmas\<close>

lemma wait_for_io_cases:
  assumes "clock_reaches clock deadline n"
  obtains (timeout) "(wait_for_io clock deadline s :: ('d endpoint_probe_error, unit) result \<times> nb_stream) =
      (Err ProbeTimeout, s)"
  | (again) s' where "(wait_for_io clock deadline s :: ('d endpoint_probe_error, unit) result \<times> nb_stream) =
      (Ok (), s')" "n - ns_waits s' < n - ns_waits s"
proof (cases "deadline \<le> clock (ns_waits s)")
  case True
  then show ?thesis using timeout by (simp add: wait_for_io_def)
next
  case False
  then have "ns_waits s < n" using assms by (auto simp: clock_reaches_def not_le [symmetric])
  then show ?thesis using again False by (simp add: wait_for_io_def)
qed

lemma nb_read_len: "fst (nb_read want s) = Ok bs \<Longrightarrow> length bs \<le> want"
  unfolding nb_read_def
  by (cases "nb_read_script want (ns_incoming s)"; cases "(want, ns_incoming s)" rule: nb_read_script.cases) auto

lemma nb_read_waits [simp]: "ns_waits (snd (nb_read want s)) = ns_waits s"
  by (simp add: nb_read_def split: prod.splits)

lemma nb_write_waits [simp]: "ns_waits (snd (nb_write buf s)) = ns_waits s"
  by (simp add: nb_write_def split: list.splits acceptance.splits)

lemma nb_flush_waits [simp]: "ns_waits (snd (nb_flush s)) = ns_waits s"
  by (simp add: nb_flush_def split: list.splits)

lemma read_exact_with_deadline_returns:
  assumes "clock_reaches clock deadline n"
  shows "\<exists>r :: ('d endpoint_probe_error, bytes) result \<times> nb_stream.
    read_exact_with_deadline clock deadline want got s = Some r"
proof (induction "want + (n - ns_waits s)" arbitrary: want got s rule: less_induct)
  case less
  obtain r s1 where rd: "nb_read want s = (r, s1)" by fastforce
  have w1: "ns_waits s1 = ns_waits s" using nb_read_waits [of want s] rd by simp
  have wait: "\<exists>x :: ('d endpoint_probe_error, bytes) result \<times> nb_stream.
      (case wait_for_io clock deadline s1 of (Err e', s2) \<Rightarrow> Some (Err e', s2)
       | (Ok _, s2) \<Rightarrow> read_exact_with_deadline clock deadline want got s2) = Some x"
  proof (cases rule: wait_for_io_cases [where 'd = 'd, OF assms, of s1])
    case (2 s2)
    then show ?thesis using less [of want s2 got] w1 by simp
  qed simp
  show ?case
  proof (cases "want = 0")
    case True
    then show ?thesis by (subst read_exact_with_deadline.simps) simp
  next
    case False
    then show ?thesis
    proof (cases r)
      case (Inl e)
      then show ?thesis
        using rd wait False by (subst read_exact_with_deadline.simps) simp
    next
      case (Inr bs)
      have "\<exists>x :: ('d endpoint_probe_error, bytes) result \<times> nb_stream.
          read_exact_with_deadline clock deadline (want - length bs) (got @ bs) s1 = Some x" if "bs \<noteq> []"
        by (rule less) (use False w1 that in \<open>cases bs; simp\<close>)
      then show ?thesis
        using rd wait False Inr by (subst read_exact_with_deadline.simps) simp
    qed
  qed
qed

lemma write_all_with_deadline_returns:
  assumes "clock_reaches clock deadline n"
  shows "\<exists>r :: ('d endpoint_probe_error, unit) result \<times> nb_stream.
    write_all_with_deadline clock deadline buf s = Some r"
proof (induction "length buf + (n - ns_waits s)" arbitrary: buf s rule: less_induct)
  case less
  obtain r s1 where wr: "nb_write buf s = (r, s1)" by fastforce
  have w1: "ns_waits s1 = ns_waits s" using nb_write_waits [of buf s] wr by simp
  have wait: "\<exists>x :: ('d endpoint_probe_error, unit) result \<times> nb_stream.
      (case wait_for_io clock deadline s1 of (Err e', s2) \<Rightarrow> Some (Err e', s2)
       | (Ok _, s2) \<Rightarrow> write_all_with_deadline clock deadline buf s2) = Some x"
  proof (cases rule: wait_for_io_cases [where 'd = 'd, OF assms, of s1])
    case (2 s2)
    then show ?thesis using less [of buf s2] w1 by simp
  qed simp
  have "\<exists>x :: ('d endpoint_probe_error, unit) result \<times> nb_stream.
      write_all_with_deadline clock deadline (drop k buf) s1 = Some x" if "k \<noteq> 0" "buf \<noteq> []" for k
    by (rule less) (use w1 that in \<open>cases buf; simp\<close>)
  then show ?case
    using wr wait by (subst write_all_with_deadline.simps) (cases r; simp)
qed

lemma flush_with_deadline_returns:
  assumes "clock_reaches clock deadline n"
  shows "\<exists>r :: ('d endpoint_probe_error, unit) result \<times> nb_stream.
    flush_with_deadline clock deadline s = Some r"
proof (induction "n - ns_waits s" arbitrary: s rule: less_induct)
  case less
  obtain r s1 where fl: "nb_flush s = (r, s1)" by fastforce
  have w1: "ns_waits s1 = ns_waits s" using nb_flush_waits [of s] fl by simp
  have "\<exists>x :: ('d endpoint_probe_error, unit) result \<times> nb_stream.
      (case wait_for_io clock deadline s1 of (Err e', s2) \<Rightarrow> Some (Err e', s2)
       | (Ok _, s2) \<Rightarrow> flush_with_deadline clock deadline s2) = Some x"
  proof (cases rule: wait_for_io_cases [where 'd = 'd, OF assms, of s1])
    case (2 s2)
    then show ?thesis using less [of s2] w1 by simp
  qed simp
  then show ?case using fl by (subst flush_with_deadline.simps) (cases r; simp)
qed

lemma parse_probe_frame_returns:
  assumes "\<And>n s. \<exists>r. read_fn n s = Some r"
  shows "\<exists>r. parse_probe_frame read_fn s = Some r"
proof -
  obtain r1 s1 where 1: "read_fn 1 s = Some (r1, s1)" using assms by (metis prod.collapse)
  obtain r4 s4 where 4: "read_fn 4 s1 = Some (r4, s4)" using assms by (metis prod.collapse)
  show ?thesis
    using assms by (cases r1; cases r4) (auto simp: parse_probe_frame_def 1 4 Let_def simp del: One_nat_def)
qed

lemma probe_endpoint_response_returns:
  assumes "clock_reaches (pe_clock env) (pe_deadline env) n"
  shows "\<exists>r. probe_endpoint_response env endpoint expected = Some r"
proof -
  have w: "\<exists>r. (write_probe_frame_with_deadline (pe_clock env) (pe_deadline env) body s
      :: (('a endpoint_probe_error, unit) result \<times> nb_stream) option) = Some r" for body s
    using write_all_with_deadline_returns [where 'd = 'a, OF assms,
        of "ENVELOPE_VERSION # u32_to_le_bytes (word_of_nat (length body)) @ body" s]
      flush_with_deadline_returns [where 'd = 'a, OF assms]
    by (auto simp: write_probe_frame_with_deadline_def split: sum.splits)
  have r: "\<exists>r. (read_probe_frame_with_deadline (pe_clock env) (pe_deadline env) s
      :: (('a endpoint_probe_error, bytes) result \<times> nb_stream) option) = Some r" for s
    unfolding read_probe_frame_with_deadline_def
    by (rule parse_probe_frame_returns) (rule read_exact_with_deadline_returns [OF assms])
  show ?thesis
  proof (cases "pe_nonce env")
    case (Inr nonce)
    obtain x s1 where 1: "write_probe_frame_with_deadline (pe_clock env) (pe_deadline env)
        (pe_encode_frame env (endpoint_probe_request_frame (u64_from_le_bytes (take 8 nonce)) nonce))
        (pe_stream env) = Some (x :: ('a endpoint_probe_error, unit) result, s1)"
      using w by (metis prod.collapse)
    obtain y s2 where 2: "read_probe_frame_with_deadline (pe_clock env) (pe_deadline env)
        (s1\<lparr> ns_incoming := pe_peer env (ns_delivered s1) \<rparr>) = Some (y :: ('a endpoint_probe_error, bytes) result, s2)"
      using r by (metis prod.collapse)
    show ?thesis
      by (cases x; cases y)
        (auto simp: probe_endpoint_response_def Inr 1 2 Let_def split: sum.splits)
  qed (simp add: probe_endpoint_response_def)
qed

section \<open>Probe framing: lemmas\<close>

lemma deadline_loops_done [simp]:
  "read_exact_with_deadline clock deadline 0 got s = Some (Ok got, s)"
  "write_all_with_deadline clock deadline [] s = Some (Ok (), s)"
  by (simp_all add: read_exact_with_deadline.simps write_all_with_deadline.simps)

lemma read_exact_with_deadline_arrived:
  assumes "a \<noteq> []" "ns_incoming s = [Arrive (a @ b)]"
  shows "read_exact_with_deadline clock deadline (length a) got s =
    Some (Ok (got @ a), s\<lparr> ns_incoming := (if b = [] then [] else [Arrive b]) \<rparr>)"
  using assms
  by (subst read_exact_with_deadline.simps) (simp add: nb_read_def)

lemma read_probe_frame_arrived:
  assumes "length body \<le> MAX_FRAME_BYTES" "ns_incoming s = [Arrive (write_frame_header body @ body)]"
  shows "\<exists>s'. (read_probe_frame_with_deadline clock deadline s
      :: (('d endpoint_probe_error, bytes) result \<times> nb_stream) option) = Some (Ok body, s')"
proof -
  let ?h = "u32_to_le_bytes (word_of_nat (length body))"
  let ?s1 = "s\<lparr> ns_incoming := [Arrive (?h @ body)] \<rparr>"
  let ?s4 = "s\<lparr> ns_incoming := (if body = [] then [] else [Arrive body]) \<rparr>"
  have h: "length ?h = 4" "?h \<noteq> []" by (simp_all add: u32_to_le_bytes_def)
  have 1: "(read_exact_with_deadline clock deadline 1 [] s
      :: (('d endpoint_probe_error, bytes) result \<times> nb_stream) option) = Some (Ok [ENVELOPE_VERSION], ?s1)"
    using read_exact_with_deadline_arrived [of "[ENVELOPE_VERSION]" s "?h @ body" clock deadline "[]"] assms(2) h(2)
    by (simp add: write_frame_header_layout)
  have 4: "(read_exact_with_deadline clock deadline 4 [] ?s1
      :: (('d endpoint_probe_error, bytes) result \<times> nb_stream) option) = Some (Ok ?h, ?s4)"
    using read_exact_with_deadline_arrived [of ?h ?s1 body clock deadline "[]"] h by simp
  have b: "(read_exact_with_deadline clock deadline (length body) [] ?s4
      :: (('d endpoint_probe_error, bytes) result \<times> nb_stream) option) =
      Some (Ok body, s\<lparr> ns_incoming := [] \<rparr>)" if "body \<noteq> []"
    using read_exact_with_deadline_arrived [of body ?s4 "[]" clock deadline "[]"] that by simp
  have n: "unat (u32_from_le_bytes ?h) = length body"
    using assms(1) by (simp add: unat_of_nat take_bit_nat_eq_self
        MAX_FRAME_BYTES_def MAX_FRAME_SIZE_BYTES_def)
  show ?thesis
    unfolding read_probe_frame_with_deadline_def parse_probe_frame_def
    unfolding 1 using assms(1) b by (simp add: 4 n)
qed

lemma write_probe_frame_delivered:
  assumes "length body \<le> MAX_FRAME_BYTES" "ns_accepts s = []" "ns_flushes s = []"
  shows "(write_probe_frame_with_deadline clock deadline body s
      :: (('d endpoint_probe_error, unit) result \<times> nb_stream) option) =
    Some (Ok (), s\<lparr> ns_delivered := ns_delivered s @ write_frame_header body @ body \<rparr>)"
proof -
  have "(write_all_with_deadline clock deadline (x # xs) s
      :: (('d endpoint_probe_error, unit) result \<times> nb_stream) option) =
      Some (Ok (), s\<lparr> ns_delivered := ns_delivered s @ x # xs \<rparr>)" for x xs
    using assms(2)
    by (subst write_all_with_deadline.simps) (simp add: nb_write_def)
  moreover have "(flush_with_deadline clock deadline (s\<lparr> ns_delivered := d \<rparr>)
      :: (('d endpoint_probe_error, unit) result \<times> nb_stream) option) =
      Some (Ok (), s\<lparr> ns_delivered := d \<rparr>)" for d
    using assms(3) by (subst flush_with_deadline.simps) (simp add: nb_flush_def)
  ultimately show ?thesis
    using assms(1) by (simp add: write_probe_frame_with_deadline_def write_frame_header_layout)
qed

section \<open>Probing: lemmas\<close>

lemma verify_daemon_process_Ok:
  assumes "verify_daemon_process po expected = Ok u"
  shows "dp_pid expected \<noteq> 0 \<and> po_open po (dp_pid expected) = Ok () \<and>
    (\<exists>path. po_exe_path po (dp_pid expected) = Ok path \<and> same_exe_path po path (dp_exe_path expected) \<and>
      po_sha256_file po path = Ok (dp_exe_sha256 expected))"
  using assms by (auto simp: verify_daemon_process_def Let_def split: if_splits)

lemma check_probe_response_Ok:
  assumes "check_probe_response env request_id nonce expected response = Ok u"
  shows "\<exists>f identity_bytes p actual. pe_decode_frame env response = Ok f \<and>
    fr_kind f = frame_kind_i32 FrameKindResponse \<and> fr_request_id f = request_id \<and>
    fr_payload f = nonce @ identity_bytes \<and> pe_decode_identity env identity_bytes = Ok p \<and>
    daemon_process_try_from p = Ok actual \<and> same_daemon_identity actual expected"
proof -
  obtain f actual where f: "pe_decode_frame env response = Ok f"
    and v: "validate_endpoint_probe_response_frame f request_id = (Ok () :: ('a endpoint_probe_error, unit) result)"
    and i: "decode_response_identity (pe_decode_identity env) (fr_payload f) nonce = Ok actual"
    and same: "same_daemon_identity actual expected"
    using assms by (auto simp: check_probe_response_def split: if_splits)
  have "fr_kind f = frame_kind_i32 FrameKindResponse" "fr_request_id f = request_id"
    using v by (auto simp: validate_endpoint_probe_response_frame_def frame_kind_try_from_def split: if_splits)
  moreover have "fr_payload f = nonce @ drop PROBE_NONCE_BYTES (fr_payload f)"
    using i by (auto simp: decode_response_identity_def split: if_splits)
  moreover obtain p where "pe_decode_identity env (drop PROBE_NONCE_BYTES (fr_payload f)) = Ok p"
    "daemon_process_try_from p = Ok actual"
    using i by (auto simp: decode_response_identity_def split: if_splits)
  ultimately show ?thesis using f same by blast
qed

lemma handle_endpoint_probe_answers:
  assumes "length nonce = PROBE_NONCE_BYTES"
    and "decode_frame request_bytes = Ok (endpoint_probe_request_frame request_id nonce)"
    and "length request_bytes \<le> MAX_FRAME_BYTES"
    and "response = endpoint_probe_response_frame encode_identity \<lparr> epr_request_id = request_id,
      epr_nonce = nonce, epr_traceparent = [], epr_tracestate = [] \<rparr> daemon"
    and "length (encode_frame response) \<le> MAX_FRAME_BYTES"
  shows "serving_peer encode_frame decode_frame encode_identity daemon
      (write_frame_header request_bytes @ request_bytes) =
    [Arrive (write_frame_header (encode_frame response) @ encode_frame response)]"
proof -
  let ?w = "\<lparr> wr_out = [], wr_room = None, wr_fault = eof_error, wr_flush = None \<rparr>"
  have rd: "read_frame \<lparr> rd_bytes = write_frame_header request_bytes @ request_bytes, rd_end = Eof \<rparr> =
      (Ok request_bytes :: ('a framing_error, bytes) result, \<lparr> rd_bytes = [], rd_end = Eof \<rparr>)"
    unfolding read_frame_def
    by (subst read_frame_with_cap_wire [where body = request_bytes and rest = "[]"]) (simp_all add: assms(3))
  have req: "endpoint_probe_request_from_frame (endpoint_probe_request_frame request_id nonce) =
      (Ok \<lparr> epr_request_id = request_id, epr_nonce = nonce, epr_traceparent = [], epr_tracestate = [] \<rparr>
        :: ('a endpoint_probe_server_error, endpoint_probe_request) result)"
    using assms(1) by (simp add: endpoint_probe_request_from_frame_def endpoint_probe_request_frame_def
        validate_endpoint_probe_request_frame_def frame_kind_try_from_def payload_encoding_try_from_def)
  have wr: "write_frame ?w (encode_frame response) =
      (Ok (5 + length (encode_frame response)) :: ('a framing_error, nat) result,
       ?w\<lparr> wr_out := write_frame_header (encode_frame response) @ encode_frame response \<rparr>)"
    using write_frame_delivers [OF assms(5), of ?w] by simp
  show ?thesis
    using wr by (simp add: serving_peer_def handle_endpoint_probe_def read_endpoint_probe_request_def rd
        assms(2) req write_endpoint_probe_response_def flip: assms(4))
qed

lemma check_probe_response_honest:
  assumes "length nonce = PROBE_NONCE_BYTES" "length (dp_exe_sha256 daemon) = 32"
    and "response = endpoint_probe_response_frame encode_identity \<lparr> epr_request_id = request_id,
      epr_nonce = nonce, epr_traceparent = [], epr_tracestate = [] \<rparr> daemon"
    and "pe_decode_frame env (encode_frame response) = Ok response"
    and "pe_decode_identity env (encode_identity (to_proto daemon)) = Ok (to_proto daemon)"
  shows "check_probe_response env request_id nonce expected (encode_frame response) =
    (if same_daemon_identity daemon expected then Ok () else Err (identity_mismatch expected daemon))"
proof -
  have "daemon_process_try_from (to_proto daemon) = Ok daemon"
    using assms(2) by (simp add: daemon_process_try_from_def to_proto_def)
  then show ?thesis
    using assms(1,4,5)
    by (simp add: check_probe_response_def assms(3) validate_endpoint_probe_response_frame_def
        endpoint_probe_response_frame_def decode_response_identity_def frame_kind_try_from_def
        payload_encoding_try_from_def)
qed

lemma probe_endpoint_honest:
  fixes env :: "'d probe_env"
  assumes "verify_daemon_process po expected = Ok ()"
    and "same_endpoint endpoint (dp_ipc_endpoint expected)"
    and "connect_endpoint_with_deadline env endpoint = Ok ()" and "pe_nonblocking env = Ok ()"
    and "pe_stream env = \<lparr> ns_incoming = [], ns_accepts = [], ns_flushes = [], ns_delivered = [], ns_waits = 0 \<rparr>"
    and "pe_nonce env = Ok nonce" and "length nonce = PROBE_NONCE_BYTES"
    and request: "request = endpoint_probe_request_frame (u64_from_le_bytes (take 8 nonce)) nonce"
    and response: "response = endpoint_probe_response_frame encode_identity
      \<lparr> epr_request_id = u64_from_le_bytes (take 8 nonce), epr_nonce = nonce, epr_traceparent = [],
        epr_tracestate = [] \<rparr> daemon"
    and codec: "pe_decode_frame env (pe_encode_frame env request) = Ok request"
      "pe_decode_frame env (pe_encode_frame env response) = Ok response"
      "pe_decode_identity env (encode_identity (to_proto daemon)) = Ok (to_proto daemon)"
    and sizes: "length (pe_encode_frame env request) \<le> MAX_FRAME_BYTES"
      "length (pe_encode_frame env response) \<le> MAX_FRAME_BYTES"
    and sha: "length (dp_exe_sha256 daemon) = 32"
    and peer: "pe_peer env = serving_peer (pe_encode_frame env) (pe_decode_frame env) encode_identity daemon"
  shows "probe_endpoint po env endpoint expected =
    Some (if same_daemon_identity daemon expected then Ok ()
          else Err (EndpointResponse (identity_mismatch expected daemon)))"
proof -
  let ?req = "pe_encode_frame env request"
  let ?resp = "pe_encode_frame env response"
  let ?s = "(pe_stream env)\<lparr> ns_delivered := write_frame_header ?req @ ?req \<rparr>"
  have wr: "(write_probe_frame_with_deadline (pe_clock env) (pe_deadline env) ?req (pe_stream env)
      :: (('d endpoint_probe_error, unit) result \<times> nb_stream) option) = Some (Ok (), ?s)"
    using write_probe_frame_delivered [where 'd = 'd, OF sizes(1), of "pe_stream env"] assms(5) by simp
  have "pe_peer env (ns_delivered ?s) = [Arrive (write_frame_header ?resp @ ?resp)]"
    unfolding peer
    using handle_endpoint_probe_answers [where decode_frame = "pe_decode_frame env" and request_bytes = ?req
        and encode_frame = "pe_encode_frame env", OF assms(7) _ sizes(1) response sizes(2)] codec(1) assms(5)
    by (simp add: request)
  then obtain s' where "(read_probe_frame_with_deadline (pe_clock env) (pe_deadline env)
      (?s\<lparr> ns_incoming := pe_peer env (ns_delivered ?s) \<rparr>)
      :: (('d endpoint_probe_error, bytes) result \<times> nb_stream) option) = Some (Ok ?resp, s')"
    using read_probe_frame_arrived [where 'd = 'd, OF sizes(2),
        of "?s\<lparr> ns_incoming := pe_peer env (ns_delivered ?s) \<rparr>"] by auto
  then have "probe_endpoint_response env endpoint expected =
      Some (check_probe_response env (u64_from_le_bytes (take 8 nonce)) nonce expected ?resp)"
    using wr assms(3,4,6) by (simp add: probe_endpoint_response_def Let_def flip: request)
  then show ?thesis
    using assms(1,2) check_probe_response_honest [where encode_frame = "pe_encode_frame env",
        OF assms(7) sha response codec(2,3)]
    by (simp add: probe_endpoint_def)
qed

section \<open>A sample probe\<close>

lemma sample_verified: "verify_daemon_process sample_process_os sample_daemon = Ok ()"
  by (simp add: verify_daemon_process_def sample_process_os_def sample_daemon_def same_exe_path_def)

lemma sample_probe_setup:
  "same_endpoint (dp_ipc_endpoint sample_daemon) (dp_ipc_endpoint sample_daemon)"
  "connect_endpoint_with_deadline (sample_probe_env d) (dp_ipc_endpoint sample_daemon) = Ok ()"
  "pe_nonblocking (sample_probe_env d) = Ok ()"
  "pe_stream (sample_probe_env d) =
    \<lparr> ns_incoming = [], ns_accepts = [], ns_flushes = [], ns_delivered = [], ns_waits = 0 \<rparr>"
  "pe_nonce (sample_probe_env d) = Ok (replicate 32 1)"
  "length (replicate 32 (1 :: byte)) = PROBE_NONCE_BYTES"
  by (simp_all add: same_endpoint_def connect_endpoint_with_deadline_def sample_probe_env_def Let_def
      sample_daemon_def PROBE_NONCE_BYTES_def)

lemma sample_probe_codec:
  "pe_decode_frame (sample_probe_env d) (pe_encode_frame (sample_probe_env d) sample_probe_request) =
    Ok sample_probe_request"
  "pe_decode_frame (sample_probe_env d) (pe_encode_frame (sample_probe_env d) (sample_probe_response d)) =
    Ok (sample_probe_response d)"
  "pe_decode_identity (sample_probe_env d) ((\<lambda>_. [2]) (to_proto d)) = Ok (to_proto d)"
  "length (pe_encode_frame (sample_probe_env d) sample_probe_request) \<le> MAX_FRAME_BYTES"
  "length (pe_encode_frame (sample_probe_env d) (sample_probe_response d)) \<le> MAX_FRAME_BYTES"
  by (simp_all add: sample_probe_env_def Let_def sample_probe_request_def sample_probe_response_def
      endpoint_probe_request_frame_def endpoint_probe_response_frame_def
      MAX_FRAME_BYTES_def MAX_FRAME_SIZE_BYTES_def)

lemma sample_probe_peer:
  "pe_peer (sample_probe_env d) =
    serving_peer (pe_encode_frame (sample_probe_env d)) (pe_decode_frame (sample_probe_env d)) (\<lambda>_. [2]) d"
  by (simp add: sample_probe_env_def Let_def)

lemma sample_probe_ok:
  "probe_endpoint sample_process_os (sample_probe_env sample_daemon) (dp_ipc_endpoint sample_daemon)
     sample_daemon = Some (Ok ())"
  by (subst probe_endpoint_honest [OF sample_verified sample_probe_setup sample_probe_request_def
        sample_probe_response_def sample_probe_codec _ sample_probe_peer])
    (simp_all add: sample_daemon_def same_daemon_identity_def same_endpoint_def)

section \<open>Properties\<close>

text \<open>A probe always ends. Whatever the peer sends or withholds and however the stream behaves, once
  the clock has reached the deadline the probe returns a verdict.\<close>

lemma probe_ends_by_deadline:
  assumes "clock_reaches (pe_clock env) (pe_deadline env) n"
  shows "\<exists>verdict. probe_endpoint po env endpoint expected = Some verdict"
  using probe_endpoint_response_returns [OF assms, of endpoint expected]
  by (auto simp: probe_endpoint_def split: sum.splits)

text \<open>C32: a successful probe identifies the backend. The endpoint is the recorded one, the recorded
  process exists and runs the recorded executable with the recorded hash, and the peer at the
  endpoint answered this probe's own challenge and request id with an identity that agrees with the
  recorded one in process id, executable, hash, boot and endpoint.\<close>

theorem probe_endpoint_sound:
  fixes env :: "'d probe_env"
  assumes "probe_endpoint po env endpoint expected = Some (Ok ())"
  shows "same_endpoint endpoint (dp_ipc_endpoint expected) \<and> dp_pid expected \<noteq> 0 \<and>
    po_open po (dp_pid expected) = Ok () \<and>
    (\<exists>path. po_exe_path po (dp_pid expected) = Ok path \<and> same_exe_path po path (dp_exe_path expected) \<and>
      po_sha256_file po path = Ok (dp_exe_sha256 expected)) \<and>
    (\<exists>nonce s s' response f identity_bytes p actual. pe_nonce env = Ok nonce \<and>
      (read_probe_frame_with_deadline (pe_clock env) (pe_deadline env)
        (s\<lparr> ns_incoming := pe_peer env (ns_delivered s) \<rparr>)
        :: (('d endpoint_probe_error, bytes) result \<times> nb_stream) option) = Some (Ok response, s') \<and>
      pe_decode_frame env response = Ok f \<and> fr_kind f = frame_kind_i32 FrameKindResponse \<and>
      fr_request_id f = u64_from_le_bytes (take 8 nonce) \<and> fr_payload f = nonce @ identity_bytes \<and>
      pe_decode_identity env identity_bytes = Ok p \<and> daemon_process_try_from p = Ok actual \<and>
      same_daemon_identity actual expected)"
proof -
  have same: "same_endpoint endpoint (dp_ipc_endpoint expected)"
    and ver: "verify_daemon_process po expected = Ok ()"
    and resp: "probe_endpoint_response env endpoint expected = Some (Ok ())"
    using assms by (auto simp: probe_endpoint_def split: if_splits sum.splits)
  obtain nonce s s' response where "pe_nonce env = Ok nonce"
    "(read_probe_frame_with_deadline (pe_clock env) (pe_deadline env)
        (s\<lparr> ns_incoming := pe_peer env (ns_delivered s) \<rparr>)
        :: (('d endpoint_probe_error, bytes) result \<times> nb_stream) option) = Some (Ok response, s')"
    "check_probe_response env (u64_from_le_bytes (take 8 nonce)) nonce expected response = Ok ()"
    using resp by (auto simp: probe_endpoint_response_def Let_def split: sum.splits option.splits prod.splits)
  moreover note check_probe_response_Ok [OF this(3)]
  ultimately show ?thesis using same verify_daemon_process_Ok [OF ver] by blast
qed

theorem probe_endpoint_sound_witness:
  "po_sha256_file sample_process_os ''/bin/z'' = Ok (replicate 32 5)"
  using probe_endpoint_sound [OF sample_probe_ok]
  by (simp add: sample_process_os_def sample_daemon_def)

text \<open>An honest backend passes its probe, and any other backend is named as a mismatch. When the
  recorded process checks out, the connection and the stream work, and the peer at the endpoint
  serves the probe for the identity \<open>daemon\<close>, the probe succeeds exactly if that identity agrees
  with the recorded one; otherwise it reports the first field that differs.\<close>

lemma probe_answered_by_daemon:
  fixes env :: "'d probe_env"
  assumes "verify_daemon_process po expected = Ok ()"
    and "same_endpoint endpoint (dp_ipc_endpoint expected)"
    and "connect_endpoint_with_deadline env endpoint = Ok ()" and "pe_nonblocking env = Ok ()"
    and "pe_stream env = \<lparr> ns_incoming = [], ns_accepts = [], ns_flushes = [], ns_delivered = [], ns_waits = 0 \<rparr>"
    and "pe_nonce env = Ok nonce" and "length nonce = PROBE_NONCE_BYTES"
    and request: "request = endpoint_probe_request_frame (u64_from_le_bytes (take 8 nonce)) nonce"
    and response: "response = endpoint_probe_response_frame encode_identity
      \<lparr> epr_request_id = u64_from_le_bytes (take 8 nonce), epr_nonce = nonce, epr_traceparent = [],
        epr_tracestate = [] \<rparr> daemon"
    and codec: "pe_decode_frame env (pe_encode_frame env request) = Ok request"
      "pe_decode_frame env (pe_encode_frame env response) = Ok response"
      "pe_decode_identity env (encode_identity (to_proto daemon)) = Ok (to_proto daemon)"
    and sizes: "length (pe_encode_frame env request) \<le> MAX_FRAME_BYTES"
      "length (pe_encode_frame env response) \<le> MAX_FRAME_BYTES"
    and sha: "length (dp_exe_sha256 daemon) = 32"
    and peer: "pe_peer env = serving_peer (pe_encode_frame env) (pe_decode_frame env) encode_identity daemon"
  shows "probe_endpoint po env endpoint expected =
    Some (if same_daemon_identity daemon expected then Ok ()
          else Err (EndpointResponse (identity_mismatch expected daemon)))"
  by (rule probe_endpoint_honest [OF assms])

text \<open>The probe's own frame parser accepts the same frames as the broker's framing, and leaves the
  stream in the same place.\<close>

lemma probe_framing_agrees:
  "(read_probe_frame r :: (('d endpoint_probe_error, bytes) result \<times> reader) option) = Some (Ok body, r') \<longleftrightarrow>
    (read_frame r :: ('d framing_error, bytes) result \<times> reader) = (Ok body, r')"
  by (auto simp: read_probe_frame_def parse_probe_frame_def read_frame_def read_frame_with_cap_def
      read_exact_or_eof_def Let_def split: prod.splits sum.splits if_splits)

end
