(* ===== verification/Endpoint_Allocator.thy ===== *)
theory Endpoint_Allocator
  imports Pipe_Names
begin

text \<open>
  The allocator of unguessable backend endpoints (\<open>server/backend_endpoint_allocator.rs\<close>). The
  random source is an argument: the result of its successive calls.
\<close>

section \<open>Backend endpoints\<close>

definition DEFAULT_BACKEND_ENDPOINT_ATTEMPTS :: nat where
  "DEFAULT_BACKEND_ENDPOINT_ATTEMPTS = 16"

record backend_endpoint_allocator =
  bea_user_sid_hash :: string
  bea_namespace_id :: string
  bea_max_attempts :: nat
  bea_reserved_paths :: "string set"

datatype backend_endpoint_allocator_error =
    AllocatorRandom string
  | AllocatorPipePath pipe_path_error
  | MissingPlatformPath
  | CollisionExhausted nat

definition allocator_new :: "string \<Rightarrow> string \<Rightarrow> backend_endpoint_allocator" where
  "allocator_new user_sid_hash namespace_id =
    \<lparr> bea_user_sid_hash = user_sid_hash, bea_namespace_id = namespace_id,
      bea_max_attempts = DEFAULT_BACKEND_ENDPOINT_ATTEMPTS, bea_reserved_paths = {} \<rparr>"

definition with_max_attempts ::
  "backend_endpoint_allocator \<Rightarrow> nat \<Rightarrow> backend_endpoint_allocator" where
  "with_max_attempts a max_attempts = a\<lparr> bea_max_attempts := max max_attempts 1 \<rparr>"

definition reserve_path ::
  "backend_endpoint_allocator \<Rightarrow> string \<Rightarrow> backend_endpoint_allocator" where
  "reserve_path a path = a\<lparr> bea_reserved_paths := insert path (bea_reserved_paths a) \<rparr>"

definition endpoint_path ::
  "host \<Rightarrow> pipe_path \<Rightarrow> (backend_endpoint_allocator_error, string) result" where
  "endpoint_path h p =
    (case (if host_platform h = Windows then pp_windows p else pp_unix p) of
       Some s \<Rightarrow> Ok s
     | None \<Rightarrow> Err MissingPlatformPath)"

text \<open>The candidate loop: \<open>next_random128 k\<close> is what the \<open>k\<close>-th call of the random source returns.\<close>

fun allocate_loop ::
  "host \<Rightarrow> (nat \<Rightarrow> (backend_endpoint_allocator_error, bytes) result) \<Rightarrow> nat \<Rightarrow> nat \<Rightarrow>
   backend_endpoint_allocator \<Rightarrow>
   (backend_endpoint_allocator_error, endpoint) result \<times> backend_endpoint_allocator" where
  "allocate_loop h next_random128 k 0 a = (Err (CollisionExhausted (bea_max_attempts a)), a)"
| "allocate_loop h next_random128 k (Suc n) a =
    (case next_random128 k of
       Err e \<Rightarrow> (Err e, a)
     | Ok random128 \<Rightarrow>
         (case backend_pipe h (bea_user_sid_hash a) random128 of
            Err e \<Rightarrow> (Err (AllocatorPipePath e), a)
          | Ok pipe \<Rightarrow>
              (case endpoint_path h pipe of
                 Err e \<Rightarrow> (Err e, a)
               | Ok path \<Rightarrow>
                   if path \<notin> bea_reserved_paths a
                   then (Ok \<lparr> ep_namespace_id = bea_namespace_id a, ep_path = path \<rparr>,
                         a\<lparr> bea_reserved_paths := insert path (bea_reserved_paths a) \<rparr>)
                   else allocate_loop h next_random128 (Suc k) n a)))"

definition allocate_with_random128 ::
  "host \<Rightarrow> (nat \<Rightarrow> (backend_endpoint_allocator_error, bytes) result) \<Rightarrow>
   backend_endpoint_allocator \<Rightarrow>
   (backend_endpoint_allocator_error, endpoint) result \<times> backend_endpoint_allocator" where
  "allocate_with_random128 h next_random128 a =
    allocate_loop h next_random128 0 (bea_max_attempts a) a"

section \<open>Endpoint allocation: lemmas\<close>

lemma allocate_loop_Ok:
  assumes "allocate_loop h rnd k n a = (Ok e, a')"
  shows "ep_path e \<notin> bea_reserved_paths a \<and> ep_namespace_id e = bea_namespace_id a \<and>
    a' = a\<lparr> bea_reserved_paths := insert (ep_path e) (bea_reserved_paths a) \<rparr> \<and>
    (\<exists>i r p. k \<le> i \<and> i < k + n \<and> rnd i = Ok r \<and> backend_pipe h (bea_user_sid_hash a) r = Ok p \<and>
      endpoint_path h p = Ok (ep_path e))"
  using assms
proof (induction n arbitrary: k)
  case (Suc n)
  show ?case
  proof (cases "allocate_loop h rnd (Suc k) n a = (Ok e, a')")
    case True
    then show ?thesis using Suc.IH [OF True] by (metis Suc_leD add_Suc add_Suc_right)
  next
    case False
    then show ?thesis
      using Suc.prems by (fastforce split: sum.splits if_splits)
  qed
qed simp

lemma allocate_loop_Err:
  assumes "allocate_loop h rnd k n a = (Err e, a')"
  shows "a' = a"
  using assms by (induction n arbitrary: k) (auto split: sum.splits if_splits)

lemma allocate_loop_exhausted:
  assumes "\<And>i. k \<le> i \<Longrightarrow> i < k + n \<Longrightarrow> \<exists>r p s. rnd i = Ok r \<and>
      backend_pipe h (bea_user_sid_hash a) r = Ok p \<and> endpoint_path h p = Ok s \<and> s \<in> bea_reserved_paths a"
  shows "allocate_loop h rnd k n a = (Err (CollisionExhausted (bea_max_attempts a)), a)"
  using assms
proof (induction n arbitrary: k)
  case (Suc n)
  have "allocate_loop h rnd (Suc k) n a = (Err (CollisionExhausted (bea_max_attempts a)), a)"
    by (rule Suc.IH) (use Suc.prems in auto)
  moreover obtain r p s where "rnd k = Ok r" "backend_pipe h (bea_user_sid_hash a) r = Ok p"
    "endpoint_path h p = Ok s" "s \<in> bea_reserved_paths a" using Suc.prems [of k] by auto
  ultimately show ?case by simp
qed simp
section \<open>Properties\<close>

text \<open>Backend endpoints are never handed out twice. A successful allocation returns a path that
  was not reserved before and is derived from one of the first \<open>max_attempts\<close> random draws, and
  reserves it; a failed one reserves nothing; and when every draw within the bound collides the
  allocator gives up with the number of attempts rather than looping.\<close>

lemma allocate_endpoint_fresh:
  "(case allocate_with_random128 h rnd a of
      (Ok e, a') \<Rightarrow>
        ep_path e \<notin> bea_reserved_paths a \<and>
        bea_reserved_paths a' = insert (ep_path e) (bea_reserved_paths a) \<and>
        (\<exists>i < bea_max_attempts a. \<exists>r p. rnd i = Ok r \<and>
           backend_pipe h (bea_user_sid_hash a) r = Ok p \<and> endpoint_path h p = Ok (ep_path e))
    | (Err e, a') \<Rightarrow> a' = a) \<and>
   ((\<forall>i < bea_max_attempts a. \<exists>r p s. rnd i = Ok r \<and> backend_pipe h (bea_user_sid_hash a) r = Ok p \<and>
       endpoint_path h p = Ok s \<and> s \<in> bea_reserved_paths a) \<longrightarrow>
     allocate_with_random128 h rnd a = (Err (CollisionExhausted (bea_max_attempts a)), a))"
proof (rule conjI)
  obtain r a' where eq: "allocate_with_random128 h rnd a = (r, a')" by fastforce
  show "case allocate_with_random128 h rnd a of
      (Ok e, a') \<Rightarrow>
        ep_path e \<notin> bea_reserved_paths a \<and>
        bea_reserved_paths a' = insert (ep_path e) (bea_reserved_paths a) \<and>
        (\<exists>i < bea_max_attempts a. \<exists>r p. rnd i = Ok r \<and>
           backend_pipe h (bea_user_sid_hash a) r = Ok p \<and> endpoint_path h p = Ok (ep_path e))
    | (Err e, a') \<Rightarrow> a' = a"
  proof (cases r)
    case (Inl e)
    then show ?thesis using eq allocate_loop_Err by (fastforce simp: allocate_with_random128_def)
  next
    case (Inr e)
    then show ?thesis
      using eq allocate_loop_Ok [of h rnd 0 "bea_max_attempts a" a e a']
      by (auto simp: allocate_with_random128_def)
  qed
next
  show "(\<forall>i < bea_max_attempts a. \<exists>r p s. rnd i = Ok r \<and> backend_pipe h (bea_user_sid_hash a) r = Ok p \<and>
       endpoint_path h p = Ok s \<and> s \<in> bea_reserved_paths a) \<longrightarrow>
     allocate_with_random128 h rnd a = (Err (CollisionExhausted (bea_max_attempts a)), a)"
    using allocate_loop_exhausted [of 0 "bea_max_attempts a" rnd h a]
    by (simp add: allocate_with_random128_def)
qed

end
