(* ===== verification/Backend_Launcher.thy ===== *)
theory Backend_Launcher
  imports Hello_Handler Backend_Probe Endpoint_Allocator
begin

text \<open>
  Launching a backend on a registry miss (\<open>server/backend_launcher.rs\<close>): the environment handed to
  the child, the containment check of the binary, the endpoint allocation per broker instance, and
  the launch itself, with what it does to processes and to a socket bound in advance recorded as a
  list of events. The operating system (paths, process creation, hashes, the clock), the
  random source and the identity probe are arguments.
\<close>

section \<open>Environment of the child\<close>

definition BACKEND_ENV_SERVICE_NAME :: string where
  "BACKEND_ENV_SERVICE_NAME = ''RUNNING_PROCESS_BROKER_V1_SERVICE_NAME''"

definition BACKEND_ENV_SERVICE_VERSION :: string where
  "BACKEND_ENV_SERVICE_VERSION = ''RUNNING_PROCESS_BROKER_V1_SERVICE_VERSION''"

definition BACKEND_ENV_ENDPOINT_PATH :: string where
  "BACKEND_ENV_ENDPOINT_PATH = ''RUNNING_PROCESS_BROKER_V1_BACKEND_PIPE''"

definition BACKEND_ENV_ENDPOINT_NAMESPACE :: string where
  "BACKEND_ENV_ENDPOINT_NAMESPACE = ''RUNNING_PROCESS_BROKER_V1_BACKEND_NAMESPACE''"

definition BACKEND_ENV_INSTANCE :: string where
  "BACKEND_ENV_INSTANCE = ''RUNNING_PROCESS_BROKER_V1_INSTANCE''"

definition BACKEND_ENV_TRACEPARENT :: string where
  "BACKEND_ENV_TRACEPARENT = ''RUNNING_PROCESS_BROKER_V1_TRACEPARENT''"

definition BACKEND_ENV_TRACESTATE :: string where
  "BACKEND_ENV_TRACESTATE = ''RUNNING_PROCESS_BROKER_V1_TRACESTATE''"

definition BACKEND_ENV_SESSION_TOKEN :: string where
  "BACKEND_ENV_SESSION_TOKEN = ''RUNNING_PROCESS_BROKER_V1_SESSION_TOKEN''"

record backend_launch_request =
  blr_key :: backend_key
  blr_service_definition :: service_definition
  blr_trace_context :: trace_context
  blr_session_token :: "bytes option"

record command =
  cmd_program :: string
  cmd_env :: "(string, string) hash_map"

definition command_new :: "string \<Rightarrow> command" where
  "command_new program = \<lparr> cmd_program = program, cmd_env = hm_empty \<rparr>"

definition env_set :: "string \<Rightarrow> string \<Rightarrow> command \<Rightarrow> command" where
  "env_set name val c = c\<lparr> cmd_env := hm_insert name val (cmd_env c) \<rparr>"

definition hex_encode :: "bytes \<Rightarrow> string" where
  "hex_encode bs = concat (map hex_byte bs)"

definition configure_backend_command ::
  "command \<Rightarrow> backend_launch_request \<Rightarrow> endpoint \<Rightarrow> command" where
  "configure_backend_command c0 request endpoint =
    (let key = blr_key request; trace = blr_trace_context request;
         c1 = env_set BACKEND_ENV_INSTANCE (instance_id (bk_instance key))
           (env_set BACKEND_ENV_ENDPOINT_NAMESPACE (ep_namespace_id endpoint)
           (env_set BACKEND_ENV_ENDPOINT_PATH (ep_path endpoint)
           (env_set BACKEND_ENV_SERVICE_VERSION (bk_service_version key)
           (env_set BACKEND_ENV_SERVICE_NAME (bk_service_name key) c0))));
         c2 = (if tc_traceparent trace \<noteq> [] then env_set BACKEND_ENV_TRACEPARENT (tc_traceparent trace) c1
               else c1);
         c3 = (if tc_tracestate trace \<noteq> [] then env_set BACKEND_ENV_TRACESTATE (tc_tracestate trace) c2
               else c2)
     in case blr_session_token request of
          None \<Rightarrow> c3
        | Some token \<Rightarrow> env_set BACKEND_ENV_SESSION_TOKEN (hex_encode token) c3)"

section \<open>Errors\<close>

datatype 'd backend_launch_error =
    EmptyBinaryPath
  | EmptyPerVersionBinaryDir
  | CanonicalizeBinary string io_error
  | CanonicalizeBinaryRoot string io_error
  | BinaryOutsideAllowRoot string string
  | AllocatorPoisoned
  | LaunchEndpoint backend_endpoint_allocator_error
  | LaunchSpawn io_error
  | LaunchIdentity identity_error
  | LaunchBackendHandle "'d probe_error"
  | Launcher string

section \<open>The binary\<close>

text \<open>\<open>Path::starts_with\<close> compares whole components, not characters; a canonical path has no \<open>.\<close> or
  \<open>..\<close> components.\<close>

definition path_components :: "platform \<Rightarrow> string \<Rightarrow> string list" where
  "path_components p path =
    filter (\<lambda>c. c \<noteq> []) (split_on (CHR ''/'')
      (if p = Windows then map (\<lambda>c. if c = CHR 0x5C then CHR ''/'' else c) path else path))"

definition path_starts_with :: "platform \<Rightarrow> string \<Rightarrow> string \<Rightarrow> bool" where
  "path_starts_with p path base = prefix (path_components p base) (path_components p path)"

definition canonical_backend_binary ::
  "platform \<Rightarrow> (string \<Rightarrow> (io_error, string) result) \<Rightarrow> service_definition \<Rightarrow>
   ('d backend_launch_error, string) result" where
  "canonical_backend_binary p canonicalize d =
    (if sd_binary_path d = [] then Err EmptyBinaryPath
     else if sd_per_version_binary_dir d = [] then Err EmptyPerVersionBinaryDir
     else result_bind (map_err (CanonicalizeBinary (sd_binary_path d)) (canonicalize (sd_binary_path d))) (\<lambda>binary.
       result_bind (map_err (CanonicalizeBinaryRoot (sd_per_version_binary_dir d))
         (canonicalize (sd_per_version_binary_dir d))) (\<lambda>root.
       if \<not> path_starts_with p binary root then Err (BinaryOutsideAllowRoot binary root)
       else Ok binary)))"

section \<open>Launch\<close>

record command_backend_launcher =
  cbl_user_sid_hash :: string
  cbl_allocators :: "(string, backend_endpoint_allocator) hash_map"
  cbl_idle_timeout_secs :: "u32 option"

definition command_launcher_new :: "string \<Rightarrow> command_backend_launcher" where
  "command_launcher_new user_sid_hash =
    \<lparr> cbl_user_sid_hash = user_sid_hash, cbl_allocators = hm_empty, cbl_idle_timeout_secs = Some 30 \<rparr>"

definition with_idle_timeout_secs ::
  "u32 option \<Rightarrow> command_backend_launcher \<Rightarrow> command_backend_launcher" where
  "with_idle_timeout_secs t l = l\<lparr> cbl_idle_timeout_secs := t \<rparr>"

text \<open>What the launch does to the system: a socket bound in the broker and its fate, the child started
  and killed.\<close>

datatype launch_event =
    ListenerBound string
  | ListenerReclaimed string
  | ListenerDisowned string
  | ChildSpawned u32 command
  | ChildKilled u32

record 'd launch_os =
  lo_host :: host
  lo_random128 :: "nat \<Rightarrow> (backend_endpoint_allocator_error, bytes) result"
  lo_canonicalize :: "string \<Rightarrow> (io_error, string) result"
  lo_bind_opt_in :: bool
  lo_bind :: "string \<Rightarrow> (io_error, unit) result"
  lo_prepare :: "(io_error, unit) result"
  lo_spawn :: "command \<Rightarrow> (io_error, u32) result"
  lo_sha256_file :: "string \<Rightarrow> (io_error, bytes) result"
  lo_boot_id :: string
  lo_now_unix_ms :: u64
  lo_probe :: "endpoint \<Rightarrow> daemon_process \<Rightarrow> ('d probe_error, unit) result"

definition allocate_endpoint ::
  "'d launch_os \<Rightarrow> backend_launch_request \<Rightarrow> command_backend_launcher \<Rightarrow>
   ('d backend_launch_error, endpoint) result \<times> command_backend_launcher" where
  "allocate_endpoint os request l =
    (let namespace_id = instance_id (bk_instance (blr_key request));
         allocator = (case hm_get (cbl_allocators l) namespace_id of
            None \<Rightarrow> allocator_new (cbl_user_sid_hash l) namespace_id
          | Some a \<Rightarrow> a)
     in case allocate_with_random128 (lo_host os) (lo_random128 os) allocator of
          (r, allocator') \<Rightarrow>
            (map_err LaunchEndpoint r,
             l\<lparr> cbl_allocators := hm_insert namespace_id allocator' (cbl_allocators l) \<rparr>))"

definition broker_owned_listener :: "'d launch_os \<Rightarrow> endpoint \<Rightarrow> bool" where
  "broker_owned_listener os endpoint =
    (host_platform (lo_host os) \<noteq> Windows \<and> lo_bind_opt_in os \<and> is_ok (lo_bind os (ep_path endpoint)))"

definition daemon_identity_for_spawned_process ::
  "'d launch_os \<Rightarrow> u32 \<Rightarrow> string \<Rightarrow> endpoint \<Rightarrow> u32 option \<Rightarrow> (identity_error, daemon_process) result" where
  "daemon_identity_for_spawned_process os pid exe_path ipc_endpoint idle_timeout_secs =
    result_bind (map_err IdentityIo (lo_sha256_file os exe_path)) (\<lambda>exe_sha256.
      Ok \<lparr> dp_pid = pid, dp_exe_path = exe_path, dp_exe_sha256 = exe_sha256, dp_boot_id = lo_boot_id os,
           dp_ipc_endpoint = ipc_endpoint, dp_started_at_unix_ms = lo_now_unix_ms os,
           dp_idle_timeout_secs = idle_timeout_secs \<rparr>)"

text \<open>The part of \<open>launch\<close> after the child is running: its identity, the probe, and the child's fate.
  A listener that is still held when the function returns is dropped, which reclaims its socket.\<close>

definition adopt_spawned_child ::
  "'d launch_os \<Rightarrow> backend_launch_request \<Rightarrow> endpoint \<Rightarrow> string \<Rightarrow> u32 option \<Rightarrow> bool \<Rightarrow> u32 \<Rightarrow>
   ('d backend_launch_error, backend_handle) result \<times> launch_event list" where
  "adopt_spawned_child os request endpoint binary_path idle_timeout_secs inherited pid =
    (let dropped = (if inherited then [ListenerReclaimed (ep_path endpoint)] else []) in
     case daemon_identity_for_spawned_process os pid binary_path endpoint idle_timeout_secs of
       Err e \<Rightarrow> (Err (LaunchIdentity e), dropped)
     | Ok daemon \<Rightarrow>
         (case lo_probe os endpoint daemon of
            Ok _ \<Rightarrow>
              (Ok \<lparr> bh_service_name = bk_service_name (blr_key request),
                    bh_service_version = bk_service_version (blr_key request),
                    bh_daemon_process = daemon \<rparr>,
               if inherited then [ListenerDisowned (ep_path endpoint)] else [])
          | Err e \<Rightarrow> (Err (LaunchBackendHandle e), ChildKilled pid # dropped)))"

definition launch ::
  "'d launch_os \<Rightarrow> backend_launch_request \<Rightarrow> command_backend_launcher \<Rightarrow>
   ('d backend_launch_error, backend_handle) result \<times> command_backend_launcher \<times> launch_event list" where
  "launch os request l0 =
    (case allocate_endpoint os request l0 of
       (Err e, l) \<Rightarrow> (Err e, l, [])
     | (Ok endpoint, l) \<Rightarrow>
     (case canonical_backend_binary (host_platform (lo_host os)) (lo_canonicalize os)
             (blr_service_definition request) of
        Err e \<Rightarrow> (Err e, l, [])
      | Ok binary_path \<Rightarrow>
        let command = configure_backend_command (command_new binary_path) request endpoint;
            path = ep_path endpoint;
            bound = broker_owned_listener os endpoint;
            inherited = (bound \<and> is_ok (lo_prepare os));
            before = (if bound then ListenerBound path # (if inherited then [] else [ListenerReclaimed path])
                     else [])
        in case lo_spawn os command of
             Err e \<Rightarrow> (Err (LaunchSpawn e), l, before @ (if inherited then [ListenerReclaimed path] else []))
           | Ok pid \<Rightarrow>
               (case adopt_spawned_child os request endpoint binary_path (cbl_idle_timeout_secs l)
                       inherited pid of
                  (r, events) \<Rightarrow> (r, l, before @ [ChildSpawned pid command] @ events))))"

definition sample_launch_os :: "(io_error, bytes) result \<Rightarrow> string launch_os" where
  "sample_launch_os hash =
    \<lparr> lo_host = \<lparr> host_platform = Linux, host_xdg_runtime_dir = None, host_tmpdir = None,
        host_uid = 7, host_blake3 = (\<lambda>b. b) \<rparr>,
      lo_random128 = (\<lambda>_. Ok [1]), lo_canonicalize = (\<lambda>p. Ok p), lo_bind_opt_in = True,
      lo_bind = (\<lambda>_. Ok ()), lo_prepare = Ok (), lo_spawn = (\<lambda>_. Ok 42),
      lo_sha256_file = (\<lambda>_. hash), lo_boot_id = ''b'', lo_now_unix_ms = 0,
      lo_probe = (\<lambda>_ _. Ok ()) \<rparr>"

definition sample_launch_request :: backend_launch_request where
  "sample_launch_request =
    \<lparr> blr_key = backend_key_new Shared ''zccache'' ''1.2.0'' [],
      blr_service_definition = sample_service\<lparr> sd_per_version_binary_dir := ''/bin'' \<rparr>,
      blr_trace_context = \<lparr> tc_request_id = 0, tc_traceparent = [], tc_tracestate = [] \<rparr>,
      blr_session_token = None \<rparr>"

definition sample_launch ::
  "(io_error, bytes) result \<Rightarrow>
   (string backend_launch_error, backend_handle) result \<times> command_backend_launcher \<times> launch_event list" where
  "sample_launch hash = launch (sample_launch_os hash) sample_launch_request
     (command_launcher_new ''0123456789abcdef'')"

section \<open>Launch: lemmas\<close>

lemma canonical_backend_binary_Ok:
  assumes "canonical_backend_binary p canonicalize d = Ok binary"
  shows "\<exists>root. canonicalize (sd_binary_path d) = Ok binary \<and>
    canonicalize (sd_per_version_binary_dir d) = Ok root \<and> path_starts_with p binary root"
  using assms by (auto simp: canonical_backend_binary_def split: if_splits)

lemmas backend_env_names =
  BACKEND_ENV_SERVICE_NAME_def BACKEND_ENV_SERVICE_VERSION_def BACKEND_ENV_ENDPOINT_PATH_def
  BACKEND_ENV_ENDPOINT_NAMESPACE_def BACKEND_ENV_INSTANCE_def BACKEND_ENV_TRACEPARENT_def
  BACKEND_ENV_TRACESTATE_def BACKEND_ENV_SESSION_TOKEN_def

lemma configure_backend_command_env:
  assumes "c = configure_backend_command (command_new binary) request endpoint"
  shows "cmd_program c = binary"
    "hm_get (cmd_env c) BACKEND_ENV_SERVICE_NAME = Some (bk_service_name (blr_key request))"
    "hm_get (cmd_env c) BACKEND_ENV_SERVICE_VERSION = Some (bk_service_version (blr_key request))"
    "hm_get (cmd_env c) BACKEND_ENV_ENDPOINT_PATH = Some (ep_path endpoint)"
    "hm_get (cmd_env c) BACKEND_ENV_SESSION_TOKEN = map_option hex_encode (blr_session_token request)"
  unfolding assms
  by (simp_all add: configure_backend_command_def command_new_def env_set_def hm.get_insert hm.get_empty
      Let_def backend_env_names split: option.splits)

text \<open>A launch either stops before a child runs, or starts one from the checked binary and then
  decides about it.\<close>

lemma launch_stages:
  fixes os :: "'d launch_os"
  assumes "launch os request l = (r, l', events)"
  shows "(\<not> is_ok r \<and> (\<forall>pid c. ChildSpawned pid c \<notin> set events)) \<or>
    (\<exists>endpoint binary before inherited pid c rest.
      allocate_endpoint os request l = (Ok endpoint, l') \<and>
      canonical_backend_binary (host_platform (lo_host os)) (lo_canonicalize os)
        (blr_service_definition request) = (Ok binary :: ('d backend_launch_error, string) result) \<and>
      c = configure_backend_command (command_new binary) request endpoint \<and>
      lo_spawn os c = Ok pid \<and> events = before @ [ChildSpawned pid c] @ rest \<and>
      adopt_spawned_child os request endpoint binary (cbl_idle_timeout_secs l') inherited pid = (r, rest) \<and>
      (before, inherited) \<in> {([], False), ([ListenerBound (ep_path endpoint)], True),
        ([ListenerBound (ep_path endpoint), ListenerReclaimed (ep_path endpoint)], False)})"
proof -
  obtain a l1 where a: "allocate_endpoint os request l = (a, l1)" by fastforce
  show ?thesis
  proof (cases a)
    case (Inl e)
    then show ?thesis using assms a by (auto simp: launch_def)
  next
    case (Inr endpoint)
    show ?thesis
    proof (cases "canonical_backend_binary (host_platform (lo_host os)) (lo_canonicalize os)
        (blr_service_definition request) :: ('d backend_launch_error, string) result")
      case (Inl e)
      then show ?thesis using assms a Inr by (auto simp: launch_def)
    next
      case b: (Inr binary)
      let ?c = "configure_backend_command (command_new binary) request endpoint"
      show ?thesis
      proof (cases "lo_spawn os ?c")
        case (Inl e)
        then show ?thesis using assms a Inr b by (auto simp: launch_def Let_def split: if_splits)
      next
        case pid: (Inr pid)
        let ?inherited = "broker_owned_listener os endpoint \<and> is_ok (lo_prepare os)"
        obtain r' rest where ad: "adopt_spawned_child os request endpoint binary (cbl_idle_timeout_secs l1)
            ?inherited pid = (r', rest)" by fastforce
        define before where "before = (if broker_owned_listener os endpoint
            then ListenerBound (ep_path endpoint) #
              (if ?inherited then [] else [ListenerReclaimed (ep_path endpoint)]) else [])"
        have "r' = r \<and> l1 = l' \<and> events = before @ [ChildSpawned pid ?c] @ rest"
          using assms a Inr b pid ad by (simp add: launch_def Let_def before_def)
        then show ?thesis
          using ad a Inr b pid
          by (intro disjI2 exI [of _ endpoint] exI [of _ binary] exI [of _ before] exI [of _ ?inherited]
              exI [of _ pid] exI [of _ ?c] exI [of _ rest]) (simp add: before_def)
      qed
    qed
  qed
qed

lemma adopt_spawned_child_cases:
  assumes "adopt_spawned_child os request endpoint binary idle inherited pid = (r, rest)"
  shows "case r of
      Ok h \<Rightarrow> bh_service_name h = bk_service_name (blr_key request) \<and>
        bh_service_version h = bk_service_version (blr_key request) \<and>
        dp_pid (bh_daemon_process h) = pid \<and> dp_exe_path (bh_daemon_process h) = binary \<and>
        dp_ipc_endpoint (bh_daemon_process h) = endpoint \<and>
        lo_sha256_file os binary = Ok (dp_exe_sha256 (bh_daemon_process h)) \<and>
        lo_probe os endpoint (bh_daemon_process h) = Ok () \<and>
        rest = (if inherited then [ListenerDisowned (ep_path endpoint)] else [])
    | Err e \<Rightarrow> (if \<exists>ie. e = LaunchIdentity ie then [] else [ChildKilled pid]) @
        (if inherited then [ListenerReclaimed (ep_path endpoint)] else []) = rest"
  using assms
  by (cases "lo_sha256_file os binary")
    (auto simp: adopt_spawned_child_def daemon_identity_for_spawned_process_def Let_def
      split: sum.splits if_splits)

lemma adopt_spawned_child_spawns_none:
  assumes "adopt_spawned_child os request endpoint binary idle inherited pid = (r, rest)"
  shows "ChildSpawned p c \<notin> set rest"
  using assms by (auto simp: adopt_spawned_child_def Let_def split: sum.splits if_splits)

lemma launch_child:
  fixes os :: "'d launch_os"
  assumes "launch os request l = (r, l', events)" "ChildSpawned pid c \<in> set events"
  shows "(\<exists>root. lo_canonicalize os (sd_binary_path (blr_service_definition request)) = Ok (cmd_program c) \<and>
        lo_canonicalize os (sd_per_version_binary_dir (blr_service_definition request)) = Ok root \<and>
        path_starts_with (host_platform (lo_host os)) (cmd_program c) root) \<and>
      hm_get (cmd_env c) BACKEND_ENV_SERVICE_NAME = Some (bk_service_name (blr_key request)) \<and>
      hm_get (cmd_env c) BACKEND_ENV_SERVICE_VERSION = Some (bk_service_version (blr_key request)) \<and>
      hm_get (cmd_env c) BACKEND_ENV_SESSION_TOKEN = map_option hex_encode (blr_session_token request)"
  using launch_stages [OF assms(1)]
proof (elim disjE exE conjE)
  fix endpoint binary before inherited pid' c' rest
  assume bin: "canonical_backend_binary (host_platform (lo_host os)) (lo_canonicalize os)
      (blr_service_definition request) = (Ok binary :: ('d backend_launch_error, string) result)"
    and c: "c' = configure_backend_command (command_new binary) request endpoint"
    and ev: "events = before @ [ChildSpawned pid' c'] @ rest"
    and ad: "adopt_spawned_child os request endpoint binary (cbl_idle_timeout_secs l') inherited pid' = (r, rest)"
    and bf: "(before, inherited) \<in> {([], False), ([ListenerBound (ep_path endpoint)], True),
       ([ListenerBound (ep_path endpoint), ListenerReclaimed (ep_path endpoint)], False)}"
  have "c = c'" using assms(2) bf adopt_spawned_child_spawns_none [OF ad] unfolding ev by auto
  then show ?thesis
    using canonical_backend_binary_Ok [OF bin] configure_backend_command_env [OF c] by simp
qed (use assms(2) in simp)

lemma launch_handle:
  fixes os :: "'d launch_os"
  assumes "launch os request l = (Ok h, l', events)"
  shows "\<exists>c. ChildSpawned (dp_pid (bh_daemon_process h)) c \<in> set events \<and>
      hm_get (cmd_env c) BACKEND_ENV_ENDPOINT_PATH =
        Some (ep_path (dp_ipc_endpoint (bh_daemon_process h))) \<and>
      bh_service_name h = bk_service_name (blr_key request) \<and>
      bh_service_version h = bk_service_version (blr_key request) \<and>
      lo_sha256_file os (cmd_program c) = Ok (dp_exe_sha256 (bh_daemon_process h)) \<and>
      lo_probe os (dp_ipc_endpoint (bh_daemon_process h)) (bh_daemon_process h) = Ok ()"
  using launch_stages [OF assms]
proof (elim disjE exE conjE)
  fix endpoint binary before inherited pid c rest
  assume c: "c = configure_backend_command (command_new binary) request endpoint"
    and ev: "events = before @ [ChildSpawned pid c] @ rest"
    and ad: "adopt_spawned_child os request endpoint binary (cbl_idle_timeout_secs l') inherited pid = (Ok h, rest)"
  then show ?thesis
    using adopt_spawned_child_cases [OF ad] configure_backend_command_env [OF c]
    by (intro exI [of _ c]) simp
qed simp

lemma spawn_event_iff:
  "(case e of ChildSpawned p _ \<Rightarrow> p = q | _ \<Rightarrow> False) \<longleftrightarrow> (\<exists>c. e = ChildSpawned q c)"
  by (cases e) auto

lemma sample_launch_spawns:
  "\<exists>c \<in> set (snd (snd (sample_launch (Ok [5])))). case c of ChildSpawned p _ \<Rightarrow> p = 42 | _ \<Rightarrow> False"
  "is_ok (fst (sample_launch (Ok [5])))"
  by code_simp+

section \<open>Properties\<close>

text \<open>C33: a launch only ever starts the canonical form of the service's binary, and only if it lies inside
  the canonical form of the service's version directory, whole path components compared; the child
  is told its service, its version, a freshly reserved endpoint and its session token. A returned
  handle belongs to that child: it carries the requested service and version, the reserved
  endpoint and the hash of that binary, and it answered the identity probe.\<close>

theorem launch_contained_and_identified:
  fixes os :: "'d launch_os"
  assumes "launch os request l = (r, l', events)"
  shows "(\<forall>pid c. ChildSpawned pid c \<in> set events \<longrightarrow>
      (\<exists>root. lo_canonicalize os (sd_binary_path (blr_service_definition request)) = Ok (cmd_program c) \<and>
        lo_canonicalize os (sd_per_version_binary_dir (blr_service_definition request)) = Ok root \<and>
        path_starts_with (host_platform (lo_host os)) (cmd_program c) root) \<and>
      hm_get (cmd_env c) BACKEND_ENV_SERVICE_NAME = Some (bk_service_name (blr_key request)) \<and>
      hm_get (cmd_env c) BACKEND_ENV_SERVICE_VERSION = Some (bk_service_version (blr_key request)) \<and>
      hm_get (cmd_env c) BACKEND_ENV_SESSION_TOKEN = map_option hex_encode (blr_session_token request)) \<and>
    (\<forall>h. r = Ok h \<longrightarrow> (\<exists>c. ChildSpawned (dp_pid (bh_daemon_process h)) c \<in> set events \<and>
      hm_get (cmd_env c) BACKEND_ENV_ENDPOINT_PATH =
        Some (ep_path (dp_ipc_endpoint (bh_daemon_process h))) \<and>
      bh_service_name h = bk_service_name (blr_key request) \<and>
      bh_service_version h = bk_service_version (blr_key request) \<and>
      lo_sha256_file os (cmd_program c) = Ok (dp_exe_sha256 (bh_daemon_process h)) \<and>
      lo_probe os (dp_ipc_endpoint (bh_daemon_process h)) (bh_daemon_process h) = Ok ()))"
  using launch_child [OF assms] launch_handle [of os request l _ l' events] assms by blast

theorem launch_contained_and_identified_witness:
  "path_starts_with Linux ''/bin/z'' ''/bin'' \<and> \<not> path_starts_with Linux ''/bin2/z'' ''/bin''"
proof -
  obtain r l' events where eq: "sample_launch (Ok [5]) = (r, l', events)" by (metis prod.collapse)
  obtain c where "ChildSpawned 42 c \<in> set events"
    using sample_launch_spawns(1) eq unfolding spawn_event_iff by auto
  then have "path_starts_with Linux ''/bin/z'' ''/bin''"
    using launch_contained_and_identified [OF eq [unfolded sample_launch_def]]
    by (fastforce simp: sample_launch_os_def sample_launch_request_def sample_service_def)
  moreover have "\<not> path_starts_with Linux ''/bin2/z'' ''/bin''" by code_simp
  ultimately show ?thesis by blast
qed

text \<open>C40: what becomes of the child and of a socket bound in advance. A socket the broker bound is either
  reclaimed or, exactly when the launch succeeds with it inherited, handed to the child. After a
  failed launch the child has been killed, except when the failure is that of hashing the
  executable: then the child is left running, unverified and unregistered.\<close>

theorem launch_failure_kills_child_unless_hash_fails:
  assumes "launch os request l = (Err e, l', events)" and "ChildSpawned pid c \<in> set events"
  shows "(ChildKilled pid \<in> set events \<longleftrightarrow> \<not> (\<exists>ie. e = LaunchIdentity ie)) \<and>
    (\<forall>path. ListenerDisowned path \<notin> set events) \<and>
    (\<forall>path. ListenerBound path \<in> set events \<longrightarrow> count_list events (ListenerReclaimed path) = 1)"
  using launch_stages [OF assms(1)]
proof (elim disjE exE conjE)
  fix endpoint binary before inherited pid' c' rest
  assume ev: "events = before @ [ChildSpawned pid' c'] @ rest"
    and ad: "adopt_spawned_child os request endpoint binary (cbl_idle_timeout_secs l') inherited pid' = (Err e, rest)"
    and bf: "(before, inherited) \<in> {([], False), ([ListenerBound (ep_path endpoint)], True),
       ([ListenerBound (ep_path endpoint), ListenerReclaimed (ep_path endpoint)], False)}"
  have rest: "rest = (if \<exists>ie. e = LaunchIdentity ie then [] else [ChildKilled pid']) @
        (if inherited then [ListenerReclaimed (ep_path endpoint)] else [])"
    using adopt_spawned_child_cases [OF ad] by simp
  have "pid = pid'" using assms(2) bf rest unfolding ev by (auto split: if_splits)
  then show ?thesis using bf rest unfolding ev by (auto split: if_splits)
qed (use assms(2) in auto)

theorem launch_failure_kills_child_unless_hash_fails_witness:
  "ChildKilled 42 \<notin> set (snd (snd (sample_launch (Err eof_error))))"
proof -
  obtain l' events where eq: "sample_launch (Err eof_error) = (Err (LaunchIdentity (IdentityIo eof_error)), l', events)"
  proof -
    have "fst (sample_launch (Err eof_error)) = Err (LaunchIdentity (IdentityIo eof_error))" by code_simp
    then show ?thesis using that by (metis prod.collapse)
  qed
  obtain c where "ChildSpawned 42 c \<in> set events"
  proof -
    have "\<exists>c \<in> set (snd (snd (sample_launch (Err eof_error)))). case c of ChildSpawned p _ \<Rightarrow> p = 42 | _ \<Rightarrow> False"
      by code_simp
    then show ?thesis using that eq unfolding spawn_event_iff by auto
  qed
  from launch_failure_kills_child_unless_hash_fails [OF eq [unfolded sample_launch_def] this] eq
  show ?thesis by simp
qed

end
