(* ===== verification/Hello_Router.thy ===== *)
theory Hello_Router
  imports Backend_Launcher
begin

text \<open>
  Routing a Hello (\<open>server/hello_router.rs\<close>): the service definition is read again for each request,
  its version policy and broker instance decided, the backend looked up by the content hash of the
  binary on disk, and a miss answered by launching the backend within the spawn budget. The reply is
  built by a fresh Hello handler that knows this one backend.

  The state behind the router's references and locks is the record \<open>hello_router\<close>; what a request
  reads of the system (clock, files, processes, random source) is the record \<open>router_env\<close>.
\<close>

section \<open>State\<close>

datatype backend_registry_view = Static backend_registry | Live backend_registry

type_synonym exe_hash_cache = "(string, nat \<times> u64 \<times> string) hash_map"

text \<open>The static cache of executable hashes is kept with the router: path, modification time, size and
  hash.\<close>

record hello_router =
  rt_backends :: backend_registry_view
  rt_spawn_coordinator :: "spawn_coordinator option"
  rt_backend_launcher :: "command_backend_launcher option"
  rt_session_tokens :: "session_token_authority option"
  rt_exe_cache :: exe_hash_cache

record 'd router_env =
  re_definitions_root :: string
  re_dir_is_private :: "string \<Rightarrow> (io_error, bool) result"
  re_read_file :: "string \<Rightarrow> (io_error, bytes) result"
  re_decode_definition :: "bytes \<Rightarrow> ('d, service_definition) result"
  re_metadata :: "string \<Rightarrow> (nat option \<times> u64) option"
  re_sha256_file :: "string \<Rightarrow> (io_error, bytes) result"
  re_is_alive :: "backend_handle \<Rightarrow> bool"
  re_begin_now :: instant
  re_finish_now :: instant
  re_rotate_draw :: random_draw
  re_register_draw :: random_draw
  re_launch_os :: "'d launch_os"
  re_hello_env :: hello_env
  re_show_load_error :: "'d service_definition_error \<Rightarrow> string"
  re_show_instance_error :: "broker_instance_error \<Rightarrow> string"
  re_show_handler_error :: "hello_handler_error \<Rightarrow> string"
  re_show_launch_error :: "'d backend_launch_error \<Rightarrow> string"

definition router_new :: "backend_registry \<Rightarrow> exe_hash_cache \<Rightarrow> hello_router" where
  "router_new backends cache =
    \<lparr> rt_backends = Static backends, rt_spawn_coordinator = None, rt_backend_launcher = None,
      rt_session_tokens = None, rt_exe_cache = cache \<rparr>"

definition with_lifecycle_monitor :: "backend_registry \<Rightarrow> exe_hash_cache \<Rightarrow> hello_router" where
  "with_lifecycle_monitor backends cache =
    \<lparr> rt_backends = Live backends, rt_spawn_coordinator = None, rt_backend_launcher = None,
      rt_session_tokens = None, rt_exe_cache = cache \<rparr>"

definition with_spawn_coordinator :: "spawn_coordinator \<Rightarrow> hello_router \<Rightarrow> hello_router" where
  "with_spawn_coordinator c rt = rt\<lparr> rt_spawn_coordinator := Some c \<rparr>"

definition with_backend_launcher :: "command_backend_launcher \<Rightarrow> hello_router \<Rightarrow> hello_router" where
  "with_backend_launcher l rt = rt\<lparr> rt_backend_launcher := Some l \<rparr>"

definition router_with_session_token_authority ::
  "session_token_authority \<Rightarrow> hello_router \<Rightarrow> hello_router" where
  "router_with_session_token_authority a rt = rt\<lparr> rt_session_tokens := Some a \<rparr>"

section \<open>Refusals\<close>

fun refused_from_service_definition_error ::
  "('d service_definition_error \<Rightarrow> string) \<Rightarrow> 'd service_definition_error \<Rightarrow> refused" where
  "refused_from_service_definition_error show_error (ServiceDefInvalidName e) =
    make_refused ErrorPeerRejected ''invalid service_name'' 0"
| "refused_from_service_definition_error show_error (ServiceDefIo e) =
    (if ioe_kind e = NotFound
     then make_refused ErrorServiceUnknown ''service definition was not found'' 0
     else make_refused ErrorServiceUnknown
       (''service definition could not be loaded: '' @ show_error (ServiceDefIo e)) 0)"
| "refused_from_service_definition_error show_error other =
    make_refused ErrorServiceUnknown
      (''service definition could not be loaded: '' @ show_error other) 0"

fun refused_from_version_policy :: "version_policy_block \<Rightarrow> refused" where
  "refused_from_version_policy BelowMinVersion =
    make_refused ErrorVersionBlocked ''wanted_version is below min_version'' 30000"
| "refused_from_version_policy OutsideAllowList =
    make_refused ErrorVersionBlocked ''wanted_version is not in version_allow_list'' 30000"

definition refused_from_handler_error ::
  "(hello_handler_error \<Rightarrow> string) \<Rightarrow> hello_handler_error \<Rightarrow> refused" where
  "refused_from_handler_error show_error e =
    make_refused ErrorInternal (''registered backend could not be installed: '' @ show_error e) 0"

section \<open>The content hash of the binary on disk\<close>

definition on_disk_exe_sha256_hex ::
  "'d router_env \<Rightarrow> string \<Rightarrow> exe_hash_cache \<Rightarrow> string \<times> exe_hash_cache" where
  "on_disk_exe_sha256_hex env path cache =
    (case re_metadata env path of
       None \<Rightarrow> ([], cache)
     | Some (modified, len) \<Rightarrow>
       let mtime = (case modified of None \<Rightarrow> 0 | Some t \<Rightarrow> t);
           miss = (case re_sha256_file env path of
               Err _ \<Rightarrow> ([], cache)
             | Ok bytes \<Rightarrow> (hex_lower bytes, hm_insert path (mtime, len, hex_lower bytes) cache))
       in case hm_get cache path of
            None \<Rightarrow> miss
          | Some (c_mtime, c_len, hash) \<Rightarrow>
              if c_mtime = mtime \<and> c_len = len then (hash, cache) else miss)"

section \<open>Lookup and launch\<close>

fun router_registered_backend_for ::
  "(backend_handle \<Rightarrow> bool) \<Rightarrow> broker_instance_key \<Rightarrow> service_definition \<Rightarrow> string \<Rightarrow> string \<Rightarrow>
   backend_registry_view \<Rightarrow> registered_backend option \<times> backend_registry_view" where
  "router_registered_backend_for is_alive i d service_version expected_exe (Static r) =
    (registry_registered_backend_for r i d service_version expected_exe, Static r)"
| "router_registered_backend_for is_alive i d service_version expected_exe (Live r) =
    (let r' = snd (prune_stale is_alive r) in
     (registry_registered_backend_for r' i d service_version expected_exe, Live r'))"

definition begin_spawn ::
  "'d router_env \<Rightarrow> backend_key \<Rightarrow> hello_router \<Rightarrow> (refused, unit) result \<times> hello_router" where
  "begin_spawn env key rt =
    (case rt_spawn_coordinator rt of
       None \<Rightarrow> (Ok (), rt)
     | Some coordinator \<Rightarrow>
       (case try_begin coordinator key (re_begin_now env) of
          (outcome, coordinator') \<Rightarrow>
          let rt' = rt\<lparr> rt_spawn_coordinator := Some coordinator' \<rparr> in
          case outcome of
            Ok _ \<Rightarrow> (Ok (), rt')
          | Err AlreadyInProgress \<Rightarrow>
              (Err (make_refused ErrorRateLimited ''backend spawn already in progress'' 1000), rt')
          | Err (BudgetExhausted wait remaining storm_trip) \<Rightarrow>
              (Err (make_refused ErrorRateLimited ''backend spawn budget exhausted''
                 (duration_to_retry_ms wait)),
               if storm_trip
               then rt'\<lparr> rt_session_tokens := map_option
                      (\<lambda>a. snd (rotate_broker_token (re_rotate_draw env) a)) (rt_session_tokens rt') \<rparr>
               else rt')))"

definition finish_spawn ::
  "'d router_env \<Rightarrow> backend_key \<Rightarrow> spawn_outcome \<Rightarrow> hello_router \<Rightarrow> hello_router" where
  "finish_spawn env key outcome rt =
    rt\<lparr> rt_spawn_coordinator := map_option
        (\<lambda>c. finish c key outcome (re_finish_now env)) (rt_spawn_coordinator rt) \<rparr>"

text \<open>The session token of a backend about to be launched: a failing random source leaves the launch
  without one.\<close>

definition mint_session_token ::
  "'d router_env \<Rightarrow> string \<Rightarrow> hello_router \<Rightarrow> bytes option \<times> hello_router" where
  "mint_session_token env service_name rt =
    (case rt_session_tokens rt of
       None \<Rightarrow> (None, rt)
     | Some authority \<Rightarrow>
       (case register_daemon (re_register_draw env) service_name authority of
          (outcome, authority') \<Rightarrow>
            (case outcome of
               Err _ \<Rightarrow> None
             | Ok daemon_half \<Rightarrow>
                 Some (compose_presented_token (sta_broker_token authority') daemon_half),
             rt\<lparr> rt_session_tokens := Some authority' \<rparr>)))"

definition register_launched_backend ::
  "backend_key \<Rightarrow> service_definition \<Rightarrow> backend_handle \<Rightarrow> hello_router \<Rightarrow>
   (refused, registered_backend) result \<times> hello_router" where
  "register_launched_backend key d handle rt =
    (if bh_service_name handle \<noteq> bk_service_name key \<or> bh_service_version handle \<noteq> bk_service_version key
     then (Err (make_refused ErrorInternal ''launched backend identity did not match request'' 0), rt)
     else
       (Ok \<lparr> rb_service_definition = d, rb_daemon_version = bh_service_version handle,
            rb_backend_pipe = ep_path (dp_ipc_endpoint (bh_daemon_process handle)),
            rb_server_capabilities = 0 \<rparr>,
        case rt_backends rt of
          Static _ \<Rightarrow> rt
        | Live r \<Rightarrow> rt\<lparr> rt_backends := Live (snd (registry_insert (bk_instance key) handle r)) \<rparr>))"

definition launch_backend ::
  "'d router_env \<Rightarrow> backend_key \<Rightarrow> service_definition \<Rightarrow> trace_context \<Rightarrow> hello_router \<Rightarrow>
   (refused, registered_backend) result \<times> hello_router \<times> launch_event list" where
  "launch_backend env key d trace rt0 =
    (case begin_spawn env key rt0 of
       (Err r, rt) \<Rightarrow> (Err r, rt, [])
     | (Ok _, rt) \<Rightarrow>
     (case rt_backend_launcher rt of
        None \<Rightarrow>
          (Err (make_refused ErrorBackendSpawnFailed ''backend is not registered'' 1000),
           finish_spawn env key Failed rt, [])
      | Some launcher \<Rightarrow>
      (case mint_session_token env (bk_service_name key) rt of
         (minted, rt1) \<Rightarrow>
      (case launch (re_launch_os env)
              \<lparr> blr_key = key, blr_service_definition = d, blr_trace_context = trace,
                blr_session_token = minted \<rparr> launcher of
         (launched, launcher', events) \<Rightarrow>
         let rt2 = rt1\<lparr> rt_backend_launcher := Some launcher' \<rparr> in
         (case launched of
            Err e \<Rightarrow>
              (Err (make_refused ErrorBackendSpawnFailed
                 (''backend spawn failed: '' @ re_show_launch_error env e) 1000),
               finish_spawn env key Failed rt2, events)
          | Ok handle \<Rightarrow>
            (case register_launched_backend key d handle rt2 of
               (Ok registered, rt3) \<Rightarrow> (Ok registered, finish_spawn env key Success rt3, events)
             | (Err r, rt3) \<Rightarrow> (Err r, finish_spawn env key Failed rt3, events)))))))"

section \<open>Routing\<close>

definition lookup_or_reload ::
  "'d router_env \<Rightarrow> string \<Rightarrow> ('d service_definition_error, service_definition) result" where
  "lookup_or_reload env service_name =
    load_service_definition (env_platform (re_hello_env env)) (re_dir_is_private env)
      (re_read_file env) (re_decode_definition env) (re_definitions_root env) service_name"

definition route_request ::
  "'d router_env \<Rightarrow> hello_request \<Rightarrow> hello_router \<Rightarrow>
   (refused, registered_backend) result \<times> hello_router \<times> launch_event list" where
  "route_request env request rt =
    (let hello = hr_hello request in
     case lookup_or_reload env (he_service_name hello) of
       Err e \<Rightarrow> (Err (refused_from_service_definition_error (re_show_load_error env) e), rt, [])
     | Ok d \<Rightarrow>
     (case check_version_allowed (he_wanted_version hello) d of
        Err block \<Rightarrow> (Err (refused_from_version_policy block), rt, [])
      | Ok _ \<Rightarrow>
     (case from_service_definition d of
        Err e \<Rightarrow> (Err (make_refused ErrorInternal
          (''service isolation could not be resolved: '' @ re_show_instance_error env e) 0), rt, [])
      | Ok i \<Rightarrow>
     (case on_disk_exe_sha256_hex env (sd_binary_path d) (rt_exe_cache rt) of
        (expected_exe, cache) \<Rightarrow>
     (case router_registered_backend_for (re_is_alive env) i d (he_wanted_version hello) expected_exe
             (rt_backends rt) of
        (found, view) \<Rightarrow>
        let rt1 = rt\<lparr> rt_exe_cache := cache, rt_backends := view \<rparr> in
        case found of
          Some registered \<Rightarrow> (Ok registered, rt1, [])
        | None \<Rightarrow>
            launch_backend env
              (backend_key_new i (he_service_name hello) (he_wanted_version hello) expected_exe)
              d (request_trace_context request) rt1)))))"

definition router_handle_request ::
  "'d router_env \<Rightarrow> hello_request \<Rightarrow> hello_router \<Rightarrow> hello_reply \<times> hello_router \<times> launch_event list" where
  "router_handle_request env request rt =
    (case validate_hello_shape (hr_hello request) (hr_peer request) of
       Some r \<Rightarrow> (refused_reply r, rt, [])
     | None \<Rightarrow>
     (case route_request env request rt of
        (Err r, rt', events) \<Rightarrow> (refused_reply r, rt', events)
      | (Ok registered, rt', events) \<Rightarrow>
          ((case with_backend registered hello_handler_new of
              Err e \<Rightarrow> refused_reply (refused_from_handler_error (re_show_handler_error env) e)
            | Ok handler \<Rightarrow> fst (handle_request (re_hello_env env) request handler)), rt', events)))"

definition router_handle_frame ::
  "(bytes \<Rightarrow> ('e, hello) result) \<Rightarrow> 'd router_env \<Rightarrow> frame \<Rightarrow> peer_identity \<Rightarrow> hello_router \<Rightarrow>
   hello_reply \<times> hello_router \<times> launch_event list" where
  "router_handle_frame decode_hello env f peer rt =
    (case hello_request_decode decode_hello f peer of
       Ok request \<Rightarrow> router_handle_request env request rt
     | Err r \<Rightarrow> (refused_reply r, rt, []))"

definition spawned_children :: "launch_event list \<Rightarrow> (u32 \<times> command) list" where
  "spawned_children events =
    List.map_filter (\<lambda>e. case e of ChildSpawned pid c \<Rightarrow> Some (pid, c) | _ \<Rightarrow> None) events"

definition in_flight :: "spawn_coordinator \<Rightarrow> backend_key \<Rightarrow> bool" where
  "in_flight c key = (case hm_get (sc_states c) key of None \<Rightarrow> False | Some s \<Rightarrow> sbs_in_flight s)"

text \<open>The cached hashes are those of the files as they are now, as long as their modification time and
  size tell versions of a file apart.\<close>

definition exe_cache_current :: "'d router_env \<Rightarrow> exe_hash_cache \<Rightarrow> bool" where
  "exe_cache_current env cache =
    (\<forall>path mtime len hash modified. hm_get cache path = Some (mtime, len, hash) \<longrightarrow>
       re_metadata env path = Some (modified, len) \<longrightarrow> mtime = (case modified of None \<Rightarrow> 0 | Some t \<Rightarrow> t) \<longrightarrow>
       (\<exists>b. re_sha256_file env path = Ok b \<and> hash = hex_lower b))"

definition view_wf :: "backend_registry_view \<Rightarrow> bool" where
  "view_wf view = (case view of Static r \<Rightarrow> registry_wf r | Live r \<Rightarrow> registry_wf r)"

text \<open>A sample router, for the evaluations below: one service, a live registry, one spawn attempt per
  window and a session authority.\<close>

definition sample_router_env :: "string router_env" where
  "sample_router_env =
    \<lparr> re_definitions_root = ''/etc/s'', re_dir_is_private = (\<lambda>_. Ok True), re_read_file = (\<lambda>_. Ok []),
      re_decode_definition = (\<lambda>_. Ok (sample_service\<lparr> sd_per_version_binary_dir := ''/bin'' \<rparr>)),
      re_metadata = (\<lambda>_. Some (Some 3, 4)), re_sha256_file = (\<lambda>_. Ok [5]), re_is_alive = (\<lambda>_. True),
      re_begin_now = 10, re_finish_now = 11, re_rotate_draw = Ok (replicate 16 9),
      re_register_draw = Ok (replicate 16 2), re_launch_os = sample_launch_os (Ok [5]),
      re_hello_env = sample_env, re_show_load_error = (\<lambda>_. []), re_show_instance_error = (\<lambda>_. []),
      re_show_handler_error = (\<lambda>_. []), re_show_launch_error = (\<lambda>_. []) \<rparr>"

definition sample_authority :: session_token_authority where
  "sample_authority = \<lparr> sta_broker_token = replicate 16 1,
     sta_daemon_tokens = [(''other'', replicate 16 7)] \<rparr>"

definition sample_router :: hello_router where
  "sample_router =
    router_with_session_token_authority sample_authority
      (with_backend_launcher (command_launcher_new ''0123456789abcdef'')
        (with_spawn_coordinator (spawn_coordinator_with_config (spawn_budget_config_new 1 100))
          (with_lifecycle_monitor registry_new hm_empty)))"

definition sample_routed :: "(refused, registered_backend) result \<times> hello_router \<times> launch_event list" where
  "sample_routed = route_request sample_router_env (sample_request ''1.2.0'') sample_router"

section \<open>Cases of a request\<close>

lemma begin_spawn_frame [simp]:
  "rt_backends (snd (begin_spawn env key rt)) = rt_backends rt"
  "rt_backend_launcher (snd (begin_spawn env key rt)) = rt_backend_launcher rt"
  "rt_exe_cache (snd (begin_spawn env key rt)) = rt_exe_cache rt"
  by (auto simp: begin_spawn_def Let_def split: option.splits prod.splits sum.splits spawn_begin_error.splits)

lemma begin_spawn_Ok:
  assumes "begin_spawn env key rt = (Ok u, rt')"
  shows "rt' = rt\<lparr> rt_spawn_coordinator :=
      map_option (\<lambda>c. snd (try_begin c key (re_begin_now env))) (rt_spawn_coordinator rt) \<rparr> \<and>
    (\<forall>c. rt_spawn_coordinator rt = Some c \<longrightarrow> is_ok (fst (try_begin c key (re_begin_now env))))"
proof (cases "rt_spawn_coordinator rt")
  case None
  then show ?thesis using assms by (simp add: begin_spawn_def)
next
  case (Some c)
  obtain res c' where t: "try_begin c key (re_begin_now env) = (res, c')" by fastforce
  then show ?thesis using assms Some
    by (auto simp: begin_spawn_def Let_def split: sum.splits spawn_begin_error.splits)
qed

lemma begin_spawn_Err:
  assumes "begin_spawn env key rt = (Err r, rt')"
  obtains c e c' where "rt_spawn_coordinator rt = Some c"
    "try_begin c key (re_begin_now env) = (Err e, c')" "rt_spawn_coordinator rt' = Some c'"
    "rf_code r = error_code_i32 ErrorRateLimited" "rf_retry_after_ms r \<noteq> 0"
    "rt_session_tokens rt' = (if is_storm_trip (Err e) then map_option
       (\<lambda>a. snd (rotate_broker_token (re_rotate_draw env) a)) (rt_session_tokens rt)
       else rt_session_tokens rt)"
proof (cases "rt_spawn_coordinator rt")
  case None
  then show ?thesis using assms by (simp add: begin_spawn_def)
next
  case (Some c)
  obtain res c' where t: "try_begin c key (re_begin_now env) = (res, c')" by fastforce
  then obtain e where o: "res = Err e"
    using assms Some by (cases res) (auto simp: begin_spawn_def)
  show ?thesis
    by (rule that [OF Some, of e c'])
      (use assms t o Some in \<open>auto simp: begin_spawn_def Let_def make_refused_def duration_to_retry_ms_pos
         split: spawn_begin_error.splits if_splits\<close>)
qed

lemma mint_session_token_frame:
  assumes "mint_session_token env n rt = (minted, rt')"
  shows "rt' = rt\<lparr> rt_session_tokens := map_option
      (\<lambda>a. snd (register_daemon (re_register_draw env) n a)) (rt_session_tokens rt) \<rparr>"
proof (cases "rt_session_tokens rt")
  case None
  then show ?thesis using assms by (simp add: mint_session_token_def)
next
  case (Some a)
  then show ?thesis using assms
    by (auto simp: mint_session_token_def split: prod.splits)
qed

lemma launch_backend_cases:
  fixes env :: "'d router_env"
  assumes "launch_backend env key d trace rt = (r, rt', events)"
  obtains
    (refused) e where "begin_spawn env key rt = (Err e, rt')" "r = Err e" "events = []"
  | (no_launcher) rt1 e where "begin_spawn env key rt = (Ok (), rt1)" "rt_backend_launcher rt = None"
      "r = Err e" "rt' = finish_spawn env key Failed rt1" "events = []"
  | (failed) rt1 l minted rt2 e l' x where "begin_spawn env key rt = (Ok (), rt1)"
      "rt_backend_launcher rt = Some l" "mint_session_token env (bk_service_name key) rt1 = (minted, rt2)"
      "launch (re_launch_os env) \<lparr> blr_key = key, blr_service_definition = d,
         blr_trace_context = trace, blr_session_token = minted \<rparr> l = (Err x, l', events)"
      "r = Err e" "rt' = finish_spawn env key Failed (rt2\<lparr> rt_backend_launcher := Some l' \<rparr>)"
  | (launched) rt1 l minted rt2 h l' where "begin_spawn env key rt = (Ok (), rt1)"
      "rt_backend_launcher rt = Some l" "mint_session_token env (bk_service_name key) rt1 = (minted, rt2)"
      "launch (re_launch_os env) \<lparr> blr_key = key, blr_service_definition = d,
         blr_trace_context = trace, blr_session_token = minted \<rparr> l = (Ok h, l', events)"
      "bh_service_name h = bk_service_name key" "bh_service_version h = bk_service_version key"
      "r = Ok (registered_backend_of d h)"
      "rt' = finish_spawn env key Success (snd (register_launched_backend key d h
         (rt2\<lparr> rt_backend_launcher := Some l' \<rparr>)))"
proof -
  obtain b rt1 where b: "begin_spawn env key rt = (b, rt1)" by fastforce
  show ?thesis
  proof (cases b)
    case (Inl e)
    then show ?thesis using refused assms b by (simp add: launch_backend_def)
  next
    case (Inr u)
    have bl: "rt_backend_launcher rt1 = rt_backend_launcher rt" by (metis b snd_conv begin_spawn_frame(2))
    show ?thesis
    proof (cases "rt_backend_launcher rt")
      case None
      then show ?thesis using no_launcher [of rt1] assms b Inr bl by (auto simp: launch_backend_def)
    next
      case (Some l)
      obtain minted rt2 where m: "mint_session_token env (bk_service_name key) rt1 = (minted, rt2)"
        by fastforce
      obtain x l' ev where x: "launch (re_launch_os env) \<lparr> blr_key = key, blr_service_definition = d,
         blr_trace_context = trace, blr_session_token = minted \<rparr> l = (x, l', ev)" by (metis prod_cases3)
      show ?thesis
      proof (cases x)
        case (Inl e)
        then show ?thesis
          using failed [OF _ Some m, of e l'] assms b Inr bl Some m x by (auto simp: launch_backend_def Let_def)
      next
        case h: (Inr h)
        have n: "bh_service_name h = bk_service_name key" "bh_service_version h = bk_service_version key"
          using launch_handle [OF x [unfolded h]] by auto
        then obtain rt3 where "register_launched_backend key d h (rt2\<lparr> rt_backend_launcher := Some l' \<rparr>)
            = (Ok (registered_backend_of d h), rt3)"
          by (simp add: register_launched_backend_def registered_backend_of_def)
        then show ?thesis
          using launched [OF _ Some m, of h l'] assms b Inr bl Some m x h n
          by (auto simp: launch_backend_def Let_def)
      qed
    qed
  qed
qed

lemma route_request_cases:
  fixes env :: "'d router_env"
  assumes "route_request env request rt = (r, rt', events)"
  obtains
    (rejected) e where "r = Err e" "rt' = rt" "events = []"
      "\<not> (\<exists>d i. lookup_or_reload env (he_service_name (hr_hello request)) = Ok d \<and>
          check_version_allowed (he_wanted_version (hr_hello request)) d = Ok () \<and>
          from_service_definition d = Ok i)"
  | (found) d i exe cache b view where
      "lookup_or_reload env (he_service_name (hr_hello request)) = Ok d"
      "check_version_allowed (he_wanted_version (hr_hello request)) d = Ok ()"
      "from_service_definition d = Ok i"
      "on_disk_exe_sha256_hex env (sd_binary_path d) (rt_exe_cache rt) = (exe, cache)"
      "router_registered_backend_for (re_is_alive env) i d (he_wanted_version (hr_hello request)) exe
         (rt_backends rt) = (Some b, view)"
      "r = Ok b" "rt' = rt\<lparr> rt_exe_cache := cache, rt_backends := view \<rparr>" "events = []"
  | (missing) d i exe cache view where
      "lookup_or_reload env (he_service_name (hr_hello request)) = Ok d"
      "check_version_allowed (he_wanted_version (hr_hello request)) d = Ok ()"
      "from_service_definition d = Ok i"
      "on_disk_exe_sha256_hex env (sd_binary_path d) (rt_exe_cache rt) = (exe, cache)"
      "router_registered_backend_for (re_is_alive env) i d (he_wanted_version (hr_hello request)) exe
         (rt_backends rt) = (None, view)"
      "launch_backend env (backend_key_new i (he_service_name (hr_hello request))
           (he_wanted_version (hr_hello request)) exe) d (request_trace_context request)
         (rt\<lparr> rt_exe_cache := cache, rt_backends := view \<rparr>) = (r, rt', events)"
proof (cases "lookup_or_reload env (he_service_name (hr_hello request))")
  case (Inl e)
  then show ?thesis using assms rejected by (auto simp: route_request_def)
next
  case d: (Inr d)
  show ?thesis
  proof (cases "check_version_allowed (he_wanted_version (hr_hello request)) d")
    case (Inl e)
    then show ?thesis using assms rejected d by (auto simp: route_request_def)
  next
    case c: (Inr u)
    show ?thesis
    proof (cases "from_service_definition d")
      case (Inl e)
      then show ?thesis using assms rejected d c by (auto simp: route_request_def)
    next
      case i: (Inr i)
      obtain exe cache where x: "on_disk_exe_sha256_hex env (sd_binary_path d) (rt_exe_cache rt) = (exe, cache)"
        by fastforce
      obtain o' view where v: "router_registered_backend_for (re_is_alive env) i d
          (he_wanted_version (hr_hello request)) exe (rt_backends rt) = (o', view)" by fastforce
      show ?thesis
        using assms found [OF d _ i x] missing [OF d _ i x] d c i x v
        by (cases o') (simp_all add: route_request_def Let_def)
    qed
  qed
qed

lemma with_backend_Ok:
  assumes "with_backend b h = Ok h'"
  shows "h' = h\<lparr> hh_backends := hm_insert (sd_service_name (rb_service_definition b)) b (hh_backends h) \<rparr>"
  using assms by (auto simp: with_backend_def Let_def split: if_splits)

lemma fresh_handler_admits:
  "fst (rate_check pid now (hh_rate_limiter (hello_handler_new\<lparr> hh_backends := m \<rparr>))) = None"
  by (simp add: hello_handler_new_def rate_limiter_default_def rate_limiter_new_def rate_check_def Let_def
      rate_window_fresh_def rate_window_refresh_def hm_simps DEFAULT_RATE_LIMIT_MAX_PER_WINDOW_def)

text \<open>The reply to a routed request: a fresh handler never limits the rate, asks for no session token
  and numbers its first connection 1.\<close>

lemma fresh_handler_reply:
  assumes "with_backend b hello_handler_new = Ok h"
    and "fst (handle_request env request h) = Some (Negotiated n)"
  shows "sd_service_name (rb_service_definition b) = he_service_name (hr_hello request)"
    and "ng_backend_pipe n = rb_backend_pipe b" and "ng_daemon_version n = rb_daemon_version b"
    and "ng_connection_id n = 1"
    and "ng_server_capabilities n = (if ng_handle_passed_token n \<noteq> []
       then rb_server_capabilities b OR CAP_HANDLE_PASSING else rb_server_capabilities b)"
proof -
  have h: "h = hello_handler_new\<lparr> hh_backends := hm_insert (sd_service_name (rb_service_definition b)) b hm_empty \<rparr>"
    using with_backend_Ok [OF assms(1)] by (simp add: hello_handler_new_def)
  have *: "sd_service_name (rb_service_definition b) = he_service_name (hr_hello request) \<and>
    ng_backend_pipe n = rb_backend_pipe b \<and> ng_daemon_version n = rb_daemon_version b \<and> ng_connection_id n = 1 \<and>
    ng_server_capabilities n = (if ng_handle_passed_token n \<noteq> []
       then rb_server_capabilities b OR CAP_HANDLE_PASSING else rb_server_capabilities b)"
  proof (cases rule: handle_request_cases [of env request h])
    case (refused r l)
    then show ?thesis using assms(2) by simp
  next
    case (negotiated n' b' h')
    have "n' = n" using negotiated(1) assms(2) by simp
    moreover have "b' = b \<and> sd_service_name (rb_service_definition b) = he_service_name (hr_hello request)"
      using negotiated(4) by (auto simp: h hm_simps split: if_splits)
    moreover have "hh_next_connection_id h = 1" by (simp add: h hello_handler_new_def)
    ultimately show ?thesis using negotiated(8,9,10,12) by simp
  qed
  then show "sd_service_name (rb_service_definition b) = he_service_name (hr_hello request)"
    "ng_backend_pipe n = rb_backend_pipe b" "ng_daemon_version n = rb_daemon_version b"
    "ng_connection_id n = 1" "ng_server_capabilities n = (if ng_handle_passed_token n \<noteq> []
       then rb_server_capabilities b OR CAP_HANDLE_PASSING else rb_server_capabilities b)"
    by simp_all
qed

text \<open>A request either is rejected without a trace, or has passed the shape check and is answered from
  its route.\<close>

lemma router_handle_request_cases:
  fixes env :: "'d router_env"
  assumes "router_handle_request env request rt = (reply, rt', events)"
  obtains
    (shape) e where "validate_hello_shape (hr_hello request) (hr_peer request) = Some e"
      "reply = Some (Refused e)" "rt' = rt" "events = []"
  | (routed) r where "validate_hello_shape (hr_hello request) (hr_peer request) = None"
      "route_request env request rt = (r, rt', events)"
      "reply = (case r of Err e \<Rightarrow> Some (Refused e) | Ok b \<Rightarrow>
         (case with_backend b hello_handler_new of
            Err e \<Rightarrow> Some (Refused (refused_from_handler_error (re_show_handler_error env) e))
          | Ok h \<Rightarrow> fst (handle_request (re_hello_env env) request h)))"
proof (cases "validate_hello_shape (hr_hello request) (hr_peer request)")
  case (Some e)
  then show ?thesis using assms shape by (simp add: router_handle_request_def refused_reply_def)
next
  case None
  obtain r rt1 ev where r: "route_request env request rt = (r, rt1, ev)" by (metis prod_cases3)
  show ?thesis
    using assms None r routed [OF None, of r]
    by (cases r) (auto simp: router_handle_request_def refused_reply_def split: sum.splits)
qed

lemma router_found:
  assumes "router_registered_backend_for is_alive i d v exe view = (Some b, view')"
  obtains h r where "b = registered_backend_of d h" "view' \<in> {Static r, Live r}"
    "registry_get r i (sd_service_name d) v exe = Some h" "is_alive h \<or> view = Static r"
    "view' = Live r \<longleftrightarrow> (\<exists>r0. view = Live r0)"
proof (cases view)
  case (Static r)
  then show ?thesis using assms that by (auto simp: registry_registered_backend_for_def)
next
  case (Live r)
  obtain h where h: "registry_get (snd (prune_stale is_alive r)) i (sd_service_name d) v exe = Some h"
    "b = registered_backend_of d h" and v: "view' = backend_registry_view.Live (snd (prune_stale is_alive r))"
    using assms Live by (auto simp: registry_registered_backend_for_def Let_def)
  have "is_alive h"
    using hm_get_SomeD [OF h(1) [unfolded registry_get_def]] by (auto simp: prune_stale_eq hm_retain_def)
  then show ?thesis using that [OF h(2) _ h(1)] Live v by simp
qed

lemma spawned_children_simps [simp]:
  "spawned_children [] = []"
  "spawned_children (e # events) =
    (case e of ChildSpawned pid c \<Rightarrow> [(pid, c)] | _ \<Rightarrow> []) @ spawned_children events"
  "spawned_children (xs @ ys) = spawned_children xs @ spawned_children ys"
  by (simp_all add: spawned_children_def List.map_filter_def split: launch_event.split)

lemma spawned_children_iff: "(pid, c) \<in> set (spawned_children events) \<longleftrightarrow> ChildSpawned pid c \<in> set events"
  by (induction events) (auto split: launch_event.splits)

lemma spawned_children_empty:
  "(\<And>pid c. ChildSpawned pid c \<notin> set events) \<Longrightarrow> spawned_children events = []"
  by (metis spawned_children_iff list.set_intros(1) neq_Nil_conv old.prod.exhaust)

lemma launch_one_child:
  fixes os :: "'d launch_os"
  assumes "launch os request l = (r, l', events)"
  shows "length (spawned_children events) \<le> 1"
  using launch_stages [OF assms]
proof (elim disjE exE conjE)
  fix endpoint binary before inherited pid c rest
  assume ev: "events = before @ [ChildSpawned pid c] @ rest"
    and ad: "adopt_spawned_child os request endpoint binary (cbl_idle_timeout_secs l') inherited pid = (r, rest)"
    and bf: "(before, inherited) \<in> {([], False), ([ListenerBound (ep_path endpoint)], True),
       ([ListenerBound (ep_path endpoint), ListenerReclaimed (ep_path endpoint)], False)}"
  have "spawned_children rest = []"
    by (rule spawned_children_empty) (rule adopt_spawned_child_spawns_none [OF ad])
  then show ?thesis using bf by (auto simp: ev)
qed (use spawned_children_empty in simp)

lemma launch_backend_child:
  fixes env :: "'d router_env"
  assumes "launch_backend env key d trace rt = (r, rt', events)"
  shows "length (spawned_children events) \<le> 1"
    and "(pid, c) \<in> set (spawned_children events) \<Longrightarrow>
      (\<forall>co. rt_spawn_coordinator rt = Some co \<longrightarrow> is_ok (fst (try_begin co key (re_begin_now env)))) \<and>
      (\<exists>root. lo_canonicalize (re_launch_os env) (sd_binary_path d) = Ok (cmd_program c) \<and>
        lo_canonicalize (re_launch_os env) (sd_per_version_binary_dir d) = Ok root \<and>
        path_starts_with (host_platform (lo_host (re_launch_os env))) (cmd_program c) root) \<and>
      hm_get (cmd_env c) BACKEND_ENV_SERVICE_NAME = Some (bk_service_name key) \<and>
      hm_get (cmd_env c) BACKEND_ENV_SERVICE_VERSION = Some (bk_service_version key)"
proof -
  show "length (spawned_children events) \<le> 1"
    by (cases rule: launch_backend_cases [OF assms]) (simp_all add: launch_one_child [simplified])
  assume *: "(pid, c) \<in> set (spawned_children events)"
  obtain rt1 minted l x l' where "begin_spawn env key rt = (Ok (), rt1)"
    and "launch (re_launch_os env) \<lparr> blr_key = key, blr_service_definition = d,
         blr_trace_context = trace, blr_session_token = minted \<rparr> l = (x, l', events)"
    using * by (cases rule: launch_backend_cases [OF assms]) auto
  then show "(\<forall>co. rt_spawn_coordinator rt = Some co \<longrightarrow> is_ok (fst (try_begin co key (re_begin_now env)))) \<and>
      (\<exists>root. lo_canonicalize (re_launch_os env) (sd_binary_path d) = Ok (cmd_program c) \<and>
        lo_canonicalize (re_launch_os env) (sd_per_version_binary_dir d) = Ok root \<and>
        path_starts_with (host_platform (lo_host (re_launch_os env))) (cmd_program c) root) \<and>
      hm_get (cmd_env c) BACKEND_ENV_SERVICE_NAME = Some (bk_service_name key) \<and>
      hm_get (cmd_env c) BACKEND_ENV_SERVICE_VERSION = Some (bk_service_version key)"
    using begin_spawn_Ok launch_child * [unfolded spawned_children_iff] by fastforce
qed

lemma rate_limit_inert:
  assumes "with_backend b hello_handler_new = Ok h"
  shows "fst (rate_check pid now (hh_rate_limiter h)) = None"
  using with_backend_Ok [OF assms] fresh_handler_admits by simp

lemma finish_spawn_frame [simp]:
  "rt_backends (finish_spawn env key out rt) = rt_backends rt"
  "rt_session_tokens (finish_spawn env key out rt) = rt_session_tokens rt"
  "rt_backend_launcher (finish_spawn env key out rt) = rt_backend_launcher rt"
  "rt_exe_cache (finish_spawn env key out rt) = rt_exe_cache rt"
  by (simp_all add: finish_spawn_def)

lemma register_launched_backend_frame [simp]:
  "rt_session_tokens (snd (register_launched_backend key d h rt)) = rt_session_tokens rt"
  "rt_spawn_coordinator (snd (register_launched_backend key d h rt)) = rt_spawn_coordinator rt"
  by (auto simp: register_launched_backend_def split: backend_registry_view.splits)

lemma launch_backend_coordinator:
  assumes "launch_backend env key d trace rt = (r, rt', events)" "rt_spawn_coordinator rt = Some c"
  obtains (refused) e c' where "try_begin c key (re_begin_now env) = (Err e, c')" "rt_spawn_coordinator rt' = Some c'"
  | (finished) p c' out where "try_begin c key (re_begin_now env) = (Ok p, c')"
      "rt_spawn_coordinator rt' = Some (finish c' key out (re_finish_now env))"
proof -
  have granted: thesis if b: "begin_spawn env key rt = (Ok (), rt1)"
    and "rt_spawn_coordinator rt' = map_option (\<lambda>c. finish c key out (re_finish_now env)) (rt_spawn_coordinator rt1)"
    for rt1 out
    using begin_spawn_Ok [OF b] assms(2) that(2) finished
    by (cases "try_begin c key (re_begin_now env)"; cases "fst (try_begin c key (re_begin_now env))") auto
  from assms(1) show thesis
  proof (cases rule: launch_backend_cases)
    case (refused e)
    show thesis
      by (rule begin_spawn_Err [OF refused(1)]) (use that(1) assms(2) in auto)
  next
    case (no_launcher rt1 e)
    then show thesis using granted [OF no_launcher(1), of Failed] by (simp add: finish_spawn_def)
  next
    case (failed rt1 l minted rt2 e l' x)
    then show thesis using granted [OF failed(1), of Failed] mint_session_token_frame [OF failed(3)]
      by (simp add: finish_spawn_def)
  next
    case (launched rt1 l minted rt2 h l')
    then show thesis using granted [OF launched(1), of Success] mint_session_token_frame [OF launched(3)]
      by (simp add: finish_spawn_def)
  qed
qed

lemma try_begin_in_flight:
  assumes "try_begin c key now = (r, c')"
  shows "in_flight c' k \<longleftrightarrow> (if k = key then is_ok r \<or> sbs_in_flight (spawn_entry c key now) else in_flight c k)"
  using assms by (auto simp: try_begin_def Let_def in_flight_def spawn_set_def hm_simps split: if_splits)

lemma spawn_entry_in_flight: "sbs_in_flight (spawn_entry c key now) \<Longrightarrow> in_flight c key"
  by (auto simp: spawn_entry_def spawn_budget_refresh_def in_flight_def spawn_budget_state_new_def
      split: option.splits if_splits)

lemma finish_in_flight: "in_flight (finish c key out now) k \<longleftrightarrow> in_flight c k \<and> k \<noteq> key"
  by (auto simp: finish_def Let_def in_flight_def spawn_set_def hm_simps split: option.splits if_splits)

lemma on_disk_exe_frame:
  assumes "exe_cache_current env cache"
  shows "fst (on_disk_exe_sha256_hex env path cache) =
      (if re_metadata env path = None then [] else
       case re_sha256_file env path of Err _ \<Rightarrow> [] | Ok b \<Rightarrow> hex_lower b) \<and>
    exe_cache_current env (snd (on_disk_exe_sha256_hex env path cache))"
proof (cases "re_metadata env path")
  case None
  then show ?thesis using assms by (simp add: on_disk_exe_sha256_hex_def)
next
  case (Some ml)
  obtain modified len where ml: "ml = (modified, len)" by fastforce
  let ?mtime = "case modified of None \<Rightarrow> 0 | Some t \<Rightarrow> t"
  show ?thesis
  proof (cases "\<exists>hash. hm_get cache path = Some (?mtime, len, hash)")
    case True
    then obtain hash where h: "hm_get cache path = Some (?mtime, len, hash)" by blast
    then obtain b where "re_sha256_file env path = Ok b" "hash = hex_lower b"
      using assms Some ml unfolding exe_cache_current_def by blast
    then show ?thesis using h Some ml assms by (simp add: on_disk_exe_sha256_hex_def Let_def)
  next
    case False
    then have "on_disk_exe_sha256_hex env path cache = (case re_sha256_file env path of
        Err _ \<Rightarrow> ([], cache) | Ok b \<Rightarrow> (hex_lower b, hm_insert path (?mtime, len, hex_lower b) cache))"
      using Some ml by (auto simp: on_disk_exe_sha256_hex_def Let_def split: option.splits)
    then show ?thesis
      using assms Some
      by (cases "re_sha256_file env path") (auto simp: exe_cache_current_def hm_simps)
  qed
qed

lemma launch_backend_tokens:
  fixes env :: "'d router_env"
  assumes "launch_backend env key d trace rt = (r, rt', events)" "rt_session_tokens rt = Some a"
  obtains (storm) co where "rt_spawn_coordinator rt = Some co"
      "is_storm_trip (fst (try_begin co key (re_begin_now env)))" "events = []"
      "rt_session_tokens rt' = Some (snd (rotate_broker_token (re_rotate_draw env) a))"
  | (kept) "rt_session_tokens rt' = Some a" "events = []"
  | (minted) l x l' where
      "rt_session_tokens rt' = Some (snd (register_daemon (re_register_draw env) (bk_service_name key) a))"
      "launch (re_launch_os env) \<lparr> blr_key = key, blr_service_definition = d, blr_trace_context = trace,
         blr_session_token = (case fst (register_daemon (re_register_draw env) (bk_service_name key) a) of
           Err _ \<Rightarrow> None | Ok t \<Rightarrow> Some (compose_presented_token
             (sta_broker_token (snd (register_daemon (re_register_draw env) (bk_service_name key) a))) t)) \<rparr> l
         = (x, l', events)"
proof -
  have mint: "minted = (case fst (register_daemon (re_register_draw env) (bk_service_name key) a) of
           Err _ \<Rightarrow> None | Ok t \<Rightarrow> Some (compose_presented_token
             (sta_broker_token (snd (register_daemon (re_register_draw env) (bk_service_name key) a))) t)) \<and>
       rt_session_tokens rt2 = Some (snd (register_daemon (re_register_draw env) (bk_service_name key) a))"
    if "begin_spawn env key rt = (Ok (), rt1)" "mint_session_token env (bk_service_name key) rt1 = (minted, rt2)"
    for rt1 rt2 minted
    using that(2) begin_spawn_Ok [OF that(1)] assms(2)
    by (cases "register_daemon (re_register_draw env) (bk_service_name key) a")
      (auto simp: mint_session_token_def split: sum.splits)
  from assms(1) show thesis
  proof (cases rule: launch_backend_cases)
    case (refused e)
    from refused(1) show thesis
      by (rule begin_spawn_Err) (use assms(2) refused(3) kept storm in \<open>auto split: if_splits\<close>)
  next
    case (no_launcher rt1 e)
    then show thesis using kept begin_spawn_Ok [OF no_launcher(1)] assms(2) by simp
  next
    case (failed rt1 l m rt2 e l' x)
    then show thesis using mint [OF failed(1,3)] minted [of l "Err x" l'] by simp
  next
    case (launched rt1 l m rt2 h l')
    then show thesis using mint [OF launched(1,3)] minted [of l "Ok h" l'] by simp
  qed
qed

lemma register_daemon_effect:
  assumes "register_daemon draw n a = (r, a')" "authority_wf a" "draw_wf draw"
  shows "authority_wf a'" "sta_broker_token a' = sta_broker_token a"
    "d \<noteq> n \<Longrightarrow> composed_token_for a' d = composed_token_for a d"
    "r = Ok t \<Longrightarrow> composed_token_for a' n = Some (compose_presented_token (sta_broker_token a) t)"
    "is_ok r = is_ok draw"
  using authority_wf_register [OF assms(2,3), of n] assms(1)
  by (cases draw; auto simp: register_daemon_def token_half_generate_def composed_token_for_def hm_simps
      split: option.splits)+

lemma rotation_breaks_tokens:
  assumes "fresh \<noteq> sta_broker_token a" "is_ok (validate a t d)"
  shows "validate (a\<lparr> sta_broker_token := fresh \<rparr>) t d' = Err BrokerHalfMismatch"
  using assms by (auto simp: validate_def Let_def split: if_splits)

lemma try_begin_storm:
  assumes "try_begin c key now = (r, c')" "is_storm_trip r"
  shows "hm_get (sc_states c') key = Some ((spawn_entry c key now)\<lparr> sbs_storm_signaled := True \<rparr>)"
    "sc_config c' = sc_config c"
  using assms by (auto simp: try_begin_def Let_def split: if_splits)

lemma registry_get_wf:
  assumes "registry_wf r" "registry_get r i n v exe = Some h"
  shows "bh_service_name h = n" "bh_service_version h = v" "hex_lower (dp_exe_sha256 (bh_daemon_process h)) = exe"
  using assms(1) hm_get_SomeD [OF assms(2) [unfolded registry_get_def]]
  by (auto simp: registry_wf_def backend_key_new_def)

lemma registry_insert_get:
  "registry_get (snd (registry_insert i h r)) i (bh_service_name h) (bh_service_version h)
     (hex_lower (dp_exe_sha256 (bh_daemon_process h))) = Some h"
  by (simp add: registry_insert_def Let_def registry_get_def hm.get_insert)

lemma view_wf_lookup:
  "view_wf view \<Longrightarrow> view_wf (snd (router_registered_backend_for is_alive i d v exe view))"
  by (cases view) (auto simp: view_wf_def Let_def wf_intros)

lemma view_wf_pruned:
  assumes "router_registered_backend_for is_alive i d v exe view = (b, view')" "view_wf view"
  shows "view_wf view'"
  using view_wf_lookup [OF assms(2), of is_alive i d v exe] assms(1) by simp

lemma route_request_Ok:
  fixes env :: "'d router_env"
  assumes "route_request env request rt = (Ok b, rt', events)" "view_wf (rt_backends rt)"
    and "sd_service_name (rb_service_definition b) = he_service_name (hr_hello request)"
  obtains d i h where "lookup_or_reload env (he_service_name (hr_hello request)) = Ok d"
    "check_version_allowed (he_wanted_version (hr_hello request)) d = Ok ()"
    "from_service_definition d = Ok i" "b = registered_backend_of d h"
    "bh_service_name h = he_service_name (hr_hello request)"
    "bh_service_version h = he_wanted_version (hr_hello request)"
    "(events = [] \<and> (re_is_alive env h \<or> (\<exists>r. rt_backends rt = Static r)) \<and>
       hex_lower (dp_exe_sha256 (bh_daemon_process h)) =
         fst (on_disk_exe_sha256_hex env (sd_binary_path d) (rt_exe_cache rt))) \<or>
     (\<exists>c. (dp_pid (bh_daemon_process h), c) \<in> set (spawned_children events) \<and>
       lo_sha256_file (re_launch_os env) (cmd_program c) = Ok (dp_exe_sha256 (bh_daemon_process h)) \<and>
       lo_probe (re_launch_os env) (dp_ipc_endpoint (bh_daemon_process h)) (bh_daemon_process h) = Ok ())"
    "\<And>r'. rt_backends rt' = Live r' \<Longrightarrow> registry_get r' i (bh_service_name h) (bh_service_version h)
       (hex_lower (dp_exe_sha256 (bh_daemon_process h))) = Some h"
    "view_wf (rt_backends rt')"
  using assms(1)
proof (cases rule: route_request_cases)
  case (found d i exe cache b' view)
  obtain h r where f: "b' = registered_backend_of d h" "view \<in> {Static r, Live r}"
    "registry_get r i (sd_service_name d) (he_wanted_version (hr_hello request)) exe = Some h"
    "re_is_alive env h \<or> rt_backends rt = Static r"
    by (rule router_found [OF found(5)])
  have "b' = b" using found(6) by simp
  have wf: "view_wf view" by (rule view_wf_pruned [OF found(5) assms(2)])
  then have "registry_wf r" using f(2) by (auto simp: view_wf_def)
  note g = registry_get_wf [OF this f(3)]
  have n: "sd_service_name d = he_service_name (hr_hello request)"
    using assms(3) f(1) \<open>b' = b\<close> by (simp add: registered_backend_of_def)
  show thesis
    by (rule that [OF found(1-3), of h]) (use f g found n wf \<open>b' = b\<close> in auto)
next
  case (missing d i exe cache view)
  from missing(6) show thesis
  proof (cases rule: launch_backend_cases)
    case (launched rt1 l minted rt2 h l')
    obtain c where c: "(dp_pid (bh_daemon_process h), c) \<in> set (spawned_children events)"
       "lo_sha256_file (re_launch_os env) (cmd_program c) = Ok (dp_exe_sha256 (bh_daemon_process h))"
       "lo_probe (re_launch_os env) (dp_ipc_endpoint (bh_daemon_process h)) (bh_daemon_process h) = Ok ()"
      using launch_handle [OF launched(4)] by (auto simp: spawned_children_iff)
    have v: "rt_backends rt2 = view"
      using begin_spawn_Ok [OF launched(1)] mint_session_token_frame [OF launched(3)] by simp
    have rt': "rt_backends rt' = (case view of Static r \<Rightarrow> Static r |
        Live r \<Rightarrow> Live (snd (registry_insert i h r)))"
      using launched(5,6,8) v by (auto simp: register_launched_backend_def backend_key_new_def
          split: backend_registry_view.splits)
    have "view_wf view" by (rule view_wf_pruned [OF missing(5) assms(2)])
    then have wf: "view_wf (rt_backends rt')"
      by (auto simp: rt' view_wf_def wf_intros split: backend_registry_view.splits)
    show thesis
      by (rule that [OF missing(1-3), of h])
        (use launched(5-7) c wf rt' registry_insert_get [of i h] in \<open>auto simp: backend_key_new_def split: backend_registry_view.splits\<close>)
  qed simp_all
qed simp

lemma sample_route:
  "case sample_routed of (r, rt', events) \<Rightarrow> is_ok r \<and> length (spawned_children events) = 1"
  by code_simp

lemma validate_versions_each:
  "validate_versions vs = (Ok () :: ('d service_definition_error, unit) result) \<Longrightarrow>
    validate_each_version vs = Ok ()"
  by (induction vs) (auto simp: validate_version_for_result_def)

text \<open>A loaded definition can always be installed in a handler.\<close>

lemma loaded_definition_installs:
  assumes "lookup_or_reload env name = Ok d" "rb_service_definition b = d"
  shows "sd_service_name d = name" "\<exists>h'. with_backend b h = Ok h'"
proof -
  from assms(1) have v: "validate_service_definition_for_service (env_platform (re_hello_env env)) d name
      = (Ok () :: ('a service_definition_error, unit) result)"
    by (auto simp: lookup_or_reload_def load_service_definition_def split: sum.splits)
  then have n: "sd_service_name d = name" "validate_service_name (sd_service_name d) = Ok ()"
    and m: "sd_min_version d = [] \<or> validate_version (sd_min_version d) = Ok ()"
    and l: "validate_versions (sd_version_allow_list d) = (Ok () :: ('a service_definition_error, unit) result)"
    by (auto simp: validate_service_definition_for_service_def split: sum.splits if_splits)
  show "sd_service_name d = name" by (rule n(1))
  show "\<exists>h'. with_backend b h = Ok h'"
    using n m validate_versions_each [OF l] assms(2)
    by (auto simp: with_backend_def Let_def validate_service_name_for_result_def validate_version_for_result_def)
qed

lemma fresh_handler_negotiates:
  assumes "with_backend b hello_handler_new = Ok h"
    and "validate_hello_shape (hr_hello request) (hr_peer request) = None"
    and "sd_service_name (rb_service_definition b) = he_service_name (hr_hello request)"
    and "check_version_allowed (he_wanted_version (hr_hello request)) (rb_service_definition b) = Ok ()"
  shows "\<exists>n. fst (handle_request env request h) = Some (Negotiated n)"
proof -
  have h: "h = hello_handler_new\<lparr> hh_backends := hm_insert (sd_service_name (rb_service_definition b)) b hm_empty \<rparr>"
    using with_backend_Ok [OF assms(1)] by (simp add: hello_handler_new_def)
  have "hm_get (hh_backends h) (he_service_name (hr_hello request)) = Some b"
    using assms(3) by (simp add: h hm_simps)
  moreover have "fst (rate_check (peer_pid (hr_peer request)) (env_rate_now env) (hh_rate_limiter h)) = None"
    by (rule rate_limit_inert [OF assms(1)])
  moreover have "validate_session_token h (hr_hello request) = None"
    by (simp add: validate_session_token_def h hello_handler_new_def)
  ultimately show ?thesis
    using assms(2,4) by (cases rule: handle_request_cases [of env request h])
      (auto simp: validate_version_policy_None_iff)
qed

lemma route_request_backend:
  assumes "route_request env request rt = (Ok b, rt', events)"
  shows "lookup_or_reload env (he_service_name (hr_hello request)) = Ok (rb_service_definition b) \<and>
    check_version_allowed (he_wanted_version (hr_hello request)) (rb_service_definition b) = Ok ()"
  using assms
proof (cases rule: route_request_cases)
  case (found d i exe cache b' view)
  obtain h where "b' = registered_backend_of d h" by (rule router_found [OF found(5)])
  then show ?thesis using found by (simp add: registered_backend_of_def)
next
  case (missing d i exe cache view)
  from missing(6) show ?thesis
    by (cases rule: launch_backend_cases) (use missing in \<open>simp_all add: registered_backend_of_def\<close>)
qed simp

lemma sample_shape: "validate_hello_shape (hr_hello (sample_request ''1.2.0'')) (hr_peer (sample_request ''1.2.0'')) = None"
  using sample_checks by (simp add: sample_request_def sample_hello_def validate_hello_shape_None_iff PROTOCOL_VERSION_def)

lemma sample_reply:
  obtains n rt' events pid c where
    "router_handle_request sample_router_env (sample_request ''1.2.0'') sample_router
       = (Some (Negotiated n), rt', events)" "spawned_children events = [(pid, c)]"
proof -
  obtain x rt' events where x: "sample_routed = (x, rt', events)" by (metis prod_cases3)
  have "is_ok x" and one: "length (spawned_children events) = 1" using sample_route unfolding x by simp_all
  then obtain b where "x = Ok b" by (cases x) simp_all
  then have r: "sample_routed = (Ok b, rt', events)" using x by simp
  note rb = route_request_backend [OF r [unfolded sample_routed_def]]
  obtain h where h: "with_backend b hello_handler_new = Ok h"
    using loaded_definition_installs(2) [of sample_router_env _ _ b] rb by blast
  obtain n where "fst (handle_request (re_hello_env sample_router_env) (sample_request ''1.2.0'') h) = Some (Negotiated n)"
    using fresh_handler_negotiates [OF h sample_shape] loaded_definition_installs(1) [of sample_router_env _ _ b] rb by blast
  then show thesis
    using that [of n rt' events] r one h sample_shape
    by (auto simp: router_handle_request_def sample_routed_def length_Suc_conv)
qed

lemma sample_lookup:
  assumes "lookup_or_reload sample_router_env ''zccache'' = Ok d"
  shows "d = sample_service\<lparr> sd_per_version_binary_dir := ''/bin'' \<rparr>"
  using assms by (auto simp: lookup_or_reload_def load_service_definition_def sample_router_env_def split: sum.splits)

lemma sample_router_state:
  "rt_session_tokens sample_router = Some sample_authority" "authority_wf sample_authority"
  "rt_spawn_coordinator sample_router = Some (spawn_coordinator_with_config (spawn_budget_config_new 1 100))"
  "view_wf (rt_backends sample_router)" "he_service_name (hr_hello (sample_request v)) = ''zccache''"
proof -
  show "authority_wf sample_authority"
    by (auto simp: sample_authority_def authority_wf_def SESSION_TOKEN_HALF_BYTES_def hm_ok_def hm_get_def
        split: if_splits)
qed (simp_all add: sample_router_def router_with_session_token_authority_def with_backend_launcher_def
      with_spawn_coordinator_def with_lifecycle_monitor_def view_wf_def wf_intros sample_request_def sample_hello_def)

lemma router_spawn_slot_released:
  fixes env :: "'d router_env"
  assumes "router_handle_request env request rt = (reply, rt', events)"
    and "rt_spawn_coordinator rt = Some c"
  shows "\<exists>c'. rt_spawn_coordinator rt' = Some c' \<and> (\<forall>key. in_flight c' key \<longrightarrow> in_flight c key)"
  using assms(1)
proof (cases rule: router_handle_request_cases)
  case (shape e)
  then show ?thesis using assms(2) by simp
next
  case (routed r)
  from routed(2) show ?thesis
  proof (cases rule: route_request_cases)
    case (missing d i exe cache view)
    have c: "rt_spawn_coordinator (rt\<lparr> rt_exe_cache := cache, rt_backends := view \<rparr>) = Some c"
      using assms(2) by simp
    from missing(6) c show ?thesis
    proof (cases rule: launch_backend_coordinator)
      case (refused e c')
      then show ?thesis using try_begin_in_flight [OF refused(1)] spawn_entry_in_flight by fastforce
    next
      case (finished p c' out)
      then show ?thesis using try_begin_in_flight [OF finished(1)] by (auto simp: finish_in_flight)
    qed
  qed (use assms(2) in simp_all)
qed

section \<open>Properties\<close>

text \<open>C4: a routed Hello starts at most one process, and only if the Hello is well formed, the service is
  defined and allows the wanted version, no live backend of the binary now on disk is registered,
  and the spawn budget grants an attempt; the process is the service's binary inside its version
  directory. A Hello refused before routing, or by the definition, the version policy or the
  instance, leaves no trace in the broker.\<close>

theorem router_spawn_authorized:
  fixes env :: "'d router_env"
  assumes "router_handle_request env request rt = (reply, rt', events)"
  shows "length (spawned_children events) \<le> 1 \<and>
    (\<forall>pid c. (pid, c) \<in> set (spawned_children events) \<longrightarrow>
      validate_hello_shape (hr_hello request) (hr_peer request) = None \<and>
      (\<exists>d i root. let name = he_service_name (hr_hello request); wanted = he_wanted_version (hr_hello request);
           exe = fst (on_disk_exe_sha256_hex env (sd_binary_path d) (rt_exe_cache rt)) in
        lookup_or_reload env name = Ok d \<and> check_version_allowed wanted d = Ok () \<and>
        from_service_definition d = Ok i \<and>
        fst (router_registered_backend_for (re_is_alive env) i d wanted exe (rt_backends rt)) = None \<and>
        (\<forall>co. rt_spawn_coordinator rt = Some co \<longrightarrow>
           is_ok (fst (try_begin co (backend_key_new i name wanted exe) (re_begin_now env)))) \<and>
        lo_canonicalize (re_launch_os env) (sd_binary_path d) = Ok (cmd_program c) \<and>
        lo_canonicalize (re_launch_os env) (sd_per_version_binary_dir d) = Ok root \<and>
        path_starts_with (host_platform (lo_host (re_launch_os env))) (cmd_program c) root)) \<and>
    ((validate_hello_shape (hr_hello request) (hr_peer request) \<noteq> None \<or>
      \<not> (\<exists>d i. lookup_or_reload env (he_service_name (hr_hello request)) = Ok d \<and>
          check_version_allowed (he_wanted_version (hr_hello request)) d = Ok () \<and>
          from_service_definition d = Ok i)) \<longrightarrow> rt' = rt \<and> events = [])"
  using assms
proof (cases rule: router_handle_request_cases)
  case (shape e)
  then show ?thesis by simp
next
  case (routed r)
  from routed(2) show ?thesis
  proof (cases rule: route_request_cases)
    case (rejected e)
    then show ?thesis by simp
  next
    case (found d i exe cache b view)
    then show ?thesis using routed(1) by simp
  next
    case (missing d i exe cache view)
    have "\<exists>root. (\<forall>co. rt_spawn_coordinator rt = Some co \<longrightarrow> is_ok (fst (try_begin co
           (backend_key_new i (he_service_name (hr_hello request)) (he_wanted_version (hr_hello request)) exe)
           (re_begin_now env)))) \<and>
        lo_canonicalize (re_launch_os env) (sd_binary_path d) = Ok (cmd_program c) \<and>
        lo_canonicalize (re_launch_os env) (sd_per_version_binary_dir d) = Ok root \<and>
        path_starts_with (host_platform (lo_host (re_launch_os env))) (cmd_program c) root"
      if "(pid, c) \<in> set (spawned_children events)" for pid c
      using launch_backend_child(2) [OF missing(6) that] by auto
    then show ?thesis
      using launch_backend_child(1) [OF missing(6)] missing(1-5) routed(1) unfolding Let_def
      by (intro conjI allI impI; (elim disjE)?) (force | simp)+
  qed
qed

theorem router_spawn_authorized_witness:
  "\<exists>pid c. (pid, c) \<in> set (spawned_children (snd (snd
      (router_handle_request sample_router_env (sample_request ''1.2.0'') sample_router)))) \<and>
     cmd_program c = ''/bin/z''"
proof -
  obtain n rt' events pid c where s: "router_handle_request sample_router_env (sample_request ''1.2.0'')
      sample_router = (Some (Negotiated n), rt', events)" "spawned_children events = [(pid, c)]"
    by (rule sample_reply)
  have "(pid, c) \<in> set (spawned_children events)" using s(2) by simp
  then obtain d where d: "lookup_or_reload sample_router_env ''zccache'' = Ok d"
    "lo_canonicalize (re_launch_os sample_router_env) (sd_binary_path d) = Ok (cmd_program c)"
    using router_spawn_authorized [OF s(1)] unfolding Let_def sample_router_state by blast
  have "cmd_program c = ''/bin/z''"
    using d(2) sample_lookup [OF d(1)] by (simp add: sample_router_env_def sample_launch_os_def sample_service_def)
  then show ?thesis using s by auto
qed

text \<open>The memo of executable hashes is transparent. As long as modification time and size tell the
  versions of a file apart, the routing hash is that of the file now on disk, empty exactly when the
  file cannot be examined or read, and the memo stays current.\<close>

lemma exe_hash_memo_transparent:
  assumes "exe_cache_current env cache" and "on_disk_exe_sha256_hex env path cache = (exe, cache')"
  shows "exe = (if re_metadata env path = None then [] else
      case re_sha256_file env path of Err _ \<Rightarrow> [] | Ok b \<Rightarrow> hex_lower b) \<and>
    exe_cache_current env cache'"
  using on_disk_exe_frame [OF assms(1), of path] assms(2) by simp

text \<open>C30: what routing does to sessions. A started backend holds a session token that the authority
  accepts for its service from that moment on. The sessions of other services survive every request,
  unless the request trips the spawn-storm signal.\<close>

theorem router_sessions:
  fixes env :: "'d router_env"
  assumes "router_handle_request env request rt = (reply, rt', events)"
    and "rt_session_tokens rt = Some a" and "authority_wf a"
    and "draw_wf (re_register_draw env)" and "draw_wf (re_rotate_draw env)"
  shows "\<exists>a'. rt_session_tokens rt' = Some a' \<and> authority_wf a' \<and>
    (is_ok (re_register_draw env) \<longrightarrow> (\<forall>(pid, c) \<in> set (spawned_children events).
       \<exists>t. hm_get (cmd_env c) BACKEND_ENV_SESSION_TOKEN = Some (hex_encode t) \<and>
         validate a' t (he_service_name (hr_hello request)) = Ok ())) \<and>
    (\<forall>d t. d \<noteq> he_service_name (hr_hello request) \<longrightarrow> validate a t d = Ok () \<longrightarrow> validate a' t d = Ok () \<or>
       (\<exists>co key. rt_spawn_coordinator rt = Some co \<and> bk_service_name key = he_service_name (hr_hello request) \<and>
          is_storm_trip (fst (try_begin co key (re_begin_now env)))))"
  using assms(1)
proof (cases rule: router_handle_request_cases)
  case (shape e)
  then show ?thesis using assms(2,3) by simp
next
  case (routed r)
  from routed(2) show ?thesis
  proof (cases rule: route_request_cases)
    case (missing d i exe cache view)
    let ?rt1 = "rt\<lparr> rt_exe_cache := cache, rt_backends := view \<rparr>"
    let ?n = "he_service_name (hr_hello request)"
    have a1: "rt_session_tokens ?rt1 = Some a" using assms(2) by simp
    from missing(6) a1 show ?thesis
    proof (cases rule: launch_backend_tokens)
      case (storm co)
      then show ?thesis
        using authority_wf_rotate [OF assms(3,5)] by (auto simp: backend_key_new_def intro!: exI [of _ co])
    next
      case kept
      then show ?thesis using assms(3) by simp
    next
      case (minted l x l')
      obtain m a' where m: "register_daemon (re_register_draw env) ?n a = (m, a')" by fastforce
      note eff = register_daemon_effect [OF m assms(3,4)]
      have "\<exists>t. hm_get (cmd_env c) BACKEND_ENV_SESSION_TOKEN = Some (hex_encode t) \<and> validate a' t ?n = Ok ()"
        if ok: "is_ok (re_register_draw env)" and sp: "(pid, c) \<in> set (spawned_children events)" for pid c
      proof -
        obtain t where t: "m = Ok t" using eff(5) ok by (cases m) auto
        show ?thesis
          using launch_child [OF minted(2), of pid c] sp eff(2) eff(4) [OF t] t m
          by (simp add: spawned_children_iff validate_Ok_iff [OF eff(1)] backend_key_new_def)
      qed
      moreover have "validate a' t d' = Ok ()" if "d' \<noteq> ?n" "validate a t d' = Ok ()" for t d'
        using that eff(3) by (simp add: validate_Ok_iff [OF eff(1)] validate_Ok_iff [OF assms(3)])
      ultimately show ?thesis
        using minted(1) m eff(1) by (intro exI [of _ a']) (auto simp: backend_key_new_def)
    qed
  qed (use assms(2,3) in simp_all)
qed

theorem router_sessions_witness:
  "\<exists>a' t. rt_session_tokens (fst (snd (router_handle_request sample_router_env (sample_request ''1.2.0'')
      sample_router))) = Some a' \<and> validate a' t ''zccache'' = Ok ()"
proof -
  obtain n rt' events pid c where s: "router_handle_request sample_router_env (sample_request ''1.2.0'')
      sample_router = (Some (Negotiated n), rt', events)" "spawned_children events = [(pid, c)]"
    by (rule sample_reply)
  have d: "draw_wf (re_register_draw sample_router_env)" "draw_wf (re_rotate_draw sample_router_env)"
    "is_ok (re_register_draw sample_router_env)"
    by (simp_all add: sample_router_env_def draw_wf_def SESSION_TOKEN_HALF_BYTES_def)
  show ?thesis
    using router_sessions [OF s(1) sample_router_state(1,2) d(1,2)] d(3) s
    unfolding sample_router_state by auto
qed





text \<open>A Hello is negotiated exactly when it is well formed and routing finds or starts a backend for
  it; a definition that passed loading never fails to install, the fresh handler never limits the
  rate and asks for no session token. Every other Hello is refused with a reason.\<close>

lemma router_negotiated_iff_routed:
  fixes env :: "'d router_env"
  shows "((\<exists>n. fst (router_handle_request env request rt) = Some (Negotiated n)) \<longleftrightarrow>
      validate_hello_shape (hr_hello request) (hr_peer request) = None \<and>
      is_ok (fst (route_request env request rt))) \<and>
    fst (router_handle_request env request rt) \<noteq> None"
proof -
  obtain reply rt' events where eq: "router_handle_request env request rt = (reply, rt', events)"
    by (metis prod_cases3)
  then have "((\<exists>n. reply = Some (Negotiated n)) \<longleftrightarrow>
      validate_hello_shape (hr_hello request) (hr_peer request) = None \<and>
      is_ok (fst (route_request env request rt))) \<and> reply \<noteq> None"
  proof (cases rule: router_handle_request_cases)
    case (shape e)
    then show ?thesis by simp
  next
    case (routed r)
    show ?thesis
    proof (cases r)
      case (Inl e)
      then show ?thesis using routed by simp
    next
      case (Inr b)
      note rb = route_request_backend [OF routed(2) [unfolded Inr]]
      obtain h where h: "with_backend b hello_handler_new = Ok h"
        using loaded_definition_installs(2) [of env _ _ b] rb by blast
      obtain n where "fst (handle_request (re_hello_env env) request h) = Some (Negotiated n)"
        using fresh_handler_negotiates [OF h routed(1)] loaded_definition_installs(1) [of env _ _ b] rb by blast
      then show ?thesis using routed h Inr by simp
    qed
  qed
  then show ?thesis using eq by simp
qed

end
