(* ===== verification/Handoff_Delivery.thy ===== *)
theory Handoff_Delivery
  imports Hello_Router
begin

text \<open>
  Handing a client connection over to its backend: the transports (\<open>server/handoff/windows.rs\<close>,
  \<open>server/handoff/unix.rs\<close>), the offer and acknowledgement frames (\<open>server/handoff/wire.rs\<close>), the two
  orchestrations (\<open>server/handoff/orchestrate.rs\<close>, \<open>server/handoff/orchestrate_unix.rs\<close>), the backend's
  side of the exchange (\<open>backend_lib/wire.rs\<close>) and the step of the accept loop that runs a handoff
  after a negotiated reply (\<open>server/handoff_serve.rs\<close>).

  The system calls \<open>DuplicateHandle\<close> and \<open>sendmsg\<close> are arguments, as are the prost codecs and the text of
  error messages. A stream that stays silent until its deadline ends with a timeout error. What the
  backend sends back is a function of what it has been sent.
\<close>

section \<open>Messages\<close>

record handoff_offer =
  ho_handle_value :: u64
  ho_token :: bytes
  ho_service_name :: string
  ho_correlation_id :: u64

record handoff_ack =
  hk_token :: bytes
  hk_accepted :: bool
  hk_error_detail :: string
  hk_correlation_id :: u64

text \<open>The codecs of the three messages, and the text of errors.\<close>

record 'd handoff_codec =
  hc_encode_frame :: "frame \<Rightarrow> bytes"
  hc_decode_frame :: "bytes \<Rightarrow> ('d, frame) result"
  hc_encode_offer :: "handoff_offer \<Rightarrow> bytes"
  hc_decode_offer :: "bytes \<Rightarrow> ('d, handoff_offer) result"
  hc_encode_ack :: "handoff_ack \<Rightarrow> bytes"
  hc_decode_ack :: "bytes \<Rightarrow> ('d, handoff_ack) result"
  hc_show_framing :: "'d framing_error \<Rightarrow> string"
  hc_show_io :: "io_error \<Rightarrow> string"
  hc_show_decode :: "'d \<Rightarrow> string"
  hc_show_u64 :: "u64 \<Rightarrow> string"
  hc_show_rejection :: "handoff_rejection_reason \<Rightarrow> string"

definition handoff_frame :: "frame_kind \<Rightarrow> bytes \<Rightarrow> u64 \<Rightarrow> frame" where
  "handoff_frame kind payload request_id =
    \<lparr> fr_envelope_version = PROTOCOL_VERSION, fr_kind = frame_kind_i32 kind,
      fr_payload_protocol = HANDOFF_PAYLOAD_PROTOCOL, fr_payload = payload, fr_request_id = request_id,
      fr_payload_encoding = payload_encoding_i32 EncodingNone, fr_deadline_unix_ms = 0,
      fr_traceparent = [], fr_tracestate = [] \<rparr>"

definition handoff_offer_frame :: "'d handoff_codec \<Rightarrow> handoff_offer \<Rightarrow> frame" where
  "handoff_offer_frame cd offer =
    handoff_frame FrameKindRequest (hc_encode_offer cd offer) (ho_correlation_id offer)"

definition handoff_ack_frame :: "'d handoff_codec \<Rightarrow> handoff_ack \<Rightarrow> frame" where
  "handoff_ack_frame cd ack =
    handoff_frame FrameKindResponse (hc_encode_ack cd ack) (hk_correlation_id ack)"

definition handoff_ready_frame :: "'d handoff_codec \<Rightarrow> handoff_ack \<Rightarrow> frame" where
  "handoff_ready_frame cd ack =
    handoff_frame FrameKindEvent (hc_encode_ack cd ack) (hk_correlation_id ack)"

definition validate_handoff_frame :: "frame \<Rightarrow> frame_kind \<Rightarrow> (string, unit) result" where
  "validate_handoff_frame f expected_kind =
    map_err (\<lambda>e. case e of
        EnvelopeVersion _ \<Rightarrow> ''envelope_version is not v1''
      | Kind _ _ \<Rightarrow> (case expected_kind of
            FrameKindRequest \<Rightarrow> ''kind is not REQUEST''
          | FrameKindEvent \<Rightarrow> ''kind is not EVENT''
          | _ \<Rightarrow> ''kind is not RESPONSE'')
      | PayloadProtocol _ _ \<Rightarrow> ''payload_protocol is not handoff''
      | PayloadEncoding _ \<Rightarrow> ''payload is compressed'')
    (validate_frame_envelope f expected_kind HANDOFF_PAYLOAD_PROTOCOL)"

section \<open>Wire delivery\<close>

datatype handoff_delivery_error = DeliveryFailed string | AckNotObserved string

text \<open>\<open>whd_peer\<close> is what the backend sends once it has received the given bytes; \<open>whd_restore\<close> is the
  outcome of switching the stream back to blocking mode, \<open>None\<close> where the stream was configured by the
  caller.\<close>

record wire_handoff_delivery =
  whd_out :: writer
  whd_peer :: "bytes \<Rightarrow> reader"
  whd_service_name :: string
  whd_correlation_id :: u64
  whd_restore :: "(io_error, unit) result option"
  whd_ack_setup_error :: "string option"
  whd_io_deadline :: instant

definition new_preconfigured_nonblocking ::
  "writer \<Rightarrow> (bytes \<Rightarrow> reader) \<Rightarrow> string \<Rightarrow> u64 \<Rightarrow> instant \<Rightarrow> wire_handoff_delivery" where
  "new_preconfigured_nonblocking out peer service_name correlation_id io_deadline =
    \<lparr> whd_out = out, whd_peer = peer, whd_service_name = service_name,
      whd_correlation_id = correlation_id, whd_restore = None, whd_ack_setup_error = None,
      whd_io_deadline = io_deadline \<rparr>"

definition new_local_socket ::
  "'d handoff_codec \<Rightarrow> (io_error, unit) result \<Rightarrow> (io_error, unit) result \<Rightarrow> writer \<Rightarrow> (bytes \<Rightarrow> reader) \<Rightarrow>
   string \<Rightarrow> u64 \<Rightarrow> instant \<Rightarrow> wire_handoff_delivery" where
  "new_local_socket cd set_nonblocking restore out peer service_name correlation_id io_deadline =
    \<lparr> whd_out = out, whd_peer = peer, whd_service_name = service_name,
      whd_correlation_id = correlation_id, whd_restore = Some restore,
      whd_ack_setup_error = (case set_nonblocking of
         Ok _ \<Rightarrow> None
       | Err e \<Rightarrow> Some (''failed to enable bounded HandoffAck reads: '' @ hc_show_io cd e)),
      whd_io_deadline = io_deadline \<rparr>"

definition deliver ::
  "'d handoff_codec \<Rightarrow> u64 \<Rightarrow> handoff_token \<Rightarrow> wire_handoff_delivery \<Rightarrow>
   (handoff_delivery_error, unit) result \<times> wire_handoff_delivery" where
  "deliver cd handle token d =
    (case whd_ack_setup_error d of
       Some e \<Rightarrow> (Err (DeliveryFailed e), d)
     | None \<Rightarrow>
       let offer = \<lparr> ho_handle_value = handle, ho_token = token, ho_service_name = whd_service_name d,
             ho_correlation_id = whd_correlation_id d \<rparr>;
           bytes = hc_encode_frame cd (handoff_offer_frame cd offer)
       in case write_frame (whd_out d) bytes of
            (Ok _, out) \<Rightarrow> (Ok (), d\<lparr> whd_out := out \<rparr>)
          | (Err write_error, out) \<Rightarrow>
              (Err (DeliveryFailed
                 (case whd_restore d of
                    Some (Err restore_error) \<Rightarrow>
                      ''failed to write HandoffOffer frame: '' @ hc_show_framing cd write_error @
                      ''; additionally failed to restore blocking mode: '' @ hc_show_io cd restore_error
                  | _ \<Rightarrow> ''failed to write HandoffOffer frame: '' @ hc_show_framing cd write_error)),
               d\<lparr> whd_out := out \<rparr>))"

text \<open>The checks on a received acknowledgement frame.\<close>

definition check_handoff_ack ::
  "'d handoff_codec \<Rightarrow> handoff_token \<Rightarrow> u64 \<Rightarrow> instant \<Rightarrow> instant \<Rightarrow> bytes \<Rightarrow>
   (handoff_delivery_error, instant) result" where
  "check_handoff_ack cd token correlation_id deadline observed_at bytes =
    (case hc_decode_frame cd bytes of
       Err e \<Rightarrow> Err (AckNotObserved (''failed to decode HandoffAck Frame: '' @ hc_show_decode cd e))
     | Ok f \<Rightarrow>
     (case validate_handoff_frame f FrameKindResponse of
        Err detail \<Rightarrow> Err (AckNotObserved (''unexpected HandoffAck frame: '' @ detail))
      | Ok _ \<Rightarrow>
        if fr_request_id f \<noteq> correlation_id
        then Err (AckNotObserved (''HandoffAck frame request_id '' @ hc_show_u64 cd (fr_request_id f) @
          '' does not match correlation id '' @ hc_show_u64 cd correlation_id))
        else
     (case hc_decode_ack cd (fr_payload f) of
        Err e \<Rightarrow> Err (AckNotObserved (''failed to decode HandoffAck payload: '' @ hc_show_decode cd e))
      | Ok ack \<Rightarrow>
        if hk_correlation_id ack \<noteq> correlation_id
        then Err (AckNotObserved (''HandoffAck correlation id '' @ hc_show_u64 cd (hk_correlation_id ack) @
          '' does not match offer correlation id '' @ hc_show_u64 cd correlation_id))
        else if hk_token ack \<noteq> token
        then Err (AckNotObserved ''HandoffAck token echo does not match the offered token'')
        else if \<not> hk_accepted ack
        then Err (AckNotObserved (''backend refused the handoff: '' @
          (if hk_error_detail ack = [] then ''no detail provided'' else hk_error_detail ack)))
        else if observed_at > deadline
        then Err (AckNotObserved ''backend HandoffAck arrived after the ACK deadline'')
        else Ok observed_at)))"

definition await_backend_ack ::
  "'d handoff_codec \<Rightarrow> instant \<Rightarrow> handoff_token \<Rightarrow> instant \<Rightarrow> wire_handoff_delivery \<Rightarrow>
   (handoff_delivery_error, instant) result \<times> wire_handoff_delivery" where
  "await_backend_ack cd observed_at token deadline d =
    (case whd_ack_setup_error d of
       Some e \<Rightarrow> (Err (AckNotObserved e), d\<lparr> whd_ack_setup_error := None \<rparr>)
     | None \<Rightarrow>
       (case (fst (read_frame (whd_peer d (wr_out (whd_out d)))),
              (case whd_restore d of None \<Rightarrow> Ok () | Some r \<Rightarrow> r)) of
          (Ok bytes, Ok _) \<Rightarrow> check_handoff_ack cd token (whd_correlation_id d) deadline observed_at bytes
        | (Err read_error, Ok _) \<Rightarrow>
            Err (AckNotObserved (''failed to read HandoffAck frame: '' @ hc_show_framing cd read_error))
        | (Ok _, Err restore_error) \<Rightarrow>
            Err (AckNotObserved (''failed to restore blocking HandoffAck stream: '' @
              hc_show_io cd restore_error))
        | (Err read_error, Err restore_error) \<Rightarrow>
            Err (AckNotObserved (''failed to read HandoffAck frame: '' @ hc_show_framing cd read_error @
              ''; additionally failed to restore blocking mode: '' @ hc_show_io cd restore_error)), d))"

section \<open>The backend's side\<close>

datatype 'd backend_handoff_wire_error =
    WireFraming "'d framing_error"
  | WireDecodeFrame 'd
  | WireDecodePayload 'd
  | UnexpectedFrame string

definition read_handoff_offer ::
  "'d handoff_codec \<Rightarrow> reader \<Rightarrow> ('d backend_handoff_wire_error, handoff_offer) result \<times> reader" where
  "read_handoff_offer cd r =
    (case read_frame r of
       (Err e, r') \<Rightarrow> (Err (WireFraming e), r')
     | (Ok bytes, r') \<Rightarrow>
       (result_bind (map_err WireDecodeFrame (hc_decode_frame cd bytes)) (\<lambda>f.
        result_bind (map_err UnexpectedFrame (validate_handoff_frame f FrameKindRequest)) (\<lambda>_.
        result_bind (map_err WireDecodePayload (hc_decode_offer cd (fr_payload f))) (\<lambda>offer.
        if fr_request_id f \<noteq> ho_correlation_id offer
        then Err (UnexpectedFrame ''frame request_id does not match HandoffOffer correlation_id'')
        else Ok offer))), r'))"

definition write_handoff_ack ::
  "'d handoff_codec \<Rightarrow> handoff_ack \<Rightarrow> writer \<Rightarrow> ('d backend_handoff_wire_error, unit) result \<times> writer" where
  "write_handoff_ack cd ack w =
    (case write_frame w (hc_encode_frame cd (handoff_ack_frame cd ack)) of
       (Err e, w') \<Rightarrow> (Err (WireFraming e), w')
     | (Ok _, w') \<Rightarrow> (Ok (), w'))"

fun handoff_ack_for :: "'d handoff_codec \<Rightarrow> handoff_offer \<Rightarrow> 'c handoff_acceptance \<Rightarrow> handoff_ack" where
  "handoff_ack_for cd offer (Accepted _ _) =
    \<lparr> hk_token = ho_token offer, hk_accepted = True, hk_error_detail = [],
      hk_correlation_id = ho_correlation_id offer \<rparr>"
| "handoff_ack_for cd offer (Rejected _ reason) =
    \<lparr> hk_token = ho_token offer, hk_accepted = False, hk_error_detail = hc_show_rejection cd reason,
      hk_correlation_id = ho_correlation_id offer \<rparr>"

definition respond_to_handoff_offer ::
  "'d handoff_codec \<Rightarrow> handoff_token \<Rightarrow> handoff_offer \<Rightarrow> instant \<Rightarrow> writer \<Rightarrow> handoff_token_store \<Rightarrow>
   ('d backend_handoff_wire_error, handoff_offer handoff_acceptance) result \<times> writer \<times> handoff_token_store" where
  "respond_to_handoff_offer cd expected_token offer now w pending_tokens =
    (case accept_handed_off \<lparr> hop_expected_token = expected_token, hop_presented_token = ho_token offer,
            hop_connection = offer \<rparr> now pending_tokens of
       (acceptance, tokens) \<Rightarrow>
       (case write_handoff_ack cd (handoff_ack_for cd offer acceptance) w of
          (Err e, w') \<Rightarrow> (Err e, w', tokens)
        | (Ok _, w') \<Rightarrow> (Ok acceptance, w', tokens)))"

definition serve_handoff_offer ::
  "'d handoff_codec \<Rightarrow> handoff_token \<Rightarrow> instant \<Rightarrow> reader \<Rightarrow> writer \<Rightarrow> handoff_token_store \<Rightarrow>
   ('d backend_handoff_wire_error, handoff_offer handoff_acceptance) result \<times> writer \<times> handoff_token_store" where
  "serve_handoff_offer cd expected_token now r w pending_tokens =
    (case fst (read_handoff_offer cd r) of
       Err e \<Rightarrow> (Err e, w, pending_tokens)
     | Ok offer \<Rightarrow> respond_to_handoff_offer cd expected_token offer now w pending_tokens)"

section \<open>Transports\<close>

record duplicate_handle_attempt =
  dha_pipe_handle :: u64
  dha_backend_pid :: u32
  dha_handoff_token :: handoff_token

record duplicate_handle_success =
  dhs_duplicated_handle :: u64
  dhs_backend_pid :: u32
  dhs_handoff_token :: handoff_token

datatype duplicate_handle_error =
    DupUnsupportedPlatform
  | DupCannotOpenBackend u32
  | DupPermissionDenied u32
  | DupDuplicateFailed u32 "int option"
  | DupIntegrityMismatch u32
  | DupBackendAckTimeout u32

fun dup_attempt_failure :: "duplicate_handle_error \<Rightarrow> handoff_attempt_failure option" where
  "dup_attempt_failure DupUnsupportedPlatform = None"
| "dup_attempt_failure (DupCannotOpenBackend _) = Some PermissionDeniedFailure"
| "dup_attempt_failure (DupPermissionDenied _) = Some PermissionDeniedFailure"
| "dup_attempt_failure (DupDuplicateFailed _ _) = Some PermissionDeniedFailure"
| "dup_attempt_failure (DupIntegrityMismatch _) = Some IntegrityMismatch"
| "dup_attempt_failure (DupBackendAckTimeout _) = Some BackendAckTimeout"

definition dup_fallback_decision :: "duplicate_handle_error \<Rightarrow> handoff_fallback_decision" where
  "dup_fallback_decision e =
    fallback_decision_new (case dup_attempt_failure e of
        Some failure \<Rightarrow> failure_reason failure | None \<Rightarrow> ServicePolicyDisabled)"

text \<open>\<open>OpenProcess\<close> returns a handle, \<open>DuplicateHandle\<close> a success flag and a handle; each leaves a last
  error code.\<close>

record windows_os =
  wo_open_process :: "u32 \<Rightarrow> u64 \<times> int option"
  wo_duplicate :: "u64 \<Rightarrow> u64 \<Rightarrow> bool \<times> u64 \<times> int option"

definition ERROR_ACCESS_DENIED :: int where "ERROR_ACCESS_DENIED = 5"

definition is_invalid_handle :: "u64 \<Rightarrow> bool" where
  "is_invalid_handle h = (h = 0 \<or> h = - 1)"

definition try_duplicate_handle ::
  "platform \<Rightarrow> windows_os \<Rightarrow> duplicate_handle_attempt \<Rightarrow>
   (duplicate_handle_error, duplicate_handle_success) result" where
  "try_duplicate_handle p wo attempt =
    (if p \<noteq> Windows then Err DupUnsupportedPlatform
     else
       let pid = dha_backend_pid attempt in
       case wo_open_process wo pid of
         (backend_process, open_error) \<Rightarrow>
         if is_invalid_handle backend_process
         then Err (if open_error = Some ERROR_ACCESS_DENIED then DupPermissionDenied pid
                   else DupCannotOpenBackend pid)
         else
           (case wo_duplicate wo (dha_pipe_handle attempt) backend_process of
              (ok, duplicated, raw_os_error) \<Rightarrow>
              if \<not> ok \<or> is_invalid_handle duplicated
              then Err (if raw_os_error = Some ERROR_ACCESS_DENIED then DupPermissionDenied pid
                        else DupDuplicateFailed pid raw_os_error)
              else Ok \<lparr> dhs_duplicated_handle = duplicated, dhs_backend_pid = pid,
                       dhs_handoff_token = dha_handoff_token attempt \<rparr>))"

record scm_rights_attempt =
  sra_fd :: int
  sra_backend_socket :: string
  sra_handoff_token :: handoff_token

record scm_rights_success =
  srs_sent_fd :: int
  srs_backend_socket :: string
  srs_handoff_token :: handoff_token

datatype scm_rights_error =
    ScmUnsupportedPlatform
  | ScmPermissionDenied int string
  | ScmBackendSocketUnavailable string
  | ScmWouldBlock string
  | ScmSendFailed int string "int option"
  | ScmPartialSend int string nat nat
  | ScmBackendAckTimeout string

fun scm_attempt_failure :: "scm_rights_error \<Rightarrow> handoff_attempt_failure option" where
  "scm_attempt_failure ScmUnsupportedPlatform = None"
| "scm_attempt_failure (ScmPermissionDenied _ _) = Some PermissionDeniedFailure"
| "scm_attempt_failure (ScmBackendSocketUnavailable _) = Some BackendAckTimeout"
| "scm_attempt_failure (ScmWouldBlock _) = Some BackendAckTimeout"
| "scm_attempt_failure (ScmSendFailed _ _ _) = Some BackendAckTimeout"
| "scm_attempt_failure (ScmPartialSend _ _ _ _) = Some BackendAckTimeout"
| "scm_attempt_failure (ScmBackendAckTimeout _) = Some BackendAckTimeout"

definition scm_fallback_decision :: "scm_rights_error \<Rightarrow> handoff_fallback_decision" where
  "scm_fallback_decision e =
    fallback_decision_new (case scm_attempt_failure e of
        Some failure \<Rightarrow> failure_reason failure | None \<Rightarrow> ServicePolicyDisabled)"

fun fd_may_have_reached_backend :: "scm_rights_error \<Rightarrow> bool" where
  "fd_may_have_reached_backend (ScmPartialSend _ _ sent_bytes _) = (sent_bytes > 0)"
| "fd_may_have_reached_backend _ = False"

text \<open>\<open>ENOBUFS\<close> and, on macOS, \<open>EMSGSIZE\<close>.\<close>

definition transient_backpressure :: "platform \<Rightarrow> int option \<Rightarrow> bool" where
  "transient_backpressure p raw =
    (raw = Some (if p = Macos then 55 else 105) \<or> p = Macos \<and> raw = Some 40)"

definition sendmsg_error :: "platform \<Rightarrow> int \<Rightarrow> string \<Rightarrow> io_error \<Rightarrow> scm_rights_error" where
  "sendmsg_error p fd socket e =
    (if transient_backpressure p (ioe_raw_os_error e) then ScmWouldBlock socket
     else if ioe_kind e = PermissionDenied then ScmPermissionDenied fd socket
     else if ioe_kind e = WouldBlock then ScmWouldBlock socket
     else if ioe_kind e \<in> {ConnectionRefused, ConnectionReset, BrokenPipe, NotConnected}
     then ScmBackendSocketUnavailable socket
     else ScmSendFailed fd socket (ioe_raw_os_error e))"

text \<open>The descriptor travels with the first byte of the 16-byte token, written to the stream of the
  delivery. \<open>sendmsg\<close> is the number of token bytes the socket took. The control buffer is sized for one
  descriptor, so its first header exists.\<close>

definition try_send_scm_rights_over ::
  "platform \<Rightarrow> (io_error, nat) result \<Rightarrow> scm_rights_attempt \<Rightarrow> wire_handoff_delivery \<Rightarrow>
   (scm_rights_error, scm_rights_success) result \<times> wire_handoff_delivery" where
  "try_send_scm_rights_over p sendmsg attempt d =
    (case sendmsg of
       Err e \<Rightarrow> (Err (sendmsg_error p (sra_fd attempt) (sra_backend_socket attempt) e), d)
     | Ok sent \<Rightarrow>
       let d' = d\<lparr> whd_out := (whd_out d)\<lparr> wr_out := wr_out (whd_out d) @
                   take sent (sra_handoff_token attempt) \<rparr> \<rparr>
       in if sent \<noteq> length (sra_handoff_token attempt)
          then (Err (ScmPartialSend (sra_fd attempt) (sra_backend_socket attempt) sent
                  (length (sra_handoff_token attempt))), d')
          else (Ok \<lparr> srs_sent_fd = sra_fd attempt, srs_backend_socket = sra_backend_socket attempt,
                    srs_handoff_token = sra_handoff_token attempt \<rparr>, d'))"

section \<open>Orchestration\<close>

text \<open>A fallback carries its stage and its decision; its text for the log is left out.\<close>

definition ack_deadline_from :: "handoff_ack_registry \<Rightarrow> instant \<Rightarrow> instant" where
  "ack_deadline_from acks now = add_or_now now (har_ack_deadline acks)"

record windows_handoff_request =
  whr_pipe_handle :: u64
  whr_backend_pid :: u32
  whr_token :: handoff_token

datatype windows_handoff_stage = WStageDuplicate | WStageDeliver | WStageAwaitAck | WStageAcknowledge

record windows_handoff_fallback =
  whf_stage :: windows_handoff_stage
  whf_decision :: handoff_fallback_decision
  whf_leaked_backend_handle :: "u64 option"

datatype windows_handoff_outcome =
    WindowsCompleted duplicate_handle_success acknowledged_handoff
  | WindowsFallback windows_handoff_fallback

text \<open>The delivery channel is the trait \<open>HandoffDelivery\<close>: its two operations on a state \<open>'s\<close>. The state
  threaded through is the channel, the registry of acknowledgements and the token store.\<close>

type_synonym 's handoff_deliver = "u64 \<Rightarrow> handoff_token \<Rightarrow> 's \<Rightarrow> (handoff_delivery_error, unit) result \<times> 's"

type_synonym 's handoff_await = "handoff_token \<Rightarrow> instant \<Rightarrow> 's \<Rightarrow> (handoff_delivery_error, instant) result \<times> 's"

definition execute_windows_handoff_with_transport ::
  "(duplicate_handle_attempt \<Rightarrow> (duplicate_handle_error, duplicate_handle_success) result) \<Rightarrow>
   's handoff_deliver \<Rightarrow> 's handoff_await \<Rightarrow> instant \<Rightarrow> windows_handoff_request \<Rightarrow>
   's \<Rightarrow> handoff_ack_registry \<Rightarrow> handoff_token_store \<Rightarrow>
   windows_handoff_outcome \<times> 's \<times> handoff_ack_registry \<times> handoff_token_store" where
  "execute_windows_handoff_with_transport transport dlv await now request s acks tokens =
    (let token = whr_token request;
         abandoned = (\<lambda>stage decision leaked s'. case abandon token acks tokens of (_, acks', tokens') \<Rightarrow>
           (WindowsFallback \<lparr> whf_stage = stage, whf_decision = decision,
              whf_leaked_backend_handle = leaked \<rparr>, s', acks', tokens'))
     in case transport \<lparr> dha_pipe_handle = whr_pipe_handle request,
               dha_backend_pid = whr_backend_pid request, dha_handoff_token = token \<rparr> of
          Err e \<Rightarrow> abandoned WStageDuplicate (dup_fallback_decision e) None s
        | Ok duplicated \<Rightarrow>
          let handle = dhs_duplicated_handle duplicated in
          (case dlv handle token s of
             (Err _, s1) \<Rightarrow> abandoned WStageDeliver (fallback_decision_new ReasonBackendAckTimeout) (Some handle) s1
           | (Ok _, s1) \<Rightarrow>
             (case await token (ack_deadline_from acks now) s1 of
                (Err _, s2) \<Rightarrow>
                  abandoned WStageAwaitAck (fallback_decision_new ReasonBackendAckTimeout) (Some handle) s2
              | (Ok acknowledged_at, s2) \<Rightarrow>
                (case acknowledge token acknowledged_at acks tokens of
                   (Ok acknowledged, acks', tokens') \<Rightarrow>
                     (WindowsCompleted duplicated acknowledged, s2, acks', tokens')
                 | (Err _, acks', tokens') \<Rightarrow>
                     (WindowsFallback \<lparr> whf_stage = WStageAcknowledge,
                        whf_decision = fallback_decision_new ReasonBackendAckTimeout,
                        whf_leaked_backend_handle = Some handle \<rparr>, s2, acks', snd (revoke token tokens'))))))"

record unix_handoff_request =
  uhr_fd :: int
  uhr_backend_socket :: string
  uhr_token :: handoff_token

datatype unix_handoff_stage = UStageSend | UStageAwaitAck | UStageAcknowledge

record unix_handoff_fallback =
  uhf_stage :: unix_handoff_stage
  uhf_decision :: handoff_fallback_decision
  uhf_broker_fd :: int
  uhf_fd_reached_backend :: bool

datatype unix_handoff_outcome =
    UnixCompleted scm_rights_success acknowledged_handoff
  | UnixFallback unix_handoff_fallback

definition execute_unix_handoff_with_transport ::
  "(scm_rights_attempt \<Rightarrow> 's \<Rightarrow> (scm_rights_error, scm_rights_success) result \<times> 's) \<Rightarrow>
   's handoff_await \<Rightarrow> instant \<Rightarrow> unix_handoff_request \<Rightarrow>
   's \<Rightarrow> handoff_ack_registry \<Rightarrow> handoff_token_store \<Rightarrow>
   unix_handoff_outcome \<times> 's \<times> handoff_ack_registry \<times> handoff_token_store" where
  "execute_unix_handoff_with_transport transport await now request s acks tokens =
    (let token = uhr_token request;
         abandoned = (\<lambda>stage decision reached s'. case abandon token acks tokens of (_, acks', tokens') \<Rightarrow>
           (UnixFallback \<lparr> uhf_stage = stage, uhf_decision = decision, uhf_broker_fd = uhr_fd request,
              uhf_fd_reached_backend = reached \<rparr>, s', acks', tokens'))
     in case transport \<lparr> sra_fd = uhr_fd request, sra_backend_socket = uhr_backend_socket request,
               sra_handoff_token = token \<rparr> s of
          (Err e, s1) \<Rightarrow> abandoned UStageSend (scm_fallback_decision e) (fd_may_have_reached_backend e) s1
        | (Ok sent, s1) \<Rightarrow>
          (case await token (ack_deadline_from acks now) s1 of
             (Err _, s2) \<Rightarrow> abandoned UStageAwaitAck (fallback_decision_new ReasonBackendAckTimeout) True s2
           | (Ok acknowledged_at, s2) \<Rightarrow>
             (case acknowledge token acknowledged_at acks tokens of
                (Ok acknowledged, acks', tokens') \<Rightarrow> (UnixCompleted sent acknowledged, s2, acks', tokens')
              | (Err _, acks', tokens') \<Rightarrow>
                  (UnixFallback \<lparr> uhf_stage = UStageAcknowledge,
                     uhf_decision = fallback_decision_new ReasonBackendAckTimeout,
                     uhf_broker_fd = uhr_fd request, uhf_fd_reached_backend = True \<rparr>,
                   s2, acks', snd (revoke token tokens')))))"

section \<open>Serving a negotiated handoff\<close>

record serve_handoff_context =
  shc_handoff_endpoint :: string
  shc_service_name :: string
  shc_service_version :: string
  shc_instance :: broker_instance_key
  shc_registry :: backend_registry

record 'd handoff_env =
  hv_codec :: "'d handoff_codec"
  hv_platform :: platform
  hv_now :: instant
  hv_connect :: "(io_error, writer \<times> (bytes \<Rightarrow> reader)) result"
  hv_connected_at :: instant
  hv_set_nonblocking :: "(io_error, unit) result"
  hv_restore :: "(io_error, unit) result"
  hv_client_handle :: u64
  hv_client_fd :: int
  hv_sendmsg :: "(io_error, nat) result"
  hv_windows :: windows_os
  hv_await_now :: instant
  hv_observed_at :: instant

text \<open>The Unix transport of the serve loop: the descriptor and its token, then the offer frame on the
  same stream.\<close>

definition unix_transport ::
  "'d handoff_env \<Rightarrow> scm_rights_attempt \<Rightarrow> wire_handoff_delivery \<Rightarrow>
   (scm_rights_error, scm_rights_success) result \<times> wire_handoff_delivery" where
  "unix_transport env attempt d =
    (case try_send_scm_rights_over (hv_platform env) (hv_sendmsg env) attempt d of
       (Err e, d1) \<Rightarrow> (Err e, d1)
     | (Ok sent, d1) \<Rightarrow>
       (case deliver (hv_codec env) 0 (sra_handoff_token attempt) d1 of
          (Err _, d2) \<Rightarrow> (Err (ScmSendFailed (sra_fd attempt) (sra_backend_socket attempt) None), d2)
        | (Ok _, d2) \<Rightarrow> (Ok sent, d2)))"

definition run_platform_handoff ::
  "'d handoff_env \<Rightarrow> serve_handoff_context \<Rightarrow> handoff_token \<Rightarrow>
   wire_handoff_delivery \<Rightarrow> handoff_ack_registry \<Rightarrow> handoff_token_store \<Rightarrow>
   bool \<times> wire_handoff_delivery \<times> handoff_ack_registry \<times> handoff_token_store" where
  "run_platform_handoff env ctx issued d acks tokens =
    (if hv_platform env = Windows
     then
       (case get_any_build (shc_registry ctx) (shc_instance ctx) (shc_service_name ctx) (shc_service_version ctx) of
          None \<Rightarrow> (case abandon issued acks tokens of (_, acks', tokens') \<Rightarrow> (False, d, acks', tokens'))
        | Some backend \<Rightarrow>
          (case execute_windows_handoff_with_transport
                  (\<lambda>attempt. try_duplicate_handle (hv_platform env) (hv_windows env)
                     (attempt\<lparr> dha_backend_pid := dp_pid (bh_daemon_process backend) \<rparr>))
                  (deliver (hv_codec env)) (await_backend_ack (hv_codec env) (hv_observed_at env))
                  (hv_await_now env)
                  \<lparr> whr_pipe_handle = hv_client_handle env,
                    whr_backend_pid = dp_pid (bh_daemon_process backend), whr_token = issued \<rparr> d acks tokens of
             (outcome, rest) \<Rightarrow> (case outcome of WindowsCompleted _ _ \<Rightarrow> True | WindowsFallback _ \<Rightarrow> False, rest)))
     else
       (case execute_unix_handoff_with_transport (unix_transport env)
               (await_backend_ack (hv_codec env) (hv_observed_at env)) (hv_await_now env)
               \<lparr> uhr_fd = hv_client_fd env, uhr_backend_socket = shc_handoff_endpoint ctx,
                 uhr_token = issued \<rparr> d acks tokens of
          (outcome, rest) \<Rightarrow> (case outcome of UnixCompleted _ _ \<Rightarrow> True | UnixFallback _ \<Rightarrow> False, rest)))"

definition negotiated_with_handoff :: "hello_reply \<Rightarrow> negotiated option" where
  "negotiated_with_handoff reply =
    (case reply of
       Some (Negotiated n) \<Rightarrow>
         if ng_server_capabilities n AND CAP_HANDLE_PASSING = 0 \<or> ng_handle_passed_token n = [] then None
         else Some n
     | _ \<Rightarrow> None)"

text \<open>The result keeps the store and the registry of the connection, which are dropped when the
  function returns, and the bytes written to the client.\<close>

record handoff_run =
  hrn_completed :: bool
  hrn_client :: writer
  hrn_acks :: handoff_ack_registry
  hrn_tokens :: handoff_token_store
  hrn_delivery :: "wire_handoff_delivery option"

definition complete_negotiated_handoff ::
  "'d handoff_env \<Rightarrow> serve_handoff_context \<Rightarrow> writer \<Rightarrow> hello_reply \<Rightarrow> handoff_run" where
  "complete_negotiated_handoff env ctx client reply =
    (let skip = \<lparr> hrn_completed = False, hrn_client = client, hrn_acks = ack_registry_new,
           hrn_tokens = token_store_new, hrn_delivery = None \<rparr>
     in case negotiated_with_handoff reply of
          None \<Rightarrow> skip
        | Some n \<Rightarrow>
          let token_bytes = ng_handle_passed_token n in
          if length token_bytes \<noteq> HANDOFF_TOKEN_BYTES then skip
          else
            (case issue_with_random128 (hv_now env) (\<lambda>_. Ok token_bytes) token_store_new of
               (Err _, tokens) \<Rightarrow> skip\<lparr> hrn_tokens := tokens \<rparr>
             | (Ok issued, tokens) \<Rightarrow>
               let acks = ack_register issued (pending_backend_for_service (shc_service_name ctx))
                     (hv_now env) ack_registry_new
               in case hv_connect env of
                    Err _ \<Rightarrow> (case abandon issued acks tokens of (_, acks', tokens') \<Rightarrow>
                      skip\<lparr> hrn_acks := acks', hrn_tokens := tokens' \<rparr>)
                  | Ok (out, peer) \<Rightarrow>
                    (case run_platform_handoff env ctx issued
                            (new_local_socket (hv_codec env) (hv_set_nonblocking env) (hv_restore env) out peer
                               (shc_service_name ctx) (ng_connection_id n)
                               (add_or_now (hv_connected_at env) (har_ack_deadline acks)))
                            acks tokens of
                       (completed, d, acks', tokens') \<Rightarrow>
                       \<lparr> hrn_completed = completed,
                         hrn_client = (if completed
                           then snd (write_frame client (hc_encode_frame (hv_codec env)
                                  (handoff_ready_frame (hv_codec env) \<lparr> hk_token = token_bytes,
                                     hk_accepted = True, hk_error_detail = [],
                                     hk_correlation_id = ng_connection_id n \<rparr>)) :: ('d framing_error, nat) result \<times> writer)
                           else client),
                         hrn_acks = acks', hrn_tokens = tokens', hrn_delivery = Some d \<rparr>)))"

text \<open>What both orchestrations guarantee of the token, whatever the transport and the channel do.\<close>

definition settles ::
  "handoff_token \<Rightarrow> handoff_ack_registry \<Rightarrow> handoff_token_store \<Rightarrow>
   handoff_ack_registry \<Rightarrow> handoff_token_store \<Rightarrow> bool" where
  "settles token acks tokens acks' tokens' =
    (\<not> token_pending tokens' token \<and> hm_get (har_pending acks') token = None \<and>
     (\<forall>t. t \<noteq> token \<longrightarrow> (token_pending tokens' t \<longleftrightarrow> token_pending tokens t) \<and>
        hm_get (har_pending acks') t = hm_get (har_pending acks) t))"

text \<open>The backend has acknowledged a token on a channel: it answered what it was sent with one frame
  that echoes the token and the correlation id and accepts.\<close>

definition backend_acknowledged :: "'d handoff_codec \<Rightarrow> wire_handoff_delivery \<Rightarrow> handoff_token \<Rightarrow> bool" where
  "backend_acknowledged cd d token =
    (\<exists>bytes f ack. fst (read_frame (whd_peer d (wr_out (whd_out d)))) = (Ok bytes :: ('d framing_error, bytes) result) \<and>
       hc_decode_frame cd bytes = Ok f \<and> validate_handoff_frame f FrameKindResponse = Ok () \<and>
       fr_request_id f = whd_correlation_id d \<and> hc_decode_ack cd (fr_payload f) = Ok ack \<and>
       hk_correlation_id ack = whd_correlation_id d \<and> hk_token ack = token \<and> hk_accepted ack)"

definition open_writer :: writer where
  "open_writer = \<lparr> wr_out = [], wr_room = None, wr_fault = eof_error, wr_flush = None \<rparr>"

text \<open>A backend that serves the offer it is sent, after the bytes \<open>skip\<close> that travelled with the
  descriptor.\<close>

definition serving_backend ::
  "'d handoff_codec \<Rightarrow> handoff_token \<Rightarrow> instant \<Rightarrow> handoff_token_store \<Rightarrow> nat \<Rightarrow> bytes \<Rightarrow> reader" where
  "serving_backend cd expected now store skip sent =
    \<lparr> rd_bytes = wr_out (fst (snd (serve_handoff_offer cd expected now
        \<lparr> rd_bytes = drop skip sent, rd_end = Eof \<rparr> open_writer store))), rd_end = Eof \<rparr>"

text \<open>What the codec does with the messages of one exchange: they decode to what was encoded, and
  they fit a frame.\<close>

definition carries_exchange :: "'d handoff_codec \<Rightarrow> handoff_offer \<Rightarrow> bool" where
  "carries_exchange cd offer =
    (hc_decode_frame cd (hc_encode_frame cd (handoff_offer_frame cd offer)) = Ok (handoff_offer_frame cd offer) \<and>
     hc_decode_offer cd (hc_encode_offer cd offer) = Ok offer \<and>
     length (hc_encode_frame cd (handoff_offer_frame cd offer)) \<le> MAX_FRAME_BYTES \<and>
     (\<forall>acceptance :: handoff_offer handoff_acceptance. let ack = handoff_ack_for cd offer acceptance in
        hc_decode_frame cd (hc_encode_frame cd (handoff_ack_frame cd ack)) = Ok (handoff_ack_frame cd ack) \<and>
        hc_decode_ack cd (hc_encode_ack cd ack) = Ok ack \<and>
        length (hc_encode_frame cd (handoff_ack_frame cd ack)) \<le> MAX_FRAME_BYTES))"

text \<open>A sample exchange: one kind byte before the payload, a token of 16 bytes.\<close>

definition sample_handoff_codec :: "string handoff_codec" where
  "sample_handoff_codec =
    \<lparr> hc_encode_frame = (\<lambda>f. (if fr_kind f = 0 then 0 else 1) # fr_payload f),
      hc_decode_frame = (\<lambda>b. Ok (handoff_frame (if hd b = 0 then FrameKindRequest else FrameKindResponse) (tl b) 1)),
      hc_encode_offer = (\<lambda>_. []),
      hc_decode_offer = (\<lambda>_. Ok \<lparr> ho_handle_value = 9, ho_token = replicate 16 3,
        ho_service_name = ''zccache'', ho_correlation_id = 1 \<rparr>),
      hc_encode_ack = (\<lambda>a. [if hk_accepted a then 1 else 0]),
      hc_decode_ack = (\<lambda>b. Ok \<lparr> hk_token = replicate 16 3, hk_accepted = (hd b = 1), hk_error_detail = [],
        hk_correlation_id = 1 \<rparr>),
      hc_show_framing = (\<lambda>_. []), hc_show_io = (\<lambda>_. []), hc_show_decode = (\<lambda>_. []),
      hc_show_u64 = (\<lambda>_. []), hc_show_rejection = (\<lambda>_. []) \<rparr>"

definition sample_pending_store :: handoff_token_store where
  "sample_pending_store = \<lparr> hts_config = handoff_token_store_config_new 4 100,
     hts_pending = [(replicate 16 3, \<lparr> pht_expires_at = 100 \<rparr>)] \<rparr>"

definition sample_delivery :: wire_handoff_delivery where
  "sample_delivery = new_preconfigured_nonblocking open_writer
     (serving_backend sample_handoff_codec (replicate 16 3) 20 sample_pending_store 0) ''zccache'' 1 90"

definition sample_offer :: handoff_offer where
  "sample_offer = \<lparr> ho_handle_value = 9, ho_token = replicate 16 3, ho_service_name = ''zccache'', ho_correlation_id = 1 \<rparr>"

definition sample_handoff_env :: "string handoff_env" where
  "sample_handoff_env =
    \<lparr> hv_codec = sample_handoff_codec, hv_platform = Windows, hv_now = 10,
      hv_connect = Ok (open_writer, whd_peer sample_delivery), hv_connected_at = 11,
      hv_set_nonblocking = Ok (), hv_restore = Ok (), hv_client_handle = 4, hv_client_fd = 5,
      hv_sendmsg = Ok 16,
      hv_windows = \<lparr> wo_open_process = (\<lambda>_. (8, None)), wo_duplicate = (\<lambda>_ _. (True, 9, None)) \<rparr>,
      hv_await_now = 12, hv_observed_at = 50 \<rparr>"

definition sample_handoff_context :: serve_handoff_context where
  "sample_handoff_context =
    \<lparr> shc_handoff_endpoint = ''/run/h.sock'', shc_service_name = ''zccache'', shc_service_version = ''1.2.0'',
      shc_instance = Shared,
      shc_registry = snd (registry_insert Shared \<lparr> bh_service_name = ''zccache'', bh_service_version = ''1.2.0'',
        bh_daemon_process = sample_daemon \<rparr> registry_new) \<rparr>"

definition sample_acks :: handoff_ack_registry where
  "sample_acks = \<lparr> har_ack_deadline = 100, har_pending = [(replicate 16 3,
     \<lparr> pae_backend = pending_backend_for_service ''zccache'', pae_issued_at = 10, pae_ack_deadline_at = 90 \<rparr>)] \<rparr>"

lemma abandon_settles:
  assumes "abandon token acks tokens = (b, acks', tokens')"
  shows "\<not> token_pending tokens' token" "hm_get (har_pending acks') token = None"
    "t \<noteq> token \<Longrightarrow> token_pending tokens' t \<longleftrightarrow> token_pending tokens t"
    "t \<noteq> token \<Longrightarrow> hm_get (har_pending acks') t = hm_get (har_pending acks) t"
  using assms by (auto simp: abandon_def revoke_pending_iff hm_simps)

lemma acknowledge_settles:
  assumes "acknowledge token now acks tokens = (r, acks', tokens')"
  shows "hm_get (har_pending acks') token = None" "\<not> token_pending (snd (revoke token tokens')) token"
    "is_ok r \<Longrightarrow> \<not> token_pending tokens' token"
    "t \<noteq> token \<Longrightarrow> token_pending tokens' t \<longleftrightarrow> token_pending tokens t"
    "t \<noteq> token \<Longrightarrow> hm_get (har_pending acks') t = hm_get (har_pending acks) t"
    "r = Ok a \<Longrightarrow> \<exists>e. hm_get (har_pending acks) token = Some e \<and> now < pae_ack_deadline_at e"
  using assms by (auto simp: acknowledge_def Let_def revoke_pending_iff hm_simps split: option.splits if_splits)

lemma settles_abandon: "abandon token acks tokens = (b, acks', tokens') \<Longrightarrow> settles token acks tokens acks' tokens'"
  using abandon_settles by (simp add: settles_def)

lemma settles_acknowledge:
  assumes "acknowledge token now acks tokens = (r, acks', tokens')"
  shows "settles token acks tokens acks' (if is_ok r then tokens' else snd (revoke token tokens'))"
  using acknowledge_settles [OF assms] by (auto simp: settles_def revoke_pending_iff)

lemma execute_windows_handoff_cases:
  assumes "execute_windows_handoff_with_transport transport dlv await now request s acks tokens
      = (outcome, s', acks', tokens')"
    and "attempt = \<lparr> dha_pipe_handle = whr_pipe_handle request, dha_backend_pid = whr_backend_pid request,
      dha_handoff_token = whr_token request \<rparr>"
  shows "settles (whr_token request) acks tokens acks' tokens' \<and>
    (case outcome of
       WindowsCompleted dup ack \<Rightarrow> transport attempt = Ok dup \<and>
         (\<exists>s1 at e. dlv (dhs_duplicated_handle dup) (whr_token request) s = (Ok (), s1) \<and>
            await (whr_token request) (ack_deadline_from acks now) s1 = (Ok at, s') \<and>
            hm_get (har_pending acks) (whr_token request) = Some e \<and> at < pae_ack_deadline_at e)
     | WindowsFallback f \<Rightarrow> whf_leaked_backend_handle f =
         (case transport attempt of Err _ \<Rightarrow> None | Ok dup \<Rightarrow> Some (dhs_duplicated_handle dup)))"
proof -
  obtain b acks1 tokens1 where ab: "abandon (whr_token request) acks tokens = (b, acks1, tokens1)"
    by (metis prod_cases3)
  show ?thesis
  proof (cases "transport attempt")
    case (Inl e)
    then show ?thesis using assms ab settles_abandon [OF ab]
      by (auto simp: execute_windows_handoff_with_transport_def Let_def)
  next
    case dup: (Inr dup)
    obtain r1 s1 where d: "dlv (dhs_duplicated_handle dup) (whr_token request) s = (r1, s1)" by fastforce
    obtain r2 s2 where w: "await (whr_token request) (ack_deadline_from acks now) s1 = (r2, s2)" by fastforce
    show ?thesis
    proof (cases "is_ok r1 \<and> is_ok r2")
      case False
      then show ?thesis using assms ab dup d w settles_abandon [OF ab]
        by (cases r1; cases r2) (auto simp: execute_windows_handoff_with_transport_def Let_def)
    next
      case True
      then obtain at where ok: "r1 = Ok ()" "r2 = Ok at" by (cases r1; cases r2) auto
      obtain r3 acks3 tokens3 where a: "acknowledge (whr_token request) at acks tokens = (r3, acks3, tokens3)"
        by (metis prod_cases3)
      show ?thesis using assms dup d w ok a settles_acknowledge [OF a] acknowledge_settles(6) [OF a]
        by (cases r3) (auto simp: execute_windows_handoff_with_transport_def Let_def)
    qed
  qed
qed

lemma execute_unix_handoff_cases:
  assumes "execute_unix_handoff_with_transport transport await now request s acks tokens
      = (outcome, s', acks', tokens')"
    and "attempt = \<lparr> sra_fd = uhr_fd request, sra_backend_socket = uhr_backend_socket request,
      sra_handoff_token = uhr_token request \<rparr>"
  shows "settles (uhr_token request) acks tokens acks' tokens' \<and>
    (case outcome of
       UnixCompleted sent ack \<Rightarrow>
         (\<exists>s1 at e. transport attempt s = (Ok sent, s1) \<and>
            await (uhr_token request) (ack_deadline_from acks now) s1 = (Ok at, s') \<and>
            hm_get (har_pending acks) (uhr_token request) = Some e \<and> at < pae_ack_deadline_at e)
     | UnixFallback f \<Rightarrow> uhf_fd_reached_backend f =
         (case fst (transport attempt s) of Err e \<Rightarrow> fd_may_have_reached_backend e | Ok _ \<Rightarrow> True))"
proof -
  obtain b acks1 tokens1 where ab: "abandon (uhr_token request) acks tokens = (b, acks1, tokens1)"
    by (metis prod_cases3)
  obtain r1 s1 where t: "transport attempt s = (r1, s1)" by fastforce
  obtain r2 s2 where w: "await (uhr_token request) (ack_deadline_from acks now) s1 = (r2, s2)" by fastforce
  show ?thesis
  proof (cases "is_ok r1 \<and> is_ok r2")
    case False
    then show ?thesis using assms ab t w settles_abandon [OF ab]
      by (cases r1; cases r2) (auto simp: execute_unix_handoff_with_transport_def Let_def)
  next
    case True
    then obtain sent at where ok: "r1 = Ok sent" "r2 = Ok at" by (cases r1; cases r2) auto
    obtain r3 acks3 tokens3 where a: "acknowledge (uhr_token request) at acks tokens = (r3, acks3, tokens3)"
      by (metis prod_cases3)
    show ?thesis using assms t w ok a settles_acknowledge [OF a] acknowledge_settles(6) [OF a]
      by (cases r3) (auto simp: execute_unix_handoff_with_transport_def Let_def)
  qed
qed

lemma validate_handoff_frame_Ok:
  "validate_handoff_frame f k = Ok () \<longleftrightarrow> validate_frame_envelope f k HANDOFF_PAYLOAD_PROTOCOL = Ok ()"
  by (cases "validate_frame_envelope f k HANDOFF_PAYLOAD_PROTOCOL") (simp_all add: validate_handoff_frame_def)

lemma check_handoff_ack_Ok_iff:
  "check_handoff_ack cd token corr deadline at bytes = Ok at' \<longleftrightarrow> at' = at \<and> at \<le> deadline \<and>
    (\<exists>f ack. hc_decode_frame cd bytes = Ok f \<and> validate_handoff_frame f FrameKindResponse = Ok () \<and>
       fr_request_id f = corr \<and> hc_decode_ack cd (fr_payload f) = Ok ack \<and> hk_correlation_id ack = corr \<and>
       hk_token ack = token \<and> hk_accepted ack)"
  by (auto simp: check_handoff_ack_def split: sum.splits)

lemma await_backend_ack_Ok:
  assumes "await_backend_ack cd observed_at token deadline d = (Ok at, d')"
  shows "d' = d \<and> at = observed_at \<and> observed_at \<le> deadline \<and> backend_acknowledged cd d token"
proof -
  let ?restored = "case whd_restore d of None \<Rightarrow> Ok () | Some r \<Rightarrow> r"
  obtain x :: "('a framing_error, bytes) result" where x: "fst (read_frame (whd_peer d (wr_out (whd_out d)))) = x"
    by simp
  have n: "whd_ack_setup_error d = None"
    using assms by (cases "whd_ack_setup_error d") (simp_all add: await_backend_ack_def)
  have "\<exists>bytes. x = Ok bytes \<and> d' = d \<and>
      check_handoff_ack cd token (whd_correlation_id d) deadline observed_at bytes = Ok at"
    using assms n unfolding await_backend_ack_def x
    by (cases x; cases ?restored) simp_all
  then obtain bytes where b: "fst (read_frame (whd_peer d (wr_out (whd_out d)))) = (Ok bytes :: ('a framing_error, bytes) result)"
    "check_handoff_ack cd token (whd_correlation_id d) deadline observed_at bytes = Ok at" "d' = d"
    using x by blast
  then show ?thesis unfolding check_handoff_ack_Ok_iff backend_acknowledged_def by blast
qed

lemma deliver_frame [simp]:
  "whd_peer (snd (deliver cd h t d)) = whd_peer d"
  "whd_correlation_id (snd (deliver cd h t d)) = whd_correlation_id d"
  by (auto simp: deliver_def Let_def split: option.splits prod.splits sum.splits)

lemma platform_handoff_settled:
  fixes env :: "'d handoff_env"
  assumes "run_platform_handoff env ctx issued d acks tokens = (completed, d', acks', tokens')"
  shows "\<not> token_pending tokens' issued \<and> hm_get (har_pending acks') issued = None \<and>
    (\<forall>t. t \<noteq> issued \<longrightarrow> (token_pending tokens' t \<longleftrightarrow> token_pending tokens t) \<and>
       hm_get (har_pending acks') t = hm_get (har_pending acks) t) \<and>
    (completed \<longrightarrow> backend_acknowledged (hv_codec env) d' issued \<and>
       (\<exists>e. hm_get (har_pending acks) issued = Some e \<and> hv_observed_at env < pae_ack_deadline_at e))"
proof (cases "hv_platform env = Windows")
  case False
  obtain outcome where u: "execute_unix_handoff_with_transport (unix_transport env)
      (await_backend_ack (hv_codec env) (hv_observed_at env)) (hv_await_now env)
      \<lparr> uhr_fd = hv_client_fd env, uhr_backend_socket = shc_handoff_endpoint ctx, uhr_token = issued \<rparr> d acks tokens
      = (outcome, d', acks', tokens')" and c: "completed \<longleftrightarrow> (\<exists>x y. outcome = UnixCompleted x y)"
    using assms False by (auto simp: run_platform_handoff_def split: prod.splits unix_handoff_outcome.splits)
  show ?thesis
    using execute_unix_handoff_cases [OF u refl] c await_backend_ack_Ok
    by (cases outcome) (fastforce simp: settles_def)+
next
  case True
  show ?thesis
  proof (cases "get_any_build (shc_registry ctx) (shc_instance ctx) (shc_service_name ctx) (shc_service_version ctx)")
    case None
    obtain b acks1 tokens1 where ab: "abandon issued acks tokens = (b, acks1, tokens1)" by (metis prod_cases3)
    then show ?thesis using settles_abandon [OF ab] assms True None
      by (auto simp: run_platform_handoff_def settles_def)
  next
    case (Some backend)
    let ?transport = "\<lambda>attempt. try_duplicate_handle (hv_platform env) (hv_windows env)
       (attempt\<lparr> dha_backend_pid := dp_pid (bh_daemon_process backend) \<rparr>)"
    obtain outcome where u: "execute_windows_handoff_with_transport ?transport (deliver (hv_codec env))
        (await_backend_ack (hv_codec env) (hv_observed_at env)) (hv_await_now env)
        \<lparr> whr_pipe_handle = hv_client_handle env, whr_backend_pid = dp_pid (bh_daemon_process backend),
          whr_token = issued \<rparr> d acks tokens = (outcome, d', acks', tokens')"
      and c: "completed \<longleftrightarrow> (\<exists>x y. outcome = WindowsCompleted x y)"
      using assms True Some
      by (auto simp: run_platform_handoff_def split: prod.splits windows_handoff_outcome.splits)
    show ?thesis
      using execute_windows_handoff_cases [OF u refl] c await_backend_ack_Ok
      by (cases outcome) (fastforce simp: settles_def)+
  qed
qed

lemma validate_handoff_frame_own: "validate_handoff_frame (handoff_frame k payload i) k = Ok ()"
  unfolding validate_handoff_frame_Ok
  by (cases k) (simp_all add: validate_frame_envelope_def handoff_frame_def frame_kind_try_from_def
      payload_encoding_try_from_def)

lemma handoff_frame_sel [simp]:
  "fr_payload (handoff_frame k payload i) = payload" "fr_request_id (handoff_frame k payload i) = i"
  by (simp_all add: handoff_frame_def)

lemma handoff_ack_for_sel [simp]:
  "hk_token (handoff_ack_for cd offer a) = ho_token offer"
  "hk_correlation_id (handoff_ack_for cd offer a) = ho_correlation_id offer"
  "hk_accepted (handoff_ack_for cd offer a) = is_accepted a"
  by (cases a; simp)+

lemma read_frame_written:
  assumes "length body \<le> MAX_FRAME_BYTES"
  shows "(read_frame \<lparr> rd_bytes = write_frame_header body @ body @ rest, rd_end = e \<rparr> :: ('d framing_error, bytes) result \<times> reader)
    = (Ok body, \<lparr> rd_bytes = rest, rd_end = e \<rparr>)"
  unfolding read_frame_def
  by (subst read_frame_with_cap_wire [OF assms assms, where rest = rest]) simp_all

lemma read_offer_delivered:
  assumes "carries_exchange cd offer"
  shows "fst (read_handoff_offer cd \<lparr> rd_bytes = write_frame_header (hc_encode_frame cd (handoff_offer_frame cd offer)) @
     hc_encode_frame cd (handoff_offer_frame cd offer) @ rest, rd_end = e \<rparr>) = Ok offer"
  using assms validate_handoff_frame_own
  by (simp add: read_handoff_offer_def read_frame_written carries_exchange_def handoff_offer_frame_def)

lemma accept_handed_off_iff:
  assumes "token_store_wf s"
  shows "is_accepted (fst (accept_handed_off \<lparr> hop_expected_token = e, hop_presented_token = t, hop_connection = c \<rparr> now s))
    \<longleftrightarrow> e = t \<and> length t = HANDOFF_TOKEN_BYTES \<and> (\<exists>p. hm_get (hts_pending s) t = Some p \<and> now < pht_expires_at p)"
proof -
  obtain r s' where r: "consume_matching e t now s = (r, s')" by fastforce
  show ?thesis
    using consume_matching_exact [OF assms r]
    by (auto simp: accept_handed_off_def parse_handoff_token_def r HANDOFF_TOKEN_BYTES_def split: sum.splits option.splits if_splits)
qed

lemma serving_backend_answers:
  assumes "carries_exchange cd offer" "token_store_wf store"
  shows "\<exists>acceptance :: handoff_offer handoff_acceptance.
    serving_backend cd expected now store (length pre)
      (pre @ write_frame_header (hc_encode_frame cd (handoff_offer_frame cd offer)) @ hc_encode_frame cd (handoff_offer_frame cd offer))
    = \<lparr> rd_bytes = write_frame_header (hc_encode_frame cd (handoff_ack_frame cd (handoff_ack_for cd offer acceptance))) @
         hc_encode_frame cd (handoff_ack_frame cd (handoff_ack_for cd offer acceptance)), rd_end = Eof \<rparr> \<and>
    (is_accepted acceptance \<longleftrightarrow> expected = ho_token offer \<and> length (ho_token offer) = HANDOFF_TOKEN_BYTES \<and>
       (\<exists>p. hm_get (hts_pending store) (ho_token offer) = Some p \<and> now < pht_expires_at p))"
proof -
  obtain a s' where a: "accept_handed_off \<lparr> hop_expected_token = expected, hop_presented_token = ho_token offer,
      hop_connection = offer \<rparr> now store = (a, s')" by fastforce
  have fits: "length (hc_encode_frame cd (handoff_ack_frame cd (handoff_ack_for cd offer a))) \<le> MAX_FRAME_BYTES"
    using assms(1) by (simp add: carries_exchange_def Let_def)
  have "is_accepted a \<longleftrightarrow> expected = ho_token offer \<and> length (ho_token offer) = HANDOFF_TOKEN_BYTES \<and>
       (\<exists>p. hm_get (hts_pending store) (ho_token offer) = Some p \<and> now < pht_expires_at p)"
    using accept_handed_off_iff [OF assms(2), of expected "ho_token offer" offer now] a by simp
  then show ?thesis
    using read_offer_delivered [OF assms(1), of "[]" Eof] a fits
    by (intro exI [of _ a])
      (simp add: serving_backend_def serve_handoff_offer_def respond_to_handoff_offer_def write_handoff_ack_def
        write_frame_delivers open_writer_def)
qed

lemma await_backend_ack_answer:
  fixes cd :: "'d handoff_codec"
  assumes "whd_ack_setup_error d = None" "whd_restore d \<in> {None, Some (Ok ())}"
    and "whd_peer d (wr_out (whd_out d)) = \<lparr> rd_bytes = write_frame_header (hc_encode_frame cd (handoff_ack_frame cd ack)) @
         hc_encode_frame cd (handoff_ack_frame cd ack), rd_end = Eof \<rparr>"
    and "hc_decode_frame cd (hc_encode_frame cd (handoff_ack_frame cd ack)) = Ok (handoff_ack_frame cd ack)"
    and "hc_decode_ack cd (hc_encode_ack cd ack) = Ok ack"
    and "length (hc_encode_frame cd (handoff_ack_frame cd ack)) \<le> MAX_FRAME_BYTES"
    and "hk_correlation_id ack = whd_correlation_id d" "hk_token ack = token"
  shows "is_ok (fst (await_backend_ack cd at token deadline d)) \<longleftrightarrow> hk_accepted ack \<and> at \<le> deadline"
proof -
  have "fst (await_backend_ack cd at token deadline d) =
      check_handoff_ack cd token (whd_correlation_id d) deadline at (hc_encode_frame cd (handoff_ack_frame cd ack))"
    using assms(1,2) read_frame_written [where 'd = 'd, OF assms(6), of "[]" Eof]
    by (auto simp: await_backend_ack_def assms(3))
  then show ?thesis
    using assms(4,5,7,8) validate_handoff_frame_own
    by (simp add: check_handoff_ack_def handoff_ack_frame_def)
qed

lemma wire_exchange:
  fixes cd :: "'d handoff_codec"
  assumes "offer = \<lparr> ho_handle_value = handle, ho_token = token, ho_service_name = whd_service_name d,
      ho_correlation_id = whd_correlation_id d \<rparr>"
    and "carries_exchange cd offer" and "token_store_wf store"
    and "whd_ack_setup_error d = None" and "whd_restore d \<in> {None, Some (Ok ())}"
    and "wr_room (whd_out d) = None" and "wr_flush (whd_out d) = None"
    and "whd_peer d = serving_backend cd expected now store (length (wr_out (whd_out d)))"
  shows "\<exists>d'. deliver cd handle token d = (Ok (), d') \<and>
    (is_ok (fst (await_backend_ack cd observed_at token deadline d')) \<longleftrightarrow>
       expected = token \<and> length token = HANDOFF_TOKEN_BYTES \<and>
       (\<exists>p. hm_get (hts_pending store) token = Some p \<and> now < pht_expires_at p) \<and> observed_at \<le> deadline)"
proof -
  let ?body = "hc_encode_frame cd (handoff_offer_frame cd offer)"
  let ?out = "(whd_out d)\<lparr> wr_out := wr_out (whd_out d) @ write_frame_header ?body @ ?body \<rparr>"
  let ?d = "d\<lparr> whd_out := ?out \<rparr>"
  have dl: "deliver cd handle token d = (Ok (), ?d)"
    using assms(2,4,6,7) write_frame_delivers [where 'a = 'd, of ?body "whd_out d"]
    by (simp add: deliver_def Let_def assms(1) [symmetric] carries_exchange_def)
  obtain acceptance :: "handoff_offer handoff_acceptance" where
    ans: "whd_peer ?d (wr_out (whd_out ?d)) =
      \<lparr> rd_bytes = write_frame_header (hc_encode_frame cd (handoff_ack_frame cd (handoff_ack_for cd offer acceptance))) @
         hc_encode_frame cd (handoff_ack_frame cd (handoff_ack_for cd offer acceptance)), rd_end = Eof \<rparr>"
    and acc: "is_accepted acceptance \<longleftrightarrow> expected = token \<and> length token = HANDOFF_TOKEN_BYTES \<and>
       (\<exists>p. hm_get (hts_pending store) token = Some p \<and> now < pht_expires_at p)"
    using serving_backend_answers [OF assms(2,3), of expected now "wr_out (whd_out d)"] assms(1,8) by auto
  have "is_ok (fst (await_backend_ack cd observed_at token deadline ?d)) \<longleftrightarrow>
      hk_accepted (handoff_ack_for cd offer acceptance) \<and> observed_at \<le> deadline"
    by (rule await_backend_ack_answer)
      (use assms(1,2,4,5) ans in \<open>simp_all add: carries_exchange_def Let_def\<close>)
  then show ?thesis using dl acc by auto
qed

lemma unix_transport_channel:
  assumes "unix_transport env attempt d = (Ok sent, d')"
  shows "whd_correlation_id d' = whd_correlation_id d"
proof -
  obtain sent' d1 where s: "try_send_scm_rights_over (hv_platform env) (hv_sendmsg env) attempt d = (Ok sent', d1)"
    and "snd (deliver (hv_codec env) 0 (sra_handoff_token attempt) d1) = d'"
    using assms by (auto simp: unix_transport_def split: prod.splits sum.splits)
  then show ?thesis
    using s deliver_frame(2) [of "hv_codec env" 0 "sra_handoff_token attempt" d1]
    by (auto simp: try_send_scm_rights_over_def Let_def split: sum.splits if_splits)
qed

lemma run_platform_handoff_channel:
  fixes env :: "'d handoff_env"
  assumes "run_platform_handoff env ctx issued d acks tokens = (True, d', acks', tokens')"
  shows "whd_correlation_id d' = whd_correlation_id d"
proof (cases "hv_platform env = Windows")
  case False
  obtain x y where u: "execute_unix_handoff_with_transport (unix_transport env)
      (await_backend_ack (hv_codec env) (hv_observed_at env)) (hv_await_now env)
      \<lparr> uhr_fd = hv_client_fd env, uhr_backend_socket = shc_handoff_endpoint ctx, uhr_token = issued \<rparr> d acks tokens
      = (UnixCompleted x y, d', acks', tokens')"
    using assms False by (auto simp: run_platform_handoff_def split: prod.splits unix_handoff_outcome.splits)
  show ?thesis
    using execute_unix_handoff_cases [OF u refl] unix_transport_channel [of env _ d x] await_backend_ack_Ok by fastforce
next
  case True
  obtain backend where Some: "get_any_build (shc_registry ctx) (shc_instance ctx) (shc_service_name ctx) (shc_service_version ctx) = Some backend"
    using assms True by (auto simp: run_platform_handoff_def split: option.splits prod.splits)
  obtain x y where u: "execute_windows_handoff_with_transport (\<lambda>attempt. try_duplicate_handle (hv_platform env) (hv_windows env)
       (attempt\<lparr> dha_backend_pid := dp_pid (bh_daemon_process backend) \<rparr>)) (deliver (hv_codec env))
        (await_backend_ack (hv_codec env) (hv_observed_at env)) (hv_await_now env)
        \<lparr> whr_pipe_handle = hv_client_handle env, whr_backend_pid = dp_pid (bh_daemon_process backend),
          whr_token = issued \<rparr> d acks tokens = (WindowsCompleted x y, d', acks', tokens')"
    using assms True Some
    by (auto simp: run_platform_handoff_def split: prod.splits windows_handoff_outcome.splits)
  then obtain s1 at where "deliver (hv_codec env) (dhs_duplicated_handle x) issued d = (Ok (), s1)"
    "await_backend_ack (hv_codec env) (hv_observed_at env) issued (ack_deadline_from acks (hv_await_now env)) s1 = (Ok at, d')"
    using execute_windows_handoff_cases [OF u refl] by auto
  then show ?thesis
    using await_backend_ack_Ok deliver_frame(2) [of "hv_codec env" "dhs_duplicated_handle x" issued d] by fastforce
qed

lemma reseeded_store:
  assumes "issue_with_random128 now (\<lambda>_. Ok t) token_store_new = (r, s)"
  shows "token_pending s t' \<Longrightarrow> t' = t" "r = Ok x \<Longrightarrow> x = t" "r = Err e \<Longrightarrow> \<not> token_pending s t'"
proof -
  have wf: "token_store_wf token_store_new" unfolding token_store_new_def by (intro wf_intros)
  have none: "\<not> token_pending token_store_new t'" for t'
    by (simp add: token_store_new_def token_store_with_config_def token_pending_def hm_contains_def hm_simps)
  show x: "r = Ok x \<Longrightarrow> x = t" for x
    using issue_loop_drawn [of now "\<lambda>_. Ok t" 0 _ _ x] assms
    by (auto simp: issue_with_random128_def Let_def split: if_splits) (metis fst_conv sum.inject(2))
  show "token_pending s t' \<Longrightarrow> t' = t" "r = Err e \<Longrightarrow> \<not> token_pending s t'"
    using issue_adds_pending [OF wf assms] none x by fastforce+
qed

text \<open>The runs of a handoff: nothing to do or no connection, or the platform's handoff on a fresh channel.\<close>

lemma complete_handoff_cases:
  fixes env :: "'d handoff_env"
  assumes "r = complete_negotiated_handoff env ctx client reply"
  obtains
    (idle) "\<not> hrn_completed r" "hrn_client r = client"
      "\<And>t. \<not> token_pending (hrn_tokens r) t \<and> hm_get (har_pending (hrn_acks r)) t = None"
  | (ran) n acks s d c d' acks' tokens' where "negotiated_with_handoff reply = Some n"
      "length (ng_handle_passed_token n) = HANDOFF_TOKEN_BYTES"
      "\<And>t. t \<noteq> ng_handle_passed_token n \<Longrightarrow> \<not> token_pending s t \<and> hm_get (har_pending acks) t = None"
      "whd_correlation_id d = ng_connection_id n"
      "run_platform_handoff env ctx (ng_handle_passed_token n) d acks s = (c, d', acks', tokens')"
      "hrn_completed r = c" "hrn_tokens r = tokens'" "hrn_acks r = acks'" "hrn_delivery r = Some d'"
      "hrn_client r = (if c then snd (write_frame client (hc_encode_frame (hv_codec env) (handoff_ready_frame (hv_codec env)
         \<lparr> hk_token = ng_handle_passed_token n, hk_accepted = True, hk_error_detail = [],
           hk_correlation_id = ng_connection_id n \<rparr>)) :: ('d framing_error, nat) result \<times> writer) else client)"
proof (cases "\<exists>n. negotiated_with_handoff reply = Some n \<and> length (ng_handle_passed_token n) = HANDOFF_TOKEN_BYTES")
  case False
  then have "r = \<lparr> hrn_completed = False, hrn_client = client, hrn_acks = ack_registry_new,
      hrn_tokens = token_store_new, hrn_delivery = None \<rparr>"
    by (auto simp: assms complete_negotiated_handoff_def Let_def split: option.splits)
  then show thesis
    by (intro idle) (simp_all add: token_store_new_def token_store_with_config_def token_pending_def hm_contains_def
        hm_simps ack_registry_new_def ack_registry_with_deadline_def)
next
  case True
  then obtain n where n: "negotiated_with_handoff reply = Some n" "length (ng_handle_passed_token n) = HANDOFF_TOKEN_BYTES"
    by blast
  let ?t = "ng_handle_passed_token n"
  obtain i s where i: "issue_with_random128 (hv_now env) (\<lambda>_. Ok ?t) token_store_new = (i, s)" by fastforce
  note seed = reseeded_store [OF i]
  let ?acks = "ack_register ?t (pending_backend_for_service (shc_service_name ctx)) (hv_now env) ack_registry_new"
  have empty: "hm_get (har_pending ack_registry_new) t = None" for t
    by (simp add: ack_registry_new_def ack_registry_with_deadline_def hm_simps)
  have acks: "t \<noteq> ?t \<Longrightarrow> \<not> token_pending s t \<and> hm_get (har_pending ?acks) t = None" for t
    using empty seed(1) by (auto simp: ack_register_def hm_simps)
  obtain b acks' tokens' where ab: "abandon ?t ?acks s = (b, acks', tokens')" by (metis prod_cases3)
  have gone: "\<not> token_pending tokens' t \<and> hm_get (har_pending acks') t = None" for t
    using abandon_settles(1,2) [OF ab] abandon_settles(3,4) [OF ab, of t] acks by (cases "t = ?t") auto
  show thesis
  proof (cases i)
    case (Inl e)
    then show thesis using n i seed(3) [of e] empty
      by (intro idle) (simp_all add: assms complete_negotiated_handoff_def Let_def)
  next
    case (Inr x)
    then have x: "i = Ok ?t" using seed(2) by simp
    show thesis
    proof (cases "hv_connect env")
      case (Inl e)
      then show thesis using n i x ab gone
        by (intro idle) (simp_all add: assms complete_negotiated_handoff_def Let_def)
    next
      case (Inr op)
      obtain out peer where op: "op = (out, peer)" by fastforce
      let ?d = "new_local_socket (hv_codec env) (hv_set_nonblocking env) (hv_restore env) out peer
        (shc_service_name ctx) (ng_connection_id n) (add_or_now (hv_connected_at env) (har_ack_deadline ?acks))"
      obtain c d' acks' tokens' where run: "run_platform_handoff env ctx ?t ?d ?acks s = (c, d', acks', tokens')"
        by (metis prod_cases4)
      show thesis
        by (rule ran [OF n acks _ run])
          (use n i x Inr op run in \<open>simp_all add: assms complete_negotiated_handoff_def Let_def new_local_socket_def\<close>)
    qed
  qed
qed

text \<open>When the descriptor and its token were sent but the offer frame then could not be written, the
  fallback says that the descriptor did not reach the backend.\<close>

lemma unix_offer_failure_hides_descriptor:
  assumes "hv_sendmsg env = Ok (length token)"
    and "\<And>d'. \<not> is_ok (fst (deliver (hv_codec env) 0 token d'))"
    and "execute_unix_handoff_with_transport (unix_transport env) await now
      \<lparr> uhr_fd = fd, uhr_backend_socket = sock, uhr_token = token \<rparr> d acks tokens = (outcome, rest)"
  shows "(\<exists>sent d'. try_send_scm_rights_over (hv_platform env) (hv_sendmsg env)
        \<lparr> sra_fd = fd, sra_backend_socket = sock, sra_handoff_token = token \<rparr> d = (Ok sent, d')) \<and>
    (\<exists>f. outcome = UnixFallback f \<and> \<not> uhf_fd_reached_backend f)"
proof -
  let ?a = "\<lparr> sra_fd = fd, sra_backend_socket = sock, sra_handoff_token = token \<rparr>"
  obtain sent d1 where s: "try_send_scm_rights_over (hv_platform env) (hv_sendmsg env) ?a d = (Ok sent, d1)"
    using assms(1) by (simp add: try_send_scm_rights_over_def Let_def)
  obtain e d2 where "deliver (hv_codec env) 0 token d1 = (Err e, d2)"
    using assms(2) [of d1] by (cases "deliver (hv_codec env) 0 token d1"; cases "fst (deliver (hv_codec env) 0 token d1)") auto
  then have t: "unix_transport env ?a d = (Err (ScmSendFailed fd sock None), d2)"
    using s by (simp add: unix_transport_def)
  obtain s' acks' tokens' where rest: "rest = (s', acks', tokens')" by (metis prod_cases3)
  obtain b acks1 tokens1 where ab: "abandon token acks tokens = (b, acks1, tokens1)" by (metis prod_cases3)
  show ?thesis
    using s t assms(3) ab by (auto simp: execute_unix_handoff_with_transport_def Let_def)
qed

lemma sample_carries: "carries_exchange sample_handoff_codec sample_offer"
proof -
  have "hc_decode_ack sample_handoff_codec (hc_encode_ack sample_handoff_codec (handoff_ack_for sample_handoff_codec sample_offer a))
      = Ok (handoff_ack_for sample_handoff_codec sample_offer a)" for a :: "handoff_offer handoff_acceptance"
    by (cases a) (simp_all add: sample_handoff_codec_def sample_offer_def)
  moreover have "hc_decode_frame sample_handoff_codec (hc_encode_frame sample_handoff_codec (handoff_ack_frame sample_handoff_codec
      (handoff_ack_for sample_handoff_codec sample_offer a)))
      = Ok (handoff_ack_frame sample_handoff_codec (handoff_ack_for sample_handoff_codec sample_offer a))"
    for a :: "handoff_offer handoff_acceptance"
    by (cases a) (simp_all add: sample_handoff_codec_def sample_offer_def handoff_ack_frame_def handoff_frame_def)
  ultimately show ?thesis
    by (simp add: carries_exchange_def Let_def sample_handoff_codec_def sample_offer_def handoff_offer_frame_def
        handoff_ack_frame_def handoff_frame_def MAX_FRAME_BYTES_def MAX_FRAME_SIZE_BYTES_def)
qed

lemma sample_store_wf: "token_store_wf sample_pending_store"
  by (simp add: sample_pending_store_def token_store_wf_def handoff_token_store_config_new_def hm_ok_def hm_len_def)

lemma sample_channel:
  "whd_ack_setup_error sample_delivery = None" "whd_restore sample_delivery \<in> {None, Some (Ok ())}"
  "wr_room (whd_out sample_delivery) = None" "wr_flush (whd_out sample_delivery) = None"
  "whd_peer sample_delivery = serving_backend sample_handoff_codec (replicate 16 3) 20 sample_pending_store
     (length (wr_out (whd_out sample_delivery)))"
  "sample_offer = \<lparr> ho_handle_value = 9, ho_token = replicate 16 3, ho_service_name = whd_service_name sample_delivery,
      ho_correlation_id = whd_correlation_id sample_delivery \<rparr>"
  by (simp_all add: sample_delivery_def new_preconfigured_nonblocking_def open_writer_def sample_offer_def)

section \<open>Properties\<close>

text \<open>C28: a handoff always settles its token. Whatever the operating system and the backend do, after a
  handoff the token is neither presentable nor awaiting an acknowledgement, and no other token is
  touched. It completes only if the backend's answer on the wire echoes the token and accepts,
  observed before the deadline under which the token was registered.\<close>

theorem platform_handoff_settles:
  fixes env :: "'d handoff_env"
  assumes "run_platform_handoff env ctx issued d acks tokens = (completed, d', acks', tokens')"
  shows "\<not> token_pending tokens' issued \<and> hm_get (har_pending acks') issued = None \<and>
    (\<forall>t. t \<noteq> issued \<longrightarrow> (token_pending tokens' t \<longleftrightarrow> token_pending tokens t) \<and>
       hm_get (har_pending acks') t = hm_get (har_pending acks) t) \<and>
    (completed \<longrightarrow> backend_acknowledged (hv_codec env) d' issued \<and>
       (\<exists>e. hm_get (har_pending acks) issued = Some e \<and> hv_observed_at env < pae_ack_deadline_at e))"
  by (rule platform_handoff_settled [OF assms])

theorem platform_handoff_settles_witness:
  "token_pending sample_pending_store (replicate 16 3) \<and>
   fst (run_platform_handoff sample_handoff_env sample_handoff_context (replicate 16 3) sample_delivery
      sample_acks sample_pending_store) \<and>
   \<not> token_pending (snd (snd (snd (run_platform_handoff sample_handoff_env sample_handoff_context (replicate 16 3)
      sample_delivery sample_acks sample_pending_store)))) (replicate 16 3)"
proof -
  have g: "get_any_build (shc_registry sample_handoff_context) Shared ''zccache'' ''1.2.0'' =
      Some \<lparr> bh_service_name = ''zccache'', bh_service_version = ''1.2.0'', bh_daemon_process = sample_daemon \<rparr>"
    by code_simp
  obtain d' where d: "deliver sample_handoff_codec 9 (replicate 16 3) sample_delivery = (Ok (), d')"
    and "is_ok (fst (await_backend_ack sample_handoff_codec 50 (replicate 16 3) (ack_deadline_from sample_acks 12) d'))"
    using wire_exchange [OF sample_channel(6) sample_carries sample_store_wf sample_channel(1-5), of 50 "ack_deadline_from sample_acks 12"]
    by (auto simp: HANDOFF_TOKEN_BYTES_def sample_pending_store_def hm_get_def ack_deadline_from_def add_or_now_def
        sample_acks_def INSTANT_MAX_def)
  then obtain at where "await_backend_ack sample_handoff_codec 50 (replicate 16 3) (ack_deadline_from sample_acks 12) d' = (Ok at, d')"
    using await_backend_ack_Ok
    by (cases "await_backend_ack sample_handoff_codec 50 (replicate 16 3) (ack_deadline_from sample_acks 12) d'";
        cases "fst (await_backend_ack sample_handoff_codec 50 (replicate 16 3) (ack_deadline_from sample_acks 12) d')") fastforce+
  moreover from this have "at = 50" using await_backend_ack_Ok by blast
  ultimately have c: "fst (run_platform_handoff sample_handoff_env sample_handoff_context (replicate 16 3) sample_delivery
      sample_acks sample_pending_store)"
    using g d
    by (simp add: run_platform_handoff_def sample_handoff_env_def sample_handoff_context_def
        execute_windows_handoff_with_transport_def Let_def try_duplicate_handle_def is_invalid_handle_def
        acknowledge_def sample_acks_def hm_get_def)
  obtain cpl d2 acks2 tokens2 where r: "run_platform_handoff sample_handoff_env sample_handoff_context (replicate 16 3)
      sample_delivery sample_acks sample_pending_store = (cpl, d2, acks2, tokens2)" by (metis prod_cases4)
  have "token_pending sample_pending_store (replicate 16 3)"
    by (simp add: sample_pending_store_def token_pending_def hm_contains_def hm_get_def)
  then show ?thesis using platform_handoff_settles [OF r] c r by simp
qed




end
