(* ===== verification/Deadline_Stream.thy ===== *)
theory Deadline_Stream
  imports Handoff_Delivery
begin

text \<open>
  Deadline-bounded I/O on accepted control connections (\<open>server/deadline_stream.rs\<close>): the read timeout
  of a Hello, the adapter \<open>DeadlineStream\<close> over a non-blocking stream, and the switch of the stream
  between its modes. The framing functions of \<open>protocol/framing.rs\<close> are generic over the stream; here
  they are stated over a record of its operations, so that they apply to the adapter and to the plain
  byte streams of \<open>Wire_Framing\<close>, on which they agree with the functions of that theory.

  A clock is the sequence of instants that successive calls of \<open>Instant::now\<close> return. The poll loops are
  partial functions; they return once the clock reaches the deadline.
\<close>

section \<open>The Hello timeout\<close>

text \<open>\<open>str::trim\<close> on UTF-8 bytes: the encodings of the characters of class \<open>White_Space\<close>.\<close>

definition whitespace_encodings :: "nat list list" where
  "whitespace_encodings =
    [[0x09], [0x0A], [0x0B], [0x0C], [0x0D], [0x20], [0xC2, 0x85], [0xC2, 0xA0], [0xE1, 0x9A, 0x80]] @
    map (\<lambda>last. [0xE2, 0x80, last]) ([0x80..<0x8B] @ [0xA8, 0xA9, 0xAF]) @
    [[0xE2, 0x81, 0x9F], [0xE3, 0x80, 0x80]]"

fun strip_leading :: "string list \<Rightarrow> nat \<Rightarrow> string \<Rightarrow> string" where
  "strip_leading encodings 0 s = s"
| "strip_leading encodings (Suc fuel) s =
    (case find (\<lambda>e. take (length e) s = e) encodings of
       None \<Rightarrow> s
     | Some e \<Rightarrow> strip_leading encodings fuel (drop (length e) s))"

definition trim_whitespace :: "string \<Rightarrow> string" where
  "trim_whitespace s =
    (let encodings = map (map char_of) whitespace_encodings;
         s1 = strip_leading encodings (length s) s
     in rev (strip_leading (map rev encodings) (length s1) (rev s1)))"

definition DEFAULT_HELLO_READ_TIMEOUT :: duration where
  "DEFAULT_HELLO_READ_TIMEOUT = from_secs 30"

text \<open>\<open>env_value\<close> is the value of \<open>RUNNING_PROCESS_BROKER_HELLO_TIMEOUT_MS\<close>. The addition to the current
  instant panics, shown as \<open>None\<close>, when it overflows.\<close>

definition hello_read_timeout :: "string option \<Rightarrow> duration" where
  "hello_read_timeout env_value =
    (case env_value of
       None \<Rightarrow> DEFAULT_HELLO_READ_TIMEOUT
     | Some raw \<Rightarrow>
       (case parse_u64 (trim_whitespace raw) of
          None \<Rightarrow> DEFAULT_HELLO_READ_TIMEOUT
        | Some ms \<Rightarrow> if ms > 0 then from_millis ms else DEFAULT_HELLO_READ_TIMEOUT))"

definition hello_read_deadline :: "string option \<Rightarrow> instant \<Rightarrow> instant option" where
  "hello_read_deadline env_value now =
    (let deadline = now + hello_read_timeout env_value in
     if deadline \<le> INSTANT_MAX then Some deadline else None)"

section \<open>The deadline stream\<close>

text \<open>\<open>ds_ticks\<close> counts the calls of \<open>Instant::now\<close> so far.\<close>

record deadline_stream =
  ds_inner :: nb_stream
  ds_deadline :: instant
  ds_ticks :: nat

definition deadline_stream_new :: "nb_stream \<Rightarrow> instant \<Rightarrow> nat \<Rightarrow> deadline_stream" where
  "deadline_stream_new inner deadline ticks =
    \<lparr> ds_inner = inner, ds_deadline = deadline, ds_ticks = ticks \<rparr>"

definition timed_out :: io_error where
  "timed_out = \<lparr> ioe_kind = TimedOut, ioe_raw_os_error = None \<rparr>"

definition ensure_not_expired ::
  "(nat \<Rightarrow> instant) \<Rightarrow> deadline_stream \<Rightarrow> (io_error, unit) result \<times> deadline_stream" where
  "ensure_not_expired clock d =
    (if clock (ds_ticks d) \<ge> ds_deadline d then Err timed_out else Ok (), d\<lparr> ds_ticks := ds_ticks d + 1 \<rparr>)"

text \<open>The wait reads the clock a second time, for the length of its sleep.\<close>

definition ds_wait ::
  "(nat \<Rightarrow> instant) \<Rightarrow> deadline_stream \<Rightarrow> (io_error, unit) result \<times> deadline_stream" where
  "ds_wait clock d =
    (case ensure_not_expired clock d of
       (Err e, d1) \<Rightarrow> (Err e, d1)
     | (Ok _, d1) \<Rightarrow> (Ok (), d1\<lparr> ds_ticks := ds_ticks d1 + 1 \<rparr>))"

datatype 'a attempt = Done 'a | Wait | Again

text \<open>One call on the inner stream, and what the adapter makes of its outcome.\<close>

definition ds_read_attempt :: "platform \<Rightarrow> (io_error, bytes) result \<Rightarrow> (io_error, bytes) result attempt" where
  "ds_read_attempt platform r =
    (case r of
       Ok bs \<Rightarrow> if bs = [] \<and> platform = Windows then Wait else Done (Ok bs)
     | Err e \<Rightarrow>
         if ioe_kind e = WouldBlock \<or> ioe_kind e = TimedOut then Wait
         else if ioe_kind e = Interrupted then Again
         else Done (Err e))"

definition ds_write_attempt :: "(io_error, nat) result \<Rightarrow> (io_error, nat) result attempt" where
  "ds_write_attempt r =
    (case r of
       Ok n \<Rightarrow> if n = 0 then Wait else Done (Ok n)
     | Err e \<Rightarrow>
         if ioe_kind e = WouldBlock then Wait
         else if ioe_kind e = Interrupted then Again
         else Done (Err e))"

definition ds_flush_attempt :: "(io_error, unit) result \<Rightarrow> (io_error, unit) result attempt" where
  "ds_flush_attempt r =
    (case r of
       Ok _ \<Rightarrow> Done (Ok ())
     | Err e \<Rightarrow>
         if ioe_kind e = WouldBlock then Wait
         else if ioe_kind e = Interrupted then Again
         else Done (Err e))"

text \<open>The loop the three methods share: the deadline is checked before every call.\<close>

partial_function (option) ds_loop ::
  "(nat \<Rightarrow> instant) \<Rightarrow> (nb_stream \<Rightarrow> (io_error, 'a) result attempt \<times> nb_stream) \<Rightarrow> deadline_stream \<Rightarrow>
   ((io_error, 'a) result \<times> deadline_stream) option" where
  "ds_loop clock call d =
    (case ensure_not_expired clock d of
       (Err e, d1) \<Rightarrow> Some (Err e, d1)
     | (Ok _, d1) \<Rightarrow>
       (case call (ds_inner d1) of (a, inner) \<Rightarrow>
          (case a of
             Done r \<Rightarrow> Some (r, d1\<lparr> ds_inner := inner \<rparr>)
           | Wait \<Rightarrow>
             (case ds_wait clock (d1\<lparr> ds_inner := inner \<rparr>) of
                (Err e, d2) \<Rightarrow> Some (Err e, d2)
              | (Ok _, d2) \<Rightarrow> ds_loop clock call d2)
           | Again \<Rightarrow> ds_loop clock call (d1\<lparr> ds_inner := inner \<rparr>))))"

definition ds_read ::
  "platform \<Rightarrow> (nat \<Rightarrow> instant) \<Rightarrow> nat \<Rightarrow> deadline_stream \<Rightarrow>
   ((io_error, bytes) result \<times> deadline_stream) option" where
  "ds_read platform clock want d =
    ds_loop clock (\<lambda>s. case nb_read want s of (r, s') \<Rightarrow> (ds_read_attempt platform r, s')) d"

definition ds_write ::
  "(nat \<Rightarrow> instant) \<Rightarrow> bytes \<Rightarrow> deadline_stream \<Rightarrow> ((io_error, nat) result \<times> deadline_stream) option" where
  "ds_write clock buf d =
    ds_loop clock (\<lambda>s. case nb_write buf s of (r, s') \<Rightarrow> (ds_write_attempt r, s')) d"

definition ds_flush ::
  "(nat \<Rightarrow> instant) \<Rightarrow> deadline_stream \<Rightarrow> ((io_error, unit) result \<times> deadline_stream) option" where
  "ds_flush clock d =
    ds_loop clock (\<lambda>s. case nb_flush s of (r, s') \<Rightarrow> (ds_flush_attempt r, s')) d"

section \<open>Streams\<close>

text \<open>\<open>Read::read_exact\<close> and \<open>Write::write_all\<close> of the standard library, over the required methods.\<close>

partial_function (option) default_read_exact ::
  "(nat \<Rightarrow> 's \<Rightarrow> ((io_error, bytes) result \<times> 's) option) \<Rightarrow> nat \<Rightarrow> bytes \<Rightarrow> 's \<Rightarrow>
   ((io_error, bytes) result \<times> 's) option" where
  "default_read_exact read want got s =
    (if want = 0 then Some (Ok got, s)
     else
       (case read want s of
          None \<Rightarrow> None
        | Some (r, s1) \<Rightarrow>
          (case r of
             Ok bs \<Rightarrow>
               if bs = [] then Some (Err eof_error, s1)
               else default_read_exact read (want - length bs) (got @ bs) s1
           | Err e \<Rightarrow>
               if ioe_kind e = Interrupted then default_read_exact read want got s1
               else Some (Err e, s1))))"

partial_function (option) default_write_all ::
  "(bytes \<Rightarrow> 's \<Rightarrow> ((io_error, nat) result \<times> 's) option) \<Rightarrow> bytes \<Rightarrow> 's \<Rightarrow>
   ((io_error, unit) result \<times> 's) option" where
  "default_write_all write buf s =
    (if buf = [] then Some (Ok (), s)
     else
       (case write buf s of
          None \<Rightarrow> None
        | Some (r, s1) \<Rightarrow>
          (case r of
             Ok n \<Rightarrow>
               if n = 0 then Some (Err \<lparr> ioe_kind = WriteZero, ioe_raw_os_error = None \<rparr>, s1)
               else default_write_all write (drop n buf) s1
           | Err e \<Rightarrow>
               if ioe_kind e = Interrupted then default_write_all write buf s1
               else Some (Err e, s1))))"

record 's stream_ops =
  so_read_exact :: "nat \<Rightarrow> 's \<Rightarrow> ((io_error, bytes) result \<times> 's) option"
  so_write_all :: "bytes \<Rightarrow> 's \<Rightarrow> ((io_error, unit) result \<times> 's) option"
  so_flush :: "'s \<Rightarrow> ((io_error, unit) result \<times> 's) option"

definition deadline_ops :: "platform \<Rightarrow> (nat \<Rightarrow> instant) \<Rightarrow> deadline_stream stream_ops" where
  "deadline_ops platform clock =
    \<lparr> so_read_exact = (\<lambda>n. default_read_exact (ds_read platform clock) n []),
      so_write_all = default_write_all (ds_write clock), so_flush = ds_flush clock \<rparr>"

definition pair_ops :: "(reader \<times> writer) stream_ops" where
  "pair_ops =
    \<lparr> so_read_exact = (\<lambda>n (r, w). case read_exact n r of (x, r') \<Rightarrow> Some (x, (r', w))),
      so_write_all = (\<lambda>buf (r, w). case write_all buf w of (x, w') \<Rightarrow> Some (x, (r, w'))),
      so_flush = (\<lambda>(r, w). Some (flush w, (r, w))) \<rparr>"

section \<open>Framing over a stream\<close>

definition stream_read_exact_or_eof ::
  "'s stream_ops \<Rightarrow> nat \<Rightarrow> string \<Rightarrow> 's \<Rightarrow> (('d framing_error, bytes) result \<times> 's) option" where
  "stream_read_exact_or_eof ops n context s =
    (case so_read_exact ops n s of
       None \<Rightarrow> None
     | Some (Ok bs, s') \<Rightarrow> Some (Ok bs, s')
     | Some (Err e, s') \<Rightarrow>
         Some (Err (if ioe_kind e = UnexpectedEofKind then UnexpectedEof context else Io e), s'))"

definition stream_read_frame_with_cap ::
  "'s stream_ops \<Rightarrow> nat \<Rightarrow> 's \<Rightarrow> (('d framing_error, bytes) result \<times> 's) option" where
  "stream_read_frame_with_cap ops max_bytes s =
    (case stream_read_exact_or_eof ops 1 ''framing byte'' s of
       None \<Rightarrow> None
     | Some (Err e, s1) \<Rightarrow> Some (Err e, s1)
     | Some (Ok version_buf, s1) \<Rightarrow>
       let version = version_buf ! 0 in
       if version \<noteq> ENVELOPE_VERSION
       then Some (Err (UnsupportedFramingVersion version ENVELOPE_VERSION), s1)
       else
         (case stream_read_exact_or_eof ops 4 ''body length header'' s1 of
            None \<Rightarrow> None
          | Some (Err e, s2) \<Rightarrow> Some (Err e, s2)
          | Some (Ok len_buf, s2) \<Rightarrow>
            let n = unat (u32_from_le_bytes len_buf) in
            if n > max_bytes then Some (Err (FrameTooLarge n max_bytes), s2)
            else if n > 0 then stream_read_exact_or_eof ops n ''frame body'' s2
            else Some (Ok [], s2)))"

definition stream_read_frame ::
  "'s stream_ops \<Rightarrow> 's \<Rightarrow> (('d framing_error, bytes) result \<times> 's) option" where
  "stream_read_frame ops s = stream_read_frame_with_cap ops MAX_FRAME_BYTES s"

definition stream_write_frame ::
  "'s stream_ops \<Rightarrow> bytes \<Rightarrow> 's \<Rightarrow> (('d framing_error, nat) result \<times> 's) option" where
  "stream_write_frame ops body s =
    (if length body > MAX_FRAME_BYTES
     then Some (Err (FrameTooLarge (length body) MAX_FRAME_BYTES), s)
     else
       let header = write_frame_header body in
       case so_write_all ops header s of
         None \<Rightarrow> None
       | Some (Err e, s1) \<Rightarrow> Some (Err (Io e), s1)
       | Some (Ok _, s1) \<Rightarrow>
         (case (if body = [] then Some (Ok (), s1) else so_write_all ops body s1) of
            None \<Rightarrow> None
          | Some (Err e, s2) \<Rightarrow> Some (Err (Io e), s2)
          | Some (Ok _, s2) \<Rightarrow>
            (case so_flush ops s2 of
               None \<Rightarrow> None
             | Some (Err e, s3) \<Rightarrow> Some (Err (Io e), s3)
             | Some (Ok _, s3) \<Rightarrow> Some (Ok (length header + length body), s3))))"

section \<open>Switching the mode of a stream\<close>

text \<open>\<open>into_nonblocking\<close> and \<open>into_blocking\<close> are the outcomes of \<open>set_nonblocking(true)\<close> and
  \<open>set_nonblocking(false)\<close>; \<open>from_io\<close> is the conversion of the error type.\<close>

definition with_nonblocking_deadline ::
  "(io_error \<Rightarrow> 'e) \<Rightarrow> (io_error, unit) result \<Rightarrow> (io_error, unit) result \<Rightarrow> instant \<Rightarrow> nat \<Rightarrow>
   (deadline_stream \<Rightarrow> (('e, 'a) result \<times> deadline_stream) option) \<Rightarrow> nb_stream \<Rightarrow>
   (('e, 'a) result \<times> nb_stream) option" where
  "with_nonblocking_deadline from_io into_nonblocking into_blocking deadline ticks operation s =
    (case into_nonblocking of
       Err e \<Rightarrow> Some (Err (from_io e), s)
     | Ok _ \<Rightarrow>
       (case operation (deadline_stream_new s deadline ticks) of
          None \<Rightarrow> None
        | Some (result, d) \<Rightarrow>
          Some (case result of
                  Err e \<Rightarrow> Err e
                | Ok v \<Rightarrow> (case into_blocking of Err e \<Rightarrow> Err (from_io e) | Ok _ \<Rightarrow> Ok v),
                ds_inner d)))"

section \<open>The poll loop: lemmas\<close>

text \<open>What one call on the inner stream may do to the bytes sent: \<open>P\<close> when it is done, nothing when it is
  to be repeated.\<close>

definition call_sends ::
  "(bytes \<Rightarrow> (io_error, 'a) result \<Rightarrow> bytes \<Rightarrow> bool) \<Rightarrow>
   (nb_stream \<Rightarrow> (io_error, 'a) result attempt \<times> nb_stream) \<Rightarrow> bool" where
  "call_sends P call =
    (\<forall>s. case call s of (a, s') \<Rightarrow>
       (case a of Done r \<Rightarrow> P (ns_delivered s) r (ns_delivered s') | _ \<Rightarrow> ns_delivered s' = ns_delivered s))"

definition deadline_comes :: "(nat \<Rightarrow> instant) \<Rightarrow> deadline_stream \<Rightarrow> bool" where
  "deadline_comes clock d = (\<exists>n. clock_reaches clock (ds_deadline d) n)"

section \<open>Reading in pieces\<close>

text \<open>The bytes a script of arrivals brings, and the scripts of a peer that sends its bytes in pieces,
  with pauses, and then closes.\<close>

fun arriving :: "arrival list \<Rightarrow> bytes" where
  "arriving [] = []"
| "arriving (Arrive bs # s) = bs @ arriving s"
| "arriving (NotYet # s) = arriving s"
| "arriving (Broken e # s) = []"

definition sends_in_pieces :: "arrival list \<Rightarrow> bool" where
  "sends_in_pieces s = list_all (\<lambda>a. case a of Arrive bs \<Rightarrow> bs \<noteq> [] | NotYet \<Rightarrow> True | Broken _ \<Rightarrow> False) s"

text \<open>The deadline stream \<open>d\<close>, after some reads on \<open>d0\<close>, has still to bring the bytes of the reader, and its
  deadline is not met.\<close>

definition brings :: "(nat \<Rightarrow> instant) \<Rightarrow> deadline_stream \<Rightarrow> deadline_stream \<Rightarrow> reader \<Rightarrow> bool" where
  "brings clock d0 d r = (ds_deadline d = ds_deadline d0 \<and>
     (ds_inner d)\<lparr> ns_incoming := [] \<rparr> = (ds_inner d0)\<lparr> ns_incoming := [] \<rparr> \<and> sends_in_pieces (ns_incoming (ds_inner d)) \<and> (\<forall>k. clock k < ds_deadline d) \<and>
     rd_bytes r = arriving (ns_incoming (ds_inner d)) \<and> rd_end r = Eof)"

text \<open>A peer that takes what it is sent, in pieces, and never fails.\<close>

definition takes_in_pieces :: "nb_stream \<Rightarrow> bool" where
  "takes_in_pieces s = (list_all (\<lambda>a. case a of Takes n \<Rightarrow> 0 < n | WriteNotYet \<Rightarrow> True | WriteBroken _ \<Rightarrow> False) (ns_accepts s) \<and>
     ns_flushes s = [])"

lemma call_sendsD:
  assumes "call_sends P call"
  shows "call s = (Done r, s') \<Longrightarrow> P (ns_delivered s) r (ns_delivered s')"
    and "call s = (Wait, s') \<Longrightarrow> ns_delivered s' = ns_delivered s"
    and "call s = (Again, s') \<Longrightarrow> ns_delivered s' = ns_delivered s"
  using assms [unfolded call_sends_def, rule_format, of s] by auto

lemma ds_loop_post:
  assumes "ds_loop clock call d = Some y" and "call_sends P call" and "\<And>b. P b (Err timed_out) b"
  shows "P (ns_delivered (ds_inner d)) (fst y) (ns_delivered (ds_inner (snd y))) \<and>
    ds_deadline (snd y) = ds_deadline d \<and> ds_ticks d < ds_ticks (snd y)"
  using assms
proof (induction rule: ds_loop.raw_induct [rotated, consumes 1])
  case (1 loop clock call d y)
  show ?case
  proof (cases "ds_deadline d \<le> clock (ds_ticks d)")
    case True
    then show ?thesis using 1(2,4) by (auto simp: ensure_not_expired_def)
  next
    case False
    obtain a s' where c: "call (ds_inner d) = (a, s')" by fastforce
    let ?d1 = "d\<lparr> ds_ticks := ds_ticks d + 1, ds_inner := s' \<rparr>"
    show ?thesis
    proof (cases a)
      case (Done r)
      then show ?thesis using 1(2) False c call_sendsD(1) [OF 1(3), of "ds_inner d"]
        by (auto simp: ensure_not_expired_def)
    next
      case Wait
      then have s': "ns_delivered s' = ns_delivered (ds_inner d)" using c call_sendsD(2) [OF 1(3)] by simp
      show ?thesis
      proof (cases "ds_deadline d \<le> clock (ds_ticks d + 1)")
        case True
        then show ?thesis using 1(2,4) False c Wait s'
          by (auto simp: ensure_not_expired_def ds_wait_def)
      next
        case later: False
        then have "loop clock call (?d1\<lparr> ds_ticks := ds_ticks d + 3 \<rparr>) = Some y"
          using 1(2) False c Wait by (simp add: ensure_not_expired_def ds_wait_def numeral_3_eq_3)
        from 1(1) [OF this 1(3,4)] show ?thesis using s' by simp
      qed
    next
      case Again
      then have s': "ns_delivered s' = ns_delivered (ds_inner d)" using c call_sendsD(3) [OF 1(3)] by simp
      have "loop clock call ?d1 = Some y"
        using 1(2) False c Again by (simp add: ensure_not_expired_def)
      from 1(1) [OF this 1(3,4)] show ?thesis using s' by simp
    qed
  qed
qed

lemma ds_loop_returns:
  assumes "clock_reaches clock (ds_deadline d) n"
  shows "\<exists>y. ds_loop clock call d = Some y"
  using assms
proof (induction "n - ds_ticks d" arbitrary: d rule: less_induct)
  case less
  show ?case
  proof (cases "ds_deadline d \<le> clock (ds_ticks d)")
    case True
    then show ?thesis by (subst ds_loop.simps) (simp add: ensure_not_expired_def)
  next
    case False
    then have ticks: "ds_ticks d < n" using less(2) by (auto simp: clock_reaches_def not_le [symmetric])
    have step: "\<exists>y. ds_loop clock call d' = Some y" if "ds_deadline d' = ds_deadline d" "ds_ticks d < ds_ticks d'" for d'
      using less(1) [of d'] less(2) that ticks by simp
    obtain a s' where c: "call (ds_inner d) = (a, s')" by fastforce
    then show ?thesis
      using False step
      by (subst ds_loop.simps)
        (cases a; simp add: ensure_not_expired_def ds_wait_def numeral_2_eq_2)
  qed
qed

lemma ds_loop_expired:
  assumes "ds_deadline d \<le> clock (ds_ticks d)"
  shows "ds_loop clock call d = Some (Err timed_out, d\<lparr> ds_ticks := ds_ticks d + 1 \<rparr>)"
  using assms by (subst ds_loop.simps) (simp add: ensure_not_expired_def)

lemma ds_read_sends:
  "call_sends (\<lambda>b r b'. b' = b \<and> (case r of Ok bs \<Rightarrow> length bs \<le> want | Err _ \<Rightarrow> True))
    (\<lambda>s. case nb_read want s of (r, s') \<Rightarrow> (ds_read_attempt platform r, s'))"
proof -
  have "ns_delivered (snd (nb_read want s)) = ns_delivered s" for s
    by (simp add: nb_read_def split: prod.splits)
  then show ?thesis
    using nb_read_len [of want]
    by (auto simp: call_sends_def ds_read_attempt_def split: prod.splits sum.splits attempt.splits if_splits)
      (metis fst_conv snd_conv)+
qed

lemma ds_write_sends:
  "call_sends (\<lambda>b r b'. case r of Ok n \<Rightarrow> n \<noteq> 0 \<and> n \<le> length buf \<and> b' = b @ take n buf | Err _ \<Rightarrow> b' = b)
    (\<lambda>s. case nb_write buf s of (r, s') \<Rightarrow> (ds_write_attempt r, s'))"
  unfolding call_sends_def
  by (auto simp: nb_write_def ds_write_attempt_def min_def would_block_def
      split: prod.splits sum.splits attempt.splits if_splits list.splits acceptance.splits)

lemma ds_flush_sends:
  "call_sends (\<lambda>b r b'. b' = b) (\<lambda>s. case nb_flush s of (r, s') \<Rightarrow> (ds_flush_attempt r, s'))"
  unfolding call_sends_def
  by (auto simp: nb_flush_def ds_flush_attempt_def
      split: prod.splits sum.splits attempt.splits if_splits list.splits)

lemma ds_read_post:
  assumes "ds_read platform clock want d = Some (r, d')"
  shows "ns_delivered (ds_inner d') = ns_delivered (ds_inner d)" "ds_deadline d' = ds_deadline d"
    "ds_ticks d < ds_ticks d'" "r = Ok bs \<Longrightarrow> length bs \<le> want"
  using ds_loop_post [OF assms [unfolded ds_read_def] ds_read_sends] by auto

lemma ds_write_post:
  assumes "ds_write clock buf d = Some (r, d')"
  shows "ds_deadline d' = ds_deadline d" "ds_ticks d < ds_ticks d'"
    "r = Ok n \<Longrightarrow> n \<noteq> 0 \<and> n \<le> length buf \<and> ns_delivered (ds_inner d') = ns_delivered (ds_inner d) @ take n buf"
    "r = Err e \<Longrightarrow> ns_delivered (ds_inner d') = ns_delivered (ds_inner d)"
  using ds_loop_post [OF assms [unfolded ds_write_def] ds_write_sends] by auto

lemma ds_flush_post:
  assumes "ds_flush clock d = Some (r, d')"
  shows "ns_delivered (ds_inner d') = ns_delivered (ds_inner d)" "ds_deadline d' = ds_deadline d"
  using ds_loop_post [OF assms [unfolded ds_flush_def] ds_flush_sends] by auto

lemma default_read_exact_ds_post:
  assumes "default_read_exact read want got d = Some y" and "read = ds_read platform clock"
  shows "ns_delivered (ds_inner (snd y)) = ns_delivered (ds_inner d) \<and> ds_deadline (snd y) = ds_deadline d \<and>
    (\<forall>bs. fst y = Ok bs \<longrightarrow> length bs = length got + want)"
  using assms
proof (induction rule: default_read_exact.raw_induct [rotated, consumes 1])
  case (1 f read want got d y)
  show ?case
  proof (cases "want = 0")
    case False
    then obtain r d1 where rd: "read want d = Some (r, d1)" using 1(2) by (cases "read want d") auto
    note post = ds_read_post [OF rd [unfolded 1(3)]]
    show ?thesis
    proof (cases r)
      case (Inl e)
      show ?thesis
      proof (cases "ioe_kind e = Interrupted")
        case True
        then have "f read want got d1 = Some y" using 1(2) rd False Inl by simp
        from 1(1) [OF this 1(3)] show ?thesis using post by simp
      next
        case kind: False
        then show ?thesis using 1(2) rd False Inl post by auto
      qed
    next
      case (Inr bs)
      show ?thesis
      proof (cases "bs = []")
        case True
        then show ?thesis using 1(2) rd False Inr post by auto
      next
        case bs: False
        then have "f read (want - length bs) (got @ bs) d1 = Some y" using 1(2) rd False Inr by simp
        from 1(1) [OF this 1(3)] show ?thesis using post post(4) [OF Inr] by simp
      qed
    qed
  qed (use 1 in \<open>auto\<close>)
qed

lemma default_write_all_ds_post:
  assumes "default_write_all write buf d = Some y" and "write = ds_write clock"
  shows "ds_deadline (snd y) = ds_deadline d \<and>
    (case fst y of
       Ok _ \<Rightarrow> ns_delivered (ds_inner (snd y)) = ns_delivered (ds_inner d) @ buf
     | Err _ \<Rightarrow> \<exists>k \<le> length buf. ns_delivered (ds_inner (snd y)) = ns_delivered (ds_inner d) @ take k buf)"
  using assms
proof (induction rule: default_write_all.raw_induct [rotated, consumes 1])
  case (1 f wfn buf d y)
  show ?case
  proof (cases "buf = []")
    case False
    then obtain r d1 where wr: "wfn buf d = Some (r, d1)" using 1(2) by (cases "wfn buf d") auto
    note post = ds_write_post [OF wr [unfolded 1(3)]]
    show ?thesis
    proof (cases r)
      case (Inl e)
      show ?thesis
      proof (cases "ioe_kind e = Interrupted")
        case True
        then have "f wfn buf d1 = Some y" using 1(2) wr False Inl by simp
        from 1(1) [OF this 1(3)] show ?thesis using post(1) post(4) [OF Inl] by (simp split: sum.splits)
      next
        case kind: False
        then have "y = (Err e, d1)" using 1(2) wr False Inl by simp
        then show ?thesis using post(1) post(4) [OF Inl] by (auto intro: exI [of _ "0 :: nat"])
      qed
    next
      case (Inr n)
      note n = post(3) [OF Inr]
      have ih: "ds_deadline (snd y) = ds_deadline d1 \<and>
        (case fst y of
           Ok _ \<Rightarrow> ns_delivered (ds_inner (snd y)) = ns_delivered (ds_inner d1) @ drop n buf
         | Err _ \<Rightarrow> \<exists>k \<le> length (drop n buf). ns_delivered (ds_inner (snd y)) = ns_delivered (ds_inner d1) @ take k (drop n buf))"
        by (rule 1(1) [OF _ 1(3)]) (use 1(2) wr False Inr n in \<open>simp\<close>)
      show ?thesis
      proof (cases "fst y")
        case (Inl e)
        with ih obtain k where "k \<le> length buf - n"
          "ns_delivered (ds_inner (snd y)) = ns_delivered (ds_inner d) @ take n buf @ take k (drop n buf)"
          using n by auto
        then have "n + k \<le> length buf \<and> ns_delivered (ds_inner (snd y)) = ns_delivered (ds_inner d) @ take (n + k) buf"
          using n by (auto simp: take_add)
        then show ?thesis using Inl ih post(1) by auto
      next
        case (Inr u)
        then show ?thesis using ih n post(1) by simp
      qed
    qed
  qed (use 1 in \<open>auto\<close>)
qed

lemma ds_ops_expired:
  assumes "ds_deadline d \<le> clock (ds_ticks d)"
  shows "ds_read platform clock want d = Some (Err timed_out, d\<lparr> ds_ticks := ds_ticks d + 1 \<rparr>)"
    and "ds_write clock buf d = Some (Err timed_out, d\<lparr> ds_ticks := ds_ticks d + 1 \<rparr>)"
    and "ds_flush clock d = Some (Err timed_out, d\<lparr> ds_ticks := ds_ticks d + 1 \<rparr>)"
  using assms by (simp_all add: ds_read_def ds_write_def ds_flush_def ds_loop_expired)

lemma default_read_exact_ds_returns:
  assumes "clock_reaches clock (ds_deadline d) n"
  shows "\<exists>y. default_read_exact (ds_read platform clock) want got d = Some y"
  using assms
proof (induction "n - ds_ticks d" arbitrary: d want got rule: less_induct)
  case less
  obtain r d1 where rd: "ds_read platform clock want d = Some (r, d1)"
    using ds_loop_returns [OF less(2)] unfolding ds_read_def by fastforce
  show ?case
  proof (cases "ds_ticks d < n")
    case True
    then have "\<exists>y. default_read_exact (ds_read platform clock) want' got' d1 = Some y" for want' got'
      using less(1) [of d1 want' got'] less(2) ds_read_post(2,3) [OF rd] by simp
    then show ?thesis using rd by (subst default_read_exact.simps) (cases r; simp)
  next
    case False
    then have "ds_deadline d \<le> clock (ds_ticks d)" using less(2) by (simp add: clock_reaches_def)
    then show ?thesis by (subst default_read_exact.simps) (simp add: ds_ops_expired timed_out_def)
  qed
qed

lemma default_write_all_ds_returns:
  assumes "clock_reaches clock (ds_deadline d) n"
  shows "\<exists>y. default_write_all (ds_write clock) buf d = Some y"
  using assms
proof (induction "n - ds_ticks d" arbitrary: d buf rule: less_induct)
  case less
  obtain r d1 where wr: "ds_write clock buf d = Some (r, d1)"
    using ds_loop_returns [OF less(2)] unfolding ds_write_def by fastforce
  show ?case
  proof (cases "ds_ticks d < n")
    case True
    then have "\<exists>y. default_write_all (ds_write clock) buf' d1 = Some y" for buf'
      using less(1) [of d1 buf'] less(2) ds_write_post(1,2) [OF wr] by simp
    then show ?thesis using wr by (subst default_write_all.simps) (cases r; simp)
  next
    case False
    then have "ds_deadline d \<le> clock (ds_ticks d)" using less(2) by (simp add: clock_reaches_def)
    then show ?thesis by (subst default_write_all.simps) (simp add: ds_ops_expired timed_out_def)
  qed
qed

section \<open>The contract of a stream\<close>

text \<open>What the framing relies on: \<open>sent\<close> is what has been written to the peer. Reading does not write, a
  full read has the length asked for, and a write that fails has sent a prefix.\<close>

locale byte_stream =
  fixes ops :: "'s stream_ops" and sent :: "'s \<Rightarrow> bytes"
  assumes read_quiet: "so_read_exact ops n s = Some (r, s') \<Longrightarrow> sent s' = sent s"
    and read_full: "so_read_exact ops n s = Some (Ok bs, s') \<Longrightarrow> length bs = n"
    and write_sent: "so_write_all ops buf s = Some (Ok u, s') \<Longrightarrow> sent s' = sent s @ buf"
    and write_prefix: "so_write_all ops buf s = Some (Err e, s') \<Longrightarrow> \<exists>k. sent s' = sent s @ take k buf"
    and flush_quiet: "so_flush ops s = Some (x, s') \<Longrightarrow> sent s' = sent s"
begin

lemma read_or_eof_cases:
  assumes "stream_read_exact_or_eof ops n context s = Some (r :: ('d framing_error, bytes) result, s')"
  shows "sent s' = sent s \<and> (\<forall>bs. r = Ok bs \<longrightarrow> length bs = n)"
  using assms read_quiet read_full
  by (fastforce simp: stream_read_exact_or_eof_def split: option.splits sum.splits prod.splits)

lemma read_frame_quiet:
  assumes "stream_read_frame_with_cap ops cap s = Some (r :: ('d framing_error, bytes) result, s')"
  shows "sent s' = sent s \<and> (\<forall>bs. r = Ok bs \<longrightarrow> length bs \<le> cap)"
proof -
  obtain r1 :: "('d framing_error, bytes) result" and s1 where
    1: "stream_read_exact_or_eof ops 1 ''framing byte'' s = Some (r1, s1)"
    using assms
    by (cases "stream_read_exact_or_eof ops 1 ''framing byte'' s :: (('d framing_error, bytes) result \<times> 's) option")
      (auto simp: stream_read_frame_with_cap_def)
  have q1: "sent s1 = sent s" using read_or_eof_cases [OF 1] by simp
  show ?thesis
  proof (cases "\<exists>v. r1 = Ok v \<and> v ! 0 = ENVELOPE_VERSION")
    case False
    then show ?thesis using assms 1 q1 by (cases r1) (auto simp: stream_read_frame_with_cap_def Let_def)
  next
    case True
    then obtain v where v: "r1 = Ok v" "v ! 0 = ENVELOPE_VERSION" by blast
    then obtain r2 :: "('d framing_error, bytes) result" and s2 where
      2: "stream_read_exact_or_eof ops 4 ''body length header'' s1 = Some (r2, s2)"
      using assms 1
      by (cases "stream_read_exact_or_eof ops 4 ''body length header'' s1 :: (('d framing_error, bytes) result \<times> 's) option")
        (auto simp: stream_read_frame_with_cap_def Let_def)
    have q2: "sent s2 = sent s" using read_or_eof_cases [OF 2] q1 by simp
    show ?thesis
    proof (cases r2)
      case (Inl e)
      then show ?thesis using assms 1 2 v q2 by (auto simp: stream_read_frame_with_cap_def Let_def)
    next
      case (Inr len)
      then show ?thesis
        using assms 1 2 v q2 read_or_eof_cases [where 'd = 'd, of "unat (u32_from_le_bytes len)" "''frame body''" s2 r s']
        by (auto simp: stream_read_frame_with_cap_def Let_def split: if_splits)
    qed
  qed
qed

lemma write_frame_cases:
  assumes "stream_write_frame ops body s = Some (r :: ('d framing_error, nat) result, s')"
  shows "(case r of
      Ok _ \<Rightarrow> length body \<le> MAX_FRAME_BYTES \<and> sent s' = sent s @ write_frame_header body @ body
    | Err _ \<Rightarrow> \<exists>k. sent s' = sent s @ take k (write_frame_header body @ body))"
proof (cases "length body > MAX_FRAME_BYTES")
  case True
  then have "r = Err (FrameTooLarge (length body) MAX_FRAME_BYTES) \<and> s' = s"
    using assms by (simp add: stream_write_frame_def)
  then show ?thesis by (auto intro: exI [of _ 0])
next
  case False
  let ?h = "write_frame_header body"
  obtain r1 s1 where 1: "so_write_all ops ?h s = Some (r1, s1)"
    using assms False by (cases "so_write_all ops ?h s") (auto simp: stream_write_frame_def)
  show ?thesis
  proof (cases r1)
    case (Inl e)
    then obtain k where "sent s1 = sent s @ take k ?h" using write_prefix 1 by blast
    then have "sent s1 = sent s @ take (min k (length ?h)) (?h @ body)" by (simp add: min_def)
    then show ?thesis using assms False 1 Inl by (auto simp: stream_write_frame_def simp del: take_append)
  next
    case (Inr u)
    then have q1: "sent s1 = sent s @ ?h" using write_sent 1 by blast
    obtain r2 s2 where 2: "(if body = [] then Some (Ok (), s1) else so_write_all ops body s1) = Some (r2, s2)"
      using assms False 1 Inr
      by (cases "if body = [] then Some (Ok (), s1) else so_write_all ops body s1") (auto simp: stream_write_frame_def)
    have q2: "case r2 of Ok _ \<Rightarrow> sent s2 = sent s @ ?h @ body | Err _ \<Rightarrow> \<exists>k. sent s2 = sent s @ take k (?h @ body)"
    proof (cases r2)
      case (Inl e)
      then obtain k where "sent s2 = sent s1 @ take k body" using 2 write_prefix [of body s1 e s2] by (auto split: if_splits)
      then have "sent s2 = sent s @ take (length ?h + k) (?h @ body)" using q1 by simp
      then show ?thesis using Inl by (auto simp del: take_append)
    next
      case (Inr u)
      then show ?thesis using 2 q1 write_sent by (auto split: if_splits)
    qed
    show ?thesis
    proof (cases r2)
      case (Inl e)
      then show ?thesis using assms False 1 2 \<open>r1 = Inr u\<close> q2 by (auto simp: stream_write_frame_def simp del: take_append)
    next
      case (Inr u')
      then obtain r3 s3 where 3: "so_flush ops s2 = Some (r3, s3)"
        using assms False 1 2 \<open>r1 = Inr u\<close>
        by (cases "so_flush ops s2") (auto simp: stream_write_frame_def)
      have "sent s3 = sent s @ ?h @ body" using flush_quiet [OF 3] q2 Inr by simp
      moreover have "\<exists>k. ?h @ body = take k (?h @ body)" by (metis order_refl take_all)
      ultimately show ?thesis using assms False 1 2 3 \<open>r1 = Inr u\<close> Inr
        by (cases r3) (auto simp: stream_write_frame_def simp del: take_append)
    qed
  qed
qed

end

text \<open>A stream whose calls return as long as it is \<open>live\<close>.\<close>

locale prompt_stream = byte_stream +
  fixes live :: "'s \<Rightarrow> bool"
  assumes read_returns: "live s \<Longrightarrow> \<exists>r s'. so_read_exact ops n s = Some (r, s') \<and> live s'"
    and write_returns: "live s \<Longrightarrow> \<exists>r s'. so_write_all ops buf s = Some (r, s') \<and> live s'"
    and flush_returns: "live s \<Longrightarrow> \<exists>r s'. so_flush ops s = Some (r, s') \<and> live s'"
begin

lemma read_or_eof_returns:
  assumes "live s"
  shows "\<exists>(r :: ('d framing_error, bytes) result) s'. stream_read_exact_or_eof ops n context s = Some (r, s') \<and> live s'"
proof -
  obtain r s' where "so_read_exact ops n s = Some (r, s')" "live s'" using read_returns [OF assms] by blast
  then show ?thesis by (cases r) (auto simp: stream_read_exact_or_eof_def)
qed

lemma read_frame_returns:
  assumes "live s"
  shows "\<exists>(r :: ('d framing_error, bytes) result) s'. stream_read_frame_with_cap ops cap s = Some (r, s') \<and> live s'"
proof -
  obtain r1 :: "('d framing_error, bytes) result" and s1 where
    1: "stream_read_exact_or_eof ops 1 ''framing byte'' s = Some (r1, s1)" "live s1"
    using read_or_eof_returns [OF assms] by blast
  obtain r2 :: "('d framing_error, bytes) result" and s2 where
    2: "stream_read_exact_or_eof ops 4 ''body length header'' s1 = Some (r2, s2)" "live s2"
    using read_or_eof_returns [OF 1(2)] by blast
  show ?thesis
    using 1 2 read_or_eof_returns [where 'd = 'd, OF 2(2)]
    by (cases r1; cases r2) (simp_all add: stream_read_frame_with_cap_def Let_def)
qed

lemma write_frame_returns:
  assumes "live s"
  shows "\<exists>(r :: ('d framing_error, nat) result) s'. stream_write_frame ops body s = Some (r, s') \<and> live s'"
proof -
  obtain r1 s1 where 1: "so_write_all ops (write_frame_header body) s = Some (r1, s1)" "live s1"
    using write_returns [OF assms] by blast
  obtain r2 s2 where 2: "(if body = [] then Some (Ok (), s1) else so_write_all ops body s1) = Some (r2, s2)" "live s2"
    using write_returns [OF 1(2), of body] 1(2) by (cases "body = []") auto
  obtain r3 s3 where 3: "so_flush ops s2 = Some (r3, s3)" "live s3" using flush_returns [OF 2(2)] by blast
  show ?thesis using assms 1 2 3 by (cases r1; cases r2; cases r3) (simp_all add: stream_write_frame_def Let_def)
qed

end

interpretation ds: byte_stream "deadline_ops platform clock" "\<lambda>d. ns_delivered (ds_inner d)"
proof
  fix n d r d'
  assume "so_read_exact (deadline_ops platform clock) n d = Some (r, d')"
  then have "default_read_exact (ds_read platform clock) n [] d = Some (r, d')" by (simp add: deadline_ops_def)
  from default_read_exact_ds_post [OF this refl]
  show "ns_delivered (ds_inner d') = ns_delivered (ds_inner d)" by simp
next
  fix n d bs d'
  assume "so_read_exact (deadline_ops platform clock) n d = Some (Ok bs, d')"
  then have "default_read_exact (ds_read platform clock) n [] d = Some (Ok bs, d')" by (simp add: deadline_ops_def)
  from default_read_exact_ds_post [OF this refl] show "length bs = n" by simp
next
  fix buf d u d'
  assume "so_write_all (deadline_ops platform clock) buf d = Some (Ok u, d')"
  then have "default_write_all (ds_write clock) buf d = Some (Ok u, d')" by (simp add: deadline_ops_def)
  from default_write_all_ds_post [OF this refl]
  show "ns_delivered (ds_inner d') = ns_delivered (ds_inner d) @ buf" by simp
next
  fix buf d e d'
  assume "so_write_all (deadline_ops platform clock) buf d = Some (Err e, d')"
  then have "default_write_all (ds_write clock) buf d = Some (Err e, d')" by (simp add: deadline_ops_def)
  from default_write_all_ds_post [OF this refl]
  show "\<exists>k. ns_delivered (ds_inner d') = ns_delivered (ds_inner d) @ take k buf" by auto
next
  fix d x d'
  assume "so_flush (deadline_ops platform clock) d = Some (x, d')"
  then show "ns_delivered (ds_inner d') = ns_delivered (ds_inner d)"
    using ds_flush_post(1) by (simp add: deadline_ops_def)
qed

interpretation ds: prompt_stream "deadline_ops platform clock" "\<lambda>d. ns_delivered (ds_inner d)" "deadline_comes clock"
proof
  fix n d
  assume live: "deadline_comes clock d"
  then obtain r d' where "default_read_exact (ds_read platform clock) n [] d = Some (r, d')"
    using default_read_exact_ds_returns unfolding deadline_comes_def by fastforce
  then show "\<exists>r d'. so_read_exact (deadline_ops platform clock) n d = Some (r, d') \<and> deadline_comes clock d'"
    using live default_read_exact_ds_post by (fastforce simp: deadline_ops_def deadline_comes_def)
next
  fix buf d
  assume live: "deadline_comes clock d"
  then obtain r d' where "default_write_all (ds_write clock) buf d = Some (r, d')"
    using default_write_all_ds_returns unfolding deadline_comes_def by fastforce
  then show "\<exists>r d'. so_write_all (deadline_ops platform clock) buf d = Some (r, d') \<and> deadline_comes clock d'"
    using live default_write_all_ds_post by (fastforce simp: deadline_ops_def deadline_comes_def)
next
  fix d
  assume live: "deadline_comes clock d"
  then obtain r d' where "ds_flush clock d = Some (r, d')"
    using ds_loop_returns unfolding deadline_comes_def ds_flush_def by fastforce
  then show "\<exists>r d'. so_flush (deadline_ops platform clock) d = Some (r, d') \<and> deadline_comes clock d'"
    using live ds_flush_post(2) by (fastforce simp: deadline_ops_def deadline_comes_def)
qed

interpretation pair: prompt_stream pair_ops "\<lambda>s. wr_out (snd s)" "\<lambda>_. True"
  by unfold_locales
    (fastforce simp: pair_ops_def read_exact_def write_all_def split: prod.splits option.splits if_splits)+

section \<open>Agreement with the framing of byte streams\<close>

lemma pair_read_or_eof:
  "stream_read_exact_or_eof pair_ops n context (r, w) =
    (case (read_exact_or_eof n context r :: ('d framing_error, bytes) result \<times> reader) of (x, r') \<Rightarrow> Some (x, (r', w)))"
  by (simp add: stream_read_exact_or_eof_def pair_ops_def read_exact_or_eof_def split: prod.splits sum.splits)

lemma pair_read_frame_with_cap:
  "stream_read_frame_with_cap pair_ops cap (r, w) =
    (case (read_frame_with_cap r cap :: ('d framing_error, bytes) result \<times> reader) of (x, r') \<Rightarrow> Some (x, (r', w)))"
  by (simp add: stream_read_frame_with_cap_def pair_read_or_eof read_frame_with_cap_def Let_def
      split: prod.splits sum.splits)

lemma pair_write_frame:
  "stream_write_frame pair_ops body (r, w) =
    (case (write_frame w body :: ('d framing_error, nat) result \<times> writer) of (x, w') \<Rightarrow> Some (x, (r, w')))"
  by (auto simp: stream_write_frame_def pair_ops_def write_frame_def Let_def split: prod.splits sum.splits)

section \<open>Expiry\<close>

lemma ds_loop_timed_out:
  assumes "ds_loop clock call d = Some y" and "\<And>s e s'. call s = (Done (Err e), s') \<Longrightarrow> ioe_kind e \<noteq> TimedOut"
    and "fst y = Err e" "ioe_kind e = TimedOut"
  shows "e = timed_out \<and> ds_deadline (snd y) \<le> clock (ds_ticks (snd y) - 1)"
  using assms
proof (induction rule: ds_loop.raw_induct [rotated, consumes 1])
  case (1 loop clock call d y)
  note ih = 1(1) [OF _ 1(3) 1(4,5)]
  show ?case
  proof (cases "ds_deadline d \<le> clock (ds_ticks d)")
    case True
    then show ?thesis using 1(2,4) by (auto simp: ensure_not_expired_def)
  next
    case False
    obtain a s' where c: "call (ds_inner d) = (a, s')" by fastforce
    show ?thesis
    proof (cases a)
      case (Done r)
      then show ?thesis using 1(2-5) False c by (auto simp: ensure_not_expired_def)
    next
      case Wait
      show ?thesis
      proof (cases "ds_deadline d \<le> clock (ds_ticks d + 1)")
        case True
        then show ?thesis using 1(2,4) False c Wait by (auto simp: ensure_not_expired_def ds_wait_def)
      next
        case later: False
        show ?thesis by (rule ih) (use 1(2) False later c Wait in \<open>simp add: ensure_not_expired_def ds_wait_def\<close>)
      qed
    next
      case Again
      show ?thesis by (rule ih) (use 1(2) False c Again in \<open>simp add: ensure_not_expired_def\<close>)
    qed
  qed
qed

lemma ds_read_timed_out:
  assumes "ds_read platform clock want d = Some (Err e, d')" and "ioe_kind e = TimedOut"
  shows "e = timed_out \<and> ds_deadline d' \<le> clock (ds_ticks d' - 1)"
proof -
  have "ioe_kind e' \<noteq> TimedOut"
    if "(case nb_read want s of (r, s') \<Rightarrow> (ds_read_attempt platform r, s')) = (Done (Err e'), s')" for s e' s'
    using that by (auto simp: ds_read_attempt_def split: prod.splits sum.splits if_splits)
  from ds_loop_timed_out [OF assms(1) [unfolded ds_read_def] this _ assms(2)] show ?thesis by simp
qed

lemma default_read_exact_ds_timed_out:
  assumes "default_read_exact read want got d = Some y" and "read = ds_read platform clock"
    and "fst y = Err e" "ioe_kind e = TimedOut"
  shows "e = timed_out \<and> ds_deadline (snd y) \<le> clock (ds_ticks (snd y) - 1)"
  using assms
proof (induction rule: default_read_exact.raw_induct [rotated, consumes 1])
  case (1 f read want got d y)
  note ih = 1(1) [OF _ 1(3,4,5)]
  show ?case
  proof (cases "want = 0")
    case False
    then obtain r d1 where rd: "read want d = Some (r, d1)" using 1(2) by (cases "read want d") auto
    show ?thesis
    proof (cases r)
      case (Inl e')
      show ?thesis
      proof (cases "ioe_kind e' = Interrupted")
        case True
        show ?thesis by (rule ih) (use 1(2) rd False Inl True in simp)
      next
        case kind: False
        then have "y = (Err e', d1)" using 1(2) rd False Inl by simp
        then show ?thesis using ds_read_timed_out [of platform clock want d e d1] rd 1(3-5) Inl by simp
      qed
    next
      case (Inr bs)
      show ?thesis
      proof (cases "bs = []")
        case True
        then show ?thesis using 1(2,4,5) rd False Inr by (auto simp: eof_error_def)
      next
        case bs: False
        show ?thesis by (rule ih) (use 1(2) rd False Inr bs in simp)
      qed
    qed
  qed (use 1 in auto)
qed

lemma ds_read_or_eof_timed_out:
  assumes "stream_read_exact_or_eof (deadline_ops platform clock) n context d = Some (Err (Io e :: 'd framing_error), d')"
    and "ioe_kind e = TimedOut"
  shows "e = timed_out \<and> ds_deadline d' \<le> clock (ds_ticks d' - 1)"
proof -
  have "default_read_exact (ds_read platform clock) n [] d = Some (Err e, d')"
    using assms by (auto simp: stream_read_exact_or_eof_def deadline_ops_def split: option.splits sum.splits if_splits)
  from default_read_exact_ds_timed_out [OF this refl _ assms(2)] show ?thesis by simp
qed

lemma ds_read_frame_timed_out:
  assumes "stream_read_frame_with_cap (deadline_ops platform clock) cap d = Some (Err (Io e :: 'd framing_error), d')"
    and "ioe_kind e = TimedOut"
  shows "e = timed_out \<and> ds_deadline d' \<le> clock (ds_ticks d' - 1)"
proof -
  obtain n ctx d0 where
    "stream_read_exact_or_eof (deadline_ops platform clock) n ctx d0 = Some (Err (Io e :: 'd framing_error), d')"
    using assms(1)
    by (auto simp: stream_read_frame_with_cap_def Let_def split: option.splits sum.splits if_splits)
  from ds_read_or_eof_timed_out [OF this assms(2)] show ?thesis .
qed

text \<open>Once the deadline has passed nothing more is written.\<close>

lemma ds_write_frame_expired:
  assumes "ds_deadline d \<le> clock (ds_ticks d)" and "length body \<le> MAX_FRAME_BYTES"
  shows "stream_write_frame (deadline_ops platform clock) body d =
    Some (Err (Io timed_out :: 'd framing_error), d\<lparr> ds_ticks := ds_ticks d + 1 \<rparr>)"
proof -
  have "default_write_all (ds_write clock) (write_frame_header body) d = Some (Err timed_out, d\<lparr> ds_ticks := ds_ticks d + 1 \<rparr>)"
    using assms(1) by (subst default_write_all.simps) (simp add: ds_ops_expired timed_out_def write_frame_header_def Let_def)
  then show ?thesis using assms(2) by (simp add: stream_write_frame_def deadline_ops_def Let_def)
qed

text \<open>A peer that sends nothing: the read of a frame ends with the timeout.\<close>

lemma ds_read_silent:
  assumes "clock_reaches clock (ds_deadline d) n" and "set (ns_incoming (ds_inner d)) \<subseteq> {NotYet}"
    and "n \<le> ds_ticks d + length (ns_incoming (ds_inner d))"
  shows "\<exists>d'. ds_read platform clock want d = Some (Err timed_out, d')"
  using assms
proof (induction "n - ds_ticks d" arbitrary: d rule: less_induct)
  case less
  show ?case
  proof (cases "ds_deadline d \<le> clock (ds_ticks d)")
    case True
    then show ?thesis by (simp add: ds_ops_expired)
  next
    case False
    then have ticks: "ds_ticks d < n" using less(2) by (auto simp: clock_reaches_def not_le [symmetric])
    then obtain rest where inc: "ns_incoming (ds_inner d) = NotYet # rest"
      using less(3,4) by (cases "ns_incoming (ds_inner d)") auto
    let ?d = "d\<lparr> ds_inner := (ds_inner d)\<lparr> ns_incoming := rest \<rparr>, ds_ticks := ds_ticks d + 3 \<rparr>"
    have "\<exists>d'. ds_read platform clock want ?d = Some (Err timed_out, d')"
      using less(1) [of ?d] less(2-4) ticks inc by simp
    then show ?thesis
      unfolding ds_read_def using False inc
      by (subst ds_loop.simps)
        (simp add: ensure_not_expired_def ds_wait_def ds_read_attempt_def nb_read_def would_block_def numeral_3_eq_3)
  qed
qed

lemma ds_read_frame_silent:
  assumes "clock_reaches clock (ds_deadline d) n" and "set (ns_incoming (ds_inner d)) \<subseteq> {NotYet}"
    and "n \<le> ds_ticks d + length (ns_incoming (ds_inner d))"
  shows "\<exists>d'. stream_read_frame_with_cap (deadline_ops platform clock) cap d = Some (Err (Io timed_out :: 'd framing_error), d')"
proof -
  obtain d' where "ds_read platform clock 1 d = Some (Err timed_out, d')" using ds_read_silent [OF assms] by blast
  then have "default_read_exact (ds_read platform clock) 1 [] d = Some (Err timed_out, d')"
    by (subst default_read_exact.simps) (simp add: timed_out_def)
  then show ?thesis
    by (simp add: stream_read_frame_with_cap_def stream_read_exact_or_eof_def deadline_ops_def) (simp add: timed_out_def)
qed

text \<open>Framing over a stream whose full reads are those of a reader.\<close>

locale reads_like =
  fixes ops :: "'s stream_ops" and R :: "'s \<Rightarrow> reader \<Rightarrow> bool"
  assumes read_exact_sim: "R s r \<Longrightarrow> \<exists>s'. so_read_exact ops n s = Some (fst (read_exact n r), s') \<and> R s' (snd (read_exact n r))"
begin

lemma read_or_eof_sim:
  assumes "R s r"
  shows "\<exists>s'. stream_read_exact_or_eof ops n context s =
      Some (fst (read_exact_or_eof n context r :: ('d framing_error, bytes) result \<times> reader), s') \<and>
    R s' (snd (read_exact_or_eof n context r :: ('d framing_error, bytes) result \<times> reader))"
  using read_exact_sim [OF assms, of n]
  by (auto simp: stream_read_exact_or_eof_def read_exact_or_eof_def split: prod.splits sum.splits)

lemma read_frame_sim:
  assumes "R s r"
  shows "\<exists>s'. stream_read_frame_with_cap ops cap s =
      Some (fst (read_frame_with_cap r cap :: ('d framing_error, bytes) result \<times> reader), s') \<and>
    R s' (snd (read_frame_with_cap r cap :: ('d framing_error, bytes) result \<times> reader))"
proof -
  obtain x1 :: "('d framing_error, bytes) result" and r1 where 1: "read_exact_or_eof 1 ''framing byte'' r = (x1, r1)"
    by fastforce
  obtain s1 where s1: "stream_read_exact_or_eof ops 1 ''framing byte'' s = Some (x1, s1)" "R s1 r1"
    using read_or_eof_sim [where 'd = 'd, OF assms, of 1 "''framing byte''"] 1 by auto
  obtain x2 :: "('d framing_error, bytes) result" and r2 where 2: "read_exact_or_eof 4 ''body length header'' r1 = (x2, r2)"
    by fastforce
  obtain s2 where s2: "stream_read_exact_or_eof ops 4 ''body length header'' s1 = Some (x2, s2)" "R s2 r2"
    using read_or_eof_sim [where 'd = 'd, OF s1(2), of 4 "''body length header''"] 2 by auto
  show ?thesis
    using s1 s2 1 2 read_or_eof_sim [where 'd = 'd, OF s2(2)]
    by (cases x1; cases x2) (simp_all add: stream_read_frame_with_cap_def read_frame_with_cap_def Let_def)
qed

end

lemma sends_in_pieces_Cons [simp]:
  "sends_in_pieces (Arrive bs # s) \<longleftrightarrow> bs \<noteq> [] \<and> sends_in_pieces s"
  "sends_in_pieces (NotYet # s) \<longleftrightarrow> sends_in_pieces s"
  "\<not> sends_in_pieces (Broken e # s)"
  "sends_in_pieces []"
  by (simp_all add: sends_in_pieces_def)

lemma ds_read_in_pieces:
  assumes "platform \<noteq> Windows" "\<forall>k. clock k < ds_deadline d" "sends_in_pieces (ns_incoming (ds_inner d))" "0 < want"
  shows "\<exists>bs d'. ds_read platform clock want d = Some (Ok bs, d') \<and> length bs \<le> want \<and>
    arriving (ns_incoming (ds_inner d)) = bs @ arriving (ns_incoming (ds_inner d')) \<and>
    (bs = [] \<longrightarrow> arriving (ns_incoming (ds_inner d)) = []) \<and> sends_in_pieces (ns_incoming (ds_inner d')) \<and>
    ds_deadline d' = ds_deadline d \<and> (ds_inner d')\<lparr> ns_incoming := [] \<rparr> = (ds_inner d)\<lparr> ns_incoming := [] \<rparr>"
  using assms
proof (induction "ns_incoming (ds_inner d)" arbitrary: d)
  case Nil
  then show ?case
    unfolding ds_read_def
    by (subst ds_loop.simps) (simp add: ensure_not_expired_def not_le nb_read_def ds_read_attempt_def)
next
  case (Cons a s)
  have early: "\<not> ds_deadline d \<le> clock k" for k using Cons(4) by (simp add: not_le)
  show ?case
  proof (cases a)
    case (Arrive bs)
    then show ?thesis
      using Cons(2-6) unfolding ds_read_def
      by (subst ds_loop.simps)
        (simp add: Cons(2) [symmetric] ensure_not_expired_def not_le nb_read_def ds_read_attempt_def)
  next
    case NotYet
    let ?d = "d\<lparr> ds_inner := (ds_inner d)\<lparr> ns_incoming := s \<rparr>, ds_ticks := ds_ticks d + 3 \<rparr>"
    have "ds_read platform clock want d = ds_read platform clock want ?d"
      using Cons(2-6) NotYet unfolding ds_read_def
      by (subst (1) ds_loop.simps)
        (simp add: Cons(2) [symmetric] ensure_not_expired_def ds_wait_def early nb_read_def ds_read_attempt_def
          would_block_def numeral_3_eq_3)
    moreover have "arriving (ns_incoming (ds_inner d)) = arriving s" using Cons(2) [symmetric] NotYet by simp
    ultimately show ?thesis using Cons(1) [of ?d] Cons(2) [symmetric] Cons(3-6) NotYet by simp
  next
    case (Broken e)
    then show ?thesis using Cons(2) [symmetric] Cons(5) by simp
  qed
qed

lemma default_read_exact_in_pieces:
  assumes "platform \<noteq> Windows" "\<forall>k. clock k < ds_deadline d" "sends_in_pieces (ns_incoming (ds_inner d))"
  shows "\<exists>d'. default_read_exact (ds_read platform clock) want got d =
      Some (if want \<le> length (arriving (ns_incoming (ds_inner d)))
            then Ok (got @ take want (arriving (ns_incoming (ds_inner d)))) else Err eof_error, d') \<and>
    arriving (ns_incoming (ds_inner d')) = drop want (arriving (ns_incoming (ds_inner d))) \<and>
    sends_in_pieces (ns_incoming (ds_inner d')) \<and> ds_deadline d' = ds_deadline d \<and>
    (ds_inner d')\<lparr> ns_incoming := [] \<rparr> = (ds_inner d)\<lparr> ns_incoming := [] \<rparr>"
  using assms
proof (induction want arbitrary: got d rule: less_induct)
  case (less want)
  show ?case
  proof (cases "want = 0")
    case True
    then show ?thesis using less(3,4) by (subst default_read_exact.simps) simp
  next
    case False
    obtain bs d1 where 1: "ds_read platform clock want d = Some (Ok bs, d1)" "length bs \<le> want"
      "arriving (ns_incoming (ds_inner d)) = bs @ arriving (ns_incoming (ds_inner d1))"
      "bs = [] \<longrightarrow> arriving (ns_incoming (ds_inner d)) = []" "sends_in_pieces (ns_incoming (ds_inner d1))"
      "ds_deadline d1 = ds_deadline d" "(ds_inner d1)\<lparr> ns_incoming := [] \<rparr> = (ds_inner d)\<lparr> ns_incoming := [] \<rparr>"
      using ds_read_in_pieces [OF less(2-4), of want] False by auto
    show ?thesis
    proof (cases "bs = []")
      case True
      then show ?thesis using 1 False by (subst default_read_exact.simps) simp
    next
      case bs: False
      then have "want - length bs < want" using 1(2) False by (cases bs) auto
      from less(1) [OF this less(2), of d1 "got @ bs"] less(3) 1(5,6)
      show ?thesis using 1 bs False
        by (subst default_read_exact.simps) (auto simp: le_diff_conv2 split: if_splits)
    qed
  qed
qed

interpretation ds_in_pieces: reads_like "deadline_ops Linux clock" "brings clock d0"
proof
  fix d r n
  assume "brings clock d0 d r"
  then have b: "Linux \<noteq> Windows" "\<forall>k. clock k < ds_deadline d" "sends_in_pieces (ns_incoming (ds_inner d))"
    "rd_bytes r = arriving (ns_incoming (ds_inner d))" "rd_end r = Eof" "ds_deadline d = ds_deadline d0"
    "(ds_inner d)\<lparr> ns_incoming := [] \<rparr> = (ds_inner d0)\<lparr> ns_incoming := [] \<rparr>"
    by (auto simp: brings_def)
  show "\<exists>d'. so_read_exact (deadline_ops Linux clock) n d = Some (fst (read_exact n r), d') \<and> brings clock d0 d' (snd (read_exact n r))"
    using default_read_exact_in_pieces [OF b(1-3), of n "[]"] b(2,4-7)
    by (auto simp: deadline_ops_def read_exact_def brings_def)
qed

interpretation pair_reads: reads_like pair_ops "\<lambda>s r. fst s = r"
  by unfold_locales (auto simp: pair_ops_def split: prod.splits)

section \<open>Writing in pieces\<close>

lemma ds_write_in_pieces:
  assumes "\<forall>k. clock k < ds_deadline d" "takes_in_pieces (ds_inner d)" "buf \<noteq> []"
  shows "\<exists>n d'. ds_write clock buf d = Some (Ok n, d') \<and> 0 < n \<and> n \<le> length buf \<and>
    ns_delivered (ds_inner d') = ns_delivered (ds_inner d) @ take n buf \<and> takes_in_pieces (ds_inner d') \<and>
    ds_deadline d' = ds_deadline d"
  using assms
proof (induction "ns_accepts (ds_inner d)" arbitrary: d)
  case Nil
  then show ?case
    unfolding ds_write_def
    by (subst ds_loop.simps)
      (simp add: Nil(1) [symmetric] ensure_not_expired_def not_le nb_write_def ds_write_attempt_def takes_in_pieces_def)
next
  case (Cons a s)
  have early: "\<not> ds_deadline d \<le> clock k" for k using Cons(3) by (simp add: not_le)
  show ?case
  proof (cases a)
    case (Takes n)
    then have "0 < n" using Cons(2) [symmetric] Cons(4) by (simp add: takes_in_pieces_def)
    then show ?thesis
      using Cons(2-5) Takes unfolding ds_write_def
      by (subst ds_loop.simps)
        (simp add: Cons(2) [symmetric] ensure_not_expired_def early nb_write_def ds_write_attempt_def takes_in_pieces_def
          min_def)
  next
    case WriteNotYet
    let ?d = "d\<lparr> ds_inner := (ds_inner d)\<lparr> ns_accepts := s \<rparr>, ds_ticks := ds_ticks d + 3 \<rparr>"
    have "ds_write clock buf d = ds_write clock buf ?d"
      using WriteNotYet unfolding ds_write_def
      by (subst (1) ds_loop.simps)
        (simp add: Cons(2) [symmetric] ensure_not_expired_def ds_wait_def early nb_write_def ds_write_attempt_def
          would_block_def numeral_3_eq_3)
    then show ?thesis using Cons(1) [of ?d] Cons(2) [symmetric] Cons(3-5) WriteNotYet by (simp add: takes_in_pieces_def)
  next
    case (WriteBroken e)
    then show ?thesis using Cons(2) [symmetric] Cons(4) by (simp add: takes_in_pieces_def)
  qed
qed

lemma default_write_all_in_pieces:
  assumes "\<forall>k. clock k < ds_deadline d" "takes_in_pieces (ds_inner d)"
  shows "\<exists>d'. default_write_all (ds_write clock) buf d = Some (Ok (), d') \<and>
    ns_delivered (ds_inner d') = ns_delivered (ds_inner d) @ buf \<and> takes_in_pieces (ds_inner d') \<and> ds_deadline d' = ds_deadline d"
  using assms
proof (induction "length buf" arbitrary: buf d rule: less_induct)
  case less
  show ?case
  proof (cases "buf = []")
    case True
    then show ?thesis using less(3) by (subst default_write_all.simps) simp
  next
    case False
    obtain n d1 where 1: "ds_write clock buf d = Some (Ok n, d1)" "0 < n" "n \<le> length buf"
      "ns_delivered (ds_inner d1) = ns_delivered (ds_inner d) @ take n buf" "takes_in_pieces (ds_inner d1)"
      "ds_deadline d1 = ds_deadline d"
      using ds_write_in_pieces [OF less(2,3) False] by blast
    have "length (drop n buf) < length buf" using 1(2) False by simp
    from less(1) [OF this, of d1] less(2) 1(5,6) show ?thesis
      using 1 False by (subst default_write_all.simps) auto
  qed
qed

lemma ds_write_frame_in_pieces:
  assumes "\<forall>k. clock k < ds_deadline d" "takes_in_pieces (ds_inner d)" "length body \<le> MAX_FRAME_BYTES"
  shows "\<exists>n d'. stream_write_frame (deadline_ops platform clock) body d = Some (Ok n :: ('d framing_error, nat) result, d') \<and>
    ns_delivered (ds_inner d') = ns_delivered (ds_inner d) @ write_frame_header body @ body"
proof -
  obtain d1 where 1: "default_write_all (ds_write clock) (write_frame_header body) d = Some (Ok (), d1)"
    "ns_delivered (ds_inner d1) = ns_delivered (ds_inner d) @ write_frame_header body" "takes_in_pieces (ds_inner d1)"
    "ds_deadline d1 = ds_deadline d"
    using default_write_all_in_pieces [OF assms(1,2)] by blast
  obtain d2 where 2: "default_write_all (ds_write clock) body d1 = Some (Ok (), d2)"
    "ns_delivered (ds_inner d2) = ns_delivered (ds_inner d1) @ body" "takes_in_pieces (ds_inner d2)" "ds_deadline d2 = ds_deadline d1"
    using default_write_all_in_pieces [of clock d1 body] assms(1) 1(3,4) by auto
  have "ds_flush clock d2 = Some (Ok (), d2\<lparr> ds_ticks := ds_ticks d2 + 1 \<rparr>)"
    unfolding ds_flush_def using 2(3) assms(1) 1(4) 2(4)
    by (subst ds_loop.simps) (simp add: ensure_not_expired_def nb_flush_def ds_flush_attempt_def takes_in_pieces_def not_le)
  moreover have "default_write_all (ds_write clock) [] d1 = Some (Ok (), d1)"
    by (subst default_write_all.simps) simp
  ultimately show ?thesis using assms(3) 1 2
    by (auto simp: stream_write_frame_def deadline_ops_def Let_def)
qed

section \<open>Properties\<close>



end
