(* ===== verification/Admin_Verbs.thy ===== *)
theory Admin_Verbs
  imports Deadline_Stream
begin

text \<open>
  The admin verbs of the broker (\<open>server/admin.rs\<close>): the snapshot of the broker's state, the documents
  rendered from it, the OpenMetrics text (\<open>server/metrics.rs\<close>), the inode usage row (\<open>fs_health.rs\<close>), and
  the handling of an admin frame and of an admin connection.

  A document is a value of \<open>json\<close>, as \<open>serde_json\<close> builds it; its text, and the encoding of the protobuf
  messages, are arguments. A floating-point number is the quotient it is computed from. The keys of an
  object are listed in the order of the source.
\<close>

section \<open>Documents\<close>

datatype json =
    JNull
  | JBool bool
  | JNum nat
  | JQuotient nat nat
  | JStr string
  | JArr "json list"
  | JObj "(string \<times> json) list"

fun json_get :: "json \<Rightarrow> string \<Rightarrow> json option" where
  "json_get (JObj kvs) key = map_of kvs key"
| "json_get _ key = None"

fun json_as_str :: "json \<Rightarrow> string option" where
  "json_as_str (JStr s) = Some s"
| "json_as_str _ = None"

text \<open>Assignment through an index: the value of a present key is replaced, a new key is added.\<close>

fun json_set :: "json \<Rightarrow> string \<Rightarrow> json \<Rightarrow> json" where
  "json_set (JObj kvs) key v = JObj (AList.update key v kvs)"
| "json_set j key v = j"

definition json_opt :: "('a \<Rightarrow> json) \<Rightarrow> 'a option \<Rightarrow> json" where
  "json_opt f x = (case x of None \<Rightarrow> JNull | Some v \<Rightarrow> f v)"

abbreviation json_u64 :: "u64 \<Rightarrow> json" where "json_u64 n \<equiv> JNum (unat n)"

abbreviation json_u32 :: "u32 \<Rightarrow> json" where "json_u32 n \<equiv> JNum (unat n)"

definition ADMIN_SCHEMA_VERSION :: nat where
  "ADMIN_SCHEMA_VERSION = 1"

definition DIAGNOSTIC_BUNDLE_FORMAT :: string where
  "DIAGNOSTIC_BUNDLE_FORMAT = ''tar.gz''"

definition DIAGNOSTIC_BUNDLE_MODE :: string where
  "DIAGNOSTIC_BUNDLE_MODE = ''metadata-only''"

definition DIAGNOSTIC_REDACTIONS :: "string list" where
  "DIAGNOSTIC_REDACTIONS = [''home'', ''secret-env'', ''acl-identities'']"

section \<open>Inode usage\<close>

record inode_usage =
  iu_total :: u64
  iu_free :: u64

definition inode_used :: "inode_usage \<Rightarrow> nat" where
  "inode_used u = unat (iu_total u) - unat (iu_free u)"

definition inode_used_ratio :: "inode_usage \<Rightarrow> json" where
  "inode_used_ratio u = (if iu_total u = 0 then JQuotient 0 1 else JQuotient (inode_used u) (unat (iu_total u)))"

record admin_inode_pressure =
  aip_supported :: bool
  aip_error :: "string option"
  aip_total :: u64
  aip_free :: u64

definition inode_pressure_default :: admin_inode_pressure where
  "inode_pressure_default = \<lparr> aip_supported = False, aip_error = None, aip_total = 0, aip_free = 0 \<rparr>"

text \<open>The argument is the answer of the probe of the data directory's filesystem, its error as text.\<close>

definition inode_pressure_probe :: "(string, inode_usage option) result \<Rightarrow> admin_inode_pressure" where
  "inode_pressure_probe usage =
    (case usage of
       Ok (Some u) \<Rightarrow> \<lparr> aip_supported = True, aip_error = None, aip_total = iu_total u, aip_free = iu_free u \<rparr>
     | Ok None \<Rightarrow> inode_pressure_default
     | Err e \<Rightarrow> \<lparr> aip_supported = False, aip_error = Some e, aip_total = 0, aip_free = 0 \<rparr>)"

definition inode_pressure_to_json :: "admin_inode_pressure \<Rightarrow> json" where
  "inode_pressure_to_json p =
    (if aip_supported p
     then let usage = \<lparr> iu_total = aip_total p, iu_free = aip_free p \<rparr> in
       JObj [(''supported'', JBool True), (''inodes_total'', json_u64 (aip_total p)),
             (''inodes_free'', json_u64 (aip_free p)), (''inodes_used'', JNum (inode_used usage)),
             (''used_ratio'', inode_used_ratio usage)]
     else
       JObj [(''supported'', JBool False),
             (''detail'', JStr (case aip_error p of
                Some e \<Rightarrow> e | None \<Rightarrow> ''inode accounting not applicable on this filesystem''))])"

section \<open>Snapshots\<close>

record admin_backend =
  ab_service_name :: string
  ab_service_version :: string
  ab_pid :: u32
  ab_backend_pipe :: string
  ab_last_active_unix_ms :: u64
  ab_state :: string
  ab_last_hello_unix_ms :: u64
  ab_last_error :: "string option"

record admin_spawn_budget =
  asb_broker_instance :: string
  asb_service_name :: string
  asb_service_version :: string
  asb_attempts_used :: nat
  asb_remaining :: nat
  asb_in_flight :: bool
  asb_retry_after_ms :: "u64 option"

record admin_snapshot =
  as_broker_instance :: string
  as_broker_pid :: u32
  as_generated_at_unix_ms :: u64
  as_uptime :: duration
  as_accepting_hello :: bool
  as_connections_open :: u64
  as_backends :: "admin_backend list"
  as_spawn_budgets :: "admin_spawn_budget list"
  as_fd_pressure_demoted :: bool
  as_inode_pressure :: admin_inode_pressure

text \<open>\<open>u64::try_from(duration.as_millis()).unwrap_or(u64::MAX)\<close>.\<close>

definition duration_ms :: "duration \<Rightarrow> u64" where
  "duration_ms d = (if as_millis d \<le> U64_MAX then word_of_nat (as_millis d) else word_of_nat U64_MAX)"

definition admin_budget_from_snapshot :: "spawn_budget_snapshot \<Rightarrow> admin_spawn_budget" where
  "admin_budget_from_snapshot s =
    \<lparr> asb_broker_instance = instance_id (bk_instance (sbn_key s)),
      asb_service_name = bk_service_name (sbn_key s), asb_service_version = bk_service_version (sbn_key s),
      asb_attempts_used = sbn_attempts_used s, asb_remaining = sbn_remaining s, asb_in_flight = sbn_in_flight s,
      asb_retry_after_ms = map_option duration_ms (sbn_retry_after s) \<rparr>"

text \<open>What a snapshot reads of the operating system.\<close>

record admin_host =
  ah_pid :: u32
  ah_unix_now_ms :: u64
  ah_inode_usage :: "(string, inode_usage option) result"
  ah_is_alive :: "backend_handle \<Rightarrow> bool"

definition local_not_serving :: "admin_host \<Rightarrow> admin_snapshot" where
  "local_not_serving host =
    \<lparr> as_broker_instance = ''local'', as_broker_pid = ah_pid host,
      as_generated_at_unix_ms = ah_unix_now_ms host, as_uptime = 0, as_accepting_hello = False,
      as_connections_open = 0, as_backends = [], as_spawn_budgets = [], as_fd_pressure_demoted = False,
      as_inode_pressure = inode_pressure_probe (ah_inode_usage host) \<rparr>"

definition admin_backend_row :: "(backend_handle \<Rightarrow> bool) \<Rightarrow> backend_handle \<Rightarrow> admin_backend" where
  "admin_backend_row is_alive h =
    \<lparr> ab_service_name = bh_service_name h, ab_service_version = bh_service_version h,
      ab_pid = dp_pid (bh_daemon_process h),
      ab_backend_pipe = ep_path (dp_ipc_endpoint (bh_daemon_process h)),
      ab_last_active_unix_ms = dp_started_at_unix_ms (bh_daemon_process h),
      ab_state = (if is_alive h then ''running'' else ''stale''), ab_last_hello_unix_ms = 0,
      ab_last_error = None \<rparr>"

definition from_registry_at ::
  "admin_host \<Rightarrow> string \<Rightarrow> u32 \<Rightarrow> u64 \<Rightarrow> duration \<Rightarrow> bool \<Rightarrow> u64 \<Rightarrow> backend_registry \<Rightarrow>
   spawn_budget_snapshot list \<Rightarrow> admin_snapshot" where
  "from_registry_at host broker_instance broker_pid generated_at_unix_ms uptime accepting_hello
     connections_open registry spawn_budgets =
    \<lparr> as_broker_instance = broker_instance, as_broker_pid = broker_pid,
      as_generated_at_unix_ms = generated_at_unix_ms, as_uptime = uptime,
      as_accepting_hello = accepting_hello, as_connections_open = connections_open,
      as_backends = map (\<lambda>(key, handle). admin_backend_row (ah_is_alive host) handle) registry,
      as_spawn_budgets = map admin_budget_from_snapshot spawn_budgets, as_fd_pressure_demoted = False,
      as_inode_pressure = inode_pressure_probe (ah_inode_usage host) \<rparr>"

definition from_registry ::
  "admin_host \<Rightarrow> string \<Rightarrow> duration \<Rightarrow> bool \<Rightarrow> u64 \<Rightarrow> backend_registry \<Rightarrow> spawn_budget_snapshot list \<Rightarrow>
   admin_snapshot" where
  "from_registry host broker_instance uptime accepting_hello connections_open registry spawn_budgets =
    from_registry_at host broker_instance (ah_pid host) (ah_unix_now_ms host) uptime accepting_hello
      connections_open registry spawn_budgets"

definition with_fd_pressure_demoted :: "bool \<Rightarrow> admin_snapshot \<Rightarrow> admin_snapshot" where
  "with_fd_pressure_demoted demoted s = s\<lparr> as_fd_pressure_demoted := demoted \<rparr>"

definition with_inode_pressure :: "admin_inode_pressure \<Rightarrow> admin_snapshot \<Rightarrow> admin_snapshot" where
  "with_inode_pressure p s = s\<lparr> as_inode_pressure := p \<rparr>"

section \<open>Rendering\<close>

text \<open>The effective configuration names the directory of the service definitions, and whether the
  environment set it.\<close>

record admin_render =
  ar_to_string :: "json \<Rightarrow> string"
  ar_service_definition_dir :: string
  ar_service_def_dir_env :: bool

definition sourced_value :: "json \<Rightarrow> string \<Rightarrow> json" where
  "sourced_value v source = JObj [(''value'', v), (''source'', JStr source)]"

definition service_definition_dir_source :: "admin_render \<Rightarrow> string" where
  "service_definition_dir_source ar =
    (if ar_service_def_dir_env ar then ''env:RUNNING_PROCESS_SERVICE_DEF_DIR'' else ''platform-default'')"

definition effective_config_json :: "admin_render \<Rightarrow> admin_snapshot \<Rightarrow> json" where
  "effective_config_json ar s = JObj
    [(''broker'', JObj
       [(''broker_instance'', sourced_value (JStr (as_broker_instance s)) ''runtime''),
        (''broker_pid'', sourced_value (json_u32 (as_broker_pid s)) ''runtime''),
        (''accepting_hello'', sourced_value (JBool (as_accepting_hello s)) ''runtime'')]),
     (''protocol'', JObj
       [(''admin_payload_protocol'', sourced_value (JStr ''0xAD01'') ''protocol-v1''),
        (''envelope_version'', sourced_value (json_u32 PROTOCOL_VERSION) ''protocol-v1''),
        (''framing_version'', sourced_value (JNum (unat ENVELOPE_VERSION)) ''protocol-v1'')]),
     (''limits'', JObj
       [(''max_frame_bytes'', sourced_value (JNum MAX_FRAME_BYTES) ''protocol-v1''),
        (''max_hello_bytes'', sourced_value (JNum MAX_HELLO_BYTES) ''protocol-v1''),
        (''connections_open'', sourced_value (json_u64 (as_connections_open s)) ''runtime'')]),
     (''paths'', JObj
       [(''service_definition_dir'', sourced_value (JStr (ar_service_definition_dir ar))
           (service_definition_dir_source ar))]),
     (''spawn_budget'', JObj
       [(''default_attempts_per_window'', sourced_value (JNum DEFAULT_SPAWN_ATTEMPTS_PER_WINDOW) ''default''),
        (''default_window_ms'', sourced_value (json_u64 (duration_ms DEFAULT_SPAWN_BUDGET_WINDOW)) ''default''),
        (''active_budget_rows'', sourced_value (JNum (length (as_spawn_budgets s))) ''runtime'')]),
     (''diagnostics'', JObj
       [(''bundle_format'', sourced_value (JStr DIAGNOSTIC_BUNDLE_FORMAT) ''schema-v1''),
        (''bundle_mode'', sourced_value (JStr DIAGNOSTIC_BUNDLE_MODE) ''schema-v1''),
        (''redactions'', sourced_value (JArr (map JStr DIAGNOSTIC_REDACTIONS)) ''schema-v1'')])]"

definition status_backend_json :: "admin_backend \<Rightarrow> json" where
  "status_backend_json b = JObj
    [(''service_name'', JStr (ab_service_name b)), (''service_version'', JStr (ab_service_version b)),
     (''pid'', json_u32 (ab_pid b)), (''backend_pipe'', JStr (ab_backend_pipe b)),
     (''last_active_unix_ms'', json_u64 (ab_last_active_unix_ms b)), (''state'', JStr (ab_state b))]"

definition status_json :: "admin_snapshot \<Rightarrow> json" where
  "status_json s = JObj
    [(''schema_version'', JNum ADMIN_SCHEMA_VERSION), (''command'', JStr ''status''),
     (''generated_at_unix_ms'', json_u64 (as_generated_at_unix_ms s)),
     (''broker_instance'', JStr (as_broker_instance s)), (''broker_pid'', json_u32 (as_broker_pid s)),
     (''uptime_seconds'', JQuotient (as_uptime s) 1000000000),
     (''accepting_hello'', JBool (as_accepting_hello s)),
     (''connections_open'', json_u64 (as_connections_open s)),
     (''fd_pressure'', JObj [(''demoted'', JBool (as_fd_pressure_demoted s))]),
     (''inode_pressure'', inode_pressure_to_json (as_inode_pressure s)),
     (''backends'', JArr (map status_backend_json (as_backends s)))]"

definition render_status_json :: "admin_render \<Rightarrow> admin_snapshot \<Rightarrow> string" where
  "render_status_json ar s = ar_to_string ar (status_json s)"

definition dump_backend_json :: "admin_backend \<Rightarrow> json" where
  "dump_backend_json b = JObj
    [(''service_name'', JStr (ab_service_name b)), (''service_version'', JStr (ab_service_version b)),
     (''pid'', json_u32 (ab_pid b)), (''backend_pipe'', JStr (ab_backend_pipe b)),
     (''state'', JStr (ab_state b))]"

definition dump_budget_json :: "admin_spawn_budget \<Rightarrow> json" where
  "dump_budget_json b = JObj
    [(''broker_instance'', JStr (asb_broker_instance b)), (''service_name'', JStr (asb_service_name b)),
     (''service_version'', JStr (asb_service_version b)), (''attempts_used'', JNum (asb_attempts_used b)),
     (''remaining'', JNum (asb_remaining b)), (''in_flight'', JBool (asb_in_flight b)),
     (''retry_after_ms'', json_opt (\<lambda>n. json_u64 n) (asb_retry_after_ms b))]"

definition render_dump_json :: "admin_render \<Rightarrow> admin_snapshot \<Rightarrow> string" where
  "render_dump_json ar s = ar_to_string ar (JObj
    [(''schema_version'', JNum ADMIN_SCHEMA_VERSION), (''command'', JStr ''dump''),
     (''generated_at_unix_ms'', json_u64 (as_generated_at_unix_ms s)),
     (''broker_instance'', JStr (as_broker_instance s)),
     (''effective_config'', effective_config_json ar s),
     (''backend_table'', JArr (map dump_backend_json (as_backends s))),
     (''spawn_budgets'', JArr (map dump_budget_json (as_spawn_budgets s))),
     (''recent_lifecycle_events'', JArr [])])"

definition render_list_instances_json :: "admin_render \<Rightarrow> admin_snapshot \<Rightarrow> string" where
  "render_list_instances_json ar s = ar_to_string ar (JObj
    [(''schema_version'', JNum ADMIN_SCHEMA_VERSION), (''command'', JStr ''list-instances''),
     (''generated_at_unix_ms'', json_u64 (as_generated_at_unix_ms s)),
     (''instances'', JArr [JObj
        [(''broker_instance'', JStr (as_broker_instance s)), (''pipe'', JStr []),
         (''pid'', json_u32 (as_broker_pid s)),
         (''state'', JStr (if as_accepting_hello s then ''running'' else ''not-serving''))]])])"

definition backend_health_row :: "admin_backend \<Rightarrow> json" where
  "backend_health_row b = JObj
    [(''service_version'', JStr (ab_service_version b)), (''pid'', json_u32 (ab_pid b)),
     (''state'', JStr (ab_state b)), (''last_hello_unix_ms'', json_u64 (ab_last_hello_unix_ms b)),
     (''last_error'', json_opt JStr (ab_last_error b))]"

definition backend_health_json :: "admin_snapshot \<Rightarrow> string \<Rightarrow> json" where
  "backend_health_json s service_name = JObj
    [(''schema_version'', JNum ADMIN_SCHEMA_VERSION), (''command'', JStr ''backend-health''),
     (''generated_at_unix_ms'', json_u64 (as_generated_at_unix_ms s)), (''service_name'', JStr service_name),
     (''backends'', JArr (map backend_health_row
        (filter (\<lambda>b. ab_service_name b = service_name) (as_backends s))))]"

definition render_backend_health_json :: "admin_render \<Rightarrow> admin_snapshot \<Rightarrow> string \<Rightarrow> string" where
  "render_backend_health_json ar s service_name = ar_to_string ar (backend_health_json s service_name)"

definition render_config_json :: "admin_render \<Rightarrow> admin_snapshot \<Rightarrow> string" where
  "render_config_json ar s = ar_to_string ar (JObj
    [(''schema_version'', JNum ADMIN_SCHEMA_VERSION), (''command'', JStr ''config''),
     (''generated_at_unix_ms'', json_u64 (as_generated_at_unix_ms s)),
     (''values'', effective_config_json ar s)])"

definition diagnostic_bundle_entry ::
  "string \<Rightarrow> string \<Rightarrow> string \<Rightarrow> bool \<Rightarrow> bool \<Rightarrow> nat option \<Rightarrow> json" where
  "diagnostic_bundle_entry path kind source required redacted record_count =
    (let entry = JObj [(''path'', JStr path), (''kind'', JStr kind), (''source'', JStr source),
           (''required'', JBool required), (''redacted'', JBool redacted)]
     in case record_count of None \<Rightarrow> entry | Some n \<Rightarrow> json_set entry ''record_count'' (JNum n))"

definition diagnostic_bundle_entries_json :: "admin_snapshot \<Rightarrow> json list" where
  "diagnostic_bundle_entries_json s =
    [diagnostic_bundle_entry ''admin/status.json'' ''json'' ''status'' True False None,
     diagnostic_bundle_entry ''admin/dump.json'' ''json'' ''dump'' True True None,
     diagnostic_bundle_entry ''config/effective.json'' ''json'' ''effective-config'' True False None,
     diagnostic_bundle_entry ''metrics/openmetrics.txt'' ''openmetrics'' ''metrics'' True False None,
     diagnostic_bundle_entry ''events/lifecycle.jsonl'' ''jsonl'' ''lifecycle-events'' False True None,
     diagnostic_bundle_entry ''manifest/backend-manifests.json'' ''json'' ''backend-manifest-index'' False True None,
     diagnostic_bundle_entry ''process/backends.json'' ''json'' ''backend-table'' True True
       (Some (length (as_backends s))),
     diagnostic_bundle_entry ''system/summary.json'' ''json'' ''host-summary'' False True None]"

definition diagnostic_bundle_file_paths :: "admin_snapshot \<Rightarrow> string list" where
  "diagnostic_bundle_file_paths s =
    List.map_filter (\<lambda>entry. Option.bind (json_get entry ''path'') json_as_str) (diagnostic_bundle_entries_json s)"

definition diagnostic_redaction_policy_json :: "json list" where
  "diagnostic_redaction_policy_json =
    [JObj [(''name'', JStr ''home''), (''replacement'', JStr ''~'')],
     JObj [(''name'', JStr ''secret-env''), (''matches'', JArr (map JStr [''KEY'', ''TOKEN'', ''SECRET'', ''PASS'']))],
     JObj [(''name'', JStr ''acl-identities''), (''replacement'', JStr ''stable-hash'')]]"

definition render_diagnose_json :: "admin_render \<Rightarrow> admin_snapshot \<Rightarrow> string \<Rightarrow> string" where
  "render_diagnose_json ar s output = ar_to_string ar (JObj
    [(''schema_version'', JNum ADMIN_SCHEMA_VERSION), (''command'', JStr ''diagnose''),
     (''generated_at_unix_ms'', json_u64 (as_generated_at_unix_ms s)), (''output'', JStr output),
     (''bundle'', JObj
        [(''format'', JStr DIAGNOSTIC_BUNDLE_FORMAT), (''mode'', JStr DIAGNOSTIC_BUNDLE_MODE),
         (''created'', JBool False), (''entries'', JArr (diagnostic_bundle_entries_json s))]),
     (''files'', JArr (map JStr (diagnostic_bundle_file_paths s))),
     (''redactions'', JArr (map JStr DIAGNOSTIC_REDACTIONS)),
     (''redaction_policy'', JArr diagnostic_redaction_policy_json)])"

section \<open>Metrics\<close>

datatype metric_kind = Counter | Gauge | Histogram

record metric_descriptor =
  md_name :: string
  md_kind :: metric_kind
  md_labels :: "string list"

definition METRIC_PREFIX :: string where
  "METRIC_PREFIX = ''running_process_broker_v1_''"

definition BROKER_METRICS :: "metric_descriptor list" where
  "BROKER_METRICS =
    [\<lparr> md_name = ''running_process_broker_v1_hello_total'', md_kind = Counter,
       md_labels = [''service'', ''version'', ''outcome''] \<rparr>,
     \<lparr> md_name = ''running_process_broker_v1_hello_duration_seconds'', md_kind = Histogram,
       md_labels = [''service''] \<rparr>,
     \<lparr> md_name = ''running_process_broker_v1_active_backends'', md_kind = Gauge, md_labels = [''service''] \<rparr>,
     \<lparr> md_name = ''running_process_broker_v1_spawn_attempts_total'', md_kind = Counter,
       md_labels = [''service'', ''version'', ''outcome''] \<rparr>,
     \<lparr> md_name = ''running_process_broker_v1_spawn_budget_remaining'', md_kind = Gauge,
       md_labels = [''service'', ''version''] \<rparr>,
     \<lparr> md_name = ''running_process_broker_v1_connections_open'', md_kind = Gauge, md_labels = [] \<rparr>,
     \<lparr> md_name = ''running_process_broker_v1_fd_usage_ratio'', md_kind = Gauge, md_labels = [] \<rparr>,
     \<lparr> md_name = ''running_process_broker_v1_uptime_seconds'', md_kind = Gauge, md_labels = [] \<rparr>]"

fun metric_kind_name :: "metric_kind \<Rightarrow> string" where
  "metric_kind_name Counter = ''counter''"
| "metric_kind_name Gauge = ''gauge''"
| "metric_kind_name Histogram = ''histogram''"

definition metric_value :: "string \<Rightarrow> admin_snapshot \<Rightarrow> string" where
  "metric_value name s =
    (if name = ''running_process_broker_v1_connections_open'' then show_nat (unat (as_connections_open s))
     else if name = ''running_process_broker_v1_fd_usage_ratio'' then ''0''
     else if name = ''running_process_broker_v1_uptime_seconds'' then show_nat (as_uptime s div 1000000000)
     else ''0'')"

definition newline :: string where
  "newline = [char_of (10 :: nat)]"

definition metric_lines :: "admin_snapshot \<Rightarrow> metric_descriptor \<Rightarrow> string list" where
  "metric_lines s m =
    (''# TYPE '' @ md_name m @ '' '' @ metric_kind_name (md_kind m)) #
    (if md_labels m = [] then [md_name m @ '' '' @ metric_value (md_name m) s] else [])"

definition render_metrics_text :: "admin_snapshot \<Rightarrow> string" where
  "render_metrics_text s =
    concat (map (\<lambda>m. concat (map (\<lambda>l. l @ newline) (metric_lines s m))) BROKER_METRICS) @ ''# EOF'' @ newline"

section \<open>Requests and replies\<close>

datatype admin_verb = VerbUnspecified | VerbStatus | VerbDump | VerbListInstances | VerbHealthz
  | VerbReadyz | VerbBackendHealth | VerbConfig | VerbDiagnose | VerbMetrics

definition admin_verb_try_from :: "int \<Rightarrow> admin_verb option" where
  "admin_verb_try_from n =
    (if n = 0 then Some VerbUnspecified else if n = 1 then Some VerbStatus else if n = 2 then Some VerbDump
     else if n = 3 then Some VerbListInstances else if n = 4 then Some VerbHealthz
     else if n = 5 then Some VerbReadyz else if n = 6 then Some VerbBackendHealth
     else if n = 7 then Some VerbConfig else if n = 8 then Some VerbDiagnose
     else if n = 9 then Some VerbMetrics else None)"

datatype admin_reply_kind = ReplyText | ReplyJson | ReplyOpenmetrics

fun admin_reply_kind_i32 :: "admin_reply_kind \<Rightarrow> int" where
  "admin_reply_kind_i32 ReplyText = 0"
| "admin_reply_kind_i32 ReplyJson = 1"
| "admin_reply_kind_i32 ReplyOpenmetrics = 2"

record admin_request =
  aq_verb :: int
  aq_json :: bool
  aq_service_name :: string
  aq_output_path :: string

record admin_reply =
  ay_kind :: int
  ay_body :: string
  ay_exit_code :: u32
  ay_content_type :: string

definition json_reply :: "string \<Rightarrow> admin_reply" where
  "json_reply body = \<lparr> ay_kind = admin_reply_kind_i32 ReplyJson, ay_body = body, ay_exit_code = 0,
     ay_content_type = ''application/json'' \<rparr>"

definition text_reply :: "string \<Rightarrow> u32 \<Rightarrow> admin_reply" where
  "text_reply body exit_code = \<lparr> ay_kind = admin_reply_kind_i32 ReplyText, ay_body = body,
     ay_exit_code = exit_code, ay_content_type = ''text/plain'' \<rparr>"

definition render_healthz :: string where
  "render_healthz = ''ok'' @ newline"

definition render_readyz :: "admin_snapshot \<Rightarrow> string" where
  "render_readyz s = (if as_accepting_hello s then ''ready'' @ newline else ''not ready'' @ newline)"

definition show_bool :: "bool \<Rightarrow> string" where
  "show_bool b = (if b then ''true'' else ''false'')"

definition render_admin_reply :: "admin_render \<Rightarrow> admin_snapshot \<Rightarrow> admin_request \<Rightarrow> admin_reply" where
  "render_admin_reply ar s request =
    (case admin_verb_try_from (aq_verb request) of
       Some VerbStatus \<Rightarrow>
         if aq_json request then json_reply (render_status_json ar s)
         else text_reply (''broker_instance: '' @ as_broker_instance s @ newline @
                ''accepting_hello: '' @ show_bool (as_accepting_hello s) @ newline) 0
     | Some VerbDump \<Rightarrow> json_reply (render_dump_json ar s)
     | Some VerbListInstances \<Rightarrow> json_reply (render_list_instances_json ar s)
     | Some VerbHealthz \<Rightarrow> text_reply render_healthz 0
     | Some VerbReadyz \<Rightarrow> text_reply (render_readyz s) (if as_accepting_hello s then 0 else 1)
     | Some VerbBackendHealth \<Rightarrow>
         json_reply (render_backend_health_json ar s
           (if aq_service_name request = [] then ''unknown'' else aq_service_name request))
     | Some VerbConfig \<Rightarrow> json_reply (render_config_json ar s)
     | Some VerbDiagnose \<Rightarrow>
         json_reply (render_diagnose_json ar s
           (if aq_output_path request = [] then ''bundle.tar.gz'' else aq_output_path request))
     | Some VerbMetrics \<Rightarrow>
         \<lparr> ay_kind = admin_reply_kind_i32 ReplyOpenmetrics, ay_body = render_metrics_text s, ay_exit_code = 0,
           ay_content_type = ''application/openmetrics-text'' \<rparr>
     | Some VerbUnspecified \<Rightarrow> text_reply (''unsupported admin verb'' @ newline) 2
     | None \<Rightarrow> text_reply (''unsupported admin verb'' @ newline) 2)"

section \<open>Frames and connections\<close>

datatype 'd admin_frame_error =
    AdminUnsupportedEnvelopeVersion u32
  | AdminUnexpectedKind int
  | AdminUnexpectedPayloadProtocol u32
  | AdminUnsupportedPayloadEncoding int
  | AdminDecode 'd

datatype 'd admin_connection_error =
    AdminFraming "'d framing_error"
  | AdminDecodeFrame 'd
  | AdminFrame "'d admin_frame_error"
  | AdminDecodeReply 'd
  | AdminIo io_error

record 'd admin_codec =
  ac_decode_frame :: "bytes \<Rightarrow> ('d, frame) result"
  ac_encode_frame :: "frame \<Rightarrow> bytes"
  ac_decode_request :: "bytes \<Rightarrow> ('d, admin_request) result"
  ac_encode_reply :: "admin_reply \<Rightarrow> bytes"
  ac_decode_reply :: "bytes \<Rightarrow> ('d, admin_reply) result"
  ac_render :: admin_render

definition handle_admin_frame ::
  "'d admin_codec \<Rightarrow> frame \<Rightarrow> admin_snapshot \<Rightarrow> ('d admin_frame_error, frame) result" where
  "handle_admin_frame cd f snap =
    (if fr_envelope_version f \<noteq> PROTOCOL_VERSION
     then Err (AdminUnsupportedEnvelopeVersion (fr_envelope_version f))
     else if frame_kind_try_from (fr_kind f) \<noteq> Some FrameKindRequest
     then Err (AdminUnexpectedKind (fr_kind f))
     else if fr_payload_protocol f \<noteq> ADMIN_PAYLOAD_PROTOCOL
     then Err (AdminUnexpectedPayloadProtocol (fr_payload_protocol f))
     else if payload_encoding_try_from (fr_payload_encoding f) \<noteq> Some EncodingNone
     then Err (AdminUnsupportedPayloadEncoding (fr_payload_encoding f))
     else
       (case ac_decode_request cd (fr_payload f) of
          Err e \<Rightarrow> Err (AdminDecode e)
        | Ok request \<Rightarrow>
          Ok \<lparr> fr_envelope_version = PROTOCOL_VERSION, fr_kind = frame_kind_i32 FrameKindResponse,
               fr_payload_protocol = ADMIN_PAYLOAD_PROTOCOL,
               fr_payload = ac_encode_reply cd (render_admin_reply (ac_render cd) snap request),
               fr_request_id = fr_request_id f, fr_payload_encoding = payload_encoding_i32 EncodingNone,
               fr_deadline_unix_ms = 0, fr_traceparent = fr_traceparent f, fr_tracestate = fr_tracestate f \<rparr>))"

definition handle_admin_connection ::
  "'s stream_ops \<Rightarrow> 'd admin_codec \<Rightarrow> admin_snapshot \<Rightarrow> 's \<Rightarrow>
   (('d admin_connection_error, admin_reply) result \<times> 's) option" where
  "handle_admin_connection ops cd snap s =
    (case stream_read_frame ops s of
       None \<Rightarrow> None
     | Some (Err e, s1) \<Rightarrow> Some (Err (AdminFraming e), s1)
     | Some (Ok request_bytes, s1) \<Rightarrow>
       (case ac_decode_frame cd request_bytes of
          Err e \<Rightarrow> Some (Err (AdminDecodeFrame e), s1)
        | Ok request_frame \<Rightarrow>
          (case handle_admin_frame cd request_frame snap of
             Err e \<Rightarrow> Some (Err (AdminFrame e), s1)
           | Ok response_frame \<Rightarrow>
             (case stream_write_frame ops (ac_encode_frame cd response_frame) s1 of
                None \<Rightarrow> None
              | Some (Err e, s2) \<Rightarrow> Some (Err (AdminFraming e), s2)
              | Some (Ok _, s2) \<Rightarrow>
                Some (map_err AdminDecodeReply (ac_decode_reply cd (fr_payload response_frame)), s2)))))"

section \<open>Lemmas\<close>

lemma backend_health_rows:
  "json_get (backend_health_json (from_registry host inst uptime accepting open_connections r budgets) service) ''backends'' =
    Some (JArr (map (\<lambda>h. backend_health_row (admin_backend_row (ah_is_alive host) h))
      (filter (\<lambda>h. bh_service_name h = service) (map snd r))))"
proof -
  have "filter (\<lambda>b. ab_service_name b = service) (map (\<lambda>(key, h). admin_backend_row (ah_is_alive host) h) r) =
      map (\<lambda>h. admin_backend_row (ah_is_alive host) h) (filter (\<lambda>h. bh_service_name h = service) (map snd r))"
    by (induction r) (auto simp: admin_backend_row_def)
  then show ?thesis
    by (simp add: backend_health_json_def from_registry_def from_registry_at_def comp_def)
qed

lemma backend_health_state:
  "json_get (backend_health_row (admin_backend_row alive h)) ''state'' =
    Some (JStr (if alive h then ''running'' else ''stale''))"
  by (simp add: backend_health_row_def admin_backend_row_def)

lemma diagnostic_bundle_entry_path:
  "json_get (diagnostic_bundle_entry path kind source required redacted n) ''path'' = Some (JStr path)"
  by (cases n) (simp_all add: diagnostic_bundle_entry_def Let_def)

text \<open>Every entry of the diagnostic bundle is listed as a file.\<close>

lemma diagnostic_bundle_file_paths_eq:
  "diagnostic_bundle_file_paths s =
    [''admin/status.json'', ''admin/dump.json'', ''config/effective.json'', ''metrics/openmetrics.txt'',
     ''events/lifecycle.jsonl'', ''manifest/backend-manifests.json'', ''process/backends.json'', ''system/summary.json'']"
  unfolding diagnostic_bundle_file_paths_def diagnostic_bundle_entries_json_def
  by (simp only: List.map_filter_simps diagnostic_bundle_entry_path Option.bind.bind_lunit option.case json_as_str.simps)

lemma broker_metrics_prefixed: "list_all (\<lambda>m. prefix METRIC_PREFIX (md_name m)) BROKER_METRICS"
  by (simp add: BROKER_METRICS_def METRIC_PREFIX_def)

lemma broker_metrics_distinct: "distinct (map md_name BROKER_METRICS)"
  by (simp add: BROKER_METRICS_def)

lemma admin_exit_code_zero:
  "ay_exit_code (render_admin_reply ar s q) = 0 \<longleftrightarrow>
    admin_verb_try_from (aq_verb q) \<notin> {None, Some VerbUnspecified} \<and>
    (admin_verb_try_from (aq_verb q) = Some VerbReadyz \<longrightarrow> as_accepting_hello s)"
  by (simp add: render_admin_reply_def json_reply_def text_reply_def split: option.splits admin_verb.splits)

lemma handle_admin_frame_Ok:
  "handle_admin_frame cd f s = Ok response \<longleftrightarrow>
    validate_frame_envelope f FrameKindRequest ADMIN_PAYLOAD_PROTOCOL = Ok () \<and>
    (\<exists>q. ac_decode_request cd (fr_payload f) = Ok q \<and>
       response = \<lparr> fr_envelope_version = PROTOCOL_VERSION, fr_kind = frame_kind_i32 FrameKindResponse,
         fr_payload_protocol = ADMIN_PAYLOAD_PROTOCOL,
         fr_payload = ac_encode_reply cd (render_admin_reply (ac_render cd) s q),
         fr_request_id = fr_request_id f, fr_payload_encoding = payload_encoding_i32 EncodingNone,
         fr_deadline_unix_ms = 0, fr_traceparent = fr_traceparent f, fr_tracestate = fr_tracestate f \<rparr>)"
  by (auto simp: handle_admin_frame_def validate_frame_envelope_def split: sum.splits)

end
