(* ===== verification/Control_Socket.thy ===== *)
theory Control_Socket
  imports Admin_Verbs
begin

text \<open>
  The control socket of the broker: the credential policy and the Hello connection
  (\<open>server/connection.rs\<close>), the demotion under descriptor pressure (\<open>server/fd_pressure.rs\<close>), and the
  connection and the accept loop that serve Hello and admin frames on one endpoint
  (\<open>server/control_socket.rs\<close>).

  The code is generic over the stream and the responder; so are the definitions. What the listener
  returns is a list of events, one per call of \<open>accept\<close>; a loop that has used up its events waits for the
  next connection. The codecs, the credentials of a peer and the outcomes of system calls are
  arguments. The loop keeps, for the statements below, the outcome of every connection it served.
\<close>

section \<open>Peers\<close>

datatype peer_credential_policy = AllowAny | OwnerOnly string

definition current_user :: "platform \<Rightarrow> nat \<Rightarrow> (io_error, string) result \<Rightarrow> peer_credential_policy option" where
  "current_user platform euid user_sid =
    (if platform = Windows then (case user_sid of Ok sid \<Rightarrow> Some (OwnerOnly sid) | Err _ \<Rightarrow> None)
     else Some (OwnerOnly (show_nat euid)))"

fun allows :: "peer_credential_policy \<Rightarrow> peer_identity \<Rightarrow> bool" where
  "allows AllowAny peer = True"
| "allows (OwnerOnly uid_or_sid) peer = (uid_or_sid \<noteq> [] \<and> peer_uid_or_sid peer = uid_or_sid)"

record peer_creds =
  pc_pid :: "int option"
  pc_euid :: "nat option"
  pc_process_user_sid :: "u32 \<Rightarrow> (io_error, string) result"

definition peer_identity_from_creds :: "platform \<Rightarrow> peer_creds \<Rightarrow> peer_identity" where
  "peer_identity_from_creds platform creds =
    (let pid = (case pc_pid creds of
           Some n \<Rightarrow> if 0 \<le> n \<and> n < 2 ^ 32 then word_of_int n else 0
         | None \<Rightarrow> 0) in
     \<lparr> peer_pid = pid,
       peer_uid_or_sid =
         (if platform = Windows
          then if pid = 0 then [] else (case pc_process_user_sid creds pid of Ok sid \<Rightarrow> sid | Err _ \<Rightarrow> [])
          else (case pc_euid creds of Some uid \<Rightarrow> show_nat uid | None \<Rightarrow> [])) \<rparr>)"

text \<open>The string form of a Windows SID.\<close>

definition sid_to_stable_string :: "bool \<Rightarrow> bytes \<Rightarrow> (io_error, string) result" where
  "sid_to_stable_string valid sid =
    (if \<not> valid \<or> length sid = 0 \<or> length sid > 1024
     then Err \<lparr> ioe_kind = OtherKind, ioe_raw_os_error = None \<rparr>
     else Ok (''windows-sid:'' @ hex_string sid))"

section \<open>Binding\<close>

type_synonym encode_error = "nat \<times> nat"

datatype 'd broker_connection_error =
    ConnFraming "'d framing_error"
  | ConnEncodeFrame encode_error
  | ConnIo io_error
  | WorkerPanic

record socket_host =
  sh_platform :: platform
  sh_has_parent :: bool
  sh_create_dir_all :: "(io_error, unit) result"
  sh_symlink_metadata :: "(io_error, unit) result"
  sh_to_name :: "(io_error, unit) result"
  sh_create_listener :: "(io_error, unit) result"
  sh_set_permissions :: "(io_error, unit) result"

definition prepare_local_socket_path :: "socket_host \<Rightarrow> (io_error, unit) result" where
  "prepare_local_socket_path sh =
    (if sh_platform sh = Windows then Ok ()
     else result_bind (if sh_has_parent sh then sh_create_dir_all sh else Ok ()) (\<lambda>_.
       case sh_symlink_metadata sh of
         Ok _ \<Rightarrow> Err \<lparr> ioe_kind = AlreadyExists, ioe_raw_os_error = None \<rparr>
       | Err e \<Rightarrow> if ioe_kind e = NotFound then Ok () else Err e))"

definition secure_local_socket_path :: "socket_host \<Rightarrow> (io_error, unit) result" where
  "secure_local_socket_path sh = (if sh_platform sh = Windows then Ok () else sh_set_permissions sh)"

definition bind_local_socket :: "socket_host \<Rightarrow> ('d broker_connection_error, unit) result" where
  "bind_local_socket sh =
    map_err ConnIo
      (result_bind (prepare_local_socket_path sh) (\<lambda>_.
       result_bind (sh_to_name sh) (\<lambda>_.
       result_bind (sh_create_listener sh) (\<lambda>_. secure_local_socket_path sh))))"

section \<open>Replies\<close>

record 'd control_codec =
  cc_decode_frame :: "bytes \<Rightarrow> ('d, frame) result"
  cc_encode_frame :: "frame \<Rightarrow> (encode_error, bytes) result"
  cc_encode_hello_reply :: "hello_reply \<Rightarrow> bytes"
  cc_admin :: "'d admin_codec"

definition connection_refused_reply :: "error_code \<Rightarrow> string \<Rightarrow> u64 \<Rightarrow> hello_reply" where
  "connection_refused_reply code reason retry_after_ms =
    Some (Refused \<lparr> rf_reason = reason, rf_daemon_min_protocol = PROTOCOL_VERSION,
      rf_daemon_max_protocol = PROTOCOL_VERSION, rf_code = error_code_i32 code, rf_details = [],
      rf_retry_after_ms = retry_after_ms \<rparr>)"

fun reply_for_framing_error :: "'d framing_error \<Rightarrow> hello_reply" where
  "reply_for_framing_error (UnsupportedFramingVersion _ _) =
    connection_refused_reply ErrorVersionUnsupported ''unsupported framing version'' 0"
| "reply_for_framing_error (FrameTooLarge _ _) =
    connection_refused_reply ErrorPeerRejected ''initial Hello frame exceeds 64 KiB'' 0"
| "reply_for_framing_error (UnexpectedEof _) =
    connection_refused_reply ErrorPeerRejected ''incomplete Hello frame'' 0"
| "reply_for_framing_error (Io _) =
    connection_refused_reply ErrorPeerRejected ''incomplete Hello frame'' 0"
| "reply_for_framing_error (Decode _) =
    connection_refused_reply ErrorPeerRejected ''malformed Hello frame'' 0"

definition hello_response_frame :: "'d control_codec \<Rightarrow> frame option \<Rightarrow> hello_reply \<Rightarrow> frame" where
  "hello_response_frame cd request_frame reply =
    \<lparr> fr_envelope_version = PROTOCOL_VERSION, fr_kind = frame_kind_i32 FrameKindResponse,
      fr_payload_protocol = CONTROL_PAYLOAD_PROTOCOL, fr_payload = cc_encode_hello_reply cd reply,
      fr_request_id = (case request_frame of None \<Rightarrow> 0 | Some f \<Rightarrow> fr_request_id f),
      fr_payload_encoding = payload_encoding_i32 EncodingNone, fr_deadline_unix_ms = 0,
      fr_traceparent = (case request_frame of None \<Rightarrow> [] | Some f \<Rightarrow> fr_traceparent f),
      fr_tracestate = (case request_frame of None \<Rightarrow> [] | Some f \<Rightarrow> fr_tracestate f) \<rparr>"

definition write_response_frame ::
  "'s stream_ops \<Rightarrow> 'd control_codec \<Rightarrow> frame option \<Rightarrow> hello_reply \<Rightarrow> 's \<Rightarrow>
   (('d broker_connection_error, unit) result \<times> 's) option" where
  "write_response_frame ops cd request_frame reply s =
    (case cc_encode_frame cd (hello_response_frame cd request_frame reply) of
       Err e \<Rightarrow> Some (Err (ConnEncodeFrame e), s)
     | Ok response_bytes \<Rightarrow>
       (case stream_write_frame ops response_bytes s of
          None \<Rightarrow> None
        | Some (Err e, s1) \<Rightarrow> Some (Err (ConnFraming e), s1)
        | Some (Ok _, s1) \<Rightarrow> Some (Ok (), s1)))"

section \<open>The Hello connection\<close>

type_synonym 'h hello_responder = "frame \<Rightarrow> peer_identity \<Rightarrow> 'h \<Rightarrow> hello_reply \<times> 'h"

definition handle_hello_connection_with_peer_policy ::
  "'s stream_ops \<Rightarrow> 'd control_codec \<Rightarrow> 'h hello_responder \<Rightarrow> peer_identity \<Rightarrow> peer_credential_policy \<Rightarrow>
   's \<Rightarrow> 'h \<Rightarrow> (('d broker_connection_error, hello_reply option) result \<times> 's \<times> 'h) option" where
  "handle_hello_connection_with_peer_policy ops cd responder peer peer_policy s h =
    (let answer = (\<lambda>request_frame reply s1 h1. case write_response_frame ops cd request_frame reply s1 of
           None \<Rightarrow> None
         | Some (Err e, s2) \<Rightarrow> Some (Err e, s2, h1)
         | Some (Ok _, s2) \<Rightarrow> Some (Ok (Some reply), s2, h1))
     in if \<not> allows peer_policy peer then Some (Ok None, s, h)
     else
       (case (stream_read_frame_with_cap ops MAX_HELLO_BYTES s :: (('d framing_error, bytes) result \<times> 's) option) of
          None \<Rightarrow> None
        | Some (Err e, s1) \<Rightarrow> answer None (reply_for_framing_error e) s1 h
        | Some (Ok request_bytes, s1) \<Rightarrow>
          (case cc_decode_frame cd request_bytes of
             Err _ \<Rightarrow> answer None (connection_refused_reply ErrorPeerRejected ''malformed broker Frame'' 0) s1 h
           | Ok request_frame \<Rightarrow>
             (case responder request_frame peer h of
                (reply, h1) \<Rightarrow> answer (Some request_frame) reply s1 h1))))"

section \<open>Descriptor pressure\<close>

definition DEFAULT_FD_PRESSURE_RECOVERY_ACCEPTS :: u32 where
  "DEFAULT_FD_PRESSURE_RECOVERY_ACCEPTS = 3"

definition DEFAULT_FD_PRESSURE_RETRY_AFTER_MS :: u64 where
  "DEFAULT_FD_PRESSURE_RETRY_AFTER_MS = 1000"

datatype fd_pressure_decision = Demoted | Unrelated

record fd_pressure_config =
  fpc_recovery_accepts :: u32
  fpc_retry_after_ms :: u64

definition fd_pressure_config_default :: fd_pressure_config where
  "fd_pressure_config_default =
    \<lparr> fpc_recovery_accepts = DEFAULT_FD_PRESSURE_RECOVERY_ACCEPTS,
      fpc_retry_after_ms = DEFAULT_FD_PRESSURE_RETRY_AFTER_MS \<rparr>"

record fd_pressure_guard =
  fpg_config :: fd_pressure_config
  fpg_demoted :: bool
  fpg_consecutive_ok :: u32
  fpg_demotions_total :: u64
  fpg_refused_while_demoted :: u64

definition fd_pressure_guard_new :: "fd_pressure_config \<Rightarrow> fd_pressure_guard" where
  "fd_pressure_guard_new config =
    \<lparr> fpg_config = config, fpg_demoted = False, fpg_consecutive_ok = 0, fpg_demotions_total = 0,
      fpg_refused_while_demoted = 0 \<rparr>"

definition is_fd_exhaustion_error :: "platform \<Rightarrow> io_error \<Rightarrow> bool" where
  "is_fd_exhaustion_error platform e =
    (case ioe_raw_os_error e of
       None \<Rightarrow> False
     | Some code \<Rightarrow>
         if platform = Windows then code = 10024 \<or> code = 4 \<or> code = 1450
         else code = 24 \<or> code = 23)"

definition force_demote :: "fd_pressure_guard \<Rightarrow> fd_pressure_guard" where
  "force_demote g =
    (let g1 = (if \<not> fpg_demoted g
               then g\<lparr> fpg_demoted := True, fpg_demotions_total := fpg_demotions_total g + 1 \<rparr> else g)
     in g1\<lparr> fpg_consecutive_ok := 0 \<rparr>)"

definition on_accept_error ::
  "platform \<Rightarrow> io_error \<Rightarrow> fd_pressure_guard \<Rightarrow> fd_pressure_decision \<times> fd_pressure_guard" where
  "on_accept_error platform e g =
    (if \<not> is_fd_exhaustion_error platform e then (Unrelated, g)
     else
       let g1 = (if \<not> fpg_demoted g
                 then g\<lparr> fpg_demoted := True, fpg_demotions_total := fpg_demotions_total g + 1 \<rparr> else g)
       in (Demoted, g1\<lparr> fpg_consecutive_ok := 0 \<rparr>))"

definition on_accept_ok :: "fd_pressure_guard \<Rightarrow> bool \<times> fd_pressure_guard" where
  "on_accept_ok g =
    (if \<not> fpg_demoted g then (False, g)
     else
       let g1 = g\<lparr> fpg_consecutive_ok := fpg_consecutive_ok g + 1 \<rparr> in
       if fpg_consecutive_ok g1 \<ge> fpc_recovery_accepts (fpg_config g)
       then (True, g1\<lparr> fpg_demoted := False, fpg_consecutive_ok := 0 \<rparr>)
       else (False, g1))"

definition refusal_reply :: "fd_pressure_guard \<Rightarrow> hello_reply \<times> fd_pressure_guard" where
  "refusal_reply g =
    (connection_refused_reply ErrorFdPressure ''broker is low on file descriptors; retry shortly''
       (fpc_retry_after_ms (fpg_config g)),
     g\<lparr> fpg_refused_while_demoted := fpg_refused_while_demoted g + 1 \<rparr>)"

section \<open>The control connection\<close>

datatype control_socket_reply =
    DroppedPeer
  | HelloReply hello_reply
  | AdminReplied admin_reply

datatype 'd control_socket_error =
    CtlConnection "'d broker_connection_error"
  | CtlFraming "'d framing_error"
  | CtlAdminFrame "'d admin_frame_error"
  | CtlEncodeFrame encode_error
  | CtlDecodeAdminReply 'd

definition write_admin_response_frame ::
  "'s stream_ops \<Rightarrow> 'd control_codec \<Rightarrow> frame \<Rightarrow> 's \<Rightarrow>
   (('d control_socket_error, admin_reply) result \<times> 's) option" where
  "write_admin_response_frame ops cd response_frame s =
    (case cc_encode_frame cd response_frame of
       Err e \<Rightarrow> Some (Err (CtlEncodeFrame e), s)
     | Ok response_bytes \<Rightarrow>
       (case stream_write_frame ops response_bytes s of
          None \<Rightarrow> None
        | Some (Err e, s1) \<Rightarrow> Some (Err (CtlFraming e), s1)
        | Some (Ok _, s1) \<Rightarrow>
          Some (map_err CtlDecodeAdminReply (ac_decode_reply (cc_admin cd) (fr_payload response_frame)), s1)))"

text \<open>The end of every Hello branch: the reply is written, and is the result.\<close>

definition answer_hello ::
  "'s stream_ops \<Rightarrow> 'd control_codec \<Rightarrow> frame option \<Rightarrow> hello_reply \<Rightarrow> 's \<Rightarrow> 'h \<Rightarrow> fd_pressure_guard option \<Rightarrow>
   (('d control_socket_error, control_socket_reply) result \<times> 's \<times> 'h \<times> fd_pressure_guard option) option" where
  "answer_hello ops cd request_frame reply s h guard =
    (case write_response_frame ops cd request_frame reply s of
       None \<Rightarrow> None
     | Some (Err e, s1) \<Rightarrow> Some (Err (CtlConnection e), s1, h, guard)
     | Some (Ok _, s1) \<Rightarrow> Some (Ok (HelloReply reply), s1, h, guard))"

text \<open>\<open>snapshot_provider\<close> sees the guard and the state of the responder, which it shares.\<close>

definition handle_control_connection ::
  "'s stream_ops \<Rightarrow> 'd control_codec \<Rightarrow> 'h hello_responder \<Rightarrow>
   (fd_pressure_guard option \<Rightarrow> 'h \<Rightarrow> admin_snapshot) \<Rightarrow> peer_identity \<Rightarrow> peer_credential_policy \<Rightarrow>
   fd_pressure_guard option \<Rightarrow> 's \<Rightarrow> 'h \<Rightarrow>
   (('d control_socket_error, control_socket_reply) result \<times> 's \<times> 'h \<times> fd_pressure_guard option) option" where
  "handle_control_connection ops cd responder snapshot_provider peer peer_policy fd_guard s h =
    (if \<not> allows peer_policy peer then Some (Ok DroppedPeer, s, h, fd_guard)
     else
       (case (stream_read_frame ops s :: (('d framing_error, bytes) result \<times> 's) option) of
          None \<Rightarrow> None
        | Some (Err e, s1) \<Rightarrow> answer_hello ops cd None (reply_for_framing_error e) s1 h fd_guard
        | Some (Ok request_bytes, s1) \<Rightarrow>
          (case cc_decode_frame cd request_bytes of
             Err _ \<Rightarrow>
               answer_hello ops cd None (connection_refused_reply ErrorPeerRejected ''malformed broker Frame'' 0) s1 h fd_guard
           | Ok request_frame \<Rightarrow>
             if fr_payload_protocol request_frame = ADMIN_PAYLOAD_PROTOCOL
             then
               (case handle_admin_frame (cc_admin cd) request_frame (snapshot_provider fd_guard h) of
                  Err e \<Rightarrow> Some (Err (CtlAdminFrame e), s1, h, fd_guard)
                | Ok response_frame \<Rightarrow>
                  (case write_admin_response_frame ops cd response_frame s1 of
                     None \<Rightarrow> None
                   | Some (Err e, s2) \<Rightarrow> Some (Err e, s2, h, fd_guard)
                   | Some (Ok reply, s2) \<Rightarrow> Some (Ok (AdminReplied reply), s2, h, fd_guard)))
             else if length request_bytes > MAX_HELLO_BYTES
             then answer_hello ops cd (Some request_frame)
               (connection_refused_reply ErrorPeerRejected ''initial Hello frame exceeds 64 KiB'' 0) s1 h fd_guard
             else
               (case fd_guard of
                  Some guard \<Rightarrow>
                    if fpg_demoted guard
                    then (case refusal_reply guard of
                            (reply, guard') \<Rightarrow> answer_hello ops cd (Some request_frame) reply s1 h (Some guard'))
                    else (case responder request_frame peer h of
                            (reply, h1) \<Rightarrow> answer_hello ops cd (Some request_frame) reply s1 h1 fd_guard)
                | None \<Rightarrow>
                    (case responder request_frame peer h of
                       (reply, h1) \<Rightarrow> answer_hello ops cd (Some request_frame) reply s1 h1 fd_guard)))))"

section \<open>The accept loop\<close>

datatype control_socket_connection_limit = Bounded nat | Unbounded

fun should_continue :: "control_socket_connection_limit \<Rightarrow> nat \<Rightarrow> bool" where
  "should_continue (Bounded limit) accepted = (accepted < limit)"
| "should_continue Unbounded accepted = True"

text \<open>A connection: its stream, the credentials of its peer, the instants its clock will show, the instant
  at which its deadline is computed, and what the responder, the snapshot and the hook see of the
  world (\<open>'x\<close>).\<close>

record 'x accepted_connection =
  an_stream :: nb_stream
  an_creds :: "(io_error, peer_creds) result"
  an_clock :: "nat \<Rightarrow> instant"
  an_now :: instant
  an_world :: 'x

datatype 'x accept_event = AcceptFailed io_error | Accepted "'x accepted_connection"

record ('x, 'h, 'd) control_service =
  sv_platform :: platform
  sv_codec :: "'d control_codec"
  sv_policy :: peer_credential_policy
  sv_responder :: "'x \<Rightarrow> 'h hello_responder"
  sv_snapshot :: "'x \<Rightarrow> fd_pressure_guard option \<Rightarrow> 'h \<Rightarrow> admin_snapshot"
  sv_post_hello :: "'x \<Rightarrow> hello_reply \<Rightarrow> nb_stream \<Rightarrow> 'h \<Rightarrow> nb_stream \<times> 'h"
  sv_timeout_env :: "string option"

text \<open>The state of the loop, with the connections served so far and their replies.\<close>

record 'h control_state =
  cs_guard :: fd_pressure_guard
  cs_handler :: 'h
  cs_accepted :: nat
  cs_served :: "(peer_identity \<times> control_socket_reply \<times> nb_stream) list"

text \<open>Whether the loop waits in \<open>accept\<close>, has returned, is blocked for ever in a connection, or has
  panicked.\<close>

datatype 'd loop_status = Serving | Returned "('d control_socket_error, unit) result" | Blocked | Panicked

definition serve_accepted ::
  "('x, 'h, 'd) control_service \<Rightarrow> 'x accepted_connection \<Rightarrow> 'h control_state \<Rightarrow>
   'd loop_status \<times> 'h control_state" where
  "serve_accepted sv c st0 =
    (let st = st0\<lparr> cs_guard := snd (on_accept_ok (cs_guard st0)), cs_accepted := cs_accepted st0 + 1 \<rparr>
     in case an_creds c of
          Err e \<Rightarrow> (Returned (Err (CtlConnection (ConnIo e))), st)
        | Ok creds \<Rightarrow>
          (case hello_read_deadline (sv_timeout_env sv) (an_now c) of
             None \<Rightarrow> (Panicked, st)
           | Some deadline \<Rightarrow>
             let peer = peer_identity_from_creds (sv_platform sv) creds in
             (case handle_control_connection (deadline_ops (sv_platform sv) (an_clock c)) (sv_codec sv)
                     (sv_responder sv (an_world c)) (sv_snapshot sv (an_world c)) peer (sv_policy sv)
                     (Some (cs_guard st)) (deadline_stream_new (an_stream c) deadline 0) (cs_handler st) of
                None \<Rightarrow> (Blocked, st)
              | Some (reply_result, d, h, guard) \<Rightarrow>
                let st1 = st\<lparr> cs_guard := (case guard of Some g \<Rightarrow> g | None \<Rightarrow> cs_guard st), cs_handler := h \<rparr>
                in case reply_result of
                     Err e \<Rightarrow> (Returned (Err e), st1)
                   | Ok reply \<Rightarrow>
                     (case (case reply of
                              HelloReply hello_reply \<Rightarrow>
                                sv_post_hello sv (an_world c) hello_reply (ds_inner d) h
                            | _ \<Rightarrow> (ds_inner d, h)) of
                        (stream, h1) \<Rightarrow>
                          (Serving, st1\<lparr> cs_handler := h1,
                             cs_served := cs_served st1 @ [(peer, reply, stream)] \<rparr>)))))"

definition serve_accept_failed ::
  "('x, 'h, 'd) control_service \<Rightarrow> io_error \<Rightarrow> 'h control_state \<Rightarrow> 'd loop_status \<times> 'h control_state" where
  "serve_accept_failed sv e st =
    (case on_accept_error (sv_platform sv) e (cs_guard st) of
       (Demoted, guard) \<Rightarrow> (Serving, st\<lparr> cs_guard := guard, cs_accepted := cs_accepted st + 1 \<rparr>)
     | (Unrelated, guard) \<Rightarrow> (Returned (Err (CtlConnection (ConnIo e))), st\<lparr> cs_guard := guard \<rparr>))"

fun control_loop ::
  "('x, 'h, 'd) control_service \<Rightarrow> control_socket_connection_limit \<Rightarrow> 'x accept_event list \<Rightarrow>
   'h control_state \<Rightarrow> 'd loop_status \<times> 'h control_state" where
  "control_loop sv limit [] st =
    (if should_continue limit (cs_accepted st) then Serving else Returned (Ok ()), st)"
| "control_loop sv limit (event # events) st =
    (if \<not> should_continue limit (cs_accepted st) then (Returned (Ok ()), st)
     else
       (case (case event of Accepted c \<Rightarrow> serve_accepted sv c st | AcceptFailed e \<Rightarrow> serve_accept_failed sv e st) of
          (Serving, st') \<Rightarrow> control_loop sv limit events st'
        | (status, st') \<Rightarrow> (status, st')))"

definition serve_control_socket ::
  "socket_host \<Rightarrow> ('x, 'h, 'd) control_service \<Rightarrow> control_socket_connection_limit \<Rightarrow> fd_pressure_guard \<Rightarrow>
   'x accept_event list \<Rightarrow> 'h \<Rightarrow> 'd loop_status \<times> 'h control_state" where
  "serve_control_socket sh sv limit guard events h =
    (let st = \<lparr> cs_guard = guard, cs_handler = h, cs_accepted = 0, cs_served = [] \<rparr>
     in case (bind_local_socket sh :: ('d broker_connection_error, unit) result) of
          Err e \<Rightarrow> (Returned (Err (CtlConnection e)), st)
        | Ok _ \<Rightarrow> control_loop sv limit events st)"

definition serve_control_socket_connections_with_policy ::
  "socket_host \<Rightarrow> ('x, 'h, 'd) control_service \<Rightarrow> nat \<Rightarrow> 'x accept_event list \<Rightarrow> 'h \<Rightarrow>
   'd loop_status \<times> 'h control_state" where
  "serve_control_socket_connections_with_policy sh sv connection_count events h =
    (let guard = fd_pressure_guard_new fd_pressure_config_default in
     if connection_count = 0
     then (Returned (Ok ()), \<lparr> cs_guard = guard, cs_handler = h, cs_accepted = 0, cs_served = [] \<rparr>)
     else serve_control_socket sh (sv\<lparr> sv_post_hello := (\<lambda>_ _ s h. (s, h)) \<rparr>) (Bounded connection_count) guard
       events h)"

section \<open>The control connection: lemmas\<close>

text \<open>The one frame that carries a reply.\<close>

definition frame_on_wire :: "'d control_codec \<Rightarrow> frame \<Rightarrow> bytes \<Rightarrow> bool" where
  "frame_on_wire cd f bytes =
    (\<exists>body. cc_encode_frame cd f = Ok body \<and> length body \<le> MAX_FRAME_BYTES \<and> bytes = write_frame_header body @ body)"

definition part_of_reply :: "'d control_codec \<Rightarrow> bytes \<Rightarrow> bool" where
  "part_of_reply cd bytes = (bytes = [] \<or> (\<exists>f body. cc_encode_frame cd f = Ok body \<and> prefix bytes (write_frame_header body @ body)))"

section \<open>Descriptor pressure: lemmas\<close>

text \<open>What the guard sees of one call of \<open>accept\<close>: its error, or none.\<close>

definition guard_observe :: "platform \<Rightarrow> io_error option \<Rightarrow> fd_pressure_guard \<Rightarrow> fd_pressure_guard" where
  "guard_observe platform outcome g =
    (case outcome of None \<Rightarrow> snd (on_accept_ok g) | Some e \<Rightarrow> snd (on_accept_error platform e g))"

definition is_exhaustion :: "platform \<Rightarrow> io_error option \<Rightarrow> bool" where
  "is_exhaustion platform outcome = (case outcome of None \<Rightarrow> False | Some e \<Rightarrow> is_fd_exhaustion_error platform e)"

definition accept_outcome :: "'x accept_event \<Rightarrow> io_error option" where
  "accept_outcome event = (case event of Accepted _ \<Rightarrow> None | AcceptFailed e \<Rightarrow> Some e)"

definition is_accepted_event :: "'x accept_event \<Rightarrow> bool" where
  "is_accepted_event event = (case event of Accepted _ \<Rightarrow> True | AcceptFailed _ \<Rightarrow> False)"

text \<open>An exhaustion has happened and fewer than \<open>k\<close> accepts have succeeded since.\<close>

definition under_pressure :: "platform \<Rightarrow> nat \<Rightarrow> io_error option list \<Rightarrow> bool" where
  "under_pressure platform k outcomes =
    (\<exists>earlier e later. outcomes = earlier @ e # later \<and> is_exhaustion platform e \<and>
       length (filter (\<lambda>x. x = None) later) < k)"

text \<open>The guard's counter, while demoted: how many of the needed accepts have succeeded.\<close>

definition guard_tracks :: "platform \<Rightarrow> io_error option list \<Rightarrow> fd_pressure_guard \<Rightarrow> bool" where
  "guard_tracks platform outcomes g =
    (if fpg_demoted g
     then unat (fpg_consecutive_ok g) < max 1 (unat (fpc_recovery_accepts (fpg_config g))) \<and>
       under_pressure platform (unat (fpg_consecutive_ok g) + 1) outcomes \<and>
       \<not> under_pressure platform (unat (fpg_consecutive_ok g)) outcomes
     else \<not> under_pressure platform (max 1 (unat (fpc_recovery_accepts (fpg_config g)))) outcomes)"

section \<open>The accept loop: lemmas\<close>

text \<open>A connection leaves the guard as the accept left it, up to the count of its refusals.\<close>

definition same_pressure :: "fd_pressure_guard \<Rightarrow> fd_pressure_guard \<Rightarrow> bool" where
  "same_pressure g g' = (fpg_config g' = fpg_config g \<and> fpg_demoted g' = fpg_demoted g \<and>
     fpg_consecutive_ok g' = fpg_consecutive_ok g)"

text \<open>Who answers a Hello: the guard while it is demoted, else the responder.\<close>

definition hello_outcome ::
  "'h hello_responder \<Rightarrow> peer_identity \<Rightarrow> fd_pressure_guard option \<Rightarrow> frame \<Rightarrow> 'h \<Rightarrow>
   hello_reply \<times> 'h \<times> fd_pressure_guard option" where
  "hello_outcome responder peer guard f h =
    (case guard of
       Some g \<Rightarrow>
         if fpg_demoted g then (fst (refusal_reply g), h, Some (snd (refusal_reply g)))
         else (fst (responder f peer h), snd (responder f peer h), guard)
     | None \<Rightarrow> (fst (responder f peer h), snd (responder f peer h), guard))"

text \<open>A sample service, for the evaluations below: every frame decodes to the same Hello, and the responder
  refuses it.\<close>

definition sample_hello_frame :: frame where
  "sample_hello_frame =
    \<lparr> fr_envelope_version = PROTOCOL_VERSION, fr_kind = frame_kind_i32 FrameKindRequest,
      fr_payload_protocol = CONTROL_PAYLOAD_PROTOCOL, fr_payload = [], fr_request_id = 7,
      fr_payload_encoding = payload_encoding_i32 EncodingNone, fr_deadline_unix_ms = 0, fr_traceparent = [],
      fr_tracestate = [] \<rparr>"

definition sample_admin_codec :: "string admin_codec" where
  "sample_admin_codec =
    \<lparr> ac_decode_frame = (\<lambda>_. Err ''unused''), ac_encode_frame = (\<lambda>_. []), ac_decode_request = (\<lambda>_. Err ''unused''),
      ac_encode_reply = (\<lambda>_. []), ac_decode_reply = (\<lambda>_. Err ''unused''),
      ac_render = \<lparr> ar_to_string = (\<lambda>_. []), ar_service_definition_dir = [], ar_service_def_dir_env = False \<rparr> \<rparr>"

definition sample_control_codec :: "string control_codec" where
  "sample_control_codec =
    \<lparr> cc_decode_frame = (\<lambda>_. Ok sample_hello_frame), cc_encode_frame = (\<lambda>_. Ok [1, 2]),
      cc_encode_hello_reply = (\<lambda>_. []), cc_admin = sample_admin_codec \<rparr>"

definition sample_control_service :: "(unit, nat, string) control_service" where
  "sample_control_service =
    \<lparr> sv_platform = Linux, sv_codec = sample_control_codec, sv_policy = OwnerOnly ''1000'',
      sv_responder = (\<lambda>_ f peer h. (connection_refused_reply ErrorServiceUnknown ''unknown'' 0, h + 1)),
      sv_snapshot = (\<lambda>_ _ _. local_not_serving \<lparr> ah_pid = 1, ah_unix_now_ms = 0, ah_inode_usage = Ok None, ah_is_alive = (\<lambda>_. True) \<rparr>),
      sv_post_hello = (\<lambda>_ _ s h. (s, h)), sv_timeout_env = None \<rparr>"

definition sample_connection :: "arrival list \<Rightarrow> nat \<Rightarrow> unit accepted_connection" where
  "sample_connection incoming euid =
    \<lparr> an_stream = \<lparr> ns_incoming = incoming, ns_accepts = [], ns_flushes = [], ns_delivered = [], ns_waits = 0 \<rparr>,
      an_creds = Ok \<lparr> pc_pid = Some 42, pc_euid = Some euid, pc_process_user_sid = (\<lambda>_. Err eof_error) \<rparr>,
      an_clock = (\<lambda>k. if k = 0 then 0 else 30000000000), an_now = 0, an_world = () \<rparr>"

definition sample_state :: "nat control_state" where
  "sample_state =
    \<lparr> cs_guard = fd_pressure_guard_new fd_pressure_config_default, cs_handler = 0, cs_accepted = 0, cs_served = [] \<rparr>"

definition emfile :: io_error where
  "emfile = \<lparr> ioe_kind = OtherKind, ioe_raw_os_error = Some 24 \<rparr>"

text \<open>One connection of the owner that sends a Hello of one byte in two pieces.\<close>

definition sample_stream :: nb_stream where
  "sample_stream = \<lparr> ns_incoming = [Arrive [1, 1], NotYet, Arrive [0, 0, 0, 9]], ns_accepts = [Takes 1, WriteNotYet],
     ns_flushes = [], ns_delivered = [], ns_waits = 0 \<rparr>"

lemma part_of_reply_take [intro]:
  "cc_encode_frame cd f = Ok body \<Longrightarrow> part_of_reply cd (take k (write_frame_header body @ body))"
  unfolding part_of_reply_def using take_is_prefix by blast

context byte_stream
begin

lemma response_frame_sent:
  fixes cd :: "'d control_codec"
  assumes "write_response_frame ops cd req reply s = Some (r, s')"
  shows "case r of
      Ok _ \<Rightarrow> \<exists>bytes. frame_on_wire cd (hello_response_frame cd req reply) bytes \<and> sent s' = sent s @ bytes
    | Err _ \<Rightarrow> \<exists>bytes. part_of_reply cd bytes \<and> sent s' = sent s @ bytes"
proof (cases "cc_encode_frame cd (hello_response_frame cd req reply)")
  case (Inl e)
  then show ?thesis using assms by (auto simp: write_response_frame_def part_of_reply_def)
next
  case (Inr body)
  then obtain x :: "('d framing_error, nat) result" where
    w: "stream_write_frame ops body s = Some (x, s')" and r: "r = (case x of Ok _ \<Rightarrow> Ok () | Err e \<Rightarrow> Err (ConnFraming e))"
    using assms by (auto simp: write_response_frame_def split: option.splits sum.splits)
  show ?thesis
    using write_frame_cases [OF w] Inr r
    by (auto simp: frame_on_wire_def simp del: take_append split: sum.splits)
qed

lemma admin_frame_sent:
  fixes cd :: "'d control_codec"
  assumes "write_admin_response_frame ops cd f s = Some (r, s')"
  shows "case r of
      Ok a \<Rightarrow> ac_decode_reply (cc_admin cd) (fr_payload f) = Ok a \<and>
        (\<exists>bytes. frame_on_wire cd f bytes \<and> sent s' = sent s @ bytes)
    | Err _ \<Rightarrow> \<exists>bytes. part_of_reply cd bytes \<and> sent s' = sent s @ bytes"
proof (cases "cc_encode_frame cd f")
  case (Inl e)
  then show ?thesis using assms by (auto simp: write_admin_response_frame_def part_of_reply_def)
next
  case (Inr body)
  then obtain x :: "('d framing_error, nat) result" where
    w: "stream_write_frame ops body s = Some (x, s')"
    and r: "r = (case x of Ok _ \<Rightarrow> map_err CtlDecodeAdminReply (ac_decode_reply (cc_admin cd) (fr_payload f)) | Err e \<Rightarrow> Err (CtlFraming e))"
    using assms by (auto simp: write_admin_response_frame_def split: option.splits sum.splits)
  show ?thesis
  proof (cases x)
    case (Inl e)
    then show ?thesis using write_frame_cases [OF w] \<open>cc_encode_frame cd f = Inr body\<close> r
      by (auto simp del: take_append)
  next
    case (Inr n)
    then have "frame_on_wire cd f (write_frame_header body @ body)" "part_of_reply cd (write_frame_header body @ body)"
      "sent s' = sent s @ write_frame_header body @ body"
      using write_frame_cases [OF w] \<open>cc_encode_frame cd f = Inr body\<close> by (auto simp: frame_on_wire_def part_of_reply_def)
    then show ?thesis using r Inr by (cases "ac_decode_reply (cc_admin cd) (fr_payload f)") auto
  qed
qed

lemma control_connection_sent:
  fixes cd :: "'d control_codec"
  assumes "handle_control_connection ops cd responder snap peer policy guard s h = Some (result, s', h', guard')"
  shows "case result of
      Err _ \<Rightarrow> \<exists>bytes. part_of_reply cd bytes \<and> sent s' = sent s @ bytes
    | Ok DroppedPeer \<Rightarrow> \<not> allows policy peer \<and> s' = s \<and> h' = h \<and> guard' = guard
    | Ok (HelloReply reply) \<Rightarrow> allows policy peer \<and>
        (\<exists>req bytes. frame_on_wire cd (hello_response_frame cd req reply) bytes \<and> sent s' = sent s @ bytes)
    | Ok (AdminReplied reply) \<Rightarrow> allows policy peer \<and> h' = h \<and> guard' = guard \<and>
        (\<exists>f response bytes. handle_admin_frame (cc_admin cd) f (snap guard h) = Ok response \<and>
           ac_decode_reply (cc_admin cd) (fr_payload response) = Ok reply \<and>
           frame_on_wire cd response bytes \<and> sent s' = sent s @ bytes)"
proof (cases "allows policy peer")
  case False
  then show ?thesis using assms by (auto simp: handle_control_connection_def)
next
  case True
  obtain rd :: "('d framing_error, bytes) result" and s1 where rd: "stream_read_frame ops s = Some (rd, s1)"
    using assms True
    by (cases "stream_read_frame ops s :: (('d framing_error, bytes) result \<times> 's) option")
      (auto simp: handle_control_connection_def)
  have q: "sent s1 = sent s" using read_frame_quiet rd [unfolded stream_read_frame_def] by blast
  have ans: ?thesis if "answer_hello ops cd req reply s1 h1 g = Some (result, s', h', guard')" for req reply h1 g
    using that True q response_frame_sent [of cd req reply s1]
    by (auto simp: answer_hello_def split: option.splits sum.splits) blast
  show ?thesis
  proof (cases rd)
    case (Inl e)
    then show ?thesis using assms True rd by (intro ans) (simp add: handle_control_connection_def)
  next
    case (Inr bs)
    show ?thesis
    proof (cases "cc_decode_frame cd bs")
      case (Inl e)
      then show ?thesis using assms True rd Inr by (intro ans) (simp add: handle_control_connection_def)
    next
      case f: (Inr f)
      show ?thesis
      proof (cases "fr_payload_protocol f = ADMIN_PAYLOAD_PROTOCOL")
        case False
        then show ?thesis using assms True rd \<open>rd = Inr bs\<close> f ans
          by (simp add: handle_control_connection_def split: if_splits option.splits prod.splits)
      next
        case admin: True
        show ?thesis
        proof (cases "handle_admin_frame (cc_admin cd) f (snap guard h)")
          case (Inl e)
          then show ?thesis using assms True rd \<open>rd = Inr bs\<close> f admin q
            by (auto simp: handle_control_connection_def part_of_reply_def)
        next
          case (Inr response)
          then show ?thesis using assms True rd \<open>rd = Inr bs\<close> f admin q admin_frame_sent [of cd response s1]
            by (auto simp: handle_control_connection_def split: option.splits sum.splits) blast+
        qed
      qed
    qed
  qed
qed

end

context prompt_stream
begin

lemma response_frame_returns:
  assumes "live s"
  shows "\<exists>r s'. write_response_frame ops (cd :: 'd control_codec) req reply s = Some (r, s') \<and> live s'"
proof (cases "cc_encode_frame cd (hello_response_frame cd req reply)")
  case (Inl e)
  then show ?thesis using assms by (simp add: write_response_frame_def)
next
  case (Inr body)
  obtain x :: "('d framing_error, nat) result" and s' where "stream_write_frame ops body s = Some (x, s')" "live s'"
    using write_frame_returns [OF assms] by blast
  then show ?thesis using Inr by (cases x) (simp_all add: write_response_frame_def)
qed

lemma control_connection_returns:
  fixes cd :: "'d control_codec"
  assumes "live s"
  shows "handle_control_connection ops cd responder snap peer policy guard s h \<noteq> None"
proof (cases "allows policy peer")
  case False
  then show ?thesis by (simp add: handle_control_connection_def)
next
  case True
  obtain rd :: "('d framing_error, bytes) result" and s1 where
    rd: "stream_read_frame ops s = Some (rd, s1)" and l1: "live s1"
    using read_frame_returns [where 'd = 'd, OF assms, of MAX_FRAME_BYTES] unfolding stream_read_frame_def by blast
  have ans: "answer_hello ops cd req reply s1 h1 g \<noteq> None" for req reply h1 g
    using response_frame_returns [OF l1, of cd req reply] by (auto simp: answer_hello_def split: sum.splits)
  show ?thesis
  proof (cases rd)
    case (Inl e)
    then show ?thesis using True rd ans by (simp add: handle_control_connection_def)
  next
    case (Inr bs)
    show ?thesis
    proof (cases "cc_decode_frame cd bs")
      case (Inl e)
      then show ?thesis using True rd Inr ans by (simp add: handle_control_connection_def)
    next
      case f: (Inr f)
      have w: "write_admin_response_frame ops cd response s1 \<noteq> None" for response
      proof (cases "cc_encode_frame cd response")
        case (Inr body)
        obtain x :: "('d framing_error, nat) result" and s' where "stream_write_frame ops body s1 = Some (x, s')"
          using write_frame_returns [OF l1] by blast
        then show ?thesis using Inr by (cases x) (simp_all add: write_admin_response_frame_def)
      qed (simp add: write_admin_response_frame_def)
      show ?thesis
      proof (cases "fr_payload_protocol f = ADMIN_PAYLOAD_PROTOCOL")
        case True
        then show ?thesis using \<open>allows policy peer\<close> rd \<open>rd = Inr bs\<close> f w
          by (cases "handle_admin_frame (cc_admin cd) f (snap guard h)")
            (auto simp: handle_control_connection_def split: option.splits sum.splits)
      next
        case False
        then show ?thesis using True rd \<open>rd = Inr bs\<close> f
          by (cases guard) (simp_all add: handle_control_connection_def case_prod_beta ans del: not_None_eq)
      qed
    qed
  qed
qed

end

lemma under_pressure_Nil [simp]: "\<not> under_pressure platform k []"
  by (simp add: under_pressure_def)

lemma under_pressureI:
  "is_exhaustion platform x \<Longrightarrow> length (filter (\<lambda>x. x = None) post) < k \<Longrightarrow> under_pressure platform k (pre @ x # post)"
  unfolding under_pressure_def by blast

lemma under_pressure_exhaustion [simp]:
  "is_exhaustion platform e \<Longrightarrow> 0 < k \<Longrightarrow> under_pressure platform k (outcomes @ [e])"
  by (rule under_pressureI) simp_all

lemma under_pressure_snoc:
  assumes "\<not> is_exhaustion platform e"
  shows "under_pressure platform k (outcomes @ [e]) \<longleftrightarrow>
    under_pressure platform (if e = None then k - 1 else k) outcomes"
proof
  assume "under_pressure platform k (outcomes @ [e])"
  then obtain pre x post where x: "outcomes @ [e] = pre @ x # post" "is_exhaustion platform x"
    "length (filter (\<lambda>x. x = None) post) < k" unfolding under_pressure_def by blast
  then obtain post' where "post = post' @ [e]" using assms by (cases post rule: rev_cases) auto
  then show "under_pressure platform (if e = None then k - 1 else k) outcomes"
    using x by (auto intro!: under_pressureI)
next
  assume "under_pressure platform (if e = None then k - 1 else k) outcomes"
  then obtain pre x post where x: "outcomes = pre @ x # post" "is_exhaustion platform x"
    "length (filter (\<lambda>x. x = None) post) < (if e = None then k - 1 else k)" unfolding under_pressure_def by blast
  then show "under_pressure platform k (outcomes @ [e])"
    using under_pressureI [of platform x "post @ [e]" k pre] by (auto split: if_splits)
qed

lemma under_pressure_mono: "under_pressure platform k outcomes \<Longrightarrow> k \<le> k' \<Longrightarrow> under_pressure platform k' outcomes"
  by (auto simp: under_pressure_def [of _ k] intro: under_pressureI)

lemma guard_tracks_demoted_iff:
  assumes "guard_tracks platform outcomes g"
  shows "fpg_demoted g \<longleftrightarrow> under_pressure platform (max 1 (unat (fpc_recovery_accepts (fpg_config g)))) outcomes"
  using assms under_pressure_mono [of platform "unat (fpg_consecutive_ok g) + 1" outcomes]
  by (auto simp: guard_tracks_def split: if_splits)

lemma guard_tracks_new: "guard_tracks platform [] (fd_pressure_guard_new config)"
  by (simp add: guard_tracks_def fd_pressure_guard_new_def)

lemma guard_tracks_ok:
  assumes "guard_tracks platform outcomes g"
  shows "guard_tracks platform (outcomes @ [None]) (snd (on_accept_ok g))"
proof (cases "fpg_demoted g")
  case False
  moreover have "max 1 r - 1 \<le> max 1 r" for r :: nat by simp
  ultimately show ?thesis
    using assms under_pressure_mono [of platform "max 1 (unat (fpc_recovery_accepts (fpg_config g))) - 1" outcomes]
    by (auto simp: guard_tracks_def on_accept_ok_def under_pressure_snoc is_exhaustion_def)
next
  case True
  let ?R = "fpc_recovery_accepts (fpg_config g)" and ?c = "fpg_consecutive_ok g"
  have c: "unat ?c < max 1 (unat ?R)" "under_pressure platform (unat ?c + 1) outcomes" "\<not> under_pressure platform (unat ?c) outcomes"
    using assms True by (simp_all add: guard_tracks_def)
  have "unat ?R < 2 ^ 32" using unsigned_less [of ?R] by simp
  then have "unat ?c + 1 < 2 ^ 32" using c(1) by (auto simp: max_def split: if_splits)
  then have c1: "unat (?c + 1) = unat ?c + 1" by (simp add: unat_word_ariths)
  show ?thesis
  proof (cases "?R \<le> ?c + 1")
    case le: True
    then have "max 1 (unat ?R) - 1 \<le> unat ?c" using c1 by (simp add: word_le_nat_alt)
    then have "\<not> under_pressure platform (max 1 (unat ?R) - 1) outcomes" using c(3) under_pressure_mono by blast
    then show ?thesis using True le
      by (simp add: guard_tracks_def on_accept_ok_def Let_def under_pressure_snoc is_exhaustion_def)
  next
    case False
    then have "unat ?c + 1 < unat ?R" using c1 by (simp add: word_le_nat_alt not_le)
    then show ?thesis using True False c c1
      by (simp add: guard_tracks_def on_accept_ok_def Let_def under_pressure_snoc is_exhaustion_def)
  qed
qed

lemma guard_tracks_error:
  assumes "guard_tracks platform outcomes g"
  shows "guard_tracks platform (outcomes @ [Some e]) (snd (on_accept_error platform e g))"
proof (cases "is_fd_exhaustion_error platform e")
  case True
  have "\<not> under_pressure platform 0 xs" for xs by (simp add: under_pressure_def)
  then show ?thesis using True
    by (simp add: guard_tracks_def on_accept_error_def Let_def is_exhaustion_def less_max_iff_disj)
next
  case False
  then show ?thesis using assms
    by (simp add: guard_tracks_def on_accept_error_def under_pressure_snoc is_exhaustion_def split: if_splits)
qed

lemma guard_tracks_observe:
  "guard_tracks platform outcomes g \<Longrightarrow> guard_tracks platform (outcomes @ [outcome]) (guard_observe platform outcome g)"
  by (cases outcome) (simp_all add: guard_observe_def guard_tracks_ok guard_tracks_error)

lemma guard_config_kept [simp]:
  "fpg_config (snd (on_accept_ok g)) = fpg_config g" "fpg_config (snd (on_accept_error platform e g)) = fpg_config g"
  "fpg_config (snd (refusal_reply g)) = fpg_config g" "fpg_demoted (snd (refusal_reply g)) = fpg_demoted g"
  "fpg_consecutive_ok (snd (refusal_reply g)) = fpg_consecutive_ok g"
  by (simp_all add: on_accept_ok_def on_accept_error_def refusal_reply_def Let_def)

lemma same_pressure_refl [simp]: "same_pressure g g"
  by (simp add: same_pressure_def)

lemma same_pressure_refusal [simp]: "same_pressure g (snd (refusal_reply g))"
  by (simp add: same_pressure_def)

lemma guard_tracks_same_pressure: "same_pressure g g' \<Longrightarrow> guard_tracks platform outcomes g' = guard_tracks platform outcomes g"
  by (simp add: same_pressure_def guard_tracks_def)

lemma answer_hello_guard:
  "answer_hello ops cd req reply s h guard = Some (r, s', h', guard') \<Longrightarrow> guard' = guard \<and> h' = h"
  by (auto simp: answer_hello_def split: option.splits sum.splits)

lemma control_connection_guard:
  assumes "handle_control_connection ops cd responder snap peer policy (Some g) s h = Some (r, s', h', guard')"
  shows "\<exists>g'. guard' = Some g' \<and> same_pressure g g'"
  using assms unfolding handle_control_connection_def
  by (auto simp: case_prod_beta split: if_splits option.splits sum.splits dest!: answer_hello_guard)

lemma serve_accepted_guard:
  assumes "serve_accepted sv c st = (status, st')"
  shows "same_pressure (snd (on_accept_ok (cs_guard st))) (cs_guard st') \<and> cs_accepted st' = cs_accepted st + 1"
proof (cases "an_creds c")
  case (Inl e)
  then show ?thesis using assms by (auto simp: serve_accepted_def Let_def)
next
  case (Inr creds)
  show ?thesis
  proof (cases "hello_read_deadline (sv_timeout_env sv) (an_now c)")
    case None
    then show ?thesis using assms Inr by (auto simp: serve_accepted_def Let_def)
  next
    case (Some deadline)
    let ?run = "handle_control_connection (deadline_ops (sv_platform sv) (an_clock c)) (sv_codec sv)
      (sv_responder sv (an_world c)) (sv_snapshot sv (an_world c)) (peer_identity_from_creds (sv_platform sv) creds)
      (sv_policy sv) (Some (snd (on_accept_ok (cs_guard st)))) (deadline_stream_new (an_stream c) deadline 0) (cs_handler st)"
    show ?thesis
    proof (cases ?run)
      case None
      then show ?thesis using assms Inr Some by (auto simp: serve_accepted_def Let_def)
    next
      case run: (Some y)
      obtain r d h guard where y: "y = (r, d, h, guard)" by (cases y)
      obtain g' where "guard = Some g'" "same_pressure (snd (on_accept_ok (cs_guard st))) g'"
        using control_connection_guard [OF run [unfolded y]] by blast
      then show ?thesis using assms Inr Some run y
        by (cases r) (auto simp: serve_accepted_def Let_def case_prod_beta)
    qed
  qed
qed

lemma serve_accept_failed_guard:
  assumes "serve_accept_failed sv e st = (status, st')"
  shows "cs_guard st' = snd (on_accept_error (sv_platform sv) e (cs_guard st)) \<and> cs_served st' = cs_served st \<and>
    (status = Serving \<longrightarrow> cs_accepted st' = cs_accepted st + 1)"
  using assms
  by (auto simp: serve_accept_failed_def split: prod.splits fd_pressure_decision.splits)

lemma serve_event_guard:
  assumes "(case event of Accepted c \<Rightarrow> serve_accepted sv c st | AcceptFailed e \<Rightarrow> serve_accept_failed sv e st) = (Serving, st')"
  shows "same_pressure (guard_observe (sv_platform sv) (accept_outcome event) (cs_guard st)) (cs_guard st')"
    and "cs_accepted st' = cs_accepted st + 1"
  using assms serve_accepted_guard serve_accept_failed_guard
  by (cases event; fastforce simp: accept_outcome_def guard_observe_def)+

lemma control_loop_SomeD:
  assumes "control_loop sv limit (event # events) st = (Serving, st'')"
  obtains st' where "(case event of Accepted c \<Rightarrow> serve_accepted sv c st | AcceptFailed e \<Rightarrow> serve_accept_failed sv e st) = (Serving, st')"
    "control_loop sv limit events st' = (Serving, st'')"
  using assms
  by (cases "case event of Accepted c \<Rightarrow> serve_accepted sv c st | AcceptFailed e \<Rightarrow> serve_accept_failed sv e st")
    (auto split: if_splits loop_status.splits)

lemma guard_observe_config [simp]: "fpg_config (guard_observe platform outcome g) = fpg_config g"
  by (cases outcome) (simp_all add: guard_observe_def)

lemma control_loop_tracks:
  assumes "control_loop sv limit events st = (Serving, st')" and "guard_tracks (sv_platform sv) outcomes (cs_guard st)"
  shows "guard_tracks (sv_platform sv) (outcomes @ map accept_outcome events) (cs_guard st') \<and>
    fpg_config (cs_guard st') = fpg_config (cs_guard st)"
  using assms
proof (induction events arbitrary: outcomes st)
  case (Cons event events)
  obtain st1 where 1: "(case event of Accepted c \<Rightarrow> serve_accepted sv c st | AcceptFailed e \<Rightarrow> serve_accept_failed sv e st) = (Serving, st1)"
    "control_loop sv limit events st1 = (Serving, st')" using control_loop_SomeD [OF Cons(2)] by blast
  note g = serve_event_guard(1) [OF 1(1)]
  have "guard_tracks (sv_platform sv) (outcomes @ [accept_outcome event]) (cs_guard st1)"
    using guard_tracks_observe [OF Cons(3)] guard_tracks_same_pressure [OF g] by blast
  from Cons(1) [OF 1(2) this] g show ?case by (simp add: same_pressure_def)
qed (auto split: if_splits)

lemma serve_accepted_served:
  assumes "serve_accepted sv c st = (Serving, st')"
  shows "length (cs_served st') = Suc (length (cs_served st))"
  using assms
  by (auto simp: serve_accepted_def Let_def split: sum.splits option.splits prod.splits)

text \<open>A bounded loop that returns has consumed as many outcomes of \<open>accept\<close> as its bound.\<close>

lemma control_loop_bounded:
  assumes "control_loop sv (Bounded n) events st = (Returned (Ok ()), st')" and "cs_accepted st \<le> n"
  shows "n - cs_accepted st \<le> length events \<and>
    length (cs_served st') = length (cs_served st) + length (filter is_accepted_event (take (n - cs_accepted st) events))"
  using assms
proof (induction events arbitrary: st)
  case Nil
  then show ?case by (auto split: if_splits)
next
  case (Cons event events)
  show ?case
  proof (cases "cs_accepted st < n")
    case False
    then show ?thesis using Cons(2,3) by auto
  next
    case True
    obtain status st1 where 1: "(case event of Accepted c \<Rightarrow> serve_accepted sv c st | AcceptFailed e \<Rightarrow> serve_accept_failed sv e st) = (status, st1)"
      by fastforce
    have "status \<noteq> Returned (Ok ())"
      using 1 by (cases event)
        (auto simp: serve_accepted_def serve_accept_failed_def Let_def case_prod_beta
          split: sum.splits option.splits prod.splits fd_pressure_decision.splits)
    then have s: "status = Serving" and l: "control_loop sv (Bounded n) events st1 = (Returned (Ok ()), st')"
      using Cons(2) True 1 by (auto split: loop_status.splits)
    have a: "cs_accepted st1 = cs_accepted st + 1" using serve_event_guard(2) 1 s by blast
    have "length (cs_served st1) = length (cs_served st) + (if is_accepted_event event then 1 else 0)"
      using 1 s serve_accepted_served [of sv _ st st1] serve_accept_failed_guard [of sv _ st status st1]
      by (cases event) (auto simp: is_accepted_event_def)
    moreover have "n - cs_accepted st = Suc (n - cs_accepted st1)" using a True by simp
    ultimately show ?thesis using Cons(1) [OF l] a True by simp
  qed
qed

lemma serve_accepted_not_blocked:
  assumes "\<And>deadline. hello_read_deadline (sv_timeout_env sv) (an_now c) = Some deadline \<Longrightarrow> \<exists>n. clock_reaches (an_clock c) deadline n"
  shows "fst (serve_accepted sv c st) \<noteq> Blocked"
proof (cases "hello_read_deadline (sv_timeout_env sv) (an_now c)")
  case None
  then show ?thesis by (auto simp: serve_accepted_def Let_def split: sum.splits)
next
  case (Some deadline)
  have "deadline_comes (an_clock c) (deadline_stream_new (an_stream c) deadline 0)"
    using assms [OF Some] by (simp add: deadline_comes_def deadline_stream_new_def)
  then have "handle_control_connection (deadline_ops (sv_platform sv) (an_clock c)) (sv_codec sv)
      (sv_responder sv (an_world c)) (sv_snapshot sv (an_world c)) (peer_identity_from_creds (sv_platform sv) creds)
      (sv_policy sv) guard (deadline_stream_new (an_stream c) deadline 0) (cs_handler st) \<noteq> None" for creds guard
    by (rule ds.control_connection_returns)
  then show ?thesis
    using Some by (auto simp: serve_accepted_def Let_def simp del: not_None_eq split: sum.splits option.splits prod.splits)
qed

lemma control_connection_hello:
  fixes cd :: "'d control_codec"
  assumes "allows policy peer" and "\<And>k. clock k < deadline"
    and "sends_in_pieces (ns_incoming s)" "arriving (ns_incoming s) = write_frame_header body @ body @ rest" "takes_in_pieces s"
    and "cc_decode_frame cd body = Ok f" "fr_payload_protocol f \<noteq> ADMIN_PAYLOAD_PROTOCOL" "length body \<le> MAX_HELLO_BYTES"
    and "hello_outcome responder peer guard f h = (reply, h', guard')"
    and "cc_encode_frame cd (hello_response_frame cd (Some f) reply) = Ok out" "length out \<le> MAX_FRAME_BYTES"
  shows "\<exists>d'. handle_control_connection (deadline_ops Linux clock) cd responder snap peer policy guard
      (deadline_stream_new s deadline ticks) h = Some (Ok (HelloReply reply), d', h', guard') \<and>
    ns_delivered (ds_inner d') = ns_delivered s @ write_frame_header out @ out"
proof -
  let ?d = "deadline_stream_new s deadline ticks"
  have len: "length body \<le> MAX_FRAME_BYTES"
    using assms(8) by (simp add: MAX_HELLO_BYTES_def MAX_HELLO_SIZE_BYTES_def MAX_FRAME_BYTES_def MAX_FRAME_SIZE_BYTES_def)
  have "brings clock ?d ?d \<lparr> rd_bytes = arriving (ns_incoming s), rd_end = Eof \<rparr>"
    using assms(2,3) by (simp add: brings_def deadline_stream_new_def)
  from ds_in_pieces.read_frame_sim [where 'd = 'd, OF this, of MAX_FRAME_BYTES] obtain d1 where
    rd: "stream_read_frame (deadline_ops Linux clock) ?d = Some (Ok body :: ('d framing_error, bytes) result, d1)"
    and d1: "ds_deadline d1 = deadline" "(ds_inner d1)\<lparr> ns_incoming := [] \<rparr> = s\<lparr> ns_incoming := [] \<rparr>"
    using read_frame_written [where 'd = 'd, OF len, of rest Eof] assms(4)
    by (auto simp: stream_read_frame_def read_frame_def brings_def deadline_stream_new_def)
  have same: "ns_delivered (ds_inner d1) = ns_delivered s" "takes_in_pieces (ds_inner d1)"
    using arg_cong [OF d1(2), of ns_delivered] arg_cong [OF d1(2), of ns_accepts] arg_cong [OF d1(2), of ns_flushes] assms(5)
    by (simp_all add: takes_in_pieces_def)
  obtain n d2 where wr: "stream_write_frame (deadline_ops Linux clock) out d1 = Some (Ok n :: ('d framing_error, nat) result, d2)"
    "ns_delivered (ds_inner d2) = ns_delivered s @ write_frame_header out @ out"
    using ds_write_frame_in_pieces [where 'd = 'd, of clock d1 out Linux] assms(2,11) d1(1) same by auto
  have "answer_hello (deadline_ops Linux clock) cd (Some f) reply d1 h' guard' = Some (Ok (HelloReply reply), d2, h', guard')"
    using assms(10) wr(1) by (simp add: answer_hello_def write_response_frame_def)
  then show ?thesis
    using assms(1,6-9) rd wr(2)
    by (cases guard) (auto simp: handle_control_connection_def hello_outcome_def case_prod_beta split: if_splits)
qed

lemma sample_frame_header: "write_frame_header [9] = [1, 1, 0, 0, 0]"
  by (simp add: write_frame_header_def ENVELOPE_VERSION_def FRAMING_VERSION_V1_def)

lemma sample_stream_pieces:
  "sends_in_pieces (ns_incoming sample_stream)" "takes_in_pieces sample_stream"
  "arriving (ns_incoming sample_stream) = write_frame_header [9] @ [9] @ []"
  by (simp_all add: sample_stream_def takes_in_pieces_def sample_frame_header)

lemma sample_deadline: "hello_read_deadline None 0 = Some 30000000000"
  by (simp add: hello_read_deadline_def hello_read_timeout_def DEFAULT_HELLO_READ_TIMEOUT_def INSTANT_MAX_def)

lemma peer_of_euid:
  "platform \<noteq> Windows \<Longrightarrow> peer_uid_or_sid (peer_identity_from_creds platform creds) =
    (case pc_euid creds of Some uid \<Rightarrow> show_nat uid | None \<Rightarrow> [])"
  by (simp add: peer_identity_from_creds_def Let_def)

lemma current_user_allows:
  assumes "platform \<noteq> Windows" and "current_user platform euid sid = Some policy"
  shows "allows policy (peer_identity_from_creds platform creds) \<longleftrightarrow> pc_euid creds = Some euid"
  using assms show_nat_not_Nil [of euid, symmetric]
  by (auto simp: current_user_def peer_of_euid simp del: show_nat_not_Nil split: option.splits)

lemma serve_accepted_dropped:
  assumes "an_creds c = Ok creds" and "hello_read_deadline (sv_timeout_env sv) (an_now c) = Some deadline"
    and "\<not> allows (sv_policy sv) (peer_identity_from_creds (sv_platform sv) creds)"
  shows "serve_accepted sv c st =
    (Serving, st\<lparr> cs_guard := snd (on_accept_ok (cs_guard st)), cs_accepted := cs_accepted st + 1,
       cs_served := cs_served st @ [(peer_identity_from_creds (sv_platform sv) creds, DroppedPeer, an_stream c)] \<rparr>)"
  using assms by (simp add: serve_accepted_def handle_control_connection_def deadline_stream_new_def)

lemma serve_accepted_entry:
  assumes "an_creds c = Ok creds" and "allows (sv_policy sv) (peer_identity_from_creds (sv_platform sv) creds)"
    and "serve_accepted sv c st = (Serving, st')"
  shows "\<exists>reply stream. cs_served st' = cs_served st @ [(peer_identity_from_creds (sv_platform sv) creds, reply, stream)] \<and>
    reply \<noteq> DroppedPeer"
proof -
  let ?peer = "peer_identity_from_creds (sv_platform sv) creds"
  obtain deadline where d: "hello_read_deadline (sv_timeout_env sv) (an_now c) = Some deadline"
    using assms by (cases "hello_read_deadline (sv_timeout_env sv) (an_now c)") (auto simp: serve_accepted_def Let_def)
  obtain reply d' h guard where
    run: "handle_control_connection (deadline_ops (sv_platform sv) (an_clock c)) (sv_codec sv)
      (sv_responder sv (an_world c)) (sv_snapshot sv (an_world c)) ?peer (sv_policy sv)
      (Some (snd (on_accept_ok (cs_guard st)))) (deadline_stream_new (an_stream c) deadline 0) (cs_handler st) = Some (Ok reply, d', h, guard)"
    and served: "\<exists>stream. cs_served st' = cs_served st @ [(?peer, reply, stream)]"
    using assms d by (auto simp: serve_accepted_def Let_def case_prod_beta split: option.splits sum.splits)
  have "reply \<noteq> DroppedPeer" using ds.control_connection_sent [OF run] assms(2) by auto
  then show ?thesis using served by blast
qed

text \<open>The run of a connection from its accept, for the owner of the broker.\<close>

lemma serve_accepted_run:
  assumes "an_creds c = Ok creds" and "hello_read_deadline (sv_timeout_env sv) (an_now c) = Some deadline"
    and "handle_control_connection (deadline_ops (sv_platform sv) (an_clock c)) (sv_codec sv)
      (sv_responder sv (an_world c)) (sv_snapshot sv (an_world c)) (peer_identity_from_creds (sv_platform sv) creds)
      (sv_policy sv) (Some (snd (on_accept_ok (cs_guard st)))) (deadline_stream_new (an_stream c) deadline 0) (cs_handler st) =
      Some (result, d, h, Some g)"
  shows "serve_accepted sv c st =
    (let st1 = st\<lparr> cs_guard := g, cs_handler := h, cs_accepted := cs_accepted st + 1 \<rparr> in
     case result of
       Err e \<Rightarrow> (Returned (Err e), st1)
     | Ok reply \<Rightarrow>
       (case (case reply of HelloReply r \<Rightarrow> sv_post_hello sv (an_world c) r (ds_inner d) h | _ \<Rightarrow> (ds_inner d, h)) of
          (stream, h1) \<Rightarrow> (Serving, st1\<lparr> cs_handler := h1,
             cs_served := cs_served st @ [(peer_identity_from_creds (sv_platform sv) creds, reply, stream)] \<rparr>)))"
  using assms
  by (cases st; cases result) (simp_all add: serve_accepted_def Let_def split: control_socket_reply.splits prod.splits)

lemma timed_out_kind [simp]: "ioe_kind timed_out = TimedOut"
  by (simp add: timed_out_def)

lemma control_connection_timed_out:
  fixes cd :: "'d control_codec"
  assumes "allows policy peer" and "mono clock"
    and "stream_read_frame (deadline_ops platform clock) d = Some (Err (Io e :: 'd framing_error), d1)" "ioe_kind e = TimedOut"
    and "cc_encode_frame cd (hello_response_frame cd None (reply_for_framing_error (Io e :: 'd framing_error))) = Ok body"
      "length body \<le> MAX_FRAME_BYTES"
  shows "handle_control_connection (deadline_ops platform clock) cd responder snap peer policy guard d h =
    Some (Err (CtlConnection (ConnFraming (Io timed_out))), d1\<lparr> ds_ticks := ds_ticks d1 + 1 \<rparr>, h, guard)"
proof -
  have e: "e = timed_out" "ds_deadline d1 \<le> clock (ds_ticks d1 - 1)"
    using ds_read_frame_timed_out [OF assms(3) [unfolded stream_read_frame_def] assms(4)] by simp_all
  have "clock (ds_ticks d1 - 1) \<le> clock (ds_ticks d1)" using assms(2) by (simp add: monoD)
  then have "stream_write_frame (deadline_ops platform clock) body d1 =
      Some (Err (Io timed_out :: 'd framing_error), d1\<lparr> ds_ticks := ds_ticks d1 + 1 \<rparr>)"
    using ds_write_frame_expired [where 'd = 'd, OF _ assms(6), of d1 clock platform] e(2) by simp
  then show ?thesis
    using assms(1,3,5) by (simp add: handle_control_connection_def answer_hello_def write_response_frame_def)
qed

lemma serve_accepted_hello:
  fixes sv :: "('x, 'h, 'd) control_service"
  assumes "sv_platform sv = Linux" and "an_creds c = Ok creds" and "allows (sv_policy sv) (peer_identity_from_creds Linux creds)"
    and "hello_read_deadline (sv_timeout_env sv) (an_now c) = Some deadline" and "\<And>k. an_clock c k < deadline"
    and "sends_in_pieces (ns_incoming (an_stream c))" "takes_in_pieces (an_stream c)"
    and "arriving (ns_incoming (an_stream c)) = write_frame_header body @ body @ rest"
    and "cc_decode_frame (sv_codec sv) body = Ok f" "fr_payload_protocol f \<noteq> ADMIN_PAYLOAD_PROTOCOL" "length body \<le> MAX_HELLO_BYTES"
    and "\<not> fpg_demoted (snd (on_accept_ok (cs_guard st)))"
    and "sv_responder sv (an_world c) f (peer_identity_from_creds Linux creds) (cs_handler st) = (reply, h)"
    and "cc_encode_frame (sv_codec sv) (hello_response_frame (sv_codec sv) (Some f) reply) = Ok out" "length out \<le> MAX_FRAME_BYTES"
  obtains d :: deadline_stream where "ns_delivered (ds_inner d) = ns_delivered (an_stream c) @ write_frame_header out @ out"
    "serve_accepted sv c st = (Serving, st\<lparr> cs_guard := snd (on_accept_ok (cs_guard st)), cs_accepted := cs_accepted st + 1,
      cs_handler := snd (sv_post_hello sv (an_world c) reply (ds_inner d) h),
      cs_served := cs_served st @ [(peer_identity_from_creds Linux creds, HelloReply reply,
         fst (sv_post_hello sv (an_world c) reply (ds_inner d) h))] \<rparr>)"
proof -
  obtain d where run: "handle_control_connection (deadline_ops Linux (an_clock c)) (sv_codec sv)
      (sv_responder sv (an_world c)) (sv_snapshot sv (an_world c)) (peer_identity_from_creds Linux creds)
      (sv_policy sv) (Some (snd (on_accept_ok (cs_guard st)))) (deadline_stream_new (an_stream c) deadline 0) (cs_handler st) =
      Some (Ok (HelloReply reply), d, h, Some (snd (on_accept_ok (cs_guard st))))"
    and sent: "ns_delivered (ds_inner d) = ns_delivered (an_stream c) @ write_frame_header out @ out"
    using control_connection_hello [where clock = "an_clock c" and responder = "sv_responder sv (an_world c)" and h = "cs_handler st"
        and guard = "Some (snd (on_accept_ok (cs_guard st)))" and snap = "sv_snapshot sv (an_world c)" and ticks = 0,
        OF assms(3,5,6,8,7,9,10,11) _ assms(14,15)] assms(12,13) by (auto simp: hello_outcome_def)
  have step: "serve_accepted sv c st = (Serving, st\<lparr> cs_guard := snd (on_accept_ok (cs_guard st)), cs_accepted := cs_accepted st + 1,
      cs_handler := snd (sv_post_hello sv (an_world c) reply (ds_inner d) h),
      cs_served := cs_served st @ [(peer_identity_from_creds Linux creds, HelloReply reply,
         fst (sv_post_hello sv (an_world c) reply (ds_inner d) h))] \<rparr>)"
    using serve_accepted_run [OF assms(2,4), where st = st] run assms(1)
    by (simp add: Let_def case_prod_beta)
  show thesis by (rule that [OF sent step])
qed

section \<open>Properties\<close>

text \<open>C5: On Unix the broker serves its own user only. Under the policy of the current user, a connection
  whose credentials are not those of the user, or cannot be read, is dropped: nothing is read from it,
  nothing is written to it, the state behind the responder does not change, and the loop goes on. A
  connection of the user is never dropped.\<close>

theorem only_owner_is_served:
  assumes "sv_platform sv \<noteq> Windows" and "current_user (sv_platform sv) euid sid = Some (sv_policy sv)"
    and "an_creds c = Ok creds" and "hello_read_deadline (sv_timeout_env sv) (an_now c) = Some deadline"
  shows "(pc_euid creds \<noteq> Some euid \<longrightarrow> serve_accepted sv c st =
      (Serving, st\<lparr> cs_guard := snd (on_accept_ok (cs_guard st)), cs_accepted := cs_accepted st + 1,
         cs_served := cs_served st @ [(peer_identity_from_creds (sv_platform sv) creds, DroppedPeer, an_stream c)] \<rparr>)) \<and>
    (pc_euid creds = Some euid \<longrightarrow> (\<forall>st'. serve_accepted sv c st = (Serving, st') \<longrightarrow>
      (\<exists>reply stream. cs_served st' = cs_served st @ [(peer_identity_from_creds (sv_platform sv) creds, reply, stream)] \<and>
         reply \<noteq> DroppedPeer)))"
  using current_user_allows [OF assms(1,2), of creds] serve_accepted_dropped [OF assms(3,4)]
    serve_accepted_entry [OF assms(3)] by blast

theorem only_owner_is_served_witness:
  "fst (serve_accepted sample_control_service (sample_connection [] 0) sample_state) = Serving \<and>
   map (\<lambda>(_, reply, _). reply) (cs_served (snd (serve_accepted sample_control_service (sample_connection [] 0) sample_state))) = [DroppedPeer]"
proof -
  have "show_nat 1000 = ''1000''" by code_simp
  then have "current_user (sv_platform sample_control_service) 1000 (Err eof_error) = Some (sv_policy sample_control_service)"
    by (simp add: current_user_def sample_control_service_def)
  then show ?thesis
    using only_owner_is_served [of sample_control_service 1000 "Err eof_error" "sample_connection [] 0" _ 30000000000 sample_state]
    by (simp add: sample_control_service_def sample_connection_def sample_deadline sample_state_def)
qed

text \<open>C6: The answer to a connection. Whatever the peer sends and however the stream behaves, a connection
  that ends with a reply has been sent exactly one frame, the encoding of that reply; a connection that
  ends with an error has been sent part of one frame at most; a dropped connection is untouched. An admin
  request changes neither the state behind the responder nor the guard, and its reply is that of the
  verb on the snapshot.\<close>

theorem control_connection_one_reply:
  fixes cd :: "'d control_codec"
  assumes "handle_control_connection (deadline_ops platform clock) cd responder snap peer policy guard d h =
    Some (result, d', h', guard')"
  shows "case result of
      Err _ \<Rightarrow> \<exists>bytes. part_of_reply cd bytes \<and> ns_delivered (ds_inner d') = ns_delivered (ds_inner d) @ bytes
    | Ok DroppedPeer \<Rightarrow> \<not> allows policy peer \<and> d' = d \<and> h' = h \<and> guard' = guard
    | Ok (HelloReply reply) \<Rightarrow> allows policy peer \<and>
        (\<exists>req bytes. frame_on_wire cd (hello_response_frame cd req reply) bytes \<and>
           ns_delivered (ds_inner d') = ns_delivered (ds_inner d) @ bytes)
    | Ok (AdminReplied reply) \<Rightarrow> allows policy peer \<and> h' = h \<and> guard' = guard \<and>
        (\<exists>f response bytes. handle_admin_frame (cc_admin cd) f (snap guard h) = Ok response \<and>
           ac_decode_reply (cc_admin cd) (fr_payload response) = Ok reply \<and> frame_on_wire cd response bytes \<and>
           ns_delivered (ds_inner d') = ns_delivered (ds_inner d) @ bytes)"
  using assms by (rule ds.control_connection_sent)

theorem control_connection_one_reply_witness:
  "\<exists>d h guard reply. handle_control_connection (deadline_ops Linux (\<lambda>_. 0)) sample_control_codec
      (sv_responder sample_control_service ()) (sv_snapshot sample_control_service ()) \<lparr> peer_pid = 42, peer_uid_or_sid = ''1000'' \<rparr>
      (OwnerOnly ''1000'') None (deadline_stream_new sample_stream 5 0) (0 :: nat) = Some (Ok (HelloReply reply), d, h, guard) \<and>
    h = 1 \<and> (\<exists>req bytes. frame_on_wire sample_control_codec (hello_response_frame sample_control_codec req reply) bytes \<and>
       ns_delivered (ds_inner d) = bytes)"
proof -
  let ?run = "handle_control_connection (deadline_ops Linux (\<lambda>_. 0)) sample_control_codec
      (sv_responder sample_control_service ()) (sv_snapshot sample_control_service ()) \<lparr> peer_pid = 42, peer_uid_or_sid = ''1000'' \<rparr>
      (OwnerOnly ''1000'') None (deadline_stream_new sample_stream 5 0) (0 :: nat)"
  obtain d reply where run: "?run = Some (Ok (HelloReply reply), d, 1, None)"
    using control_connection_hello [of "OwnerOnly ''1000''" "\<lparr> peer_pid = 42, peer_uid_or_sid = ''1000'' \<rparr>" "\<lambda>_. 0" 5
        sample_stream "[9]" "[]" sample_control_codec sample_hello_frame "sv_responder sample_control_service ()" None 0 _ 1 None "[1, 2]"]
      sample_stream_pieces
    by (fastforce simp: hello_outcome_def sample_control_codec_def sample_control_service_def sample_hello_frame_def CONTROL_PAYLOAD_PROTOCOL_def
        ADMIN_PAYLOAD_PROTOCOL_def MAX_HELLO_BYTES_def MAX_HELLO_SIZE_BYTES_def MAX_FRAME_BYTES_def MAX_FRAME_SIZE_BYTES_def)
  from control_connection_one_reply [OF run] run show ?thesis
    by (auto simp: deadline_stream_new_def sample_stream_def)
qed

text \<open>Demotion under descriptor pressure. As long as the loop serves, it is demoted exactly when some
  call of \<open>accept\<close> has failed for want of descriptors and fewer accepts than the configured number have
  succeeded since (at least one is needed, whatever the configuration).\<close>

lemma fd_demotion_exact:
  assumes "control_loop sv limit events st = (Serving, st')" and "cs_guard st = fd_pressure_guard_new config"
  shows "fpg_demoted (cs_guard st') \<longleftrightarrow>
    under_pressure (sv_platform sv) (max 1 (unat (fpc_recovery_accepts config))) (map accept_outcome events)"
proof -
  have "guard_tracks (sv_platform sv) [] (cs_guard st)" using assms(2) guard_tracks_new by simp
  from control_loop_tracks [OF assms(1) this] show ?thesis
    using guard_tracks_demoted_iff [of "sv_platform sv" "map accept_outcome events" "cs_guard st'"] assms(2)
    by (simp add: fd_pressure_guard_new_def)
qed

text \<open>C25: One silent client stops the broker. When a client of the owner has not completed its request by
  the deadline, the refusal that follows is written through the same expired deadline, fails, and ends
  the accept loop, although the loop is unbounded: whatever connections come after, none is served.\<close>

theorem unfinished_request_ends_loop:
  fixes sv :: "('x, 'h, 'd) control_service"
  assumes "an_creds c = Ok creds" and "allows (sv_policy sv) (peer_identity_from_creds (sv_platform sv) creds)"
    and "hello_read_deadline (sv_timeout_env sv) (an_now c) = Some deadline" and "mono (an_clock c)"
    and "stream_read_frame (deadline_ops (sv_platform sv) (an_clock c)) (deadline_stream_new (an_stream c) deadline 0) =
      Some (Err (Io e :: 'd framing_error), d)" and "ioe_kind e = TimedOut"
    and "cc_encode_frame (sv_codec sv) (hello_response_frame (sv_codec sv) None (reply_for_framing_error (Io e :: 'd framing_error))) = Ok body"
    and "length body \<le> MAX_FRAME_BYTES"
  shows "control_loop sv Unbounded (Accepted c # events) st =
    (Returned (Err (CtlConnection (ConnFraming (Io timed_out)))),
     st\<lparr> cs_guard := snd (on_accept_ok (cs_guard st)), cs_accepted := cs_accepted st + 1 \<rparr>)"
  using serve_accepted_run [OF assms(1,3) control_connection_timed_out [OF assms(2,4,5,6,7,8)], of st] by (simp add: Let_def)

theorem unfinished_request_ends_loop_witness:
  "fst (control_loop sample_control_service Unbounded [Accepted (sample_connection [NotYet] 1000), Accepted (sample_connection [] 1000)] sample_state) =
    Returned (Err (CtlConnection (ConnFraming (Io timed_out))))"
proof -
  let ?c = "sample_connection [NotYet] 1000"
  let ?creds = "\<lparr> pc_pid = Some 42, pc_euid = Some 1000, pc_process_user_sid = (\<lambda>_. Err eof_error) \<rparr>"
  have owner: "allows (sv_policy sample_control_service) (peer_identity_from_creds (sv_platform sample_control_service) ?creds)"
    by (simp add: sample_control_service_def peer_identity_from_creds_def Let_def) code_simp
  obtain d where "stream_read_frame (deadline_ops (sv_platform sample_control_service) (an_clock ?c)) (deadline_stream_new (an_stream ?c) 30000000000 0) =
      Some (Err (Io timed_out :: string framing_error), d)"
    using ds_read_frame_silent [where 'd = string, of "an_clock ?c" "deadline_stream_new (an_stream ?c) 30000000000 0" 1]
    by (auto simp: stream_read_frame_def sample_connection_def deadline_stream_new_def clock_reaches_def)
  then have "control_loop sample_control_service Unbounded [Accepted ?c, Accepted (sample_connection [] 1000)] sample_state =
    (Returned (Err (CtlConnection (ConnFraming (Io timed_out)))),
     sample_state\<lparr> cs_guard := snd (on_accept_ok (cs_guard sample_state)), cs_accepted := cs_accepted sample_state + 1 \<rparr>)"
    by (intro unfinished_request_ends_loop [OF _ owner, where e = timed_out and d = d and deadline = 30000000000 and body = "[1, 2]"])
      (simp_all add: sample_connection_def sample_control_service_def sample_control_codec_def sample_deadline mono_def
        MAX_FRAME_BYTES_def MAX_FRAME_SIZE_BYTES_def)
  then show ?thesis by simp
qed





text \<open>What a bounded loop counts. A loop with a bound returns successfully after as many outcomes of
  \<open>accept\<close> as its bound, of which it has served the connections only: an accept that failed for want of
  descriptors uses up the bound too.\<close>

lemma bounded_loop_counts_failures:
  assumes "control_loop sv (Bounded n) events st = (Returned (Ok ()), st')" and "cs_accepted st = 0" "cs_served st = []"
  shows "n \<le> length events \<and> length (cs_served st') = length (filter is_accepted_event (take n events))"
  using control_loop_bounded [OF assms(1)] assms(2,3) by simp

end
