(* ===== verification/Broker_Serve.thy ===== *)
theory Broker_Serve
  imports Control_Socket
begin

text \<open>
  The serve modes of the broker process (\<open>server/serve.rs\<close>): the configuration, the registration of the
  serving process as its own backend, and the wiring of router, snapshot, guard and handoff hook into the
  accept loop of \<open>Control_Socket\<close>, for the mode with a registered backend and for the mode that launches
  backends.

  What differs from connection to connection (clocks, random draws, the answers of the operating
  system) is the world of the connection. The state behind the responder is the router, with the launch
  events so far.
\<close>

section \<open>Configuration\<close>

record broker_serve_config =
  bsc_socket_path :: string
  bsc_service_name :: string
  bsc_service_version :: string
  bsc_backend_endpoint :: string
  bsc_service_definition_dir :: string
  bsc_max_connections :: "nat option"
  bsc_handoff_endpoint :: "string option"

record broker_launch_serve_config =
  blc_socket_path :: string
  blc_service_definition_dir :: string
  blc_max_connections :: "nat option"

datatype 'd broker_serve_error =
    InvalidMaxConnections
  | EmptyBackendEndpoint
  | ServeServiceDefinition "'d service_definition_error"
  | ServeBrokerInstance broker_instance_error
  | ServeIdentity identity_error
  | ServeSid string
  | ServeVersionPolicy version_policy_block
  | ServeBackendHandle "'d probe_error"
  | RegisteredBackendMissing
  | ServeHelloHandler hello_handler_error
  | PeerPolicyUnavailable
  | ServeControlSocket "'d control_socket_error"

text \<open>The platform's directory of service definitions is an argument.\<close>

definition serve_config_new ::
  "string \<Rightarrow> string \<Rightarrow> string \<Rightarrow> string \<Rightarrow> string \<Rightarrow> nat \<Rightarrow> ('d broker_serve_error, broker_serve_config) result" where
  "serve_config_new platform_dir socket_path service_name service_version backend_endpoint max_connections =
    (if max_connections = 0 then Err InvalidMaxConnections
     else Ok \<lparr> bsc_socket_path = socket_path, bsc_service_name = service_name, bsc_service_version = service_version,
       bsc_backend_endpoint = backend_endpoint, bsc_service_definition_dir = platform_dir,
       bsc_max_connections = Some max_connections, bsc_handoff_endpoint = None \<rparr>)"

definition serve_config_unbounded ::
  "string \<Rightarrow> string \<Rightarrow> string \<Rightarrow> string \<Rightarrow> string \<Rightarrow> broker_serve_config" where
  "serve_config_unbounded platform_dir socket_path service_name service_version backend_endpoint =
    \<lparr> bsc_socket_path = socket_path, bsc_service_name = service_name, bsc_service_version = service_version,
      bsc_backend_endpoint = backend_endpoint, bsc_service_definition_dir = platform_dir,
      bsc_max_connections = None, bsc_handoff_endpoint = None \<rparr>"

definition with_service_definition_dir :: "string \<Rightarrow> broker_serve_config \<Rightarrow> broker_serve_config" where
  "with_service_definition_dir root config = config\<lparr> bsc_service_definition_dir := root \<rparr>"

definition with_handoff_endpoint :: "string \<Rightarrow> broker_serve_config \<Rightarrow> broker_serve_config" where
  "with_handoff_endpoint endpoint config = config\<lparr> bsc_handoff_endpoint := Some endpoint \<rparr>"

definition launch_serve_config_new ::
  "string \<Rightarrow> string \<Rightarrow> nat \<Rightarrow> ('d broker_serve_error, broker_launch_serve_config) result" where
  "launch_serve_config_new platform_dir socket_path max_connections =
    (if max_connections = 0 then Err InvalidMaxConnections
     else Ok \<lparr> blc_socket_path = socket_path, blc_service_definition_dir = platform_dir,
       blc_max_connections = Some max_connections \<rparr>)"

definition launch_serve_config_unbounded :: "string \<Rightarrow> string \<Rightarrow> broker_launch_serve_config" where
  "launch_serve_config_unbounded platform_dir socket_path =
    \<lparr> blc_socket_path = socket_path, blc_service_definition_dir = platform_dir, blc_max_connections = None \<rparr>"

definition launch_with_service_definition_dir ::
  "string \<Rightarrow> broker_launch_serve_config \<Rightarrow> broker_launch_serve_config" where
  "launch_with_service_definition_dir root config = config\<lparr> blc_service_definition_dir := root \<rparr>"

definition connection_limit :: "nat option \<Rightarrow> control_socket_connection_limit" where
  "connection_limit max_connections = (case max_connections of None \<Rightarrow> Unbounded | Some n \<Rightarrow> Bounded n)"

section \<open>The registered backend\<close>

text \<open>What the serving process reads of its host at the start.\<close>

record 'd serve_host =
  svh_router :: "'d router_env"
  svh_current_exe :: "(io_error, string) result"
  svh_sha256_file :: "string \<Rightarrow> (identity_error, bytes) result"
  svh_pid :: u32
  svh_boot_id :: string
  svh_unix_now_ms :: u64
  svh_process_os :: process_os
  svh_probe :: "'d probe_env"
  svh_socket :: socket_host
  svh_euid :: nat
  svh_user_sid :: "(io_error, string) result"
  svh_sid_hash :: "(string, string) result"

definition current_process ::
  "'d serve_host \<Rightarrow> endpoint \<Rightarrow> u32 option \<Rightarrow> (identity_error, daemon_process) result" where
  "current_process host ipc_endpoint idle_timeout_secs =
    result_bind (map_err CurrentExe (svh_current_exe host)) (\<lambda>exe_path.
    result_bind (svh_sha256_file host exe_path) (\<lambda>exe_sha256.
      Ok \<lparr> dp_pid = svh_pid host, dp_exe_path = exe_path, dp_exe_sha256 = exe_sha256,
           dp_boot_id = svh_boot_id host, dp_ipc_endpoint = ipc_endpoint,
           dp_started_at_unix_ms = svh_unix_now_ms host, dp_idle_timeout_secs = idle_timeout_secs \<rparr>))"

text \<open>The loader of a configuration reads its directory.\<close>

definition loader_env :: "string \<Rightarrow> 'd router_env \<Rightarrow> 'd router_env" where
  "loader_env root env = env\<lparr> re_definitions_root := root \<rparr>"

record registered_serve_backend =
  rsb_registry :: backend_registry
  rsb_instance :: broker_instance_key
  rsb_service_definition :: service_definition

definition build_registered_backend ::
  "'d serve_host \<Rightarrow> broker_serve_config \<Rightarrow> ('d broker_serve_error, registered_serve_backend) result option" where
  "build_registered_backend host config =
    (if bsc_backend_endpoint config = [] then Some (Err EmptyBackendEndpoint)
     else
     (case lookup_or_reload (loader_env (bsc_service_definition_dir config) (svh_router host)) (bsc_service_name config) of
        Err e \<Rightarrow> Some (Err (ServeServiceDefinition e))
      | Ok d \<Rightarrow>
     (case check_version_allowed (bsc_service_version config) d of
        Err block \<Rightarrow> Some (Err (ServeVersionPolicy block))
      | Ok _ \<Rightarrow>
     (case from_service_definition d of
        Err e \<Rightarrow> Some (Err (ServeBrokerInstance e))
      | Ok i \<Rightarrow>
        let endpoint = \<lparr> ep_namespace_id = instance_id i, ep_path = bsc_backend_endpoint config \<rparr> in
     (case current_process host endpoint (Some 30) of
        Err e \<Rightarrow> Some (Err (ServeIdentity e))
      | Ok daemon \<Rightarrow>
        map_option (\<lambda>probed. result_bind (map_err ServeBackendHandle probed) (\<lambda>handle.
            Ok \<lparr> rsb_registry = snd (registry_insert i handle registry_new), rsb_instance = i,
                 rsb_service_definition = d \<rparr>))
          (probe_with_service (svh_process_os host) (svh_probe host) (bsc_service_name config)
             (bsc_service_version config) endpoint daemon))))))"

definition build_hello_handler ::
  "'d serve_host \<Rightarrow> broker_serve_config \<Rightarrow> ('d broker_serve_error, hello_handler) result option" where
  "build_hello_handler host config =
    map_option (\<lambda>built. result_bind built (\<lambda>b.
        case registered_backend_for_any_build (rsb_registry b) (rsb_instance b) (rsb_service_definition b)
               (bsc_service_version config) of
          None \<Rightarrow> Err RegisteredBackendMissing
        | Some backend \<Rightarrow> map_err ServeHelloHandler (with_backend backend hello_handler_new)))
      (build_registered_backend host config)"

section \<open>The service behind the loop\<close>

text \<open>The world of one connection: for the router, for the admin snapshot, and for a handoff. \<open>sw_client\<close> is
  the client's stream after its return to blocking mode.\<close>

record 'd serve_world =
  sw_router :: "'d router_env"
  sw_host :: admin_host
  sw_elapsed :: duration
  sw_handoff :: "'d handoff_env"
  sw_client :: writer

type_synonym router_state = "hello_router \<times> launch_event list"

definition router_registry :: "hello_router \<Rightarrow> backend_registry" where
  "router_registry rt = (case rt_backends rt of Static r \<Rightarrow> r | Live r \<Rightarrow> r)"

definition serve_responder ::
  "(bytes \<Rightarrow> ('d, hello) result) \<Rightarrow> string \<Rightarrow> 'd serve_world \<Rightarrow> router_state hello_responder" where
  "serve_responder decode_hello root w f peer st =
    (case router_handle_frame decode_hello (loader_env root (sw_router w)) f peer (fst st) of
       (reply, rt, events) \<Rightarrow> (reply, (rt, snd st @ events)))"

definition serve_snapshot ::
  "string \<Rightarrow> 'd serve_world \<Rightarrow> fd_pressure_guard option \<Rightarrow> router_state \<Rightarrow> admin_snapshot" where
  "serve_snapshot instance_name w guard st =
    (let demoted = (case guard of Some g \<Rightarrow> fpg_demoted g | None \<Rightarrow> False) in
     with_fd_pressure_demoted demoted
       (from_registry (sw_host w) instance_name (sw_elapsed w) (\<not> demoted) 0 (router_registry (fst st)) []))"

definition registered_post_hello ::
  "broker_serve_config \<Rightarrow> broker_instance_key \<Rightarrow> 'd serve_world \<Rightarrow> hello_reply \<Rightarrow> nb_stream \<Rightarrow> router_state \<Rightarrow>
   nb_stream \<times> router_state" where
  "registered_post_hello config i w reply s st =
    (case bsc_handoff_endpoint config of
       None \<Rightarrow> (s, st)
     | Some handoff_endpoint \<Rightarrow>
       let run = complete_negotiated_handoff (sw_handoff w)
             \<lparr> shc_handoff_endpoint = handoff_endpoint, shc_service_name = bsc_service_name config,
               shc_service_version = bsc_service_version config, shc_instance = i,
               shc_registry = router_registry (fst st) \<rparr> ((sw_client w)\<lparr> wr_out := [] \<rparr>) reply
       in (s\<lparr> ns_delivered := ns_delivered s @ wr_out (hrn_client run) \<rparr>, st))"

definition registered_service ::
  "'d control_codec \<Rightarrow> (bytes \<Rightarrow> ('d, hello) result) \<Rightarrow> string option \<Rightarrow> platform \<Rightarrow> peer_credential_policy \<Rightarrow>
   broker_serve_config \<Rightarrow> broker_instance_key \<Rightarrow> ('d serve_world, router_state, 'd) control_service" where
  "registered_service cd decode_hello timeout_env platform policy config i =
    \<lparr> sv_platform = platform, sv_codec = cd, sv_policy = policy,
      sv_responder = serve_responder decode_hello (bsc_service_definition_dir config),
      sv_snapshot = serve_snapshot (instance_id i), sv_post_hello = registered_post_hello config i,
      sv_timeout_env = timeout_env \<rparr>"

definition launching_service ::
  "'d control_codec \<Rightarrow> (bytes \<Rightarrow> ('d, hello) result) \<Rightarrow> string option \<Rightarrow> platform \<Rightarrow> peer_credential_policy \<Rightarrow>
   broker_launch_serve_config \<Rightarrow> ('d serve_world, router_state, 'd) control_service" where
  "launching_service cd decode_hello timeout_env platform policy config =
    \<lparr> sv_platform = platform, sv_codec = cd, sv_policy = policy,
      sv_responder = serve_responder decode_hello (blc_service_definition_dir config),
      sv_snapshot = serve_snapshot ''launch'', sv_post_hello = (\<lambda>_ _ s st. (s, st)),
      sv_timeout_env = timeout_env \<rparr>"

section \<open>Serving\<close>

text \<open>A run either does not get to the loop, or is the loop with its final state. The probe of the start-up may
  not return, shown as \<open>None\<close>.\<close>

datatype 'd serve_run =
    NotStarted "'d broker_serve_error"
  | Ran "'d loop_status" "router_state control_state"

definition serve_registered_backend ::
  "'d control_codec \<Rightarrow> (bytes \<Rightarrow> ('d, hello) result) \<Rightarrow> string option \<Rightarrow> 'd serve_host \<Rightarrow> broker_serve_config \<Rightarrow>
   'd serve_world accept_event list \<Rightarrow> 'd serve_run option" where
  "serve_registered_backend cd decode_hello timeout_env host config events =
    (let platform = sh_platform (svh_socket host) in
     case build_registered_backend host config of
       None \<Rightarrow> None
     | Some (Err e) \<Rightarrow> Some (NotStarted e)
     | Some (Ok b) \<Rightarrow>
       (case current_user platform (svh_euid host) (svh_user_sid host) of
          None \<Rightarrow> Some (NotStarted PeerPolicyUnavailable)
        | Some policy \<Rightarrow>
          (case serve_control_socket (svh_socket host)
                  (registered_service cd decode_hello timeout_env platform policy config (rsb_instance b))
                  (connection_limit (bsc_max_connections config)) (fd_pressure_guard_new fd_pressure_config_default)
                  events (with_lifecycle_monitor (rsb_registry b) hm_empty, []) of
             (status, st) \<Rightarrow> Some (Ran status st))))"

definition serve_launching_backends_with_launcher ::
  "'d control_codec \<Rightarrow> (bytes \<Rightarrow> ('d, hello) result) \<Rightarrow> string option \<Rightarrow> 'd serve_host \<Rightarrow>
   broker_launch_serve_config \<Rightarrow> command_backend_launcher \<Rightarrow> 'd serve_world accept_event list \<Rightarrow> 'd serve_run" where
  "serve_launching_backends_with_launcher cd decode_hello timeout_env host config launcher events =
    (let platform = sh_platform (svh_socket host);
         router = with_backend_launcher launcher
           (with_spawn_coordinator spawn_coordinator_new (with_lifecycle_monitor registry_new hm_empty))
     in case current_user platform (svh_euid host) (svh_user_sid host) of
          None \<Rightarrow> NotStarted PeerPolicyUnavailable
        | Some policy \<Rightarrow>
          (case serve_control_socket (svh_socket host)
                  (launching_service cd decode_hello timeout_env platform policy config)
                  (connection_limit (blc_max_connections config)) (fd_pressure_guard_new fd_pressure_config_default)
                  events (router, []) of
             (status, st) \<Rightarrow> Ran status st))"

definition serve_launching_backends ::
  "'d control_codec \<Rightarrow> (bytes \<Rightarrow> ('d, hello) result) \<Rightarrow> string option \<Rightarrow> 'd serve_host \<Rightarrow>
   broker_launch_serve_config \<Rightarrow> 'd serve_world accept_event list \<Rightarrow> 'd serve_run" where
  "serve_launching_backends cd decode_hello timeout_env host config events =
    (case svh_sid_hash host of
       Err e \<Rightarrow> NotStarted (ServeSid e)
     | Ok user_sid_hash \<Rightarrow>
       serve_launching_backends_with_launcher cd decode_hello timeout_env host config
         (command_launcher_new user_sid_hash) events)"

definition no_spawn_in_flight :: "router_state \<Rightarrow> bool" where
  "no_spawn_in_flight st = (\<exists>co. rt_spawn_coordinator (fst st) = Some co \<and> (\<forall>key. \<not> in_flight co key))"

text \<open>The sample process serves itself.\<close>

definition sample_own_daemon :: daemon_process where
  "sample_own_daemon = sample_daemon\<lparr> dp_ipc_endpoint := \<lparr> ep_namespace_id = ''private:zccache'', ep_path = ''/s'' \<rparr>, dp_idle_timeout_secs := Some 30 \<rparr>"

definition sample_socket_host :: socket_host where
  "sample_socket_host = \<lparr> sh_platform = Linux, sh_has_parent = True, sh_create_dir_all = Ok (),
     sh_symlink_metadata = Err \<lparr> ioe_kind = NotFound, ioe_raw_os_error = None \<rparr>, sh_to_name = Ok (), sh_create_listener = Ok (),
     sh_set_permissions = Ok () \<rparr>"

definition sample_serve_host :: "string serve_host" where
  "sample_serve_host =
    \<lparr> svh_router = sample_router_env, svh_current_exe = Ok ''/bin/z'', svh_sha256_file = (\<lambda>_. Ok (replicate 32 5)), svh_pid = 9,
      svh_boot_id = ''b'', svh_unix_now_ms = 0, svh_process_os = sample_process_os, svh_probe = sample_probe_env sample_own_daemon,
      svh_socket = sample_socket_host, svh_euid = 1000, svh_user_sid = Err eof_error, svh_sid_hash = Ok ''0123456789abcdef'' \<rparr>"

definition sample_serve_config :: broker_serve_config where
  "sample_serve_config = serve_config_unbounded ''/etc/s'' ''/run/b'' ''zccache'' ''1.2.0'' ''/s''"

definition sample_world :: "string serve_world" where
  "sample_world =
    \<lparr> sw_router = sample_router_env\<lparr> re_sha256_file := (\<lambda>_. Ok (replicate 32 5)) \<rparr>,
      sw_host = \<lparr> ah_pid = 1, ah_unix_now_ms = 0, ah_inode_usage = Ok None, ah_is_alive = (\<lambda>_. True) \<rparr>, sw_elapsed = 0,
      sw_handoff = sample_handoff_env, sw_client = \<lparr> wr_out = [], wr_room = None, wr_fault = eof_error, wr_flush = None \<rparr> \<rparr>"

text \<open>Every registered backend is in the registry under its own identity, and was started by this broker.\<close>

definition launched_backends :: "router_state \<Rightarrow> bool" where
  "launched_backends st = (\<exists>r. rt_backends (fst st) = Live r \<and> registry_wf r \<and>
     (\<forall>(key, h) \<in> set r. \<exists>c. (dp_pid (bh_daemon_process h), c) \<in> set (spawned_children (snd st))))"

section \<open>Lemmas\<close>

lemma control_connection_handler:
  assumes "handle_control_connection ops cd responder snap peer policy guard s h = Some (r, s', h', guard')"
  shows "h' = h \<or> (\<exists>f. h' = snd (responder f peer h))"
  using assms unfolding handle_control_connection_def
  by (auto simp: case_prod_beta split: if_splits option.splits sum.splits dest!: answer_hello_guard)

text \<open>What responder and hook preserve, the loop preserves.\<close>

lemma serve_accepted_invariant:
  assumes "serve_accepted sv c st = (status, st')" "P (cs_handler st)"
    and "\<And>w f peer h. P h \<Longrightarrow> P (snd (sv_responder sv w f peer h))"
    and "\<And>w reply s h. P h \<Longrightarrow> P (snd (sv_post_hello sv w reply s h))"
  shows "P (cs_handler st')"
proof (cases "\<exists>creds deadline. an_creds c = Ok creds \<and> hello_read_deadline (sv_timeout_env sv) (an_now c) = Some deadline")
  case False
  then show ?thesis using assms(1,2) by (auto simp: serve_accepted_def Let_def split: sum.splits option.splits)
next
  case True
  then obtain creds deadline where c: "an_creds c = Ok creds" "hello_read_deadline (sv_timeout_env sv) (an_now c) = Some deadline"
    by blast
  let ?run = "handle_control_connection (deadline_ops (sv_platform sv) (an_clock c)) (sv_codec sv)
      (sv_responder sv (an_world c)) (sv_snapshot sv (an_world c)) (peer_identity_from_creds (sv_platform sv) creds)
      (sv_policy sv) (Some (snd (on_accept_ok (cs_guard st)))) (deadline_stream_new (an_stream c) deadline 0) (cs_handler st)"
  show ?thesis
  proof (cases ?run)
    case None
    then show ?thesis using assms(1,2) c by (auto simp: serve_accepted_def Let_def)
  next
    case (Some y)
    obtain r d h guard where y: "y = (r, d, h, guard)" by (cases y)
    obtain g where g: "guard = Some g" using control_connection_guard [OF Some [unfolded y]] by blast
    have h: "P h" using control_connection_handler [OF Some [unfolded y]] assms(2,3) by blast
    show ?thesis
      using assms(1,4) h serve_accepted_run [OF c Some [unfolded y g]]
      by (auto simp: Let_def case_prod_beta split: sum.splits control_socket_reply.splits)
  qed
qed

lemma control_loop_invariant:
  assumes "control_loop sv limit events st = (status, st')" "P (cs_handler st)"
    and "\<And>w f peer h. P h \<Longrightarrow> P (snd (sv_responder sv w f peer h))"
    and "\<And>w reply s h. P h \<Longrightarrow> P (snd (sv_post_hello sv w reply s h))"
  shows "P (cs_handler st')"
  using assms(1,2)
proof (induction events arbitrary: st)
  case (Cons event events)
  obtain x st1 where 1: "(case event of Accepted c \<Rightarrow> serve_accepted sv c st | AcceptFailed e \<Rightarrow> serve_accept_failed sv e st) = (x, st1)"
    by fastforce
  have "P (cs_handler st1)"
  proof (cases event)
    case (Accepted c)
    then show ?thesis using serve_accepted_invariant [of sv c st x st1 P] 1 Cons(3) assms(3,4) by auto
  next
    case (AcceptFailed e)
    then show ?thesis using 1 Cons(3) by (auto simp: serve_accept_failed_def split: prod.splits fd_pressure_decision.splits)
  qed
  then show ?case using Cons 1 by (auto split: if_splits loop_status.splits)
qed (auto split: if_splits)

lemma no_spawn_in_flight_responder:
  assumes "no_spawn_in_flight st"
  shows "no_spawn_in_flight (snd (serve_responder decode_hello root w f peer st))"
proof (cases "hello_request_decode decode_hello f peer")
  case (Inl e)
  then show ?thesis using assms by (simp add: serve_responder_def router_handle_frame_def no_spawn_in_flight_def)
next
  case (Inr request)
  obtain co where co: "rt_spawn_coordinator (fst st) = Some co" "\<forall>key. \<not> in_flight co key"
    using assms by (auto simp: no_spawn_in_flight_def)
  obtain reply rt' events where r: "router_handle_request (loader_env root (sw_router w)) request (fst st) = (reply, rt', events)"
    by (metis prod_cases3)
  from router_spawn_slot_released [OF r co(1)] co(2) show ?thesis
    using Inr r by (auto simp: serve_responder_def router_handle_frame_def no_spawn_in_flight_def)
qed

lemma in_flight_new: "\<not> in_flight spawn_coordinator_new key"
  by (simp add: in_flight_def spawn_coordinator_new_def spawn_coordinator_with_config_def hm_simps)

lemma no_spawn_in_flight_new:
  "no_spawn_in_flight (with_backend_launcher launcher (with_spawn_coordinator spawn_coordinator_new rt), events)"
  by (simp add: no_spawn_in_flight_def with_backend_launcher_def with_spawn_coordinator_def in_flight_new)

text \<open>What the router's answers preserve, a launching run preserves.\<close>

lemma launching_run_invariant:
  assumes "P (with_backend_launcher launcher (with_spawn_coordinator spawn_coordinator_new (with_lifecycle_monitor registry_new hm_empty)), [])"
    and "\<And>root w f peer h. P h \<Longrightarrow> P (snd (serve_responder decode_hello root w f peer h))"
  shows "case serve_launching_backends_with_launcher cd decode_hello timeout_env host config launcher events of
     NotStarted e \<Rightarrow> e = PeerPolicyUnavailable
   | Ran status st \<Rightarrow> P (cs_handler st)"
proof (cases "current_user (sh_platform (svh_socket host)) (svh_euid host) (svh_user_sid host)")
  case None
  then show ?thesis by (simp add: serve_launching_backends_with_launcher_def)
next
  case (Some policy)
  let ?sv = "launching_service cd decode_hello timeout_env (sh_platform (svh_socket host)) policy config"
  have "P (cs_handler st')"
    if "control_loop ?sv limit events st = (status, st')" "P (cs_handler st)" for limit st status st'
    using that by (rule control_loop_invariant) (simp_all add: launching_service_def assms(2))
  then show ?thesis
    using assms(1) Some
    by (auto simp: serve_launching_backends_with_launcher_def serve_control_socket_def Let_def split: prod.splits sum.splits)
qed

lemma build_registered_backend_OkD:
  assumes "build_registered_backend host config = Some (Ok b)"
  shows "\<exists>daemon. current_process host \<lparr> ep_namespace_id = instance_id (rsb_instance b), ep_path = bsc_backend_endpoint config \<rparr> (Some 30) = Ok daemon \<and>
    lookup_or_reload (loader_env (bsc_service_definition_dir config) (svh_router host)) (bsc_service_name config) = Ok (rsb_service_definition b) \<and>
    check_version_allowed (bsc_service_version config) (rsb_service_definition b) = Ok () \<and>
    from_service_definition (rsb_service_definition b) = Ok (rsb_instance b) \<and>
    rsb_registry b = hm_insert (backend_key_new (rsb_instance b) (bsc_service_name config) (bsc_service_version config) (hex_lower (dp_exe_sha256 daemon)))
      \<lparr> bh_service_name = bsc_service_name config, bh_service_version = bsc_service_version config, bh_daemon_process = daemon \<rparr> hm_empty"
proof -
  obtain d where d: "lookup_or_reload (loader_env (bsc_service_definition_dir config) (svh_router host)) (bsc_service_name config) = Ok d"
    "check_version_allowed (bsc_service_version config) d = Ok ()"
    using assms by (auto simp: build_registered_backend_def split: if_splits sum.splits)
  then obtain i where i: "from_service_definition d = Ok i"
    using assms by (auto simp: build_registered_backend_def split: if_splits sum.splits)
  let ?ep = "\<lparr> ep_namespace_id = instance_id i, ep_path = bsc_backend_endpoint config \<rparr>"
  obtain daemon where daemon: "current_process host ?ep (Some 30) = Ok daemon"
    using assms d i by (auto simp: build_registered_backend_def Let_def split: if_splits sum.splits)
  have "b = \<lparr> rsb_registry = snd (registry_insert i \<lparr> bh_service_name = bsc_service_name config,
        bh_service_version = bsc_service_version config, bh_daemon_process = daemon \<rparr> registry_new), rsb_instance = i, rsb_service_definition = d \<rparr>"
    using assms d i daemon
    by (auto simp: build_registered_backend_def probe_with_service_def Let_def
        split: if_splits sum.splits)
  then show ?thesis using d i daemon by (simp add: registry_insert_def registry_new_def Let_def)
qed

lemma registered_route:
  fixes env :: "'d router_env"
  assumes "lookup_or_reload env (he_service_name (hr_hello request)) = Ok d"
    and "check_version_allowed (he_wanted_version (hr_hello request)) d = Ok ()" and "from_service_definition d = Ok i"
    and "sd_service_name d = he_service_name (hr_hello request)"
    and "re_metadata env (sd_binary_path d) = Some m" "re_sha256_file env (sd_binary_path d) = Ok sha"
    and "re_is_alive env handle"
  shows "\<exists>rt'. route_request env request (with_lifecycle_monitor (hm_insert (backend_key_new i (he_service_name (hr_hello request))
      (he_wanted_version (hr_hello request)) (hex_lower sha)) handle hm_empty) hm_empty) = (Ok (registered_backend_of d handle), rt', [])"
proof -
  have exe: "fst (on_disk_exe_sha256_hex env (sd_binary_path d) hm_empty) = hex_lower sha"
    using assms(5,6) by (cases m) (simp add: on_disk_exe_sha256_hex_def hm_simps)
  obtain cache where cache: "on_disk_exe_sha256_hex env (sd_binary_path d) hm_empty = (hex_lower sha, cache)"
    using exe by (metis prod.collapse)
  have "hm_retain (\<lambda>k h. re_is_alive env h) (hm_insert k handle hm_empty) = hm_insert k handle hm_empty" for k :: backend_key
    using assms(7) by (simp add: hm_retain_def hm_insert_def hm_empty_def)
  then show ?thesis
    using assms(1-4) cache
    by (simp add: route_request_def with_lifecycle_monitor_def prune_stale_eq registry_registered_backend_for_def
        registry_get_def hm_simps Let_def)
qed

lemma registered_responder:
  fixes w :: "'d serve_world"
  assumes "build_registered_backend host config = Some (Ok b)"
    and "svh_current_exe host = Ok exe" "svh_sha256_file host exe = Ok sha"
    and "lookup_or_reload (loader_env (bsc_service_definition_dir config) (sw_router w)) (bsc_service_name config) = Ok (rsb_service_definition b)"
    and "re_metadata (sw_router w) (sd_binary_path (rsb_service_definition b)) = Some m"
      "re_sha256_file (sw_router w) (sd_binary_path (rsb_service_definition b)) = Ok sha"
    and "\<forall>k h. hm_get (rsb_registry b) k = Some h \<longrightarrow> re_is_alive (sw_router w) h"
    and "hello_request_decode decode_hello f peer = Ok request" "validate_hello_shape (hr_hello request) (hr_peer request) = None"
    and "he_service_name (hr_hello request) = bsc_service_name config" "he_wanted_version (hr_hello request) = bsc_service_version config"
  shows "\<exists>n rt. serve_responder decode_hello (bsc_service_definition_dir config) w f peer (with_lifecycle_monitor (rsb_registry b) hm_empty, []) =
      (Some (Negotiated n), (rt, [])) \<and> ng_backend_pipe n = bsc_backend_endpoint config \<and> ng_daemon_version n = bsc_service_version config"
proof -
  let ?env = "loader_env (bsc_service_definition_dir config) (sw_router w)"
  obtain daemon where daemon: "current_process host \<lparr> ep_namespace_id = instance_id (rsb_instance b), ep_path = bsc_backend_endpoint config \<rparr> (Some 30) = Ok daemon"
    and v: "check_version_allowed (bsc_service_version config) (rsb_service_definition b) = Ok ()"
      "from_service_definition (rsb_service_definition b) = Ok (rsb_instance b)"
    and r: "rsb_registry b = hm_insert (backend_key_new (rsb_instance b) (bsc_service_name config) (bsc_service_version config) (hex_lower (dp_exe_sha256 daemon)))
      \<lparr> bh_service_name = bsc_service_name config, bh_service_version = bsc_service_version config, bh_daemon_process = daemon \<rparr> hm_empty"
    using build_registered_backend_OkD [OF assms(1)] by blast
  have dm: "dp_exe_sha256 daemon = sha" "ep_path (dp_ipc_endpoint daemon) = bsc_backend_endpoint config"
    using daemon assms(2,3) by (auto simp: current_process_def)
  let ?h = "\<lparr> bh_service_name = bsc_service_name config, bh_service_version = bsc_service_version config, bh_daemon_process = daemon \<rparr>"
  let ?b = "registered_backend_of (rsb_service_definition b) ?h"
  have name: "sd_service_name (rsb_service_definition b) = bsc_service_name config"
    using loaded_definition_installs(1) [OF assms(4), of ?b] by (simp add: registered_backend_of_def)
  have alive: "re_is_alive ?env ?h" using assms(7) r by (auto simp: hm_simps loader_env_def split: if_splits)
  obtain rt' where route: "route_request ?env request (with_lifecycle_monitor (rsb_registry b) hm_empty) = (Ok ?b, rt', [])"
    using registered_route [of ?env request "rsb_service_definition b" "rsb_instance b" m sha ?h] assms(4-6,10,11) alive v name r dm(1)
    by (auto simp: loader_env_def)
  obtain h' where h': "with_backend ?b hello_handler_new = Ok h'"
    using loaded_definition_installs(2) [OF assms(4), of ?b] by (auto simp: registered_backend_of_def)
  obtain n where n: "fst (handle_request (re_hello_env ?env) request h') = Some (Negotiated n)"
    using fresh_handler_negotiates [OF h' assms(9)] name v(1) assms(10,11) by (auto simp: registered_backend_of_def)
  have "router_handle_frame decode_hello ?env f peer (with_lifecycle_monitor (rsb_registry b) hm_empty) = (Some (Negotiated n), rt', [])"
    using assms(8,9) route h' n by (simp add: router_handle_frame_def router_handle_request_def)
  then show ?thesis
    using fresh_handler_reply [OF h' n] dm(2) by (simp add: serve_responder_def registered_backend_of_def)
qed

lemma sample_own_probe:
  "probe_endpoint sample_process_os (sample_probe_env sample_own_daemon) (dp_ipc_endpoint sample_own_daemon) sample_own_daemon = Some (Ok ())"
proof -
  have "verify_daemon_process sample_process_os sample_own_daemon = Ok ()"
    by (simp add: verify_daemon_process_def sample_process_os_def sample_own_daemon_def sample_daemon_def same_exe_path_def)
  then show ?thesis
    by (subst probe_endpoint_honest [OF _ _ _ sample_probe_setup(3-6) sample_probe_request_def
          sample_probe_response_def sample_probe_codec _ sample_probe_peer])
      (simp_all add: sample_own_daemon_def sample_daemon_def same_daemon_identity_def same_endpoint_def
        connect_endpoint_with_deadline_def sample_probe_env_def Let_def)
qed

lemma sample_definition:
  "lookup_or_reload (loader_env ''/etc/s'' (sample_router_env\<lparr> re_sha256_file := hash \<rparr>)) ''zccache'' =
    Ok (sample_service\<lparr> sd_per_version_binary_dir := ''/bin'' \<rparr>)"
proof -
  have "is_ok (lookup_or_reload sample_router_env ''zccache'')"
    by code_simp
  then have "lookup_or_reload sample_router_env ''zccache'' = Ok (sample_service\<lparr> sd_per_version_binary_dir := ''/bin'' \<rparr>)"
    using sample_lookup by (cases "lookup_or_reload sample_router_env ''zccache''") auto
  then show ?thesis by (simp add: lookup_or_reload_def loader_env_def sample_router_env_def)
qed

lemma sample_registered:
  "\<exists>b. build_registered_backend sample_serve_host sample_serve_config = Some (Ok b) \<and>
    rsb_service_definition b = sample_service\<lparr> sd_per_version_binary_dir := ''/bin'' \<rparr>"
proof -
  have l: "lookup_or_reload (loader_env ''/etc/s'' sample_router_env) ''zccache'' = Ok (sample_service\<lparr> sd_per_version_binary_dir := ''/bin'' \<rparr>)"
    using sample_definition [of "re_sha256_file sample_router_env"] by (simp add: sample_router_env_def)
  have v: "check_version_allowed ''1.2.0'' (sample_service\<lparr> sd_per_version_binary_dir := ''/bin'' \<rparr>) = Ok ()"
    "from_service_definition (sample_service\<lparr> sd_per_version_binary_dir := ''/bin'' \<rparr>) = Ok (Private ''zccache'')"
    by code_simp+
  show ?thesis
    using l v sample_own_probe
    by (simp add: build_registered_backend_def sample_serve_host_def sample_serve_config_def serve_config_unbounded_def
        current_process_def probe_with_service_def sample_own_daemon_def sample_daemon_def Let_def)
qed

lemma sample_decoded:
  "hello_request_decode (\<lambda>_. Ok (sample_hello ''1.2.0'')) (frame_request CONTROL_PAYLOAD_PROTOCOL []) \<lparr> peer_pid = 7, peer_uid_or_sid = ''1000'' \<rparr> =
    Ok (sample_request ''1.2.0'')"
  by (simp add: hello_request_decode_def validate_frame_envelope_def frame_request_def frame_kind_try_from_def
      payload_encoding_try_from_def sample_request_def)

lemma sample_router_checks:
  "re_metadata sample_router_env path = Some (Some 3, 4)" "re_is_alive sample_router_env h"
  "he_service_name (hr_hello (sample_request v)) = ''zccache''" "he_wanted_version (hr_hello (sample_request v)) = v"
  "sd_binary_path sample_service = ''/bin/z''"
  by (simp_all add: sample_router_env_def sample_request_def sample_hello_def sample_service_def)

lemma spawned_children_append: "spawned_children (xs @ ys) = spawned_children xs @ spawned_children ys"
  by (simp add: spawned_children_def map_filter_def)

lemma launched_backends_mono:
  "launched_backends (rt, events) \<Longrightarrow> launched_backends (rt, events @ evs)"
  by (force simp: launched_backends_def spawned_children_append)

lemma launched_backends_backends:
  "rt_backends rt' = rt_backends rt \<Longrightarrow> launched_backends (rt', events) = launched_backends (rt, events)"
  by (simp add: launched_backends_def)

lemma launched_backends_lookup:
  assumes "router_registered_backend_for is_alive i d v exe (rt_backends rt) = (b, view)" "launched_backends (rt, events)"
  shows "launched_backends (rt\<lparr> rt_exe_cache := cache, rt_backends := view \<rparr>, events)"
proof -
  obtain r where r: "rt_backends rt = Live r" "registry_wf r"
    "\<forall>(key, h) \<in> set r. \<exists>c. (dp_pid (bh_daemon_process h), c) \<in> set (spawned_children events)"
    using assms(2) by (auto simp: launched_backends_def)
  have "set (snd (prune_stale is_alive r)) \<subseteq> set r" by (auto simp: prune_stale_eq hm_retain_def)
  then show ?thesis
    using assms(1) r registry_wf_prune [OF r(2)] by (fastforce simp: launched_backends_def Let_def)
qed

lemma hm_insert_subset: "set (hm_insert k v m) \<subseteq> insert (k, v) (set m)"
  unfolding hm_insert_def by (induction m) auto

lemma launched_backends_insert:
  assumes "launched_backends (rt, events)" "(dp_pid (bh_daemon_process h), c) \<in> set (spawned_children evs)"
    and "rt_backends rt = Live r" "rt_backends rt' = Live (snd (registry_insert i h r))"
  shows "launched_backends (rt', events @ evs)"
proof -
  have "set (snd (registry_insert i h r)) \<subseteq> insert (backend_key_new i (bh_service_name h) (bh_service_version h)
      (hex_lower (dp_exe_sha256 (bh_daemon_process h))), h) (set r)"
    using hm_insert_subset by (simp add: registry_insert_def Let_def)
  then show ?thesis
    using assms registry_wf_insert [of r i h]
    by (fastforce simp: launched_backends_def spawned_children_append)
qed

lemma launched_backends_launch:
  assumes "launch_backend env key d trace rt = (r, rt', evs)" "launched_backends (rt, events)"
  shows "launched_backends (rt', events @ evs)"
  using assms(1)
proof (cases rule: launch_backend_cases)
  case (launched rt1 l minted rt2 h l')
  obtain c where c: "(dp_pid (bh_daemon_process h), c) \<in> set (spawned_children evs)"
    using launch_handle [OF launched(4)] by (auto simp: spawned_children_iff)
  obtain reg where reg: "rt_backends rt = Live reg" using assms(2) by (auto simp: launched_backends_def)
  have "rt_backends rt2 = Live reg"
    using begin_spawn_Ok [OF launched(1)] mint_session_token_frame [OF launched(3)] reg by simp
  then have "rt_backends rt' = Live (snd (registry_insert (bk_instance key) h reg))"
    using launched(5,6,8) by (simp add: register_launched_backend_def finish_spawn_def)
  then show ?thesis by (rule launched_backends_insert [OF assms(2) c reg])
next
  case (refused e)
  have "rt_backends rt' = rt_backends rt" by (metis refused(1) snd_conv begin_spawn_frame(1))
  then show ?thesis using assms(2) refused(3) launched_backends_backends [of rt' rt] by simp
next
  case (no_launcher rt1 e)
  have "rt_backends rt' = rt_backends rt" using begin_spawn_Ok [OF no_launcher(1)] no_launcher(4) by (simp add: finish_spawn_def)
  then show ?thesis using assms(2) no_launcher(5) launched_backends_backends [of rt' rt] by simp
next
  case (failed rt1 l minted rt2 e l' x)
  have "rt_backends rt' = rt_backends rt"
    using begin_spawn_Ok [OF failed(1)] mint_session_token_frame [OF failed(3)] failed(6) by (simp add: finish_spawn_def)
  then show ?thesis
    using launched_backends_mono [OF assms(2)] launched_backends_backends [of rt' rt] by simp
qed

lemma launched_backends_new:
  "launched_backends (with_backend_launcher launcher (with_spawn_coordinator co (with_lifecycle_monitor registry_new cache)), [])"
  by (simp add: launched_backends_def with_backend_launcher_def with_spawn_coordinator_def with_lifecycle_monitor_def
      registry_wf_new) (simp add: registry_new_def hm_empty_def)

lemma launched_backends_responder:
  assumes "launched_backends st"
  shows "launched_backends (snd (serve_responder decode_hello root w f peer st))"
proof -
  let ?env = "loader_env root (sw_router w)"
  have route: "launched_backends (rt', snd st @ evs)" if "route_request ?env request (fst st) = (r, rt', evs)" for request r rt' evs
    using that
  proof (cases rule: route_request_cases)
    case (found d i exe cache b view)
    then show ?thesis using launched_backends_lookup [OF found(5), of "snd st"] assms by simp
  next
    case (missing d i exe cache view)
    show ?thesis
      by (rule launched_backends_launch [OF missing(6) launched_backends_lookup [OF missing(5)]]) (simp add: assms)
  qed (use assms in simp)
  then show ?thesis
    using assms
    by (auto simp: serve_responder_def router_handle_frame_def router_handle_request_def split: prod.splits sum.splits option.splits)
qed

section \<open>Properties\<close>

text \<open>A broker that serves its own backend negotiates it. When the start-up has registered the serving process for
  the configured service, the service definition is still the one it read, the binary on disk is still the
  executable the process runs, and the process is alive, then a well-formed Hello for the configured
  service and version is negotiated, with the configured endpoint and version, and launches nothing.\<close>

lemma registered_serve_negotiates:
  fixes w :: "'d serve_world"
  assumes "build_registered_backend host config = Some (Ok b)"
    and "svh_current_exe host = Ok exe" "svh_sha256_file host exe = Ok sha"
    and "lookup_or_reload (loader_env (bsc_service_definition_dir config) (sw_router w)) (bsc_service_name config) = Ok (rsb_service_definition b)"
    and "re_metadata (sw_router w) (sd_binary_path (rsb_service_definition b)) = Some m"
      "re_sha256_file (sw_router w) (sd_binary_path (rsb_service_definition b)) = Ok sha"
    and "\<forall>k h. hm_get (rsb_registry b) k = Some h \<longrightarrow> re_is_alive (sw_router w) h"
    and "hello_request_decode decode_hello f peer = Ok request" "validate_hello_shape (hr_hello request) (hr_peer request) = None"
    and "he_service_name (hr_hello request) = bsc_service_name config" "he_wanted_version (hr_hello request) = bsc_service_version config"
  shows "\<exists>n rt. serve_responder decode_hello (bsc_service_definition_dir config) w f peer (with_lifecycle_monitor (rsb_registry b) hm_empty, []) =
      (Some (Negotiated n), (rt, [])) \<and> ng_backend_pipe n = bsc_backend_endpoint config \<and> ng_daemon_version n = bsc_service_version config"
  using assms by (rule registered_responder)

text \<open>C11: Readiness tells the truth. What the broker answers to a prompt Hello of an authorized client is decided by
  what it would have answered to a readiness request on the same connection: when that has the exit code
  0, the router answers; when it has not, the broker refuses for want of descriptors and the router
  does not see the Hello.\<close>

theorem readyz_agrees_with_hello:
  fixes cd :: "'d control_codec"
  assumes "admin_verb_try_from (aq_verb q) = Some VerbReadyz"
    and "allows policy peer" "\<And>k. clock k < deadline"
    and "sends_in_pieces (ns_incoming s)" "arriving (ns_incoming s) = write_frame_header body @ body @ rest" "takes_in_pieces s"
    and "cc_decode_frame cd body = Ok f" "fr_payload_protocol f \<noteq> ADMIN_PAYLOAD_PROTOCOL" "length body \<le> MAX_HELLO_BYTES"
    and "\<And>reply. \<exists>out. cc_encode_frame cd (hello_response_frame cd (Some f) reply) = Ok out \<and> length out \<le> MAX_FRAME_BYTES"
  shows "\<exists>d' guard'. handle_control_connection (deadline_ops Linux clock) cd (serve_responder decode_hello root w)
      (serve_snapshot inst w) peer policy (Some guard) (deadline_stream_new s deadline 0) st =
    (if ay_exit_code (render_admin_reply ar (serve_snapshot inst w (Some guard) st) q) = 0
     then Some (Ok (HelloReply (fst (serve_responder decode_hello root w f peer st))), d',
        snd (serve_responder decode_hello root w f peer st), guard')
     else Some (Ok (HelloReply (connection_refused_reply ErrorFdPressure
        ''broker is low on file descriptors; retry shortly'' (fpc_retry_after_ms (fpg_config guard)))), d', st, guard'))"
proof -
  obtain reply h' guard' where o: "hello_outcome (serve_responder decode_hello root w) peer (Some guard) f st = (reply, h', guard')"
    by (metis prod_cases3)
  obtain out where out: "cc_encode_frame cd (hello_response_frame cd (Some f) reply) = Ok out" "length out \<le> MAX_FRAME_BYTES"
    using assms(10) by blast
  obtain d' where "handle_control_connection (deadline_ops Linux clock) cd (serve_responder decode_hello root w)
      (serve_snapshot inst w) peer policy (Some guard) (deadline_stream_new s deadline 0) st = Some (Ok (HelloReply reply), d', h', guard')"
    using control_connection_hello [where clock = clock and ticks = 0, OF assms(2-9) o out] by blast
  moreover have "ay_exit_code (render_admin_reply ar (serve_snapshot inst w (Some guard) st) q) = 0 \<longleftrightarrow> \<not> fpg_demoted guard"
    using assms(1) by (simp add: render_admin_reply_def text_reply_def serve_snapshot_def with_fd_pressure_demoted_def
        from_registry_def from_registry_at_def Let_def)
  ultimately show ?thesis
    using o by (auto simp: hello_outcome_def refusal_reply_def split: if_splits)
qed

theorem readyz_agrees_with_hello_witness:
  "\<exists>d' guard'. handle_control_connection (deadline_ops Linux (\<lambda>_. 0)) sample_control_codec
      (serve_responder (\<lambda>_. Ok (sample_hello ''1.2.0'')) ''/etc/s'' sample_world) (serve_snapshot ''launch'' sample_world)
      \<lparr> peer_pid = 42, peer_uid_or_sid = ''1000'' \<rparr> (OwnerOnly ''1000'')
      (Some ((fd_pressure_guard_new fd_pressure_config_default)\<lparr> fpg_demoted := True \<rparr>)) (deadline_stream_new sample_stream 5 0)
      (sample_router, []) =
    Some (Ok (HelloReply (connection_refused_reply ErrorFdPressure ''broker is low on file descriptors; retry shortly''
       (fpc_retry_after_ms fd_pressure_config_default))), d', (sample_router, []), guard')"
  using readyz_agrees_with_hello [of "\<lparr> aq_verb = 5, aq_json = False, aq_service_name = [], aq_output_path = [] \<rparr>"
      "OwnerOnly ''1000''" "\<lparr> peer_pid = 42, peer_uid_or_sid = ''1000'' \<rparr>" "\<lambda>_. 0" 5 sample_stream "[9]" "[]" sample_control_codec
      sample_hello_frame "\<lambda>_. Ok (sample_hello ''1.2.0'')" "''/etc/s''" sample_world "''launch''"
      "(fd_pressure_guard_new fd_pressure_config_default)\<lparr> fpg_demoted := True \<rparr>" "(sample_router, [])"
      "\<lparr> ar_to_string = (\<lambda>_. []), ar_service_definition_dir = [], ar_service_def_dir_env = False \<rparr>"] sample_stream_pieces
  by (simp add: admin_verb_try_from_def sample_control_codec_def sample_hello_frame_def CONTROL_PAYLOAD_PROTOCOL_def
      ADMIN_PAYLOAD_PROTOCOL_def MAX_HELLO_BYTES_def MAX_HELLO_SIZE_BYTES_def MAX_FRAME_BYTES_def MAX_FRAME_SIZE_BYTES_def
      render_admin_reply_def text_reply_def serve_snapshot_def with_fd_pressure_demoted_def from_registry_def from_registry_at_def
      fd_pressure_guard_new_def)

text \<open>C10: Launches do not leak. Whatever connections and failures a launching broker meets, and however its run ends,
  no spawn of any backend is left in flight in its coordinator between connections.\<close>

theorem launching_broker_no_spawn_in_flight:
  "case serve_launching_backends_with_launcher cd decode_hello timeout_env host config launcher events of
     NotStarted e \<Rightarrow> e = PeerPolicyUnavailable
   | Ran status st \<Rightarrow> no_spawn_in_flight (cs_handler st)"
  by (rule launching_run_invariant)
    (simp_all add: no_spawn_in_flight_new no_spawn_in_flight_responder)

text \<open>C9: A launching broker knows only what it started. Whatever connections it meets, its registry holds every
  backend under the backend's own name, version and executable hash, and every registered backend is a
  process that this broker has started in this run.\<close>

theorem launching_broker_registry_typed:
  "case serve_launching_backends_with_launcher cd decode_hello timeout_env host config launcher events of
     NotStarted e \<Rightarrow> e = PeerPolicyUnavailable
   | Ran status st \<Rightarrow> launched_backends (cs_handler st)"
  by (rule launching_run_invariant)
    (simp_all add: launched_backends_new launched_backends_responder)

end
