(* ===== verification/Broker_Client.thy ===== *)
theory Broker_Client
  imports Broker_Serve
begin

text \<open>
  The client's side of the v1 exchange: the blocking client (\<open>broker/client.rs\<close>), the one-call adoption
  (\<open>broker/adopt.rs\<close>) and the correlated frame client (\<open>backend_sdk/frame_client.rs\<close>), with the end-to-end
  properties of client and broker together.

  A connected stream is what the client has written, what the peer sends as a function of that, and how
  much of it the client has consumed. The helper threads that bound a round trip show up as how long
  the bounded call takes (\<open>None\<close> when it never returns) against the timeout of the receiving side.
\<close>

section \<open>Connected streams\<close>

record client_stream =
  cst_writer :: writer
  cst_peer :: "bytes \<Rightarrow> reader"
  cst_consumed :: nat

definition client_reader :: "client_stream \<Rightarrow> reader" where
  "client_reader s =
    (let r = cst_peer s (wr_out (cst_writer s)) in r\<lparr> rd_bytes := drop (cst_consumed s) (rd_bytes r) \<rparr>)"

definition client_write_frame ::
  "bytes \<Rightarrow> client_stream \<Rightarrow> ('d framing_error, nat) result \<times> client_stream" where
  "client_write_frame body s =
    (case write_frame (cst_writer s) body of (r, w) \<Rightarrow> (r, s\<lparr> cst_writer := w \<rparr>))"

definition client_read_frame :: "client_stream \<Rightarrow> ('d framing_error, bytes) result \<times> client_stream" where
  "client_read_frame s =
    (case read_frame (client_reader s) of
       (r, rest) \<Rightarrow> (r, s\<lparr> cst_consumed := cst_consumed s + (length (rd_bytes (client_reader s)) - length (rd_bytes rest)) \<rparr>))"

section \<open>The environment\<close>

definition RUNNING_PROCESS_DISABLE_VALUE :: string where
  "RUNNING_PROCESS_DISABLE_VALUE = ''1''"

text \<open>The variable as the operating system has it, converted to UTF-8.\<close>

definition broker_disabled_by_env :: "string option \<Rightarrow> (string, bool) result" where
  "broker_disabled_by_env var =
    (case var of
       None \<Rightarrow> Ok False
     | Some value \<Rightarrow> if value = RUNNING_PROCESS_DISABLE_VALUE then Ok True else Err value)"

definition DEFAULT_HANDOFF_READY_TIMEOUT :: duration where
  "DEFAULT_HANDOFF_READY_TIMEOUT = from_secs 2"

definition DEFAULT_BROKER_CLIENT_TIMEOUT :: duration where
  "DEFAULT_BROKER_CLIENT_TIMEOUT = from_secs 30"

definition parse_broker_client_timeout :: "string option \<Rightarrow> duration" where
  "parse_broker_client_timeout raw =
    (case raw of
       None \<Rightarrow> DEFAULT_BROKER_CLIENT_TIMEOUT
     | Some raw \<Rightarrow>
       (case parse_u64 (trim_whitespace raw) of
          None \<Rightarrow> DEFAULT_BROKER_CLIENT_TIMEOUT
        | Some ms \<Rightarrow> if ms > 0 then from_millis ms else DEFAULT_BROKER_CLIENT_TIMEOUT))"

text \<open>What the client reads of its host during one call. The three outcomes of connecting differ, since
  they are made one after the other.\<close>

record client_world =
  cw_platform :: platform
  cw_disable :: "string option"
  cw_timeout_env :: "string option"
  cw_test_seams :: bool
  cw_fake_backend :: "string option"
  cw_pid :: u32
  cw_connect_cached :: "string \<Rightarrow> (io_error, client_stream) result"
  cw_connect_broker :: "string \<Rightarrow> (io_error, client_stream) result"
  cw_connect_backend :: "string \<Rightarrow> (io_error, client_stream) result"
  cw_round_trip :: "duration option"
  cw_relay_read :: "duration option"

record 'd client_codec =
  cl_encode_frame :: "frame \<Rightarrow> bytes"
  cl_decode_frame :: "bytes \<Rightarrow> ('d, frame) result"
  cl_encode_hello :: "hello \<Rightarrow> bytes"
  cl_decode_hello_reply :: "bytes \<Rightarrow> ('d, hello_reply) result"
  cl_encode_admin_request :: "admin_request \<Rightarrow> bytes"
  cl_decode_admin_reply :: "bytes \<Rightarrow> ('d, admin_reply) result"
  cl_decode_ack :: "bytes \<Rightarrow> ('d, handoff_ack) result"

text \<open>\<open>recv_timeout\<close> on the channel of a helper thread.\<close>

definition received_in_time :: "duration option \<Rightarrow> duration \<Rightarrow> bool" where
  "received_in_time takes timeout = (case takes of None \<Rightarrow> False | Some t \<Rightarrow> t \<le> timeout)"

section \<open>Requests and errors\<close>

record connect_backend_request =
  cbr_broker_endpoint :: string
  cbr_service_name :: string
  cbr_wanted_version :: string
  cbr_self_version :: string
  cbr_cached_backend_endpoint :: "string option"
  cbr_client_version :: string
  cbr_client_lib_name :: string
  cbr_client_lib_version :: string
  cbr_client_keepalive_secs :: u64
  cbr_adopt_handed_off_connection :: bool
  cbr_handoff_ready_timeout :: duration

text \<open>The version of the package is an argument.\<close>

definition connect_backend_request_new :: "string \<Rightarrow> string \<Rightarrow> string \<Rightarrow> string \<Rightarrow> string \<Rightarrow> connect_backend_request" where
  "connect_backend_request_new pkg_version broker_endpoint service_name wanted_version self_version =
    \<lparr> cbr_broker_endpoint = broker_endpoint, cbr_service_name = service_name, cbr_wanted_version = wanted_version,
      cbr_self_version = self_version, cbr_cached_backend_endpoint = None, cbr_client_version = [],
      cbr_client_lib_name = ''running-process'', cbr_client_lib_version = pkg_version, cbr_client_keepalive_secs = 0,
      cbr_adopt_handed_off_connection = False, cbr_handoff_ready_timeout = DEFAULT_HANDOFF_READY_TIMEOUT \<rparr>"

definition can_hello_skip :: "connect_backend_request \<Rightarrow> bool" where
  "can_hello_skip request =
    (cbr_cached_backend_endpoint request \<noteq> None \<and> cbr_wanted_version request = cbr_self_version request)"

definition client_capabilities :: "platform \<Rightarrow> u64" where
  "client_capabilities p = (if handoff_transport_available p then CAP_HANDLE_PASSING else 0)"

definition request_hello :: "client_world \<Rightarrow> connect_backend_request \<Rightarrow> hello" where
  "request_hello cw request =
    \<lparr> he_client_min_protocol = PROTOCOL_VERSION, he_client_max_protocol = PROTOCOL_VERSION,
      he_service_name = cbr_service_name request, he_wanted_version = cbr_wanted_version request,
      he_client_version = cbr_client_version request, he_client_capabilities = client_capabilities (cw_platform cw),
      he_auth_token = [], he_request_id = ''hello'', he_connection_id = 0, he_peer_pid = cw_pid cw,
      he_client_lib_name = cbr_client_lib_name request, he_client_lib_version = cbr_client_lib_version request,
      he_peer_attestation_nonce = [], he_capability_token = [],
      he_client_keepalive_secs = cbr_client_keepalive_secs request \<rparr>"

datatype backend_connection_route = HelloSkip | BrokerNegotiated | HandlePassed

record backend_connection =
  bcn_stream :: client_stream
  bcn_endpoint :: string
  bcn_route :: backend_connection_route
  bcn_negotiated :: "negotiated option"

definition connection_handoff_token :: "backend_connection \<Rightarrow> bytes option" where
  "connection_handoff_token c =
    (case bcn_negotiated c of
       None \<Rightarrow> None
     | Some n \<Rightarrow> if ng_handle_passed_token n = [] then None else Some (ng_handle_passed_token n))"

datatype 'd broker_client_error =
    BrokerConnect io_error
  | BackendConnect io_error
  | ClientFraming "'d framing_error"
  | ClientDecodeFrame 'd
  | DecodeHelloReply 'd
  | DecodeAdminReply 'd
  | UnexpectedResponseFrame string
  | MissingHelloReplyResult
  | ClientRefused error_code string u64
  | EmptyBackendPipe

definition error_code_try_from :: "int \<Rightarrow> error_code option" where
  "error_code_try_from n =
    List.find (\<lambda>c. error_code_i32 c = n)
      [ErrorCodeUnspecified, ErrorVersionUnsupported, ErrorServiceUnknown, ErrorBackendSpawnFailed, ErrorRateLimited,
       ErrorShuttingDown, ErrorPeerRejected, ErrorInternal, ErrorVersionBlocked, ErrorFdPressure]"

datatype refusal_kind =
    KindVersionUnsupported | KindVersionBlocked | KindServiceUnknown | KindRateLimited | KindShuttingDown
  | KindOther error_code

fun refusal_kind_from_code :: "error_code \<Rightarrow> refusal_kind" where
  "refusal_kind_from_code ErrorVersionUnsupported = KindVersionUnsupported"
| "refusal_kind_from_code ErrorVersionBlocked = KindVersionBlocked"
| "refusal_kind_from_code ErrorServiceUnknown = KindServiceUnknown"
| "refusal_kind_from_code ErrorRateLimited = KindRateLimited"
| "refusal_kind_from_code ErrorShuttingDown = KindShuttingDown"
| "refusal_kind_from_code other = KindOther other"

fun error_refusal_kind :: "'d broker_client_error \<Rightarrow> refusal_kind option" where
  "error_refusal_kind (ClientRefused code reason retry_after_ms) = Some (refusal_kind_from_code code)"
| "error_refusal_kind other = None"

definition validate_response_frame :: "frame \<Rightarrow> u32 \<Rightarrow> string \<Rightarrow> ('d broker_client_error, unit) result" where
  "validate_response_frame f expected_payload_protocol payload_protocol_error =
    map_err (\<lambda>e. UnexpectedResponseFrame (case e of
        EnvelopeVersion _ \<Rightarrow> ''envelope_version is not v1''
      | Kind _ _ \<Rightarrow> ''kind is not RESPONSE''
      | PayloadProtocol _ _ \<Rightarrow> payload_protocol_error
      | PayloadEncoding _ \<Rightarrow> ''payload is compressed''))
    (validate_frame_envelope f FrameKindResponse expected_payload_protocol)"

section \<open>Round trips\<close>

text \<open>The exchange of one frame each way: the requests differ in the payload protocol and the payload.\<close>

definition broker_request_frame :: "u32 \<Rightarrow> bytes \<Rightarrow> frame" where
  "broker_request_frame payload_protocol payload =
    \<lparr> fr_envelope_version = PROTOCOL_VERSION, fr_kind = frame_kind_i32 FrameKindRequest,
      fr_payload_protocol = payload_protocol, fr_payload = payload, fr_request_id = 1,
      fr_payload_encoding = payload_encoding_i32 EncodingNone, fr_deadline_unix_ms = 0,
      fr_traceparent = [], fr_tracestate = [] \<rparr>"

definition exchange_frame ::
  "'d client_codec \<Rightarrow> frame \<Rightarrow> client_stream \<Rightarrow> ('d broker_client_error, frame) result \<times> client_stream" where
  "exchange_frame cl request_frame s =
    (case client_write_frame (cl_encode_frame cl request_frame) s of
       (Err e, s1) \<Rightarrow> (Err (ClientFraming e), s1)
     | (Ok _, s1) \<Rightarrow>
       (case client_read_frame s1 of
          (Err e, s2) \<Rightarrow> (Err (ClientFraming e), s2)
        | (Ok response_bytes, s2) \<Rightarrow> (map_err ClientDecodeFrame (cl_decode_frame cl response_bytes), s2)))"

definition send_admin_request_unbounded ::
  "'d client_codec \<Rightarrow> (io_error, client_stream) result \<Rightarrow> admin_request \<Rightarrow>
   ('d broker_client_error, admin_reply) result" where
  "send_admin_request_unbounded cl connected request =
    result_bind (map_err BrokerConnect connected) (\<lambda>s.
    result_bind (fst (exchange_frame cl (broker_request_frame ADMIN_PAYLOAD_PROTOCOL (cl_encode_admin_request cl request)) s))
      (\<lambda>response_frame.
    result_bind (validate_response_frame response_frame ADMIN_PAYLOAD_PROTOCOL ''payload_protocol is not admin'') (\<lambda>_.
      map_err DecodeAdminReply (cl_decode_admin_reply cl (fr_payload response_frame)))))"

definition broker_client_timeout_err :: "'d broker_client_error" where
  "broker_client_timeout_err = BrokerConnect timed_out"

definition send_admin_request ::
  "'d client_codec \<Rightarrow> client_world \<Rightarrow> string \<Rightarrow> admin_request \<Rightarrow> ('d broker_client_error, admin_reply) result" where
  "send_admin_request cl cw broker_endpoint request =
    (if received_in_time (cw_round_trip cw) (parse_broker_client_timeout (cw_timeout_env cw))
     then send_admin_request_unbounded cl (cw_connect_broker cw broker_endpoint) request
     else Err broker_client_timeout_err)"

definition broker_hello_unbounded ::
  "'d client_codec \<Rightarrow> (io_error, client_stream) result \<Rightarrow> bytes \<Rightarrow>
   ('d broker_client_error, client_stream \<times> negotiated) result" where
  "broker_hello_unbounded cl connected hello_bytes =
    result_bind (map_err BrokerConnect connected) (\<lambda>s.
      case exchange_frame cl (broker_request_frame CONTROL_PAYLOAD_PROTOCOL hello_bytes) s of
        (response, s1) \<Rightarrow>
    result_bind response (\<lambda>response_frame.
    result_bind (validate_response_frame response_frame CONTROL_PAYLOAD_PROTOCOL ''payload_protocol is not control-plane'') (\<lambda>_.
    result_bind (map_err DecodeHelloReply (cl_decode_hello_reply cl (fr_payload response_frame))) (\<lambda>reply.
      case reply of
        None \<Rightarrow> Err MissingHelloReplyResult
      | Some (Negotiated n) \<Rightarrow> Ok (s1, n)
      | Some (Refused r) \<Rightarrow>
          Err (ClientRefused (case error_code_try_from (rf_code r) of None \<Rightarrow> ErrorCodeUnspecified | Some c \<Rightarrow> c)
            (rf_reason r) (rf_retry_after_ms r))))))"

definition broker_hello ::
  "'d client_codec \<Rightarrow> client_world \<Rightarrow> connect_backend_request \<Rightarrow>
   ('d broker_client_error, client_stream \<times> negotiated) result" where
  "broker_hello cl cw request =
    (if received_in_time (cw_round_trip cw) (parse_broker_client_timeout (cw_timeout_env cw))
     then broker_hello_unbounded cl (cw_connect_broker cw (cbr_broker_endpoint request))
            (cl_encode_hello cl (request_hello cw request))
     else Err broker_client_timeout_err)"

section \<open>Adoption of a handed-off connection\<close>

definition handoff_negotiated :: "negotiated \<Rightarrow> bool" where
  "handoff_negotiated n =
    (ng_server_capabilities n AND CAP_HANDLE_PASSING = CAP_HANDLE_PASSING \<and> ng_handle_passed_token n \<noteq> [])"

definition read_handoff_ready ::
  "'d client_codec \<Rightarrow> bytes \<Rightarrow> client_stream \<Rightarrow> (string, unit) result \<times> client_stream" where
  "read_handoff_ready cl expected_token s =
    (case (client_read_frame s :: ('d framing_error, bytes) result \<times> client_stream) of
       (Err _, s1) \<Rightarrow> (Err ''failed to read handoff-ready frame'', s1)
     | (Ok bytes, s1) \<Rightarrow>
       (result_bind (map_err (\<lambda>_. ''failed to decode handoff-ready Frame'') (cl_decode_frame cl bytes)) (\<lambda>f.
        result_bind (validate_handoff_frame f FrameKindEvent) (\<lambda>_.
        result_bind (map_err (\<lambda>_. ''failed to decode handoff-ready HandoffAck payload'') (cl_decode_ack cl (fr_payload f))) (\<lambda>ack.
          if hk_token ack \<noteq> expected_token
          then Err ''handoff-ready token echo does not match the negotiated token''
          else if \<not> hk_accepted ack then Err ''broker relayed a refused handoff''
          else Ok ()))), s1))"

definition await_handoff_ready ::
  "'d client_codec \<Rightarrow> client_world \<Rightarrow> client_stream \<Rightarrow> bytes \<Rightarrow> duration \<Rightarrow> client_stream option" where
  "await_handoff_ready cl cw s expected_token timeout =
    (if received_in_time (cw_relay_read cw) timeout
     then (case read_handoff_ready cl expected_token s of
             (Ok _, s1) \<Rightarrow> Some s1
           | (Err _, _) \<Rightarrow> None)
     else None)"

section \<open>Connecting\<close>

definition fake_backend_endpoint_from_env :: "client_world \<Rightarrow> string option" where
  "fake_backend_endpoint_from_env cw =
    (case cw_fake_backend cw of
       None \<Rightarrow> None
     | Some value \<Rightarrow>
       if value = [] then None
       else if broker_disabled_by_env (cw_disable cw) = Ok True then None
       else Some value)"

definition connect_through_broker ::
  "'d client_codec \<Rightarrow> client_world \<Rightarrow> connect_backend_request \<Rightarrow>
   ('d broker_client_error, backend_connection) result" where
  "connect_through_broker cl cw request =
    result_bind (broker_hello cl cw request) (\<lambda>(broker_stream, n).
      case (if cbr_adopt_handed_off_connection request \<and> handoff_negotiated n
            then await_handoff_ready cl cw broker_stream (ng_handle_passed_token n) (cbr_handoff_ready_timeout request)
            else None) of
        Some adopted \<Rightarrow>
          Ok \<lparr> bcn_stream = adopted, bcn_endpoint = ng_backend_pipe n, bcn_route = HandlePassed,
               bcn_negotiated = Some n \<rparr>
      | None \<Rightarrow>
          if ng_backend_pipe n = [] then Err EmptyBackendPipe
          else result_bind (map_err BackendConnect (cw_connect_backend cw (ng_backend_pipe n))) (\<lambda>s.
            Ok \<lparr> bcn_stream = s, bcn_endpoint = ng_backend_pipe n, bcn_route = BrokerNegotiated,
                 bcn_negotiated = Some n \<rparr>))"

definition connect_to_backend ::
  "'d client_codec \<Rightarrow> client_world \<Rightarrow> connect_backend_request \<Rightarrow>
   ('d broker_client_error, backend_connection) result" where
  "connect_to_backend cl cw request =
    (case (if cw_test_seams cw then fake_backend_endpoint_from_env cw else None) of
       Some endpoint \<Rightarrow>
         result_bind (map_err BackendConnect (cw_connect_cached cw endpoint)) (\<lambda>s.
           Ok \<lparr> bcn_stream = s, bcn_endpoint = endpoint, bcn_route = HelloSkip, bcn_negotiated = None \<rparr>)
     | None \<Rightarrow>
       (case (if can_hello_skip request then cbr_cached_backend_endpoint request else None) of
          Some endpoint \<Rightarrow>
            (case cw_connect_cached cw endpoint of
               Ok s \<Rightarrow> Ok \<lparr> bcn_stream = s, bcn_endpoint = endpoint, bcn_route = HelloSkip, bcn_negotiated = None \<rparr>
             | Err _ \<Rightarrow> connect_through_broker cl cw request)
        | None \<Rightarrow> connect_through_broker cl cw request))"

section \<open>The frame client\<close>

record frame_client =
  fc_stream :: client_stream
  fc_next_request_id :: u64

definition frame_client_from_stream :: "client_stream \<Rightarrow> frame_client" where
  "frame_client_from_stream s = \<lparr> fc_stream = s, fc_next_request_id = 1 \<rparr>"

datatype 'd frame_client_error =
    FcConnect io_error
  | FcFraming "'d framing_error"
  | FcDecode 'd
  | RequestIdMismatch u64 u64
  | PayloadProtocolMismatch u32 u32
  | NotAResponse int

definition frame_client_connect :: "(io_error, client_stream) result \<Rightarrow> ('d frame_client_error, frame_client) result" where
  "frame_client_connect connected =
    result_bind (map_err FcConnect connected) (\<lambda>s. Ok (frame_client_from_stream s))"

definition frame_client_request ::
  "'d client_codec \<Rightarrow> u32 \<Rightarrow> bytes \<Rightarrow> frame_client \<Rightarrow> ('d frame_client_error, frame) result \<times> frame_client" where
  "frame_client_request cl payload_protocol payload c =
    (let request_id = fc_next_request_id c;
         c1 = c\<lparr> fc_next_request_id := max (fc_next_request_id c + 1) 1 \<rparr>;
         body = cl_encode_frame cl (with_request_id (frame_request payload_protocol payload) request_id)
     in case client_write_frame body (fc_stream c1) of
          (Err e, s) \<Rightarrow> (Err (FcFraming e), c1\<lparr> fc_stream := s \<rparr>)
        | (Ok _, s) \<Rightarrow>
          (case client_read_frame s of
             (Err e, s1) \<Rightarrow> (Err (FcFraming e), c1\<lparr> fc_stream := s1 \<rparr>)
           | (Ok response_bytes, s1) \<Rightarrow>
             (result_bind (map_err FcDecode (cl_decode_frame cl response_bytes)) (\<lambda>response.
                if fr_request_id response \<noteq> request_id
                then Err (RequestIdMismatch request_id (fr_request_id response))
                else if fr_payload_protocol response \<noteq> payload_protocol
                then Err (PayloadProtocolMismatch payload_protocol (fr_payload_protocol response))
                else if frame_kind_try_from (fr_kind response) \<noteq> Some FrameKindResponse
                then Err (NotAResponse (fr_kind response))
                else Ok response), c1\<lparr> fc_stream := s1 \<rparr>)))"

section \<open>One-call adoption\<close>

record broker_session =
  bss_client :: frame_client
  bss_route :: backend_connection_route
  bss_endpoint :: string
  bss_negotiated :: "negotiated option"

datatype 'd adopt_error =
    BrokerDisabled
  | DisableEnv string
  | AdoptConnect "'d broker_client_error"

definition session_from_connection :: "backend_connection \<Rightarrow> broker_session" where
  "session_from_connection c =
    \<lparr> bss_client = frame_client_from_stream (bcn_stream c), bss_route = bcn_route c, bss_endpoint = bcn_endpoint c,
      bss_negotiated = bcn_negotiated c \<rparr>"

definition session_adopt ::
  "'d client_codec \<Rightarrow> client_world \<Rightarrow> connect_backend_request \<Rightarrow> ('d adopt_error, broker_session) result" where
  "session_adopt cl cw request =
    result_bind (map_err DisableEnv (broker_disabled_by_env (cw_disable cw))) (\<lambda>disabled.
      if disabled then Err BrokerDisabled
      else result_bind (map_err AdoptConnect (connect_to_backend cl cw request)) (\<lambda>c. Ok (session_from_connection c)))"

definition session_request ::
  "'d client_codec \<Rightarrow> u32 \<Rightarrow> bytes \<Rightarrow> broker_session \<Rightarrow> ('d frame_client_error, frame) result \<times> broker_session" where
  "session_request cl payload_protocol payload s =
    (case frame_client_request cl payload_protocol payload (bss_client s) of
       (r, c) \<Rightarrow> (r, s\<lparr> bss_client := c \<rparr>))"

datatype into_backend_io_error = BufferedResidual nat | WindowsUnsupported

text \<open>How many bytes the buffered reader has fetched beyond those consumed depends on how the operating system
  delivered them: \<open>buffered\<close> of a session.\<close>

definition into_backend_io ::
  "platform \<Rightarrow> nat \<Rightarrow> broker_session \<Rightarrow> (into_backend_io_error, client_stream) result" where
  "into_backend_io p buffered s =
    (if buffered \<noteq> 0 then Err (BufferedResidual buffered)
     else if p = Windows then Err WindowsUnsupported
     else Ok (fc_stream (bss_client s)))"

text \<open>The broker as the peer of a client: what the accept loop has sent on the connection once it has served it.\<close>

definition broker_peer ::
  "('x, 'h, 'd) control_service \<Rightarrow> 'x accepted_connection \<Rightarrow> 'h control_state \<Rightarrow> (bytes \<Rightarrow> arrival list) \<Rightarrow> bytes \<Rightarrow> reader" where
  "broker_peer sv c st pieces sent =
    \<lparr> rd_bytes = (case serve_accepted sv (c\<lparr> an_stream := (an_stream c)\<lparr> ns_incoming := pieces sent \<rparr> \<rparr>) st of
          (Serving, st') \<Rightarrow> ns_delivered (snd (snd (last (cs_served st'))))
        | _ \<Rightarrow> []),
      rd_end = Eof \<rparr>"

definition delivers_in_pieces :: "(bytes \<Rightarrow> arrival list) \<Rightarrow> bool" where
  "delivers_in_pieces pieces = (\<forall>sent. sends_in_pieces (pieces sent) \<and> arriving (pieces sent) = sent)"

text \<open>A connection on which a broker answers promptly.\<close>

definition answers_promptly :: "('x, 'h, 'd) control_service \<Rightarrow> 'x accepted_connection \<Rightarrow> peer_creds \<Rightarrow> 'h control_state \<Rightarrow> bool" where
  "answers_promptly sv c creds st =
    (sv_platform sv = Linux \<and> an_creds c = Ok creds \<and> allows (sv_policy sv) (peer_identity_from_creds Linux creds) \<and>
     (\<exists>deadline. hello_read_deadline (sv_timeout_env sv) (an_now c) = Some deadline \<and> (\<forall>k. an_clock c k < deadline)) \<and>
     takes_in_pieces (an_stream c) \<and> ns_delivered (an_stream c) = [] \<and> \<not> fpg_demoted (snd (on_accept_ok (cs_guard st))))"

text \<open>Both sides have the same codec, as far as one exchange of frames needs it.\<close>

definition codecs_agree :: "'d client_codec \<Rightarrow> 'd control_codec \<Rightarrow> frame \<Rightarrow> hello_reply \<Rightarrow> bool" where
  "codecs_agree cl cd f reply =
    (cc_decode_frame cd (cl_encode_frame cl f) = Ok f \<and> length (cl_encode_frame cl f) \<le> MAX_HELLO_BYTES \<and>
     (\<exists>out. cc_encode_frame cd (hello_response_frame cd (Some f) reply) = Ok out \<and> length out \<le> MAX_FRAME_BYTES \<and>
        cl_decode_frame cl out = Ok (hello_response_frame cd (Some f) reply)) \<and>
     cl_decode_hello_reply cl (cc_encode_hello_reply cd reply) = Ok reply)"

definition connected_client :: "(bytes \<Rightarrow> reader) \<Rightarrow> client_stream" where
  "connected_client peer = \<lparr> cst_writer = open_writer, cst_peer = peer, cst_consumed = 0 \<rparr>"

definition hello_result ::
  "client_stream \<Rightarrow> hello_reply \<Rightarrow> ('d broker_client_error, client_stream \<times> negotiated) result" where
  "hello_result s reply =
    (case reply of
       None \<Rightarrow> Err MissingHelloReplyResult
     | Some (Negotiated n) \<Rightarrow> Ok (s, n)
     | Some (Refused r) \<Rightarrow>
         Err (ClientRefused (case error_code_try_from (rf_code r) of None \<Rightarrow> ErrorCodeUnspecified | Some c \<Rightarrow> c)
           (rf_reason r) (rf_retry_after_ms r)))"

text \<open>Both sides have the same codec for the relayed acknowledgement.\<close>

definition relay_codecs_agree :: "'d client_codec \<Rightarrow> 'd handoff_codec \<Rightarrow> handoff_ack \<Rightarrow> bool" where
  "relay_codecs_agree cl hc ack =
    (length (hc_encode_frame hc (handoff_ready_frame hc ack)) \<le> MAX_FRAME_BYTES \<and>
     cl_decode_frame cl (hc_encode_frame hc (handoff_ready_frame hc ack)) = Ok (handoff_ready_frame hc ack) \<and>
     cl_decode_ack cl (hc_encode_ack hc ack) = Ok ack)"

text \<open>What the hook of the registered mode adds to the client's connection: the relay, exactly when the
  handoff is complete.\<close>

definition relayed_ack :: "negotiated \<Rightarrow> handoff_ack" where
  "relayed_ack n =
    \<lparr> hk_token = ng_handle_passed_token n, hk_accepted = True, hk_error_detail = [], hk_correlation_id = ng_connection_id n \<rparr>"

definition client_hello_frame :: "'d client_codec \<Rightarrow> client_world \<Rightarrow> connect_backend_request \<Rightarrow> frame" where
  "client_hello_frame cl cw request = broker_request_frame CONTROL_PAYLOAD_PROTOCOL (cl_encode_hello cl (request_hello cw request))"

text \<open>What is left for the client to do with the reply.\<close>

definition dial_negotiated :: "client_world \<Rightarrow> negotiated \<Rightarrow> ('d broker_client_error, backend_connection) result" where
  "dial_negotiated cw n =
    (if ng_backend_pipe n = [] then Err EmptyBackendPipe
     else result_bind (map_err BackendConnect (cw_connect_backend cw (ng_backend_pipe n))) (\<lambda>s.
       Ok \<lparr> bcn_stream = s, bcn_endpoint = ng_backend_pipe n, bcn_route = BrokerNegotiated, bcn_negotiated = Some n \<rparr>))"

definition client_outcome :: "client_world \<Rightarrow> hello_reply \<Rightarrow> ('d broker_client_error, backend_connection) result" where
  "client_outcome cw reply =
    (case reply of
       None \<Rightarrow> Err MissingHelloReplyResult
     | Some (Negotiated n) \<Rightarrow> dial_negotiated cw n
     | Some (Refused r) \<Rightarrow>
         Err (ClientRefused (case error_code_try_from (rf_code r) of None \<Rightarrow> ErrorCodeUnspecified | Some c \<Rightarrow> c)
           (rf_reason r) (rf_retry_after_ms r)))"

text \<open>A sample client, for the evaluations below: it wants version 1.2.0 of the sample service, and its codec
  knows the frames of one exchange.\<close>

definition sample_client_request :: connect_backend_request where
  "sample_client_request = connect_backend_request_new ''4.0'' ''/run/b'' ''zccache'' ''1.2.0'' ''1.1.0''"

definition sample_client_world :: "(io_error, client_stream) result \<Rightarrow> client_world" where
  "sample_client_world broker =
    \<lparr> cw_platform = Linux, cw_disable = None, cw_timeout_env = None, cw_test_seams = False, cw_fake_backend = None, cw_pid = 42,
      cw_connect_cached = (\<lambda>_. Err eof_error), cw_connect_broker = (\<lambda>_. broker),
      cw_connect_backend = (\<lambda>_. Ok (connected_client (\<lambda>_. \<lparr> rd_bytes = [], rd_end = Eof \<rparr>))),
      cw_round_trip = Some 1, cw_relay_read = None \<rparr>"

definition sample_client_hello :: hello where
  "sample_client_hello = request_hello (sample_client_world (Err eof_error)) sample_client_request"

definition sample_client_frame :: frame where
  "sample_client_frame = broker_request_frame CONTROL_PAYLOAD_PROTOCOL []"

definition sample_codec :: "string control_codec" where
  "sample_codec = sample_control_codec\<lparr> cc_decode_frame := (\<lambda>_. Ok sample_client_frame) \<rparr>"

definition sample_client_codec :: "hello_reply \<Rightarrow> frame \<Rightarrow> handoff_ack \<Rightarrow> string client_codec" where
  "sample_client_codec reply relay ack =
    \<lparr> cl_encode_frame = (\<lambda>_. [9]),
      cl_decode_frame = (\<lambda>b. Ok (if b = [1, 2] then hello_response_frame sample_codec (Some sample_client_frame) reply else relay)),
      cl_encode_hello = (\<lambda>_. []), cl_decode_hello_reply = (\<lambda>_. Ok reply), cl_encode_admin_request = (\<lambda>_. []),
      cl_decode_admin_reply = (\<lambda>_. Err ''unused''), cl_decode_ack = (\<lambda>_. Ok ack) \<rparr>"

definition sample_client_creds :: peer_creds where
  "sample_client_creds = \<lparr> pc_pid = Some 42, pc_euid = Some 1000, pc_process_user_sid = (\<lambda>_. Err eof_error) \<rparr>"

definition sample_accepted :: "'x \<Rightarrow> 'x accepted_connection" where
  "sample_accepted w =
    \<lparr> an_stream = \<lparr> ns_incoming = [], ns_accepts = [], ns_flushes = [], ns_delivered = [], ns_waits = 0 \<rparr>,
      an_creds = Ok sample_client_creds, an_clock = (\<lambda>_. 0), an_now = 0, an_world = w \<rparr>"

definition sample_loop_state :: "'h \<Rightarrow> 'h control_state" where
  "sample_loop_state h =
    \<lparr> cs_guard = fd_pressure_guard_new fd_pressure_config_default, cs_handler = h, cs_accepted = 0, cs_served = [] \<rparr>"

definition one_piece :: "bytes \<Rightarrow> arrival list" where
  "one_piece sent = (if sent = [] then [] else [Arrive sent])"

definition sample_unknown_world :: "string serve_world" where
  "sample_unknown_world = sample_world\<lparr> sw_router := sample_router_env\<lparr> re_read_file := (\<lambda>_. Err \<lparr> ioe_kind = NotFound, ioe_raw_os_error = None \<rparr>) \<rparr> \<rparr>"

definition sample_unknown :: hello_reply where
  "sample_unknown = refused_reply (make_refused ErrorServiceUnknown ''service definition was not found'' 0)"

definition sample_handoff_config :: broker_serve_config where
  "sample_handoff_config = with_handoff_endpoint ''/run/h'' sample_serve_config"

text \<open>A sample broker that serves the sample client, for the evaluation of the end-to-end handoff.\<close>

definition sample_registered_service :: "(string serve_world, router_state, string) control_service" where
  "sample_registered_service =
    registered_service sample_codec (\<lambda>_. Ok sample_client_hello) None Linux (OwnerOnly ''1000'') sample_handoff_config (Private ''zccache'')"

section \<open>Exchanges\<close>

lemma exchange_frame_answered:
  fixes cl :: "'d client_codec"
  assumes "length (cl_encode_frame cl f) \<le> MAX_FRAME_BYTES" "length out \<le> MAX_FRAME_BYTES"
    and "peer (write_frame_header (cl_encode_frame cl f) @ cl_encode_frame cl f) = \<lparr> rd_bytes = write_frame_header out @ out @ rest, rd_end = e \<rparr>"
  obtains s1 where "exchange_frame cl f (connected_client peer) = (map_err ClientDecodeFrame (cl_decode_frame cl out), s1)"
    "client_reader s1 = \<lparr> rd_bytes = rest, rd_end = e \<rparr>"
proof -
  let ?body = "cl_encode_frame cl f"
  let ?w = "open_writer\<lparr> wr_out := write_frame_header ?body @ ?body \<rparr>"
  let ?s = "\<lparr> cst_writer = ?w, cst_peer = peer, cst_consumed = 0 \<rparr>"
  have w: "(client_write_frame ?body (connected_client peer) :: ('d framing_error, nat) result \<times> client_stream) = (Ok (5 + length ?body), ?s)"
    by (simp add: client_write_frame_def connected_client_def write_frame_delivers [OF assms(1)] open_writer_def)
  have r: "client_reader ?s = \<lparr> rd_bytes = write_frame_header out @ out @ rest, rd_end = e \<rparr>"
    using assms(3) by (simp add: client_reader_def)
  let ?s1 = "?s\<lparr> cst_consumed := length (write_frame_header out @ out @ rest) - length rest \<rparr>"
  have "(client_read_frame ?s :: ('d framing_error, bytes) result \<times> client_stream) = (Ok out, ?s1)"
    unfolding client_read_frame_def r read_frame_written [OF assms(2)] by simp
  then have "exchange_frame cl f (connected_client peer) = (map_err ClientDecodeFrame (cl_decode_frame cl out), ?s1)"
    by (simp add: exchange_frame_def w)
  moreover have "client_reader ?s1 = \<lparr> rd_bytes = rest, rd_end = e \<rparr>"
    using assms(3) by (simp add: client_reader_def)
  ultimately show thesis by (rule that)
qed

lemma validate_response_own:
  "validate_response_frame (hello_response_frame cd (Some f) reply) CONTROL_PAYLOAD_PROTOCOL err = Ok ()"
  by (simp add: validate_response_frame_def validate_frame_envelope_def hello_response_frame_def frame_kind_try_from_def
      payload_encoding_try_from_def)

lemma max_hello_frame: "n \<le> MAX_HELLO_BYTES \<Longrightarrow> n \<le> MAX_FRAME_BYTES"
  by (simp add: MAX_HELLO_BYTES_def MAX_HELLO_SIZE_BYTES_def MAX_FRAME_BYTES_def MAX_FRAME_SIZE_BYTES_def)

lemma broker_request_protocol [simp]: "fr_payload_protocol (broker_request_frame p payload) = p"
  by (simp add: broker_request_frame_def)

lemma control_not_admin: "CONTROL_PAYLOAD_PROTOCOL \<noteq> ADMIN_PAYLOAD_PROTOCOL"
  by (simp add: CONTROL_PAYLOAD_PROTOCOL_def ADMIN_PAYLOAD_PROTOCOL_def)

lemma broker_answers_hello:
  fixes cl :: "'d client_codec" and sv :: "('x, 'h, 'd) control_service"
  assumes "answers_promptly sv c creds st" "delivers_in_pieces pieces" "codecs_agree cl (sv_codec sv) f reply"
    and "fr_payload_protocol f = CONTROL_PAYLOAD_PROTOCOL"
    and "sv_responder sv (an_world c) f (peer_identity_from_creds Linux creds) (cs_handler st) = (reply, h)"
  obtains out stream where "cc_encode_frame (sv_codec sv) (hello_response_frame (sv_codec sv) (Some f) reply) = Ok out"
    "length out \<le> MAX_FRAME_BYTES" "cl_decode_frame cl out = Ok (hello_response_frame (sv_codec sv) (Some f) reply)"
    "ns_delivered stream = write_frame_header out @ out"
    "broker_peer sv c st pieces (write_frame_header (cl_encode_frame cl f) @ cl_encode_frame cl f) =
      \<lparr> rd_bytes = ns_delivered (fst (sv_post_hello sv (an_world c) reply stream h)), rd_end = Eof \<rparr>"
proof -
  let ?body = "cl_encode_frame cl f"
  let ?sent = "write_frame_header ?body @ ?body"
  let ?c = "c\<lparr> an_stream := (an_stream c)\<lparr> ns_incoming := pieces ?sent \<rparr> \<rparr>"
  obtain out where out: "cc_encode_frame (sv_codec sv) (hello_response_frame (sv_codec sv) (Some f) reply) = Ok out"
    "length out \<le> MAX_FRAME_BYTES" "cl_decode_frame cl out = Ok (hello_response_frame (sv_codec sv) (Some f) reply)"
    using assms(3) by (auto simp: codecs_agree_def)
  obtain deadline where dl: "hello_read_deadline (sv_timeout_env sv) (an_now ?c) = Some deadline" "\<And>k. an_clock ?c k < deadline"
    using assms(1) by (auto simp: answers_promptly_def)
  have p: "sv_platform sv = Linux" "an_creds ?c = Ok creds" "allows (sv_policy sv) (peer_identity_from_creds Linux creds)"
    "takes_in_pieces (an_stream ?c)" "\<not> fpg_demoted (snd (on_accept_ok (cs_guard st)))"
    "ns_delivered (an_stream ?c) = []"
    using assms(1) by (simp_all add: answers_promptly_def takes_in_pieces_def)
  have i: "sends_in_pieces (ns_incoming (an_stream ?c))" "arriving (ns_incoming (an_stream ?c)) = write_frame_header ?body @ ?body @ []"
    using assms(2) by (simp_all add: delivers_in_pieces_def)
  have dec: "cc_decode_frame (sv_codec sv) ?body = Ok f" "fr_payload_protocol f \<noteq> ADMIN_PAYLOAD_PROTOCOL" "length ?body \<le> MAX_HELLO_BYTES"
    using assms(3,4) control_not_admin by (simp_all add: codecs_agree_def)
  have resp: "sv_responder sv (an_world ?c) f (peer_identity_from_creds Linux creds) (cs_handler st) = (reply, h)"
    using assms(5) by simp
  obtain d :: deadline_stream where d: "ns_delivered (ds_inner d) = ns_delivered (an_stream ?c) @ write_frame_header out @ out"
    "serve_accepted sv ?c st = (Serving, st\<lparr> cs_guard := snd (on_accept_ok (cs_guard st)), cs_accepted := cs_accepted st + 1,
      cs_handler := snd (sv_post_hello sv (an_world ?c) reply (ds_inner d) h),
      cs_served := cs_served st @ [(peer_identity_from_creds Linux creds, HelloReply reply,
         fst (sv_post_hello sv (an_world ?c) reply (ds_inner d) h))] \<rparr>)"
    by (rule serve_accepted_hello [OF p(1-3) dl i(1) p(4) i(2) dec p(5) resp out(1,2)])
  show thesis
    by (rule that [OF out, of "ds_inner d"]) (use d p(6) in \<open>simp_all add: broker_peer_def\<close>)
qed

text \<open>The client reads the broker's reply, and what the hook sent after it is left on the stream.\<close>

lemma hello_answered:
  fixes cl :: "'d client_codec" and sv :: "('x, 'h, 'd) control_service"
  assumes "answers_promptly sv c creds st" "delivers_in_pieces pieces"
    and "codecs_agree cl (sv_codec sv) (broker_request_frame CONTROL_PAYLOAD_PROTOCOL hello_bytes) reply"
    and "sv_responder sv (an_world c) (broker_request_frame CONTROL_PAYLOAD_PROTOCOL hello_bytes)
      (peer_identity_from_creds Linux creds) (cs_handler st) = (reply, h)"
    and "\<And>stream. ns_delivered (fst (sv_post_hello sv (an_world c) reply stream h)) = ns_delivered stream @ extra"
  obtains s1 where "broker_hello_unbounded cl (Ok (connected_client (broker_peer sv c st pieces))) hello_bytes = hello_result s1 reply"
    "client_reader s1 = \<lparr> rd_bytes = extra, rd_end = Eof \<rparr>"
proof -
  let ?f = "broker_request_frame CONTROL_PAYLOAD_PROTOCOL hello_bytes"
  let ?body = "cl_encode_frame cl ?f"
  obtain out stream where out: "length out \<le> MAX_FRAME_BYTES" "cl_decode_frame cl out = Ok (hello_response_frame (sv_codec sv) (Some ?f) reply)"
    "ns_delivered stream = write_frame_header out @ out"
    "broker_peer sv c st pieces (write_frame_header ?body @ ?body) =
      \<lparr> rd_bytes = ns_delivered (fst (sv_post_hello sv (an_world c) reply stream h)), rd_end = Eof \<rparr>"
    by (rule broker_answers_hello [OF assms(1-3) _ assms(4)]) simp_all
  have len: "length ?body \<le> MAX_FRAME_BYTES" using assms(3) by (auto simp: codecs_agree_def intro: max_hello_frame)
  obtain s1 where s1: "exchange_frame cl ?f (connected_client (broker_peer sv c st pieces)) = (map_err ClientDecodeFrame (cl_decode_frame cl out), s1)"
    "client_reader s1 = \<lparr> rd_bytes = extra, rd_end = Eof \<rparr>"
    by (rule exchange_frame_answered [OF len out(1), where rest = extra and e = Eof and peer = "broker_peer sv c st pieces"])
      (use out(3,4) assms(5) in auto)
  have "cl_decode_hello_reply cl (fr_payload (hello_response_frame (sv_codec sv) (Some ?f) reply)) = Ok reply"
    using assms(3) by (simp add: codecs_agree_def hello_response_frame_def)
  then have "broker_hello_unbounded cl (Ok (connected_client (broker_peer sv c st pieces))) hello_bytes = hello_result s1 reply"
    by (simp add: broker_hello_unbounded_def s1(1) out(2) validate_response_own hello_result_def)
  then show thesis using s1(2) by (rule that)
qed

text \<open>The broker's refusal codes reach the client as they are.\<close>

lemma error_code_round_trip: "error_code_try_from (error_code_i32 code) = Some code"
  by (cases code) (simp_all add: error_code_try_from_def)

lemma no_relay:
  fixes cl :: "'d client_codec"
  assumes "client_reader s = \<lparr> rd_bytes = [], rd_end = Eof \<rparr>"
  shows "await_handoff_ready cl cw s token timeout = None"
proof -
  have "\<exists>e s1. (client_read_frame s :: ('d framing_error, bytes) result \<times> client_stream) = (Err e, s1)"
    using assms by (simp add: client_read_frame_def read_frame_def read_frame_with_cap_def read_exact_or_eof_def read_exact_def)
  then show ?thesis
    by (auto simp: await_handoff_ready_def read_handoff_ready_def)
qed

lemma relay_adopted:
  fixes cl :: "'d client_codec"
  assumes "relay_codecs_agree cl hc ack" "hk_accepted ack"
    and "client_reader s = \<lparr> rd_bytes = write_frame_header (hc_encode_frame hc (handoff_ready_frame hc ack)) @
      hc_encode_frame hc (handoff_ready_frame hc ack), rd_end = e \<rparr>"
  shows "(\<exists>s1. await_handoff_ready cl cw s (hk_token ack) timeout = Some s1) \<longleftrightarrow> received_in_time (cw_relay_read cw) timeout"
proof -
  let ?b = "hc_encode_frame hc (handoff_ready_frame hc ack)"
  have "\<exists>s1. (client_read_frame s :: ('d framing_error, bytes) result \<times> client_stream) = (Ok ?b, s1)"
    using assms(1,3) read_frame_written [where 'd = 'd, of ?b "[]" e]
    by (simp add: client_read_frame_def relay_codecs_agree_def)
  then show ?thesis
    using assms(1,2) validate_handoff_frame_own
    by (auto simp: await_handoff_ready_def read_handoff_ready_def relay_codecs_agree_def handoff_ready_frame_def)
qed

lemma negotiated_with_handoff_iff:
  "negotiated_with_handoff (Some (Negotiated n)) = (if handoff_negotiated n then Some n else None)"
  by (auto simp: negotiated_with_handoff_def handoff_negotiated_def CAP_HANDLE_PASSING_def and_one_eq odd_iff_mod_2_eq_one)

lemma handoff_relay_bytes:
  fixes env :: "'d handoff_env"
  assumes "wr_room client = None" "wr_flush client = None" "wr_out client = []"
    and "length (hc_encode_frame (hv_codec env) (handoff_ready_frame (hv_codec env) (relayed_ack n))) \<le> MAX_FRAME_BYTES"
    and "r = complete_negotiated_handoff env ctx client (Some (Negotiated n))"
  shows "wr_out (hrn_client r) = (if hrn_completed r then write_frame_header (hc_encode_frame (hv_codec env) (handoff_ready_frame (hv_codec env) (relayed_ack n))) @
      hc_encode_frame (hv_codec env) (handoff_ready_frame (hv_codec env) (relayed_ack n)) else [])"
    and "hrn_completed r \<longrightarrow> handoff_negotiated n"
proof -
  have "wr_out (hrn_client r) = (if hrn_completed r then write_frame_header (hc_encode_frame (hv_codec env) (handoff_ready_frame (hv_codec env) (relayed_ack n))) @
      hc_encode_frame (hv_codec env) (handoff_ready_frame (hv_codec env) (relayed_ack n)) else []) \<and>
    (hrn_completed r \<longrightarrow> handoff_negotiated n)"
    using assms(5)
  proof (cases rule: complete_handoff_cases)
    case idle
    then show ?thesis using assms(3) by simp
  next
    case (ran n' acks s d c d' acks' tokens')
    then have n: "n' = n" "handoff_negotiated n" by (auto simp: negotiated_with_handoff_iff split: if_splits)
    then show ?thesis
      using ran(6,10) assms(1-4) write_frame_delivers [where 'a = 'd, of _ client]
      by (auto simp: relayed_ack_def)
  qed
  then show "wr_out (hrn_client r) = (if hrn_completed r then write_frame_header (hc_encode_frame (hv_codec env) (handoff_ready_frame (hv_codec env) (relayed_ack n))) @
      hc_encode_frame (hv_codec env) (handoff_ready_frame (hv_codec env) (relayed_ack n)) else [])"
    "hrn_completed r \<longrightarrow> handoff_negotiated n" by simp_all
qed

text \<open>The peer of a client that connects to a launching or to a registered broker.\<close>

lemma registered_service_sel [simp]:
  "sv_platform (registered_service cd dh te p pol config i) = p" "sv_codec (registered_service cd dh te p pol config i) = cd"
  "sv_policy (registered_service cd dh te p pol config i) = pol" "sv_timeout_env (registered_service cd dh te p pol config i) = te"
  "sv_responder (registered_service cd dh te p pol config i) = serve_responder dh (bsc_service_definition_dir config)"
  "sv_post_hello (registered_service cd dh te p pol config i) = registered_post_hello config i"
  by (simp_all add: registered_service_def)

lemma launching_service_sel [simp]:
  "sv_platform (launching_service cd dh te p pol config) = p" "sv_codec (launching_service cd dh te p pol config) = cd"
  "sv_policy (launching_service cd dh te p pol config) = pol" "sv_timeout_env (launching_service cd dh te p pol config) = te"
  "sv_responder (launching_service cd dh te p pol config) = serve_responder dh (blc_service_definition_dir config)"
  "sv_post_hello (launching_service cd dh te p pol config) = (\<lambda>_ _ s st. (s, st))"
  by (simp_all add: launching_service_def)

text \<open>The client's request as the router sees it.\<close>

lemma decode_client_hello:
  assumes "decode_hello (cl_encode_hello cl hello) = Ok hello"
  shows "hello_request_decode decode_hello (broker_request_frame CONTROL_PAYLOAD_PROTOCOL (cl_encode_hello cl hello)) peer =
    Ok \<lparr> hr_frame = broker_request_frame CONTROL_PAYLOAD_PROTOCOL (cl_encode_hello cl hello), hr_hello = hello, hr_peer = peer \<rparr>"
  using assms by (simp add: hello_request_decode_def validate_frame_envelope_def broker_request_frame_def frame_kind_try_from_def
      payload_encoding_try_from_def)

lemma connect_through_broker_reply:
  assumes "broker_hello cl cw request = hello_result s1 reply"
  shows "connect_through_broker cl cw request =
    (case reply of
       Some (Negotiated n) \<Rightarrow>
         (case (if cbr_adopt_handed_off_connection request \<and> handoff_negotiated n
                then await_handoff_ready cl cw s1 (ng_handle_passed_token n) (cbr_handoff_ready_timeout request) else None) of
            Some adopted \<Rightarrow> Ok \<lparr> bcn_stream = adopted, bcn_endpoint = ng_backend_pipe n, bcn_route = HandlePassed, bcn_negotiated = Some n \<rparr>
          | None \<Rightarrow> dial_negotiated cw n)
     | _ \<Rightarrow> client_outcome cw reply)"
  using assms
  by (auto simp: connect_through_broker_def hello_result_def client_outcome_def dial_negotiated_def
      split: option.splits hello_reply_result.splits)

lemma one_piece_delivers: "delivers_in_pieces one_piece"
  by (simp add: delivers_in_pieces_def one_piece_def sends_in_pieces_def)

lemma sample_peer: "peer_identity_from_creds Linux sample_client_creds = \<lparr> peer_pid = 42, peer_uid_or_sid = ''1000'' \<rparr>"
proof -
  have "show_nat 1000 = ''1000''" by code_simp
  then show ?thesis by (simp add: peer_identity_from_creds_def sample_client_creds_def Let_def)
qed

lemma sample_prompt:
  assumes "sv_platform sv = Linux" "sv_policy sv = OwnerOnly ''1000''" "sv_timeout_env sv = None"
  shows "answers_promptly sv (sample_accepted w) sample_client_creds (sample_loop_state h)"
  using assms sample_peer
  by (simp add: answers_promptly_def sample_accepted_def sample_loop_state_def sample_deadline takes_in_pieces_def on_accept_ok_def
      fd_pressure_guard_new_def)

lemma sample_codecs_agree:
  "codecs_agree (sample_client_codec reply relay ack) sample_codec (client_hello_frame (sample_client_codec reply relay ack) cw request) reply"
  by (simp add: codecs_agree_def client_hello_frame_def sample_client_codec_def sample_codec_def sample_control_codec_def sample_client_frame_def
      MAX_HELLO_BYTES_def MAX_HELLO_SIZE_BYTES_def MAX_FRAME_BYTES_def MAX_FRAME_SIZE_BYTES_def)

lemma sample_client_request_sel:
  "\<not> can_hello_skip sample_client_request" "\<not> cw_test_seams (sample_client_world broker)"
  "received_in_time (cw_round_trip (sample_client_world broker)) (parse_broker_client_timeout (cw_timeout_env (sample_client_world broker)))"
  "request_hello (sample_client_world broker) sample_client_request = sample_client_hello"
  "he_service_name sample_client_hello = ''zccache''" "he_wanted_version sample_client_hello = ''1.2.0''"
  by (simp_all add: can_hello_skip_def sample_client_request_def connect_backend_request_new_def sample_client_world_def
      received_in_time_def parse_broker_client_timeout_def DEFAULT_BROKER_CLIENT_TIMEOUT_def sample_client_hello_def request_hello_def)

lemma sample_client_shape: "validate_hello_shape sample_client_hello \<lparr> peer_pid = 42, peer_uid_or_sid = ''1000'' \<rparr> = None"
  using sample_checks
  by (simp add: validate_hello_shape_None_iff sample_client_hello_def request_hello_def sample_client_request_def connect_backend_request_new_def
      sample_client_world_def PROTOCOL_VERSION_def)

lemma sample_unknown_routed:
  "router_handle_request (loader_env ''/etc/s'' (sw_router sample_unknown_world))
      \<lparr> hr_frame = f, hr_hello = sample_client_hello, hr_peer = \<lparr> peer_pid = 42, peer_uid_or_sid = ''1000'' \<rparr> \<rparr> sample_router =
    (sample_unknown, sample_router, [])"
proof -
  have "case service_definition_path ''/etc/s'' ''zccache'' of Ok _ \<Rightarrow> True | Err (_ :: string service_definition_error) \<Rightarrow> False"
    by code_simp
  then obtain path where path: "service_definition_path ''/etc/s'' ''zccache'' = (Ok path :: (string service_definition_error, string) result)"
    by (auto split: sum.splits)
  then have "lookup_or_reload (loader_env ''/etc/s'' (sw_router sample_unknown_world)) ''zccache'' =
      Err (ServiceDefIo \<lparr> ioe_kind = NotFound, ioe_raw_os_error = None \<rparr>)"
    by (simp add: lookup_or_reload_def loader_env_def sample_unknown_world_def sample_router_env_def load_service_definition_def
        ensure_loadable_service_definition_dir_def)
  then show ?thesis
    by (simp add: router_handle_request_def sample_client_shape route_request_def sample_client_request_sel sample_unknown_def)
qed

lemma sample_relay_agrees:
  "relay_codecs_agree (sample_client_codec reply (handoff_ready_frame sample_handoff_codec ack) ack) sample_handoff_codec ack"
  by (simp add: relay_codecs_agree_def sample_client_codec_def sample_handoff_codec_def handoff_ready_frame_def handoff_frame_def
      MAX_FRAME_BYTES_def MAX_FRAME_SIZE_BYTES_def)

lemma sample_negotiated_hello:
  "\<exists>b n h. build_registered_backend sample_serve_host sample_serve_config = Some (Ok b) \<and>
    serve_responder (\<lambda>_. Ok sample_client_hello) ''/etc/s'' sample_world sample_client_frame \<lparr> peer_pid = 42, peer_uid_or_sid = ''1000'' \<rparr>
      (with_lifecycle_monitor (rsb_registry b) hm_empty, []) = (Some (Negotiated n), h) \<and> ng_backend_pipe n = ''/s''"
proof -
  obtain b where b: "build_registered_backend sample_serve_host sample_serve_config = Some (Ok b)"
    "rsb_service_definition b = sample_service\<lparr> sd_per_version_binary_dir := ''/bin'' \<rparr>"
    using sample_registered by blast
  let ?request = "\<lparr> hr_frame = sample_client_frame, hr_hello = sample_client_hello, hr_peer = \<lparr> peer_pid = 42, peer_uid_or_sid = ''1000'' \<rparr> \<rparr>"
  have d: "hello_request_decode (\<lambda>_. Ok sample_client_hello) sample_client_frame \<lparr> peer_pid = 42, peer_uid_or_sid = ''1000'' \<rparr> = Ok ?request"
    by (simp add: hello_request_decode_def validate_frame_envelope_def sample_client_frame_def broker_request_frame_def
        frame_kind_try_from_def payload_encoding_try_from_def)
  have "\<exists>n rt. serve_responder (\<lambda>_. Ok sample_client_hello) (bsc_service_definition_dir sample_serve_config) sample_world sample_client_frame
      \<lparr> peer_pid = 42, peer_uid_or_sid = ''1000'' \<rparr> (with_lifecycle_monitor (rsb_registry b) hm_empty, []) =
      (Some (Negotiated n), (rt, [])) \<and> ng_backend_pipe n = bsc_backend_endpoint sample_serve_config \<and>
      ng_daemon_version n = bsc_service_version sample_serve_config"
    by (rule registered_responder [OF b(1), where exe = "''/bin/z''" and sha = "replicate 32 5" and m = "(Some 3, 4)", OF _ _ _ _ _ _ d])
      (simp_all add: b(2) sample_serve_host_def sample_serve_config_def serve_config_unbounded_def sample_world_def sample_definition
        sample_client_shape sample_client_request_sel sample_router_checks)
  with b(1) show ?thesis by (auto simp: sample_serve_config_def serve_config_unbounded_def)
qed

text \<open>Each route says how the connection came about.\<close>

lemma connection_route_sound:
  assumes "connect_to_backend cl cw request = Ok c" "\<not> cw_test_seams cw"
  shows "case bcn_route c of
      HelloSkip \<Rightarrow> cbr_cached_backend_endpoint request = Some (bcn_endpoint c) \<and> cbr_wanted_version request = cbr_self_version request \<and>
        cw_connect_cached cw (bcn_endpoint c) = Ok (bcn_stream c) \<and> bcn_negotiated c = None
    | BrokerNegotiated \<Rightarrow> (\<exists>s n. broker_hello cl cw request = Ok (s, n) \<and> bcn_negotiated c = Some n \<and> bcn_endpoint c = ng_backend_pipe n \<and>
        ng_backend_pipe n \<noteq> [] \<and> cw_connect_backend cw (bcn_endpoint c) = Ok (bcn_stream c))
    | HandlePassed \<Rightarrow> (\<exists>s n. broker_hello cl cw request = Ok (s, n) \<and> bcn_negotiated c = Some n \<and> bcn_endpoint c = ng_backend_pipe n \<and>
        cbr_adopt_handed_off_connection request \<and> connection_handoff_token c = Some (ng_handle_passed_token n) \<and>
        await_handoff_ready cl cw s (ng_handle_passed_token n) (cbr_handoff_ready_timeout request) = Some (bcn_stream c))"
  using assms
  by (auto simp: connect_to_backend_def connect_through_broker_def can_hello_skip_def connection_handoff_token_def handoff_negotiated_def
      split: option.splits sum.splits if_splits)

text \<open>A disabled broker is never dialled, and a misspelt switch is an error.\<close>

lemma session_adopt_disabled:
  "cw_disable cw = Some v \<Longrightarrow> session_adopt cl cw request = (if v = ''1'' then Err BrokerDisabled else Err (DisableEnv v))"
  by (simp add: session_adopt_def broker_disabled_by_env_def RUNNING_PROCESS_DISABLE_VALUE_def)

section \<open>Properties\<close>

text \<open>C19: Client and launching broker, end to end. When a client's Hello reaches a broker that launches backends, in
  whatever pieces, and the broker answers in time, then the router has seen exactly the client's
  request, and what the client returns is determined by the router's reply: the connection to the pipe
  that was negotiated, or the broker's refusal with its code, reason and retry hint.\<close>

theorem launching_client_end_to_end:
  fixes cl :: "'d client_codec"
  assumes "\<not> cw_test_seams cw" "\<not> can_hello_skip request"
    and "sv = launching_service cd decode_hello timeout_env Linux policy config"
    and "answers_promptly sv c creds st" "delivers_in_pieces pieces"
    and "cw_connect_broker cw (cbr_broker_endpoint request) = Ok (connected_client (broker_peer sv c st pieces))"
    and "received_in_time (cw_round_trip cw) (parse_broker_client_timeout (cw_timeout_env cw))"
    and "decode_hello (cl_encode_hello cl (request_hello cw request)) = Ok (request_hello cw request)"
    and "router_handle_request (loader_env (blc_service_definition_dir config) (sw_router (an_world c)))
      \<lparr> hr_frame = client_hello_frame cl cw request, hr_hello = request_hello cw request, hr_peer = peer_identity_from_creds Linux creds \<rparr>
      (fst (cs_handler st)) = (reply, rt, events)"
    and "codecs_agree cl cd (client_hello_frame cl cw request) reply"
  shows "connect_to_backend cl cw request = client_outcome cw reply"
proof -
  have resp: "sv_responder sv (an_world c) (client_hello_frame cl cw request) (peer_identity_from_creds Linux creds) (cs_handler st) =
      (reply, (rt, snd (cs_handler st) @ events))"
    using assms(9) decode_client_hello [where decode_hello = decode_hello, OF assms(8)]
    by (simp add: assms(3) serve_responder_def router_handle_frame_def client_hello_frame_def)
  obtain s1 where s1: "broker_hello_unbounded cl (Ok (connected_client (broker_peer sv c st pieces)))
      (cl_encode_hello cl (request_hello cw request)) = hello_result s1 reply" "client_reader s1 = \<lparr> rd_bytes = [], rd_end = Eof \<rparr>"
    by (rule hello_answered [OF assms(4,5), of cl "cl_encode_hello cl (request_hello cw request)" reply _ "[]"])
      (use assms(10) resp in \<open>simp_all add: assms(3) client_hello_frame_def\<close>)
  then have "broker_hello cl cw request = hello_result s1 reply"
    using assms(6,7) by (simp add: broker_hello_def)
  from connect_through_broker_reply [OF this] show ?thesis
    using assms(1,2) no_relay [where cl = cl, OF s1(2)]
    by (auto simp: connect_to_backend_def client_outcome_def split: option.splits hello_reply_result.splits)
qed

theorem launching_client_end_to_end_witness:
  "connect_to_backend (sample_client_codec sample_unknown sample_client_frame \<lparr> hk_token = [], hk_accepted = False, hk_error_detail = [], hk_correlation_id = 0 \<rparr>)
     (sample_client_world (Ok (connected_client (broker_peer
        (launching_service sample_codec (\<lambda>_. Ok sample_client_hello) None Linux (OwnerOnly ''1000'') (launch_serve_config_unbounded ''/etc/s'' ''/run/b''))
        (sample_accepted sample_unknown_world) (sample_loop_state (sample_router, [])) one_piece)))) sample_client_request =
   Err (ClientRefused ErrorServiceUnknown ''service definition was not found'' 0)"
  (is "connect_to_backend ?cl ?cw ?request = _")
proof -
  let ?sv = "launching_service sample_codec (\<lambda>_. Ok sample_client_hello) None Linux (OwnerOnly ''1000'') (launch_serve_config_unbounded ''/etc/s'' ''/run/b'')"
  have "connect_to_backend ?cl ?cw ?request = client_outcome ?cw sample_unknown"
    by (rule launching_client_end_to_end [where sv = ?sv and c = "sample_accepted sample_unknown_world" and creds = sample_client_creds
          and st = "sample_loop_state (sample_router, [])" and pieces = one_piece and rt = sample_router and events = "[]", OF _ _ refl])
      (simp_all add: sample_client_request_sel sample_prompt one_piece_delivers sample_codecs_agree sample_peer,
       simp_all add: sample_client_world_def sample_unknown_routed sample_accepted_def sample_loop_state_def launch_serve_config_unbounded_def)
  then show ?thesis
    by (simp add: client_outcome_def sample_unknown_def refused_reply_def make_refused_def error_code_try_from_def)
qed

text \<open>C20: The client adopts its connection exactly when the backend has it. When a client that asked for adoption is
  negotiated by a broker that serves a registered backend with handoff, the client keeps the connection
  exactly when the broker's handoff of that connection was completed, that is acknowledged by the
  backend, and the relay is read in time; in every other case it connects to the negotiated pipe.\<close>

theorem registered_client_adopts_iff_handed_off:
  fixes cl :: "'d client_codec"
  assumes "\<not> cw_test_seams cw" "\<not> can_hello_skip request" "cbr_adopt_handed_off_connection request"
    and "sv = registered_service cd decode_hello timeout_env Linux policy config i" "bsc_handoff_endpoint config = Some endpoint"
    and "answers_promptly sv c creds st" "delivers_in_pieces pieces"
    and "cw_connect_broker cw (cbr_broker_endpoint request) = Ok (connected_client (broker_peer sv c st pieces))"
    and "received_in_time (cw_round_trip cw) (parse_broker_client_timeout (cw_timeout_env cw))"
    and "serve_responder decode_hello (bsc_service_definition_dir config) (an_world c) (client_hello_frame cl cw request)
      (peer_identity_from_creds Linux creds) (cs_handler st) = (Some (Negotiated n), h)"
    and "codecs_agree cl cd (client_hello_frame cl cw request) (Some (Negotiated n))"
    and "relay_codecs_agree cl (hv_codec (sw_handoff (an_world c))) (relayed_ack n)"
    and "wr_room (sw_client (an_world c)) = None" "wr_flush (sw_client (an_world c)) = None"
    and "run = complete_negotiated_handoff (sw_handoff (an_world c))
      \<lparr> shc_handoff_endpoint = endpoint, shc_service_name = bsc_service_name config, shc_service_version = bsc_service_version config,
        shc_instance = i, shc_registry = router_registry (fst h) \<rparr> ((sw_client (an_world c))\<lparr> wr_out := [] \<rparr>) (Some (Negotiated n))"
  shows "if hrn_completed run \<and> received_in_time (cw_relay_read cw) (cbr_handoff_ready_timeout request)
    then \<exists>s. connect_to_backend cl cw request = Ok \<lparr> bcn_stream = s, bcn_endpoint = ng_backend_pipe n, bcn_route = HandlePassed, bcn_negotiated = Some n \<rparr>
    else connect_to_backend cl cw request = dial_negotiated cw n"
proof -
  let ?ack = "relayed_ack n"
  let ?hc = "hv_codec (sw_handoff (an_world c))"
  let ?b = "hc_encode_frame ?hc (handoff_ready_frame ?hc ?ack)"
  note relay = handoff_relay_bytes [OF _ _ _ _ assms(15)]
  have bytes: "wr_out (hrn_client run) = (if hrn_completed run then write_frame_header ?b @ ?b else [])"
    "hrn_completed run \<longrightarrow> handoff_negotiated n"
    using relay assms(12-14) by (simp_all add: relay_codecs_agree_def)
  have hook: "ns_delivered (fst (sv_post_hello sv (an_world c) (Some (Negotiated n)) stream h)) = ns_delivered stream @ wr_out (hrn_client run)" for stream
    by (simp add: assms(4,5,15) registered_post_hello_def Let_def)
  have resp: "sv_responder sv (an_world c) (client_hello_frame cl cw request) (peer_identity_from_creds Linux creds) (cs_handler st) =
      (Some (Negotiated n), h)" and agree: "codecs_agree cl (sv_codec sv) (client_hello_frame cl cw request) (Some (Negotiated n))"
    using assms(10,11) by (simp_all add: assms(4))
  obtain s1 where s1: "broker_hello_unbounded cl (Ok (connected_client (broker_peer sv c st pieces)))
      (cl_encode_hello cl (request_hello cw request)) = hello_result s1 (Some (Negotiated n))"
    "client_reader s1 = \<lparr> rd_bytes = wr_out (hrn_client run), rd_end = Eof \<rparr>"
    by (rule hello_answered [OF assms(6,7) agree [unfolded client_hello_frame_def] resp [unfolded client_hello_frame_def] hook])
  then have "broker_hello cl cw request = hello_result s1 (Some (Negotiated n))"
    using assms(8,9) by (simp add: broker_hello_def)
  note result = connect_through_broker_reply [OF this]
  have con: "connect_to_backend cl cw request = connect_through_broker cl cw request"
    using assms(1,2) by (simp add: connect_to_backend_def)
  show ?thesis
  proof (cases "hrn_completed run")
    case False
    then have "await_handoff_ready cl cw s1 token timeout = None" for token timeout
      using s1(2) bytes(1) by (intro no_relay) simp
    then show ?thesis using False result con by simp
  next
    case True
    let ?t = "cbr_handoff_ready_timeout request"
    have "(\<exists>s2. await_handoff_ready cl cw s1 (ng_handle_passed_token n) ?t = Some s2) \<longleftrightarrow> received_in_time (cw_relay_read cw) ?t"
      using relay_adopted [OF assms(12), of s1 Eof cw ?t] True s1(2) bytes(1) by (simp add: relayed_ack_def)
    then show ?thesis
      using True bytes(2) result con assms(3)
      by (cases "await_handoff_ready cl cw s1 (ng_handle_passed_token n) (cbr_handoff_ready_timeout request)") auto
  qed
qed

theorem registered_client_adopts_iff_handed_off_witness:
  "\<exists>b n c. build_registered_backend sample_serve_host sample_serve_config = Some (Ok b) \<and>
    connect_to_backend
      (sample_client_codec (Some (Negotiated n)) (handoff_ready_frame sample_handoff_codec (relayed_ack n)) (relayed_ack n))
      (sample_client_world (Ok (connected_client (broker_peer sample_registered_service (sample_accepted sample_world)
         (sample_loop_state (with_lifecycle_monitor (rsb_registry b) hm_empty, [])) one_piece))))
      (sample_client_request\<lparr> cbr_adopt_handed_off_connection := True \<rparr>) = Ok c \<and>
    bcn_route c = BrokerNegotiated \<and> bcn_endpoint c = ''/s''"
proof -
  obtain b n h where b: "build_registered_backend sample_serve_host sample_serve_config = Some (Ok b)"
    and n: "serve_responder (\<lambda>_. Ok sample_client_hello) ''/etc/s'' sample_world sample_client_frame \<lparr> peer_pid = 42, peer_uid_or_sid = ''1000'' \<rparr>
      (with_lifecycle_monitor (rsb_registry b) hm_empty, []) = (Some (Negotiated n), h)" "ng_backend_pipe n = ''/s''"
    using sample_negotiated_hello by blast
  let ?cl = "sample_client_codec (Some (Negotiated n)) (handoff_ready_frame sample_handoff_codec (relayed_ack n)) (relayed_ack n)"
  let ?st = "sample_loop_state (with_lifecycle_monitor (rsb_registry b) hm_empty, [])"
  let ?cw = "sample_client_world (Ok (connected_client (broker_peer sample_registered_service (sample_accepted sample_world) ?st one_piece)))"
  let ?request = "sample_client_request\<lparr> cbr_adopt_handed_off_connection := True \<rparr>"
  have request: "\<not> can_hello_skip ?request" "cbr_broker_endpoint ?request = ''/run/b''" "request_hello cw ?request = request_hello cw sample_client_request" for cw
    using sample_client_request_sel(1) by (simp_all add: can_hello_skip_def sample_client_request_def connect_backend_request_new_def request_hello_def)
  have frame: "client_hello_frame ?cl ?cw ?request = sample_client_frame"
    by (simp add: client_hello_frame_def sample_client_codec_def sample_client_frame_def)
  have sel: "an_world (sample_accepted w) = w" "cs_handler (sample_loop_state x) = x" "sw_client sample_world = open_writer"
    "hv_codec (sw_handoff sample_world) = sample_handoff_codec" "bsc_service_definition_dir sample_handoff_config = ''/etc/s''"
    "bsc_handoff_endpoint sample_handoff_config = Some ''/run/h''" for w :: "string serve_world" and x :: router_state
    by (simp_all add: sample_accepted_def sample_loop_state_def sample_world_def open_writer_def sample_handoff_env_def sample_handoff_config_def
        with_handoff_endpoint_def sample_serve_config_def serve_config_unbounded_def)
  have prompt: "answers_promptly sample_registered_service (sample_accepted sample_world) sample_client_creds ?st"
    by (rule sample_prompt) (simp_all add: sample_registered_service_def)
  have broker: "cw_connect_broker ?cw e = Ok (connected_client (broker_peer sample_registered_service (sample_accepted sample_world) ?st one_piece))"
    "cw_relay_read ?cw = None" for e by (simp_all add: sample_client_world_def)
  have "connect_to_backend ?cl ?cw ?request = dial_negotiated ?cw n"
    using registered_client_adopts_iff_handed_off [where cw = ?cw and request = ?request and cl = ?cl and n = n, OF _ request(1) _ sample_registered_service_def
        sel(6) prompt one_piece_delivers broker(1) sample_client_request_sel(3) _ sample_codecs_agree _ _ _ refl, of h]
      n(1) sample_peer sample_relay_agrees [of _ "relayed_ack n"] broker(2)
    by (simp add: sel frame sample_client_request_sel(2) open_writer_def received_in_time_def)
  moreover have "\<exists>c. (dial_negotiated ?cw n :: (string broker_client_error, backend_connection) result) = Ok c \<and>
      bcn_route c = BrokerNegotiated \<and> bcn_endpoint c = ''/s''"
    using n(2) by (simp add: dial_negotiated_def sample_client_world_def)
  ultimately show ?thesis using b by (intro exI [of _ b] exI [of _ n]) simp
qed

text \<open>C21: Asking for adoption never costs anything. Whatever the broker, the backend and the relay do, a client that
  asks for adoption gets an adopted connection or exactly what it would have got without asking.\<close>

theorem adoption_only_upgrades:
  "case connect_to_backend cl cw (request\<lparr> cbr_adopt_handed_off_connection := True \<rparr>) of
     Ok c \<Rightarrow> bcn_route c = HandlePassed \<or> connect_to_backend cl cw (request\<lparr> cbr_adopt_handed_off_connection := False \<rparr>) = Ok c
   | Err e \<Rightarrow> connect_to_backend cl cw (request\<lparr> cbr_adopt_handed_off_connection := False \<rparr>) = Err e"
proof -
  have hello: "broker_hello cl cw (request\<lparr> cbr_adopt_handed_off_connection := b \<rparr>) = broker_hello cl cw request" for b
    by (simp add: broker_hello_def request_hello_def)
  have "case connect_through_broker cl cw (request\<lparr> cbr_adopt_handed_off_connection := True \<rparr>) of
     Ok c \<Rightarrow> bcn_route c = HandlePassed \<or> connect_through_broker cl cw (request\<lparr> cbr_adopt_handed_off_connection := False \<rparr>) = Ok c
   | Err e \<Rightarrow> connect_through_broker cl cw (request\<lparr> cbr_adopt_handed_off_connection := False \<rparr>) = Err e"
  proof (cases "broker_hello cl cw request")
    case (Inl e)
    then show ?thesis by (simp add: connect_through_broker_def hello)
  next
    case (Inr x)
    obtain s n where "x = (s, n)" by fastforce
    then have r: "broker_hello cl cw (request\<lparr> cbr_adopt_handed_off_connection := b \<rparr>) = hello_result s (Some (Negotiated n))" for b
      using Inr by (simp add: hello hello_result_def)
    show ?thesis
      by (simp add: connect_through_broker_reply [OF r] split: option.split sum.split)
  qed
  then show ?thesis
    by (auto simp: connect_to_backend_def can_hello_skip_def split: option.splits sum.splits)
qed

end
