(* ===== verification/Backend_Sdk.thy ===== *)
theory Backend_Sdk
  imports Broker_Client
begin

text \<open>
  The backend's side of the frame lane (\<open>backend_sdk/mux.rs\<close>): the classifier that tells legacy bytes,
  identity probes and payload frames of one endpoint apart, and what it means for the frame client of
  \<open>Broker_Client\<close>. The identity sidecar (\<open>backend_sdk/identity_file.rs\<close>) is a file system with an
  outcome for each call.
\<close>

section \<open>The endpoint multiplexer\<close>

datatype legacy_classification = ClassLegacy | ClassNotLegacy | ClassNeedMoreBytes

datatype mux_poll =
    MuxNeedMoreBytes
  | MuxLegacy
  | ProbeAnswered bytes nat
  | MuxPayload frame nat

datatype 'd mux_error =
    MuxFraming "'d framing_error"
  | MalformedProbe "'d endpoint_probe_server_error"
  | UnexpectedFirstPartyFrame u32
  | UnservedPayloadProtocol u32

record backend_endpoint_mux =
  mux_daemon :: daemon_process
  mux_served_payload_protocols :: "u32 list"
  mux_legacy_detector :: "bytes \<Rightarrow> legacy_classification"

definition mux_new :: "daemon_process \<Rightarrow> u32 list \<Rightarrow> (bytes \<Rightarrow> legacy_classification) \<Rightarrow> backend_endpoint_mux" where
  "mux_new daemon served_payload_protocols legacy_detector =
    \<lparr> mux_daemon = daemon, mux_served_payload_protocols = served_payload_protocols,
      mux_legacy_detector = legacy_detector \<rparr>"

record 'd mux_codec =
  mc_encode_frame :: "frame \<Rightarrow> bytes"
  mc_decode_frame :: "bytes \<Rightarrow> ('d, frame) result"
  mc_encode_identity :: "proto_daemon_process \<Rightarrow> bytes"

definition poll :: "'d mux_codec \<Rightarrow> backend_endpoint_mux \<Rightarrow> bytes \<Rightarrow> ('d mux_error, mux_poll) result" where
  "poll mc mux buf =
    (if buf = [] then Ok MuxNeedMoreBytes
     else
       (case mux_legacy_detector mux buf of
          ClassLegacy \<Rightarrow> Ok MuxLegacy
        | ClassNeedMoreBytes \<Rightarrow> Ok MuxNeedMoreBytes
        | ClassNotLegacy \<Rightarrow>
          if buf ! 0 \<noteq> ENVELOPE_VERSION then Ok MuxLegacy
          else
            (case try_decode_framed (mc_decode_frame mc) buf of
               Err e \<Rightarrow> Err (MuxFraming e)
             | Ok None \<Rightarrow> Ok MuxNeedMoreBytes
             | Ok (Some decoded) \<Rightarrow>
               let f = df_frame decoded; consumed = df_consumed decoded in
               if fr_payload_protocol f = BACKEND_HANDLE_PROBE_PAYLOAD_PROTOCOL
               then
                 result_bind (map_err MalformedProbe (endpoint_probe_request_from_frame f)) (\<lambda>request.
                 result_bind (map_err MuxFraming (encode_framed (mc_encode_frame mc)
                     (endpoint_probe_response_frame (mc_encode_identity mc) request (mux_daemon mux)))) (\<lambda>reply.
                   Ok (ProbeAnswered reply consumed)))
               else if is_first_party (fr_payload_protocol f)
               then Err (UnexpectedFirstPartyFrame (fr_payload_protocol f))
               else if fr_payload_protocol f \<notin> set (mux_served_payload_protocols mux)
               then Err (UnservedPayloadProtocol (fr_payload_protocol f))
               else Ok (MuxPayload f consumed))))"

section \<open>The daemon's loop over the verdicts\<close>

text \<open>The documented use of the verdicts: a buffer is polled, the consumed bytes are dropped, and the answers
  go to the peer, until more bytes are needed or the buffer is not the multiplexer's. What was left is
  the end of a run.\<close>

datatype 'd mux_end = Waiting bytes | HandedToLegacy bytes | Fatal "'d mux_error"

datatype mux_event = Probed bytes | Delivered frame

function mux_drain :: "'d mux_codec \<Rightarrow> backend_endpoint_mux \<Rightarrow> bytes \<Rightarrow> mux_event list \<times> 'd mux_end" where
  "mux_drain mc mux buf =
    (case poll mc mux buf of
       Err e \<Rightarrow> ([], Fatal e)
     | Ok MuxNeedMoreBytes \<Rightarrow> ([], Waiting buf)
     | Ok MuxLegacy \<Rightarrow> ([], HandedToLegacy buf)
     | Ok (ProbeAnswered reply consumed) \<Rightarrow>
         (case mux_drain mc mux (drop consumed buf) of (events, rest) \<Rightarrow> (Probed reply # events, rest))
     | Ok (MuxPayload f consumed) \<Rightarrow>
         (case mux_drain mc mux (drop consumed buf) of (events, rest) \<Rightarrow> (Delivered f # events, rest)))"
  by pat_completeness auto

termination
proof (relation "measure (\<lambda>(mc, mux, buf). length buf)")
  have "0 < df_consumed d \<and> df_consumed d \<le> length buf" if "try_decode_framed decode buf = Ok (Some d)"
    for decode :: "bytes \<Rightarrow> ('d, frame) result" and buf d
    using that by (auto simp: try_decode_framed_def Let_def FRAME_HEADER_BYTES_def split: if_splits sum.splits)
  then show "poll mc mux buf = Inr verdict \<Longrightarrow> verdict = ProbeAnswered reply consumed \<Longrightarrow>
      ((mc, mux, drop consumed buf), (mc, mux, buf)) \<in> measure (\<lambda>(mc, mux, buf). length buf)"
    and "poll mc mux buf = Inr verdict \<Longrightarrow> verdict = MuxPayload f consumed \<Longrightarrow>
      ((mc, mux, drop consumed buf), (mc, mux, buf)) \<in> measure (\<lambda>(mc, mux, buf). length buf)"
    for mc :: "'d mux_codec" and mux buf verdict reply f consumed
    by (fastforce simp: poll_def Let_def split: if_splits sum.splits option.splits legacy_classification.splits)+
qed simp

text \<open>The same over bytes that arrive in chunks: what waits is kept in front of the next chunk.\<close>

fun mux_run :: "'d mux_codec \<Rightarrow> backend_endpoint_mux \<Rightarrow> bytes \<Rightarrow> bytes list \<Rightarrow> mux_event list \<times> 'd mux_end" where
  "mux_run mc mux buf [] = mux_drain mc mux buf"
| "mux_run mc mux buf (chunk # chunks) =
    (case mux_drain mc mux buf of
       (events, Waiting rest) \<Rightarrow>
         (case mux_run mc mux (rest @ chunk) chunks of (more_events, fin) \<Rightarrow> (events @ more_events, fin))
     | (events, HandedToLegacy rest) \<Rightarrow> (events, HandedToLegacy (rest @ chunk @ concat chunks))
     | (events, Fatal e) \<Rightarrow> (events, Fatal e))"

text \<open>A detector that does not change its mind when more bytes arrive.\<close>

definition stable_detector :: "(bytes \<Rightarrow> legacy_classification) \<Rightarrow> bool" where
  "stable_detector detector =
    (\<forall>buf later. detector buf \<noteq> ClassNeedMoreBytes \<longrightarrow> detector (buf @ later) = detector buf)"

section \<open>The identity sidecar\<close>

record file_system =
  fs_files :: "string \<rightharpoonup> bytes"

text \<open>Outcomes of the calls of one write: a write may fail to open the file, or leave a prefix in it.\<close>

record sidecar_write =
  sw_to_json :: "(io_error, bytes) result"
  sw_write_fails :: "(nat option \<times> io_error) option"
  sw_rename_fails :: "io_error option"
  sw_remove_fails :: bool

text \<open>The file system after each call, and the result.\<close>

definition write_daemon_identity_file ::
  "sidecar_write \<Rightarrow> string \<Rightarrow> file_system \<Rightarrow> (io_error, unit) result \<times> file_system list" where
  "write_daemon_identity_file ops path fs =
    (case sw_to_json ops of
       Err e \<Rightarrow> (Err e, [fs])
     | Ok json \<Rightarrow>
       let tmp = path @ ''.tmp'' in
       (case sw_write_fails ops of
          Some (None, e) \<Rightarrow> (Err e, [fs])
        | Some (Some n, e) \<Rightarrow> (Err e, [fs, fs\<lparr> fs_files := (fs_files fs)(tmp \<mapsto> take n json) \<rparr>])
        | None \<Rightarrow>
          let fs1 = fs\<lparr> fs_files := (fs_files fs)(tmp \<mapsto> json) \<rparr> in
          (case sw_rename_fails ops of
             Some e \<Rightarrow>
               (Err e, [fs, fs1, if sw_remove_fails ops then fs1 else fs1\<lparr> fs_files := (fs_files fs1)(tmp := None) \<rparr>])
           | None \<Rightarrow> (Ok (), [fs, fs1, fs1\<lparr> fs_files := (fs_files fs1)(path \<mapsto> json, tmp := None) \<rparr>]))))"

definition try_read_daemon_identity_file ::
  "(bytes \<Rightarrow> (io_error, daemon_process) result) \<Rightarrow> (string \<Rightarrow> io_error option) \<Rightarrow> string \<Rightarrow> file_system \<Rightarrow>
   (io_error, daemon_process option) result" where
  "try_read_daemon_identity_file from_json read_fails path fs =
    (case read_fails path of
       Some e \<Rightarrow> if ioe_kind e = NotFound then Ok None else Err e
     | None \<Rightarrow>
       (case fs_files fs path of
          None \<Rightarrow> Ok None
        | Some raw \<Rightarrow> result_bind (from_json raw) (\<lambda>daemon. Ok (Some daemon))))"

definition read_daemon_identity_file ::
  "(bytes \<Rightarrow> (io_error, daemon_process) result) \<Rightarrow> (string \<Rightarrow> io_error option) \<Rightarrow> string \<Rightarrow> file_system \<Rightarrow>
   daemon_process option" where
  "read_daemon_identity_file from_json read_fails path fs =
    (case try_read_daemon_identity_file from_json read_fails path fs of Ok d \<Rightarrow> d | Err _ \<Rightarrow> None)"

definition remove_daemon_identity_file :: "bool \<Rightarrow> string \<Rightarrow> file_system \<Rightarrow> file_system" where
  "remove_daemon_identity_file fails path fs =
    (if fails then fs else fs\<lparr> fs_files := (fs_files fs)(path := None) \<rparr>)"

text \<open>A daemon behind the multiplexer: every delivered frame is answered by a response with the handler's payload,
  every probe with the multiplexer's reply.\<close>

definition wire_of :: "(frame \<Rightarrow> bytes) \<Rightarrow> frame \<Rightarrow> bytes" where
  "wire_of encode f = write_frame_header (encode f) @ encode f"

fun answer_event :: "'d mux_codec \<Rightarrow> (frame \<Rightarrow> bytes) \<Rightarrow> mux_event \<Rightarrow> bytes" where
  "answer_event mc handler (Probed reply) = reply"
| "answer_event mc handler (Delivered f) = wire_of (mc_encode_frame mc) (frame_response_to f (handler f))"

definition daemon_peer :: "'d mux_codec \<Rightarrow> backend_endpoint_mux \<Rightarrow> (frame \<Rightarrow> bytes) \<Rightarrow> bytes \<Rightarrow> reader" where
  "daemon_peer mc mux handler sent =
    \<lparr> rd_bytes = concat (map (answer_event mc handler) (fst (mux_drain mc mux sent))), rd_end = Eof \<rparr>"

text \<open>A session of requests, one after the other.\<close>

fun frame_client_requests ::
  "'d client_codec \<Rightarrow> (u32 \<times> bytes) list \<Rightarrow> frame_client \<Rightarrow> ('d frame_client_error, frame) result list \<times> frame_client" where
  "frame_client_requests cl [] c = ([], c)"
| "frame_client_requests cl ((p, payload) # reqs) c =
    (case frame_client_request cl p payload c of
       (r, c1) \<Rightarrow> (case frame_client_requests cl reqs c1 of (rs, c2) \<Rightarrow> (r # rs, c2)))"

definition next_id :: "u64 \<Rightarrow> u64" where
  "next_id n = max (n + 1) 1"

definition request_frame :: "u64 \<Rightarrow> u32 \<times> bytes \<Rightarrow> frame" where
  "request_frame i r = with_request_id (frame_request (fst r) (snd r)) i"

fun expected_responses :: "(frame \<Rightarrow> bytes) \<Rightarrow> u64 \<Rightarrow> (u32 \<times> bytes) list \<Rightarrow> frame list" where
  "expected_responses handler i [] = []"
| "expected_responses handler i (r # reqs) =
    frame_response_to (request_frame i r) (handler (request_frame i r)) # expected_responses handler (next_id i) reqs"

text \<open>Both sides have the same codec for the frames of the session.\<close>

definition lane_agrees :: "'d client_codec \<Rightarrow> 'd mux_codec \<Rightarrow> frame \<Rightarrow> frame \<Rightarrow> bool" where
  "lane_agrees cl mc f g =
    (mc_decode_frame mc (cl_encode_frame cl f) = Ok f \<and> length (cl_encode_frame cl f) \<le> MAX_FRAME_BYTES \<and>
     cl_decode_frame cl (mc_encode_frame mc g) = Ok g \<and> length (mc_encode_frame mc g) \<le> MAX_FRAME_BYTES)"

fun session_agrees :: "'d client_codec \<Rightarrow> 'd mux_codec \<Rightarrow> (frame \<Rightarrow> bytes) \<Rightarrow> u64 \<Rightarrow> (u32 \<times> bytes) list \<Rightarrow> bool" where
  "session_agrees cl mc handler i [] = True"
| "session_agrees cl mc handler i (r # reqs) =
    (lane_agrees cl mc (request_frame i r) (frame_response_to (request_frame i r) (handler (request_frame i r))) \<and>
     session_agrees cl mc handler (next_id i) reqs)"

text \<open>A daemon that echoes payloads twice, over a codec of kind, id and payload.\<close>

definition sample_lane_encode :: "frame \<Rightarrow> bytes" where
  "sample_lane_encode f =
    (if fr_kind f = frame_kind_i32 FrameKindRequest then 0 else 1) # ucast (fr_request_id f) # fr_payload f"

fun sample_lane_decode :: "bytes \<Rightarrow> (string, frame) result" where
  "sample_lane_decode (kind # i # payload) =
    (let request = request_frame (ucast i) (0x7A63, payload) in
     Ok (if kind = 0 then request else frame_response_to request payload))"
| "sample_lane_decode _ = Err ''short''"

definition sample_lane_client :: "string client_codec" where
  "sample_lane_client =
    \<lparr> cl_encode_frame = sample_lane_encode, cl_decode_frame = sample_lane_decode, cl_encode_hello = (\<lambda>_. []),
      cl_decode_hello_reply = (\<lambda>_. Err ''hello''), cl_encode_admin_request = (\<lambda>_. []),
      cl_decode_admin_reply = (\<lambda>_. Err ''admin''), cl_decode_ack = (\<lambda>_. Err ''ack'') \<rparr>"

definition sample_lane_codec :: "string mux_codec" where
  "sample_lane_codec = \<lparr> mc_encode_frame = sample_lane_encode, mc_decode_frame = sample_lane_decode, mc_encode_identity = (\<lambda>_. []) \<rparr>"

definition sample_mux :: backend_endpoint_mux where
  "sample_mux = mux_new sample_daemon [0x7A63] (\<lambda>_. ClassNotLegacy)"

definition sample_echo :: "frame \<Rightarrow> bytes" where
  "sample_echo f = fr_payload f @ fr_payload f"

text \<open>Where a session stands: all that was sent has been served, and all that was answered has been read.\<close>

definition in_step :: "'d mux_codec \<Rightarrow> backend_endpoint_mux \<Rightarrow> (frame \<Rightarrow> bytes) \<Rightarrow> client_stream \<Rightarrow> bool" where
  "in_step mc mux handler s =
    (cst_peer s = daemon_peer mc mux handler \<and> wr_room (cst_writer s) = None \<and> wr_flush (cst_writer s) = None \<and>
     (\<exists>events. mux_drain mc mux (wr_out (cst_writer s)) = (events, Waiting []) \<and>
        cst_consumed s = length (concat (map (answer_event mc handler) events))))"

declare mux_drain.simps [simp del]

section \<open>Chunks\<close>

lemma try_decode_framed_stable:
  assumes "try_decode_framed decode buf = r" "r \<noteq> Ok None"
  shows "try_decode_framed decode (buf @ later) = r"
proof (cases "buf = [] \<or> buf ! 0 \<noteq> ENVELOPE_VERSION")
  case True
  then show ?thesis using assms by (auto simp: try_decode_framed_def nth_append)
next
  case False
  then have len: "FRAME_HEADER_BYTES \<le> length buf" using assms by (auto simp: try_decode_framed_def split: if_splits)
  then have hd: "[(buf @ later) ! 1, (buf @ later) ! 2, (buf @ later) ! 3, (buf @ later) ! 4] = [buf ! 1, buf ! 2, buf ! 3, buf ! 4]"
    "(buf @ later) ! 0 = buf ! 0"
    using False by (auto simp: nth_append FRAME_HEADER_BYTES_def)
  show ?thesis
    using assms False len unfolding try_decode_framed_def hd by (auto simp: Let_def split: if_splits)
qed

lemma poll_stable:
  assumes "stable_detector (mux_legacy_detector mux)" "poll mc mux buf = r" "r \<noteq> Ok MuxNeedMoreBytes"
  shows "poll mc mux (buf @ later) = r"
proof -
  have "buf \<noteq> []" using assms(2,3) by (auto simp: poll_def)
  have "mux_legacy_detector mux buf \<noteq> ClassNeedMoreBytes" using assms(2,3) \<open>buf \<noteq> []\<close> by (auto simp: poll_def)
  then have d: "mux_legacy_detector mux (buf @ later) = mux_legacy_detector mux buf"
    using assms(1) by (simp add: stable_detector_def)
  have n: "(buf @ later) ! 0 = buf ! 0" using \<open>buf \<noteq> []\<close> by (simp add: nth_append)
  have t: "try_decode_framed (mc_decode_frame mc) buf \<noteq> Ok None"
    if "mux_legacy_detector mux buf = ClassNotLegacy" "buf ! 0 = ENVELOPE_VERSION"
    using assms(2,3) that \<open>buf \<noteq> []\<close> by (auto simp: poll_def)
  show ?thesis
    using assms(2) t try_decode_framed_stable [OF refl, of "mc_decode_frame mc" buf later] \<open>buf \<noteq> []\<close> d n
    by (cases "mux_legacy_detector mux buf"; cases "buf ! 0 = ENVELOPE_VERSION") (simp_all add: poll_def)
qed

lemma poll_consumed:
  assumes "poll mc mux buf = Ok verdict" "verdict = ProbeAnswered reply consumed \<or> verdict = MuxPayload f consumed"
  shows "consumed \<le> length buf"
proof -
  have "df_consumed d \<le> length buf" if "try_decode_framed (mc_decode_frame mc) buf = Ok (Some d)" for d
    using that by (auto simp: try_decode_framed_def Let_def FRAME_HEADER_BYTES_def split: if_splits sum.splits)
  then show ?thesis
    using assms by (auto simp: poll_def Let_def split: if_splits sum.splits option.splits legacy_classification.splits)
qed

text \<open>What a run does when more bytes follow.\<close>

lemma mux_drain_append:
  assumes "stable_detector (mux_legacy_detector mux)"
  shows "mux_drain mc mux (buf @ later) =
    (case mux_drain mc mux buf of
       (events, Waiting rest) \<Rightarrow> (case mux_drain mc mux (rest @ later) of (evs, fin) \<Rightarrow> (events @ evs, fin))
     | (events, HandedToLegacy rest) \<Rightarrow> (events, HandedToLegacy (rest @ later))
     | (events, Fatal e) \<Rightarrow> (events, Fatal e))"
  using assms
proof (induction mc mux buf rule: mux_drain.induct)
  case (1 mc mux buf)
  show ?case
  proof (cases "poll mc mux buf = Ok MuxNeedMoreBytes")
    case True
    then show ?thesis by (simp add: mux_drain.simps [of mc mux buf] split: prod.split)
  next
    case False
    note p = poll_stable [OF 1(3) refl False, of later]
    show ?thesis
    proof (cases "poll mc mux buf")
      case (Inl e)
      then show ?thesis using p by (simp add: mux_drain.simps [of mc mux buf] mux_drain.simps [of mc mux "buf @ later"])
    next
      case (Inr verdict)
      have drop: "drop consumed (buf @ later) = drop consumed buf @ later"
        if "verdict = ProbeAnswered reply consumed \<or> verdict = MuxPayload f consumed" for reply f consumed
        using poll_consumed [OF Inr that] by simp
      show ?thesis
      proof (cases verdict)
        case (ProbeAnswered reply consumed)
        then show ?thesis
          using Inr p 1(1) [OF Inr ProbeAnswered 1(3)] drop
          by (auto simp: mux_drain.simps [of mc mux buf] mux_drain.simps [of mc mux "buf @ later"] split: prod.splits mux_end.splits)
      next
        case (MuxPayload f consumed)
        then show ?thesis
          using Inr p 1(2) [OF Inr MuxPayload 1(3)] drop
          by (auto simp: mux_drain.simps [of mc mux buf] mux_drain.simps [of mc mux "buf @ later"] split: prod.splits mux_end.splits)
      qed (use Inr p False in \<open>simp_all add: mux_drain.simps [of mc mux buf] mux_drain.simps [of mc mux "buf @ later"]\<close>)
    qed
  qed
qed

lemma mux_run_drain:
  assumes "stable_detector (mux_legacy_detector mux)"
  shows "mux_run mc mux buf chunks = mux_drain mc mux (buf @ concat chunks)"
proof (induction chunks arbitrary: buf)
  case (Cons chunk chunks)
  have "mux_drain mc mux (buf @ chunk @ concat chunks) =
    (case mux_drain mc mux buf of
       (events, Waiting rest) \<Rightarrow> (case mux_drain mc mux (rest @ chunk @ concat chunks) of (evs, fin) \<Rightarrow> (events @ evs, fin))
     | (events, HandedToLegacy rest) \<Rightarrow> (events, HandedToLegacy (rest @ chunk @ concat chunks))
     | (events, Fatal e) \<Rightarrow> (events, Fatal e))"
    by (rule mux_drain_append [OF assms])
  then show ?case using Cons by (simp split: prod.splits mux_end.splits)
qed simp

lemma poll_wire:
  fixes mc :: "'d mux_codec"
  assumes "mux_legacy_detector mux = (\<lambda>_. ClassNotLegacy)" "length (encode f) \<le> MAX_FRAME_BYTES"
    and "mc_decode_frame mc (encode f) = Ok f"
    and "\<not> is_first_party (fr_payload_protocol f)" "fr_payload_protocol f \<in> set (mux_served_payload_protocols mux)"
  shows "poll mc mux (wire_of encode f) = Ok (MuxPayload f (length (wire_of encode f)))"
proof -
  have w: "wire_of encode f = ENVELOPE_VERSION # u32_to_le_bytes (word_of_nat (length (encode f))) @ encode f @ []"
    by (simp add: wire_of_def write_frame_header_layout)
  have "is_first_party BACKEND_HANDLE_PROBE_PAYLOAD_PROTOCOL"
    by code_simp
  then have p: "fr_payload_protocol f \<noteq> BACKEND_HANDLE_PROBE_PAYLOAD_PROTOCOL" using assms(4) by auto
  have "try_decode_framed (mc_decode_frame mc) (wire_of encode f) = Ok (Some \<lparr> df_frame = f, df_consumed = length (wire_of encode f) \<rparr>)"
    unfolding w try_decode_framed_complete [OF assms(2)] by (simp add: assms(3))
  moreover have "wire_of encode f \<noteq> []" "wire_of encode f ! 0 = ENVELOPE_VERSION" by (simp_all add: w)
  ultimately show ?thesis using assms(1,4,5) p by (simp add: poll_def)
qed

lemma mux_drain_wire:
  assumes "mux_legacy_detector mux = (\<lambda>_. ClassNotLegacy)" "length (encode f) \<le> MAX_FRAME_BYTES"
    and "mc_decode_frame mc (encode f) = Ok f"
    and "\<not> is_first_party (fr_payload_protocol f)" "fr_payload_protocol f \<in> set (mux_served_payload_protocols mux)"
  shows "mux_drain mc mux (wire_of encode f) = ([Delivered f], Waiting [])"
proof -
  have "mux_drain mc mux [] = ([], Waiting [])" by (simp add: mux_drain.simps poll_def)
  then show ?thesis
    using poll_wire [where encode = encode and f = f, OF assms] by (simp add: mux_drain.simps [of mc mux "wire_of encode f"])
qed

lemma always_stable: "stable_detector (\<lambda>_. ClassNotLegacy)"
  by (simp add: stable_detector_def)

lemma frame_response_to_sel:
  "fr_request_id (frame_response_to f payload) = fr_request_id f"
  "fr_payload_protocol (frame_response_to f payload) = fr_payload_protocol f"
  "frame_kind_try_from (fr_kind (frame_response_to f payload)) = Some FrameKindResponse"
  by (simp_all add: frame_response_to_def frame_kind_try_from_def)

lemma request_frame_sel [simp]:
  "fr_request_id (request_frame i r) = i" "fr_payload_protocol (request_frame i r) = fst r"
  by (simp_all add: request_frame_def with_request_id_def frame_request_def)

lemma request_answered:
  fixes cl :: "'d client_codec"
  assumes "in_step mc mux handler (fc_stream c)" "mux_legacy_detector mux = (\<lambda>_. ClassNotLegacy)"
    and "\<not> is_first_party p" "p \<in> set (mux_served_payload_protocols mux)"
    and "f = request_frame (fc_next_request_id c) (p, payload)" "lane_agrees cl mc f (frame_response_to f (handler f))"
  shows "\<exists>s. frame_client_request cl p payload c = (Ok (frame_response_to f (handler f)),
      c\<lparr> fc_next_request_id := next_id (fc_next_request_id c), fc_stream := s \<rparr>) \<and> in_step mc mux handler s"
proof -
  let ?g = "frame_response_to f (handler f)"
  let ?s = "fc_stream c"
  let ?body = "cl_encode_frame cl f"
  let ?out = "mc_encode_frame mc ?g"
  obtain events where ev: "mux_drain mc mux (wr_out (cst_writer ?s)) = (events, Waiting [])"
    "cst_consumed ?s = length (concat (map (answer_event mc handler) events))"
    and st: "cst_peer ?s = daemon_peer mc mux handler" "wr_room (cst_writer ?s) = None" "wr_flush (cst_writer ?s) = None"
    using assms(1) by (auto simp: in_step_def)
  have ok: "mc_decode_frame mc ?body = Ok f" "length ?body \<le> MAX_FRAME_BYTES" "cl_decode_frame cl ?out = Ok ?g" "length ?out \<le> MAX_FRAME_BYTES"
    using assms(6) by (simp_all add: lane_agrees_def)
  let ?s1 = "?s\<lparr> cst_writer := (cst_writer ?s)\<lparr> wr_out := wr_out (cst_writer ?s) @ wire_of (cl_encode_frame cl) f \<rparr> \<rparr>"
  have w: "(client_write_frame ?body ?s :: ('d framing_error, nat) result \<times> client_stream) = (Ok (5 + length ?body), ?s1)"
    by (simp add: client_write_frame_def write_frame_delivers [OF ok(2) st(2,3)] wire_of_def)
  have stable: "stable_detector (mux_legacy_detector mux)" using assms(2) always_stable by simp
  have "mux_drain mc mux (wire_of (cl_encode_frame cl) f) = ([Delivered f], Waiting [])"
    using mux_drain_wire [where encode = "cl_encode_frame cl" and f = f, OF assms(2) ok(2,1)] assms(3,4,5) by simp
  then have d: "mux_drain mc mux (wr_out (cst_writer ?s1)) = (events @ [Delivered f], Waiting [])"
    using mux_drain_append [OF stable, of mc "wr_out (cst_writer ?s)" "wire_of (cl_encode_frame cl) f"] ev(1) by simp
  then have r: "client_reader ?s1 = \<lparr> rd_bytes = write_frame_header ?out @ ?out @ [], rd_end = Eof \<rparr>"
    using ev(2) st(1) by (simp add: client_reader_def daemon_peer_def wire_of_def)
  let ?s2 = "?s1\<lparr> cst_consumed := cst_consumed ?s + length (write_frame_header ?out @ ?out) \<rparr>"
  have rd: "(client_read_frame ?s1 :: ('d framing_error, bytes) result \<times> client_stream) = (Ok ?out, ?s2)"
    unfolding client_read_frame_def r read_frame_written [OF ok(4)] by simp
  have body: "cl_encode_frame cl (with_request_id (frame_request p payload) (fc_next_request_id c)) = ?body"
    using assms(5) by (simp add: request_frame_def)
  have "frame_client_request cl p payload c = (Ok ?g, c\<lparr> fc_next_request_id := next_id (fc_next_request_id c), fc_stream := ?s2 \<rparr>)"
    using w rd ok(3) assms(5) by (simp add: frame_client_request_def Let_def body next_id_def frame_response_to_sel)
  moreover have "in_step mc mux handler ?s2"
    using d ev(2) st by (simp add: in_step_def wire_of_def)
  ultimately show ?thesis by blast
qed

lemma sample_lane_agrees:
  assumes "i \<in> {1, 2}" "length payload \<le> 2"
  shows "lane_agrees sample_lane_client sample_lane_codec (request_frame i (0x7A63, payload))
    (frame_response_to (request_frame i (0x7A63, payload)) (sample_echo (request_frame i (0x7A63, payload))))"
  using assms by (auto simp: lane_agrees_def sample_lane_client_def sample_lane_codec_def sample_lane_encode_def Let_def
      request_frame_def with_request_id_def frame_request_def frame_response_to_def sample_echo_def MAX_FRAME_BYTES_def MAX_FRAME_SIZE_BYTES_def)

text \<open>A probe gets the same bytes through the multiplexer as from the blocking responder.\<close>

lemma mux_answers_probe:
  fixes mc :: "'d mux_codec"
  assumes "mux_legacy_detector mux = (\<lambda>_. ClassNotLegacy)" "length nonce = PROBE_NONCE_BYTES"
    and "mc_decode_frame mc request_bytes = Ok (endpoint_probe_request_frame request_id nonce)"
    and "length request_bytes \<le> MAX_FRAME_BYTES"
    and "response = endpoint_probe_response_frame (mc_encode_identity mc) \<lparr> epr_request_id = request_id,
      epr_nonce = nonce, epr_traceparent = [], epr_tracestate = [] \<rparr> (mux_daemon mux)"
    and "length (mc_encode_frame mc response) \<le> MAX_FRAME_BYTES"
  shows "\<exists>reply. mux_drain mc mux (write_frame_header request_bytes @ request_bytes) = ([Probed reply], Waiting []) \<and>
    serving_peer (mc_encode_frame mc) (mc_decode_frame mc) (mc_encode_identity mc) (mux_daemon mux)
      (write_frame_header request_bytes @ request_bytes) = [Arrive reply]"
proof -
  let ?buf = "write_frame_header request_bytes @ request_bytes"
  let ?reply = "write_frame_header (mc_encode_frame mc response) @ mc_encode_frame mc response"
  have w: "?buf = ENVELOPE_VERSION # u32_to_le_bytes (word_of_nat (length request_bytes)) @ request_bytes @ []"
    by (simp add: write_frame_header_layout)
  have t: "try_decode_framed (mc_decode_frame mc) ?buf =
      Ok (Some \<lparr> df_frame = endpoint_probe_request_frame request_id nonce, df_consumed = length ?buf \<rparr>)"
    unfolding w try_decode_framed_complete [OF assms(4)] by (simp add: assms(3))
  have req: "endpoint_probe_request_from_frame (endpoint_probe_request_frame request_id nonce) =
      (Ok \<lparr> epr_request_id = request_id, epr_nonce = nonce, epr_traceparent = [], epr_tracestate = [] \<rparr>
        :: ('d endpoint_probe_server_error, endpoint_probe_request) result)"
    using assms(2) by (simp add: endpoint_probe_request_from_frame_def endpoint_probe_request_frame_def
        validate_endpoint_probe_request_frame_def frame_kind_try_from_def payload_encoding_try_from_def)
  have e: "(encode_framed (mc_encode_frame mc) response :: ('d framing_error, bytes) result) = Ok ?reply"
    using assms(6) by (simp add: encode_framed_def write_frame_header_layout)
  have "?buf \<noteq> []" "?buf ! 0 = ENVELOPE_VERSION" by (simp_all add: w)
  moreover have "fr_payload_protocol (endpoint_probe_request_frame request_id nonce) = BACKEND_HANDLE_PROBE_PAYLOAD_PROTOCOL"
    by (simp add: endpoint_probe_request_frame_def)
  ultimately have "poll mc mux ?buf = Ok (ProbeAnswered ?reply (length ?buf))"
    using assms(1) t req e unfolding poll_def assms(5) by simp
  moreover have "mux_drain mc mux [] = ([], Waiting [])" by (simp add: mux_drain.simps poll_def)
  ultimately have "mux_drain mc mux ?buf = ([Probed ?reply], Waiting [])"
    by (simp add: mux_drain.simps [of mc mux ?buf])
  then show ?thesis using handle_endpoint_probe_answers [where encode_frame = "mc_encode_frame mc" and decode_frame = "mc_decode_frame mc", OF assms(2-6)] by blast
qed

text \<open>The sidecar is never torn: at every moment of a write a reader finds the old identity or the new one, a
  successful write leaves the new one, and no file but the sidecar and its temporary is touched.\<close>

lemma sidecar_never_torn:
  assumes "write_daemon_identity_file ops path fs = (r, history)"
  shows "(\<forall>fs' \<in> set history. fs_files fs' path = fs_files fs path \<or> (\<exists>json. sw_to_json ops = Ok json \<and> fs_files fs' path = Some json)) \<and>
    (is_ok r \<longrightarrow> (\<exists>json. sw_to_json ops = Ok json \<and> fs_files (last history) = (fs_files fs)(path \<mapsto> json, path @ ''.tmp'' := None))) \<and>
    (\<not> is_ok r \<longrightarrow> fs_files (last history) path = fs_files fs path) \<and>
    (\<forall>fs' \<in> set history. \<forall>p. p \<noteq> path \<longrightarrow> p \<noteq> path @ ''.tmp'' \<longrightarrow> fs_files fs' p = fs_files fs p)"
  using assms by (auto simp: write_daemon_identity_file_def Let_def split: sum.splits option.splits prod.splits)

section \<open>Properties\<close>

text \<open>C22: A session of the frame client with a daemon behind the multiplexer. Every request of the session is
  delivered to the daemon's handler exactly once and in order, and is answered with the handler's
  payload under the request's own id; nothing is left over between requests.\<close>

theorem frame_session_answered:
  assumes "mux_legacy_detector mux = (\<lambda>_. ClassNotLegacy)"
    and "\<forall>(p, payload) \<in> set reqs. \<not> is_first_party p \<and> p \<in> set (mux_served_payload_protocols mux)"
    and "session_agrees cl mc handler 1 reqs"
  shows "fst (frame_client_requests cl reqs (frame_client_from_stream (connected_client (daemon_peer mc mux handler)))) =
      map Ok (expected_responses handler 1 reqs)"
proof -
  have "fst (frame_client_requests cl reqs c) = map Ok (expected_responses handler (fc_next_request_id c) reqs)"
    if "in_step mc mux handler (fc_stream c)" "session_agrees cl mc handler (fc_next_request_id c) reqs" for c
    using that assms(2)
  proof (induction reqs arbitrary: c)
    case (Cons r reqs)
    obtain p payload where r: "r = (p, payload)" by fastforce
    obtain s where s: "frame_client_request cl p payload c = (Ok (frame_response_to (request_frame (fc_next_request_id c) r) (handler (request_frame (fc_next_request_id c) r))),
        c\<lparr> fc_next_request_id := next_id (fc_next_request_id c), fc_stream := s \<rparr>)" "in_step mc mux handler s"
      using request_answered [OF Cons(2) assms(1), of p "request_frame (fc_next_request_id c) r" payload cl] Cons(3,4) r by auto
    then show ?case using Cons(1) [of "c\<lparr> fc_next_request_id := next_id (fc_next_request_id c), fc_stream := s \<rparr>"] Cons(3,4) r
      by (simp add: case_prod_beta)
  qed simp
  moreover have "in_step mc mux handler (connected_client (daemon_peer mc mux handler))"
    by (simp add: in_step_def connected_client_def open_writer_def mux_drain.simps poll_def)
  ultimately show ?thesis using assms(3) by (simp add: frame_client_from_stream_def)
qed

theorem frame_session_answered_witness:
  "fst (frame_client_requests sample_lane_client [(0x7A63, [5]), (0x7A63, [6, 7])]
      (frame_client_from_stream (connected_client (daemon_peer sample_lane_codec sample_mux sample_echo)))) =
    [Ok (frame_response_to (request_frame 1 (0x7A63, [5])) [5, 5]), Ok (frame_response_to (request_frame 2 (0x7A63, [6, 7])) [6, 7, 6, 7])]"
proof -
  have "session_agrees sample_lane_client sample_lane_codec sample_echo 1 [(0x7A63, [5]), (0x7A63, [6, 7])]"
    by (simp add: sample_lane_agrees next_id_def)
  moreover have "\<not> is_first_party 0x7A63" by code_simp
  ultimately show ?thesis
    using frame_session_answered [of sample_mux "[(0x7A63, [5]), (0x7A63, [6, 7])]" sample_lane_client sample_lane_codec sample_echo]
    by (simp add: sample_mux_def mux_new_def next_id_def sample_echo_def request_frame_def with_request_id_def frame_request_def)
qed

text \<open>C23: The multiplexer does not depend on how bytes arrive. When the legacy detector does not change its mind
  as bytes are added, the events of a run over any chunks, and how it ends, are those of the whole
  input at once.\<close>

theorem mux_chunks_irrelevant:
  assumes "stable_detector (mux_legacy_detector mux)" "concat chunks = concat chunks'"
  shows "mux_run mc mux [] chunks = mux_run mc mux [] chunks'"
  using assms by (simp add: mux_run_drain)

theorem mux_chunks_irrelevant_witness:
  "mux_run sample_lane_codec sample_mux [] [wire_of sample_lane_encode (request_frame 1 (0x7A63, [5]))] =
    mux_run sample_lane_codec sample_mux [] (map (\<lambda>b. [b]) (wire_of sample_lane_encode (request_frame 1 (0x7A63, [5]))))"
  by (rule mux_chunks_irrelevant) (simp_all add: sample_mux_def mux_new_def always_stable concat_map_singleton)

end
