(* ===== verification/Service_Supervisor.thy ===== *)
theory Service_Supervisor
  imports Rust_Strings
begin

text \<open>
  The supervisor of long-running services (\<open>daemon/services.rs\<close>, \<open>daemon/services_snapshot.rs\<close>,
  \<open>daemon/handlers/services.rs\<close>).

  The \<open>services\<close> table is a list of rows, and each SQL statement of the source a function on it;
  whether a statement fails is decided by the host, statement by statement. Child processes are a
  table of their own: a child is spawned by the registry, exits when the host decides, and is owned by
  a service as long as its handle is in the map of live services. The supervisor's tick is cut at the
  backoff sleep, where other requests can be served; the tick of the source is the composition.
\<close>

section \<open>Status, policy and definition\<close>

datatype service_status = Online | Stopped | Errored

fun status_as_str :: "service_status \<Rightarrow> string" where
  "status_as_str Online = ''online''"
| "status_as_str Stopped = ''stopped''"
| "status_as_str Errored = ''errored''"

definition status_from_str :: "string \<Rightarrow> service_status" where
  "status_from_str s = (if s = ''online'' then Online else if s = ''errored'' then Errored else Stopped)"

record service_def =
  sd_name :: string
  sd_cmd :: "string list"
  sd_cwd :: string
  sd_env :: "(string \<times> string) list"
  sd_autorestart :: bool
  sd_max_restarts :: u32
  sd_restart_delay_ms :: u32
  sd_kill_timeout_ms :: u32
  sd_min_uptime_ms :: u32

definition kill_grace :: "service_def \<Rightarrow> duration" where
  "kill_grace d =
    (if sd_kill_timeout_ms d = 0 then from_secs 3 else from_millis (unat (sd_kill_timeout_ms d)))"

record restart_policy =
  rp_autorestart :: bool
  rp_max_restarts :: u32
  rp_base_delay :: duration
  rp_min_uptime :: duration

definition MAX_BACKOFF :: duration where
  "MAX_BACKOFF = from_secs 30"

definition policy_from_config :: "service_def \<Rightarrow> restart_policy" where
  "policy_from_config cfg =
    \<lparr> rp_autorestart = sd_autorestart cfg,
      rp_max_restarts = sd_max_restarts cfg,
      rp_base_delay =
        (if sd_restart_delay_ms cfg = 0 then from_millis 500 else from_millis (unat (sd_restart_delay_ms cfg))),
      rp_min_uptime =
        (if sd_min_uptime_ms cfg = 0 then from_secs 2 else from_millis (unat (sd_min_uptime_ms cfg))) \<rparr>"

text \<open>\<open>Duration::checked_mul\<close>: \<open>None\<close> when the seconds do not fit in 64 bits.\<close>

definition duration_checked_mul :: "duration \<Rightarrow> nat \<Rightarrow> duration option" where
  "duration_checked_mul d n = (if d * n div 1000000000 > U64_MAX then None else Some (d * n))"

definition backoff_for :: "restart_policy \<Rightarrow> u32 \<Rightarrow> duration" where
  "backoff_for p consecutive_crashes =
    (let shift = min (unat consecutive_crashes) 16;
         scaled = (case duration_checked_mul (rp_base_delay p) (2 ^ min shift 16) of None \<Rightarrow> MAX_BACKOFF | Some d \<Rightarrow> d)
     in min scaled MAX_BACKOFF)"

text \<open>Seconds since the epoch as a float, which the registry only stores and returns.\<close>

type_synonym unix_time = nat

record service_record =
  rec_id :: u32
  rec_def :: service_def
  rec_status :: service_status
  rec_pid :: u32
  rec_restart_count :: u32
  rec_last_started_at :: unix_time
  rec_last_exited_at :: unix_time
  rec_last_exit_code :: int

datatype service_error =
    AlreadyExists string
  | ServiceNotFound string
  | InvalidConfig string
  | SpawnFailed string
  | DbError string

section \<open>The registry and its host\<close>

text \<open>A service in a snapshot, and the snapshot.\<close>

record snapshot_service =
  ss_id :: u32
  ss_name :: string
  ss_cmd :: "string list"
  ss_cwd :: string
  ss_env :: "(string \<times> string) list"
  ss_autorestart :: bool
  ss_max_restarts :: u32
  ss_restart_delay_ms :: u32
  ss_kill_timeout_ms :: u32
  ss_min_uptime_ms :: u32
  ss_status :: string
  ss_pid :: u32
  ss_restart_count :: u32
  ss_last_started_at :: unix_time
  ss_last_exited_at :: unix_time
  ss_last_exit_code :: int

record snapshot_envelope =
  se_version :: u32
  se_saved_at_ms :: u64
  se_services :: "snapshot_service list"

text \<open>The JSON of the two list columns and of a snapshot. Writing may fail, and so may reading.\<close>

record json_codec =
  jc_cmd_to :: "string list \<Rightarrow> string option"
  jc_cmd_from :: "string \<Rightarrow> string list option"
  jc_env_to :: "(string \<times> string) list \<Rightarrow> string option"
  jc_env_from :: "string \<Rightarrow> (string \<times> string) list option"
  jc_snapshot_to :: "snapshot_envelope \<Rightarrow> (string, string) result"
  jc_snapshot_from :: "string \<Rightarrow> (string, snapshot_envelope) result"

record service_row =
  sr_id :: u32
  sr_name :: string
  sr_cmd :: string
  sr_cwd :: string
  sr_env :: string
  sr_autorestart :: bool
  sr_max_restarts :: u32
  sr_restart_delay_ms :: u32
  sr_kill_timeout_ms :: u32
  sr_min_uptime_ms :: u32
  sr_status :: string
  sr_pid :: u32
  sr_restart_count :: nat
  sr_last_started_at :: unix_time
  sr_last_exited_at :: unix_time
  sr_last_exit_code :: int

record owned_service =
  os_process :: nat
  os_started_at :: instant
  os_intentional_stop :: bool

text \<open>A child as it was started, and its exit code once it has exited.\<close>

record child =
  ch_service :: string
  ch_command :: "string list"
  ch_cwd :: "string option"
  ch_env :: "(string \<times> string) list option"
  ch_pid :: "u32 option"
  ch_exit :: "int option"

record service_registry =
  svc_rows :: "service_row list"
  svc_live :: "(string, owned_service) hash_map"
  svc_log_dir :: string
  svc_snapshot_path :: string
  svc_next_id :: u32
  svc_children :: "child list"
  svc_files :: "string \<Rightarrow> string option"
  svc_db_calls :: nat
  svc_spawns :: nat

text \<open>The host: the outcome of the n-th statement, of the n-th start of a process and the time of it; whether
  a child can be polled; the exit code of a child after the soft signal within the grace, and after a
  kill; the clocks; the failures of file operations, and how much a failing write has written.\<close>

datatype file_op = CreateDir | RemoveTmp | OpenTmp | WriteTmp | RenameTmp | ReadFile | TruncateFile

record service_world =
  sw_db :: "nat \<Rightarrow> string option"
  sw_spawn :: "nat \<Rightarrow> (string, u32 option) result"
  sw_started_at :: "nat \<Rightarrow> instant"
  sw_poll_fails :: "nat \<Rightarrow> bool"
  sw_soft :: "nat \<Rightarrow> duration \<Rightarrow> int option"
  sw_kill :: "nat \<Rightarrow> int option"
  sw_unix_now :: "nat \<Rightarrow> unix_time"
  sw_now :: instant
  sw_unix_millis :: nat
  sw_file_fails :: "file_op \<Rightarrow> string \<Rightarrow> string option"
  sw_written :: nat

text \<open>The \<open>?\<close> operator on an operation that changes the registry.\<close>

definition try_then ::
  "('e, 'a) result \<times> 's \<Rightarrow> ('a \<Rightarrow> 's \<Rightarrow> ('e, 'b) result \<times> 's) \<Rightarrow> ('e, 'b) result \<times> 's" where
  "try_then r f = (case r of (Err e, s) \<Rightarrow> (Err e, s) | (Ok x, s) \<Rightarrow> f x s)"

section \<open>Statements\<close>

definition db_call :: "service_world \<Rightarrow> service_registry \<Rightarrow> (service_error, unit) result \<times> service_registry" where
  "db_call w s =
    ((case sw_db w (svc_db_calls s) of Some e \<Rightarrow> Err (DbError e) | None \<Rightarrow> Ok ()),
     s\<lparr> svc_db_calls := Suc (svc_db_calls s) \<rparr>)"

definition db_update ::
  "service_world \<Rightarrow> (service_row list \<Rightarrow> service_row list) \<Rightarrow> service_registry \<Rightarrow>
   (service_error, unit) result \<times> service_registry" where
  "db_update w upd s = try_then (db_call w s) (\<lambda>_ s1. (Ok (), s1\<lparr> svc_rows := upd (svc_rows s1) \<rparr>))"

definition update_where :: "string \<Rightarrow> (service_row \<Rightarrow> service_row) \<Rightarrow> service_row list \<Rightarrow> service_row list" where
  "update_where name f rows = map (\<lambda>r. if sr_name r = name then f r else r) rows"

definition row_named :: "string \<Rightarrow> service_row list \<Rightarrow> service_row option" where
  "row_named name rows = find (\<lambda>r. sr_name r = name) rows"

definition row_def :: "json_codec \<Rightarrow> service_row \<Rightarrow> service_def" where
  "row_def jc row =
    \<lparr> sd_name = sr_name row,
      sd_cmd = (case jc_cmd_from jc (sr_cmd row) of None \<Rightarrow> [] | Some cmd \<Rightarrow> cmd),
      sd_cwd = sr_cwd row,
      sd_env = (case jc_env_from jc (sr_env row) of None \<Rightarrow> [] | Some env \<Rightarrow> env),
      sd_autorestart = sr_autorestart row,
      sd_max_restarts = sr_max_restarts row,
      sd_restart_delay_ms = sr_restart_delay_ms row,
      sd_kill_timeout_ms = sr_kill_timeout_ms row,
      sd_min_uptime_ms = sr_min_uptime_ms row \<rparr>"

text \<open>A count that does not fit in 32 bits is a conversion error.\<close>

definition row_to_record :: "json_codec \<Rightarrow> service_row \<Rightarrow> (service_error, service_record) result" where
  "row_to_record jc row =
    (if sr_restart_count row > U32_MAX then Err (DbError ''restart_count'')
     else
       Ok \<lparr> rec_id = sr_id row,
            rec_def = row_def jc row,
            rec_status = status_from_str (sr_status row),
            rec_pid = sr_pid row,
            rec_restart_count = word_of_nat (sr_restart_count row),
            rec_last_started_at = sr_last_started_at row,
            rec_last_exited_at = sr_last_exited_at row,
            rec_last_exit_code = sr_last_exit_code row \<rparr>)"

definition fetch ::
  "service_world \<Rightarrow> json_codec \<Rightarrow> string \<Rightarrow> service_registry \<Rightarrow>
   (service_error, service_record option) result \<times> service_registry" where
  "fetch w jc name s =
    try_then (db_call w s) (\<lambda>_ s1.
      (case row_named name (svc_rows s1) of
         Some row \<Rightarrow> result_bind (row_to_record jc row) (\<lambda>r. Ok (Some r))
       | None \<Rightarrow> Ok None, s1))"

text \<open>\<open>query_row(..).ok()\<close> for one name.\<close>

definition query_name ::
  "service_world \<Rightarrow> (service_row \<Rightarrow> bool) \<Rightarrow> service_registry \<Rightarrow> string option \<times> service_registry" where
  "query_name w p s =
    (case db_call w s of
       (Err _, s1) \<Rightarrow> (None, s1)
     | (Ok _, s1) \<Rightarrow> (map_option sr_name (find p (svc_rows s1)), s1))"

definition parse_u32 :: "string \<Rightarrow> u32 option" where
  "parse_u32 s =
    (let ds = (case s of c # cs \<Rightarrow> if c = CHR ''+'' then cs else s | [] \<Rightarrow> s) in
     if ds = [] \<or> \<not> list_all is_ascii_digit ds \<or> digits_val ds > U32_MAX then None
     else Some (word_of_nat (digits_val ds)))"

definition resolve_target :: "service_world \<Rightarrow> string \<Rightarrow> service_registry \<Rightarrow> string option \<times> service_registry" where
  "resolve_target w target s =
    (case (case parse_u32 target of
             Some i \<Rightarrow> query_name w (\<lambda>r. sr_id r = i) s
           | None \<Rightarrow> (None, s)) of
       (Some name, s1) \<Rightarrow> (Some name, s1)
     | (None, s1) \<Rightarrow> query_name w (\<lambda>r. sr_name r = target) s1)"

fun collect_results :: "('e, 'a) result list \<Rightarrow> ('e, 'a list) result" where
  "collect_results [] = Ok []"
| "collect_results (r # rs) = result_bind r (\<lambda>x. result_bind (collect_results rs) (\<lambda>xs. Ok (x # xs)))"

definition services_list ::
  "service_world \<Rightarrow> json_codec \<Rightarrow> service_registry \<Rightarrow> (service_error, service_record list) result \<times> service_registry" where
  "services_list w jc s =
    try_then (db_call w s) (\<lambda>_ s1. (collect_results (map (row_to_record jc) (sort_key sr_id (svc_rows s1))), s1))"

definition services_describe ::
  "service_world \<Rightarrow> json_codec \<Rightarrow> string \<Rightarrow> service_registry \<Rightarrow>
   (service_error, service_record) result \<times> service_registry" where
  "services_describe w jc target s =
    (case resolve_target w target s of
       (None, s1) \<Rightarrow> (Err (ServiceNotFound target), s1)
     | (Some name, s1) \<Rightarrow>
       try_then (fetch w jc name s1) (\<lambda>r s2.
         (case r of None \<Rightarrow> Err (ServiceNotFound target) | Some rec \<Rightarrow> Ok rec, s2)))"

definition def_columns :: "json_codec \<Rightarrow> service_def \<Rightarrow> service_row \<Rightarrow> service_row" where
  "def_columns jc d row =
    row\<lparr> sr_cmd := (case jc_cmd_to jc (sd_cmd d) of None \<Rightarrow> ''[]'' | Some t \<Rightarrow> t),
         sr_cwd := sd_cwd d,
         sr_env := (case jc_env_to jc (sd_env d) of None \<Rightarrow> ''[]'' | Some t \<Rightarrow> t),
         sr_autorestart := sd_autorestart d,
         sr_max_restarts := sd_max_restarts d,
         sr_restart_delay_ms := sd_restart_delay_ms d,
         sr_kill_timeout_ms := sd_kill_timeout_ms d,
         sr_min_uptime_ms := sd_min_uptime_ms d \<rparr>"

definition default_row :: "u32 \<Rightarrow> string \<Rightarrow> service_row" where
  "default_row i name =
    \<lparr> sr_id = i, sr_name = name, sr_cmd = [], sr_cwd = [], sr_env = ''[]'', sr_autorestart = True,
      sr_max_restarts = 0, sr_restart_delay_ms = 0, sr_kill_timeout_ms = 0, sr_min_uptime_ms = 0,
      sr_status = ''stopped'', sr_pid = 0, sr_restart_count = 0, sr_last_started_at = 0,
      sr_last_exited_at = 0, sr_last_exit_code = 0 \<rparr>"

text \<open>\<open>INSERT .. ON CONFLICT(name) DO UPDATE\<close>: a row of the same name keeps its id and its state; another row with
  the same id is a conflict that the clause does not cover.\<close>

definition upsert_def ::
  "service_world \<Rightarrow> json_codec \<Rightarrow> service_def \<Rightarrow> u32 \<Rightarrow> service_registry \<Rightarrow>
   (service_error, unit) result \<times> service_registry" where
  "upsert_def w jc d i s =
    try_then (db_call w s) (\<lambda>_ s1.
      if row_named (sd_name d) (svc_rows s1) \<noteq> None
      then (Ok (), s1\<lparr> svc_rows := update_where (sd_name d) (def_columns jc d) (svc_rows s1) \<rparr>)
      else if i \<in> sr_id ` set (svc_rows s1)
      then (Err (DbError ''UNIQUE constraint failed: services.id''), s1)
      else (Ok (), s1\<lparr> svc_rows := svc_rows s1 @ [def_columns jc d (default_row i (sd_name d))] \<rparr>))"

definition set_status ::
  "service_world \<Rightarrow> string \<Rightarrow> service_status \<Rightarrow> u32 \<Rightarrow> service_registry \<Rightarrow>
   (service_error, unit) result \<times> service_registry" where
  "set_status w name status pid =
    db_update w (update_where name (\<lambda>r. r\<lparr> sr_status := status_as_str status, sr_pid := pid \<rparr>))"

definition mark_started ::
  "service_world \<Rightarrow> string \<Rightarrow> u32 \<Rightarrow> unix_time \<Rightarrow> service_registry \<Rightarrow>
   (service_error, unit) result \<times> service_registry" where
  "mark_started w name pid ts =
    db_update w (update_where name (\<lambda>r. r\<lparr> sr_status := ''online'', sr_pid := pid, sr_last_started_at := ts \<rparr>))"

definition mark_exited ::
  "service_world \<Rightarrow> string \<Rightarrow> service_status \<Rightarrow> int \<Rightarrow> unix_time \<Rightarrow> service_registry \<Rightarrow>
   (service_error, unit) result \<times> service_registry" where
  "mark_exited w name status exit_code ts =
    db_update w (update_where name (\<lambda>r. r\<lparr> sr_status := status_as_str status, sr_pid := 0,
      sr_last_exited_at := ts, sr_last_exit_code := exit_code \<rparr>))"

definition reset_restart_count ::
  "service_world \<Rightarrow> string \<Rightarrow> service_registry \<Rightarrow> (service_error, unit) result \<times> service_registry" where
  "reset_restart_count w name = db_update w (update_where name (\<lambda>r. r\<lparr> sr_restart_count := 0 \<rparr>))"

definition bump_restart_count ::
  "service_world \<Rightarrow> string \<Rightarrow> service_registry \<Rightarrow> (service_error, u32) result \<times> service_registry" where
  "bump_restart_count w name s =
    try_then (db_update w (update_where name (\<lambda>r. r\<lparr> sr_restart_count := sr_restart_count r + 1 \<rparr>)) s) (\<lambda>_ s1.
      (case db_call w s1 of
         (Err _, s2) \<Rightarrow> (Ok 0, s2)
       | (Ok _, s2) \<Rightarrow>
         (Ok (case row_named name (svc_rows s2) of
                None \<Rightarrow> 0
              | Some row \<Rightarrow> if sr_restart_count row > U32_MAX then 0 else word_of_nat (sr_restart_count row)), s2)))"

section \<open>Opening\<close>

definition SNAPSHOT_FILE_NAME :: string where
  "SNAPSHOT_FILE_NAME = ''services.snapshot.json''"

text \<open>Opening on a table that a previous daemon left, with \<open>parent\<close> the directory of the database file. The
  statements are those that open the file, set it up, create the table and clear stale rows; the
  largest id is 0 when it cannot be read.\<close>

definition services_open ::
  "service_world \<Rightarrow> string \<Rightarrow> string \<Rightarrow> service_row list \<Rightarrow> (string \<Rightarrow> string option) \<Rightarrow>
   (service_error, service_registry) result" where
  "services_open w parent log_dir rows files =
    (let closed = \<lparr> svc_rows = rows, svc_live = hm_empty, svc_log_dir = log_dir,
                    svc_snapshot_path = path_join parent SNAPSHOT_FILE_NAME, svc_next_id = 0,
                    svc_children = [], svc_files = files, svc_db_calls = 0, svc_spawns = 0 \<rparr>;
         stale = map (\<lambda>r. if sr_status r = ''online'' then r\<lparr> sr_status := ''stopped'', sr_pid := 0 \<rparr> else r)
     in case try_then (db_call w closed) (\<lambda>_ s1. try_then (db_call w s1) (\<lambda>_ s2. try_then (db_call w s2) (\<lambda>_ s3.
          db_update w stale s3))) of
          (Err e, _) \<Rightarrow> Err e
        | (Ok _, s4) \<Rightarrow>
          (case db_call w s4 of
             (r, s5) \<Rightarrow>
               let max_id = (if is_ok r then foldr max (map sr_id (svc_rows s5)) 0 else 0)
               in Ok (s5\<lparr> svc_next_id := max_id + 1 \<rparr>)))"

section \<open>Children\<close>

text \<open>\<open>process.poll().ok().flatten()\<close>.\<close>

definition poll_child :: "service_world \<Rightarrow> nat \<Rightarrow> service_registry \<Rightarrow> int option" where
  "poll_child w h s = (if sw_poll_fails w h then None else ch_exit (svc_children s ! h))"

definition set_exit :: "nat \<Rightarrow> int \<Rightarrow> service_registry \<Rightarrow> service_registry" where
  "set_exit h code s = s\<lparr> svc_children := (svc_children s)[h := (svc_children s ! h)\<lparr> ch_exit := Some code \<rparr>] \<rparr>"

text \<open>The soft signal, the wait within the grace, and the kill when the wait fails.\<close>

definition terminate_child :: "service_world \<Rightarrow> nat \<Rightarrow> duration \<Rightarrow> service_registry \<Rightarrow> service_registry" where
  "terminate_child w h grace s =
    (if ch_exit (svc_children s ! h) \<noteq> None then s
     else (case sw_soft w h grace of
             Some code \<Rightarrow> set_exit h code s
           | None \<Rightarrow> (case sw_kill w h of Some code \<Rightarrow> set_exit h code s | None \<Rightarrow> s)))"

definition is_live :: "service_world \<Rightarrow> string \<Rightarrow> service_registry \<Rightarrow> bool" where
  "is_live w name s =
    (case hm_get (svc_live s) name of None \<Rightarrow> False | Some owned \<Rightarrow> poll_child w (os_process owned) s = None)"

text \<open>The started child with the recipe of its definition, and its handle in the map.\<close>

definition own_child :: "service_world \<Rightarrow> service_def \<Rightarrow> u32 option \<Rightarrow> service_registry \<Rightarrow> service_registry" where
  "own_child w d started s =
    s\<lparr> svc_live := hm_insert (sd_name d)
         \<lparr> os_process = length (svc_children s), os_started_at = sw_started_at w (svc_spawns s), os_intentional_stop = False \<rparr>
         (svc_live s),
       svc_children := svc_children s @
         [\<lparr> ch_service = sd_name d, ch_command = sd_cmd d,
            ch_cwd = (if sd_cwd d = [] then None else Some (sd_cwd d)),
            ch_env = (if sd_env d = [] then None else Some (sd_env d)),
            ch_pid = started, ch_exit = None \<rparr>],
       svc_spawns := Suc (svc_spawns s) \<rparr>"

definition spawn_child ::
  "service_world \<Rightarrow> service_def \<Rightarrow> service_registry \<Rightarrow> (service_error, u32) result \<times> service_registry" where
  "spawn_child w d s =
    (if sd_cmd d = [] then (Err (InvalidConfig ''cmd must not be empty''), s)
     else
       (case sw_spawn w (svc_spawns s) of
          Err e \<Rightarrow> (Err (SpawnFailed e), s\<lparr> svc_spawns := Suc (svc_spawns s) \<rparr>)
        | Ok started \<Rightarrow>
          let pid = (case started of None \<Rightarrow> 0 | Some p \<Rightarrow> p) in
          try_then (mark_started w (sd_name d) pid (sw_unix_now w (svc_db_calls s)) (own_child w d started s)) (\<lambda>_ s1.
            (Ok pid, s1))))"

section \<open>Operator requests\<close>

definition allocate_id ::
  "service_world \<Rightarrow> json_codec \<Rightarrow> service_def \<Rightarrow> service_registry \<Rightarrow> (service_error, u32) result \<times> service_registry" where
  "allocate_id w jc d s =
    try_then (fetch w jc (sd_name d) s) (\<lambda>r s1.
      case r of
        Some rec \<Rightarrow> (Ok (rec_id rec), s1)
      | None \<Rightarrow> (Ok (svc_next_id s1), s1\<lparr> svc_next_id := svc_next_id s1 + 1 \<rparr>))"

definition fetch_or_not_found ::
  "service_world \<Rightarrow> json_codec \<Rightarrow> service_def \<Rightarrow> service_registry \<Rightarrow>
   (service_error, service_record) result \<times> service_registry" where
  "fetch_or_not_found w jc d s =
    try_then (fetch w jc (sd_name d) s) (\<lambda>r s1.
      (case r of None \<Rightarrow> Err (ServiceNotFound (sd_name d)) | Some rec \<Rightarrow> Ok rec, s1))"

definition register_def ::
  "service_world \<Rightarrow> json_codec \<Rightarrow> service_def \<Rightarrow> service_registry \<Rightarrow>
   (service_error, service_record) result \<times> service_registry" where
  "register_def w jc d s =
    try_then (allocate_id w jc d s) (\<lambda>i s1.
    try_then (upsert_def w jc d i s1) (\<lambda>_ s2.
      fetch_or_not_found w jc d s2))"

definition services_start ::
  "service_world \<Rightarrow> json_codec \<Rightarrow> service_def \<Rightarrow> service_registry \<Rightarrow>
   (service_error, service_record) result \<times> service_registry" where
  "services_start w jc d s =
    (if sd_name d = [] then (Err (InvalidConfig ''name must not be empty''), s)
     else if sd_cmd d = [] then (Err (InvalidConfig ''cmd must not be empty''), s)
     else
       try_then (fetch w jc (sd_name d) s) (\<lambda>existing s1.
         if (case existing of None \<Rightarrow> False | Some rec \<Rightarrow> rec_status rec = Online \<and> is_live w (sd_name d) s1)
         then (Err (AlreadyExists (sd_name d)), s1)
         else
           try_then (allocate_id w jc d s1) (\<lambda>i s2.
           try_then (upsert_def w jc d i s2) (\<lambda>_ s3.
           try_then (reset_restart_count w (sd_name d) s3) (\<lambda>_ s4.
           try_then (spawn_child w d s4) (\<lambda>_ s5.
             fetch_or_not_found w jc d s5))))))"

definition stop_one ::
  "service_world \<Rightarrow> json_codec \<Rightarrow> string \<Rightarrow> service_status \<Rightarrow> service_registry \<Rightarrow> bool \<times> service_registry" where
  "stop_one w jc name status s =
    (case hm_get (svc_live s) name of
       None \<Rightarrow> (False, snd (set_status w name status 0 s))
     | Some owned \<Rightarrow>
       let s1 = s\<lparr> svc_live := hm_remove name (svc_live s) \<rparr> in
       (case fetch w jc name s1 of
          (r, s2) \<Rightarrow>
            let grace = (case r of Ok (Some rec) \<Rightarrow> kill_grace (rec_def rec) | _ \<Rightarrow> from_secs 3);
                s3 = terminate_child w (os_process owned) grace s2;
                code = (case poll_child w (os_process owned) s3 of None \<Rightarrow> 0 | Some c \<Rightarrow> c)
            in (True, snd (mark_exited w name status code (sw_unix_now w (svc_db_calls s3)) s3))))"

definition targets ::
  "service_world \<Rightarrow> json_codec \<Rightarrow> string \<Rightarrow> service_registry \<Rightarrow>
   (service_error, string list) result \<times> service_registry" where
  "targets w jc target s =
    (if target = ''all''
     then try_then (services_list w jc s) (\<lambda>rs s1. (Ok (map (sd_name \<circ> rec_def) rs), s1))
     else (case resolve_target w target s of
             (Some name, s1) \<Rightarrow> (Ok [name], s1)
           | (None, s1) \<Rightarrow> (Err (ServiceNotFound target), s1)))"

fun stop_names ::
  "service_world \<Rightarrow> json_codec \<Rightarrow> string list \<Rightarrow> nat \<Rightarrow> service_registry \<Rightarrow> nat \<times> service_registry" where
  "stop_names w jc [] count s = (count, s)"
| "stop_names w jc (name # names) count s =
    (case stop_one w jc name Stopped s of
       (stopped, s1) \<Rightarrow> stop_names w jc names (if stopped then count + 1 else count) s1)"

definition services_stop ::
  "service_world \<Rightarrow> json_codec \<Rightarrow> string \<Rightarrow> service_registry \<Rightarrow> (service_error, nat) result \<times> service_registry" where
  "services_stop w jc target s =
    try_then (targets w jc target s) (\<lambda>names s1.
      case stop_names w jc names 0 s1 of (count, s2) \<Rightarrow> (Ok count, s2))"

fun restart_names ::
  "service_world \<Rightarrow> json_codec \<Rightarrow> string list \<Rightarrow> nat \<Rightarrow> service_registry \<Rightarrow>
   (service_error, nat) result \<times> service_registry" where
  "restart_names w jc [] count s = (Ok count, s)"
| "restart_names w jc (name # names) count s =
    try_then (fetch w jc name s) (\<lambda>r s1.
      case r of
        None \<Rightarrow> restart_names w jc names count s1
      | Some rec \<Rightarrow>
        (case stop_one w jc name Stopped s1 of
           (_, s2) \<Rightarrow>
             try_then (bump_restart_count w name s2) (\<lambda>_ s3.
             try_then (spawn_child w (rec_def rec) s3) (\<lambda>_ s4.
               restart_names w jc names (count + 1) s4))))"

definition services_restart ::
  "service_world \<Rightarrow> json_codec \<Rightarrow> string \<Rightarrow> service_registry \<Rightarrow> (service_error, nat) result \<times> service_registry" where
  "services_restart w jc target s =
    try_then (targets w jc target s) (\<lambda>names s1. restart_names w jc names 0 s1)"

fun delete_names ::
  "service_world \<Rightarrow> json_codec \<Rightarrow> string list \<Rightarrow> nat \<Rightarrow> service_registry \<Rightarrow>
   (service_error, nat) result \<times> service_registry" where
  "delete_names w jc [] count s = (Ok count, s)"
| "delete_names w jc (name # names) count s =
    (case stop_one w jc name Stopped s of
       (_, s1) \<Rightarrow>
         let removed = (row_named name (svc_rows s1) \<noteq> None) in
         try_then (db_update w (filter (\<lambda>r. sr_name r \<noteq> name)) s1) (\<lambda>_ s2.
           delete_names w jc names (if removed then count + 1 else count) s2))"

definition services_delete ::
  "service_world \<Rightarrow> json_codec \<Rightarrow> string \<Rightarrow> service_registry \<Rightarrow> (service_error, nat) result \<times> service_registry" where
  "services_delete w jc target s =
    try_then (targets w jc target s) (\<lambda>names s1. delete_names w jc names 0 s1)"

definition shutdown_all :: "service_world \<Rightarrow> json_codec \<Rightarrow> service_registry \<Rightarrow> service_registry" where
  "shutdown_all w jc s = snd (stop_names w jc (map fst (svc_live s)) 0 s)"

section \<open>Supervision\<close>

text \<open>What a tick has noted of an exited child: its service, its exit code, its uptime and whether an operator
  stopped it.\<close>

type_synonym exit_note = "string \<times> int \<times> duration \<times> bool"

definition exited_children :: "service_world \<Rightarrow> service_registry \<Rightarrow> exit_note list" where
  "exited_children w s =
    List.map_filter (\<lambda>(name, owned).
      case poll_child w (os_process owned) s of
        None \<Rightarrow> None
      | Some code \<Rightarrow> Some (name, code, sw_now w - os_started_at owned, os_intentional_stop owned)) (svc_live s)"

text \<open>The part of a tick up to the backoff: the definition to start again, if any, and the delay before.\<close>

definition before_backoff ::
  "service_world \<Rightarrow> json_codec \<Rightarrow> exit_note \<Rightarrow> service_registry \<Rightarrow> (service_def \<times> duration) option \<times> service_registry" where
  "before_backoff w jc note s =
    (case note of (name, code, uptime, intentional) \<Rightarrow>
       let s1 = s\<lparr> svc_live := hm_remove name (svc_live s) \<rparr> in
       if intentional then (None, s1)
       else
         (case fetch w jc name s1 of
            (Ok (Some rec), s2) \<Rightarrow>
              let policy = policy_from_config (rec_def rec) in
              if \<not> rp_autorestart policy
              then (None, snd (mark_exited w name Stopped code (sw_unix_now w (svc_db_calls s2)) s2))
              else
                let s3 = (if uptime \<ge> rp_min_uptime policy then snd (reset_restart_count w name s2) else s2) in
                (case bump_restart_count w name s3 of
                   (r, s4) \<Rightarrow>
                     let crashes = (case r of Ok n \<Rightarrow> n | Err _ \<Rightarrow> 0) in
                     if rp_max_restarts policy \<noteq> 0 \<and> crashes > rp_max_restarts policy
                     then (None, snd (mark_exited w name Errored code (sw_unix_now w (svc_db_calls s4)) s4))
                     else (Some (rec_def rec, backoff_for policy (if crashes = 0 then 0 else crashes - 1)), s4))
          | (_, s2) \<Rightarrow> (None, s2)))"

text \<open>The part after it.\<close>

definition after_backoff ::
  "service_world \<Rightarrow> string \<Rightarrow> int \<Rightarrow> service_def \<Rightarrow> service_registry \<Rightarrow> bool \<times> service_registry" where
  "after_backoff w name code d s =
    (case spawn_child w d s of
       (Ok _, s1) \<Rightarrow> (True, s1)
     | (Err _, s1) \<Rightarrow> (False, snd (mark_exited w name Errored code (sw_unix_now w (svc_db_calls s1)) s1)))"

fun supervise_notes ::
  "service_world \<Rightarrow> json_codec \<Rightarrow> exit_note list \<Rightarrow> nat \<Rightarrow> service_registry \<Rightarrow> nat \<times> service_registry" where
  "supervise_notes w jc [] restarts s = (restarts, s)"
| "supervise_notes w jc (note # notes) restarts s =
    (case before_backoff w jc note s of
       (None, s1) \<Rightarrow> supervise_notes w jc notes restarts s1
     | (Some (d, _), s1) \<Rightarrow>
       (case after_backoff w (fst note) (fst (snd note)) d s1 of
          (restarted, s2) \<Rightarrow> supervise_notes w jc notes (if restarted then restarts + 1 else restarts) s2))"

definition supervise_tick :: "service_world \<Rightarrow> json_codec \<Rightarrow> service_registry \<Rightarrow> nat \<times> service_registry" where
  "supervise_tick w jc s = supervise_notes w jc (exited_children w s) 0 s"

section \<open>Snapshots\<close>

definition SNAPSHOT_VERSION :: u32 where
  "SNAPSHOT_VERSION = 1"

definition from_record :: "service_record \<Rightarrow> snapshot_service" where
  "from_record rec =
    \<lparr> ss_id = rec_id rec, ss_name = sd_name (rec_def rec), ss_cmd = sd_cmd (rec_def rec),
      ss_cwd = sd_cwd (rec_def rec), ss_env = sd_env (rec_def rec),
      ss_autorestart = sd_autorestart (rec_def rec), ss_max_restarts = sd_max_restarts (rec_def rec),
      ss_restart_delay_ms = sd_restart_delay_ms (rec_def rec), ss_kill_timeout_ms = sd_kill_timeout_ms (rec_def rec),
      ss_min_uptime_ms = sd_min_uptime_ms (rec_def rec), ss_status = status_as_str (rec_status rec),
      ss_pid = rec_pid rec, ss_restart_count = rec_restart_count rec,
      ss_last_started_at = rec_last_started_at rec, ss_last_exited_at = rec_last_exited_at rec,
      ss_last_exit_code = rec_last_exit_code rec \<rparr>"

definition to_def :: "snapshot_service \<Rightarrow> service_def" where
  "to_def e =
    \<lparr> sd_name = ss_name e, sd_cmd = ss_cmd e, sd_cwd = ss_cwd e, sd_env = ss_env e,
      sd_autorestart = ss_autorestart e, sd_max_restarts = ss_max_restarts e,
      sd_restart_delay_ms = ss_restart_delay_ms e, sd_kill_timeout_ms = ss_kill_timeout_ms e,
      sd_min_uptime_ms = ss_min_uptime_ms e \<rparr>"

definition put_file :: "string \<Rightarrow> string option \<Rightarrow> service_registry \<Rightarrow> service_registry" where
  "put_file path content s = s\<lparr> svc_files := (svc_files s)(path := content) \<rparr>"

text \<open>One file operation: its error with the prefix of the message, or its effect.\<close>

definition file_step ::
  "service_world \<Rightarrow> file_op \<Rightarrow> string \<Rightarrow> string \<Rightarrow> (service_registry \<Rightarrow> service_registry) \<Rightarrow>
   (service_registry \<Rightarrow> service_registry) \<Rightarrow> service_registry \<Rightarrow> (service_error, unit) result \<times> service_registry" where
  "file_step w op path message effect failed s =
    (case sw_file_fails w op path of
       Some e \<Rightarrow> (Err (DbError (message @ e)), failed s)
     | None \<Rightarrow> (Ok (), effect s))"

definition save_snapshot ::
  "service_world \<Rightarrow> json_codec \<Rightarrow> service_registry \<Rightarrow> (service_error, string \<times> u32) result \<times> service_registry" where
  "save_snapshot w jc s =
    try_then (services_list w jc s) (\<lambda>recs s1.
      let services = map from_record recs;
          envelope = \<lparr> se_version = SNAPSHOT_VERSION, se_saved_at_ms = word_of_nat (sw_unix_millis w), se_services = services \<rparr>;
          path = svc_snapshot_path s1;
          tmp = path @ ''.tmp''
      in case jc_snapshot_to jc envelope of
           Err e \<Rightarrow> (Err (DbError (''snapshot serialize failed: '' @ e)), s1)
         | Ok json \<Rightarrow>
           try_then (file_step w CreateDir path ''snapshot mkdir failed: '' id id s1) (\<lambda>_ s2.
             let s3 = (if sw_file_fails w RemoveTmp tmp = None then put_file tmp None s2 else s2) in
             try_then (file_step w OpenTmp tmp (''snapshot tmp open failed ('' @ tmp @ ''): '') (put_file tmp (Some [])) id s3) (\<lambda>_ s4.
             try_then (file_step w WriteTmp tmp ''snapshot write failed: '' (put_file tmp (Some json))
               (put_file tmp (Some (take (sw_written w) json))) s4) (\<lambda>_ s5.
             try_then (file_step w RenameTmp path (''snapshot rename failed ('' @ tmp @ '' -> '' @ path @ ''): '')
               (\<lambda>s. put_file tmp None (put_file path (svc_files s tmp) s)) id s5) (\<lambda>_ s6.
               (Ok (path, word_of_nat (length services)), s6))))))"

fun resurrect_entries ::
  "service_world \<Rightarrow> json_codec \<Rightarrow> snapshot_service list \<Rightarrow> nat \<Rightarrow> nat \<Rightarrow> service_registry \<Rightarrow>
   (nat \<times> nat) \<times> service_registry" where
  "resurrect_entries w jc [] restored restarted s = ((restored, restarted), s)"
| "resurrect_entries w jc (e # entries) restored restarted s =
    (let d = to_def e;
         (i, s1) = (if ss_id e = 0 then (svc_next_id s, s\<lparr> svc_next_id := svc_next_id s + 1 \<rparr>)
                    else (ss_id e, s\<lparr> svc_next_id := max (svc_next_id s) (ss_id e + 1) \<rparr>))
     in case upsert_def w jc d i s1 of
          (Err _, s2) \<Rightarrow> resurrect_entries w jc entries restored restarted s2
        | (Ok _, s2) \<Rightarrow>
          if ss_status e = status_as_str Online \<and> \<not> is_live w (sd_name d) s2
          then (case spawn_child w d s2 of
                  (Err _, s3) \<Rightarrow> resurrect_entries w jc entries (restored + 1) restarted s3
                | (Ok _, s3) \<Rightarrow> resurrect_entries w jc entries (restored + 1) (restarted + 1) s3)
          else resurrect_entries w jc entries (restored + 1) restarted s2)"

definition resurrect_from_snapshot ::
  "service_world \<Rightarrow> json_codec \<Rightarrow> service_registry \<Rightarrow> (service_error, nat \<times> nat) result \<times> service_registry" where
  "resurrect_from_snapshot w jc s =
    (let path = svc_snapshot_path s in
     case sw_file_fails w ReadFile path of
       Some e \<Rightarrow> (Err (DbError (''snapshot read failed ('' @ path @ ''): '' @ e)), s)
     | None \<Rightarrow>
       (case svc_files s path of
          None \<Rightarrow> (Err (ServiceNotFound (''no snapshot found at '' @ path)), s)
        | Some bytes \<Rightarrow>
          (case jc_snapshot_from jc bytes of
             Err e \<Rightarrow> (Err (InvalidConfig (''snapshot at '' @ path @ '' is not valid JSON: '' @ e)), s)
           | Ok envelope \<Rightarrow>
             if se_version envelope \<noteq> SNAPSHOT_VERSION
             then (Err (InvalidConfig (''snapshot version '' @ show_nat (unat (se_version envelope)) @ '' is not supported (expected '' @ show_nat (unat SNAPSHOT_VERSION) @ '')'')), s)
             else (case resurrect_entries w jc (se_services envelope) 0 0 s of (counts, s1) \<Rightarrow> (Ok counts, s1)))))"

section \<open>Runs\<close>

text \<open>What can happen to a registry: a request of an operator, a tick, the exit of a child.\<close>

datatype service_op =
    StartService service_def
  | RegisterService service_def
  | StopService string
  | RestartService string
  | DeleteService string
  | SaveServices
  | ResurrectServices
  | ShutdownServices
  | SupervisorTick
  | ChildExits nat int

fun service_step :: "json_codec \<Rightarrow> service_world \<times> service_op \<Rightarrow> service_registry \<Rightarrow> service_registry" where
  "service_step jc (w, StartService d) s = snd (services_start w jc d s)"
| "service_step jc (w, RegisterService d) s = snd (register_def w jc d s)"
| "service_step jc (w, StopService target) s = snd (services_stop w jc target s)"
| "service_step jc (w, RestartService target) s = snd (services_restart w jc target s)"
| "service_step jc (w, DeleteService target) s = snd (services_delete w jc target s)"
| "service_step jc (w, SaveServices) s = snd (save_snapshot w jc s)"
| "service_step jc (w, ResurrectServices) s = snd (resurrect_from_snapshot w jc s)"
| "service_step jc (w, ShutdownServices) s = shutdown_all w jc s"
| "service_step jc (w, SupervisorTick) s = snd (supervise_tick w jc s)"
| "service_step jc (w, ChildExits h code) s =
    (if h < length (svc_children s) \<and> ch_exit (svc_children s ! h) = None then set_exit h code s else s)"

definition service_run ::
  "json_codec \<Rightarrow> (service_world \<times> service_op) list \<Rightarrow> service_registry \<Rightarrow> service_registry" where
  "service_run jc ops s = fold (service_step jc) ops s"

text \<open>Requests are served while the supervisor sleeps before a restart, and between the children of a tick. The
  supervisor is idle, has children left to look at, or sleeps.\<close>

datatype supervisor =
    SupervisorIdle
  | Looking "exit_note list"
  | Sleeping string int service_def "exit_note list"

definition is_request :: "service_op \<Rightarrow> bool" where
  "is_request op = (op \<noteq> SupervisorTick)"

inductive daemon_step ::
  "json_codec \<Rightarrow> supervisor \<times> service_registry \<Rightarrow> supervisor \<times> service_registry \<Rightarrow> bool" for jc where
  request: "is_request op \<Longrightarrow> daemon_step jc (v, s) (v, service_step jc (w, op) s)"
| tick: "daemon_step jc (SupervisorIdle, s) (Looking (exited_children w s), s)"
| tick_done: "daemon_step jc (Looking [], s) (SupervisorIdle, s)"
| left_alone: "before_backoff w jc note s = (None, s1) \<Longrightarrow> daemon_step jc (Looking (note # notes), s) (Looking notes, s1)"
| backoff: "before_backoff w jc note s = (Some (d, delay), s1) \<Longrightarrow>
    daemon_step jc (Looking (note # notes), s) (Sleeping (fst note) (fst (snd note)) d notes, s1)"
| wake: "after_backoff w name code d s = (restarted, s1) \<Longrightarrow>
    daemon_step jc (Sleeping name code d notes, s) (Looking notes, s1)"

section \<open>The invariant\<close>

text \<open>A host whose statements succeed and whose kills end the child.\<close>

definition reliable :: "service_world \<Rightarrow> bool" where
  "reliable w = ((\<forall>n. sw_db w n = None) \<and> (\<forall>h. sw_kill w h \<noteq> None))"

definition svc_wf :: "service_registry \<Rightarrow> bool" where
  "svc_wf s =
    (distinct (map sr_name (svc_rows s)) \<and> distinct (map sr_id (svc_rows s)) \<and> hm_ok (svc_live s) \<and>
     (\<forall>name owned. hm_get (svc_live s) name = Some owned \<longrightarrow>
        os_process owned < length (svc_children s) \<and> ch_service (svc_children s ! os_process owned) = name \<and>
        \<not> os_intentional_stop owned))"

definition child_pid :: "child \<Rightarrow> u32" where
  "child_pid c = (case ch_pid c of None \<Rightarrow> 0 | Some p \<Rightarrow> p)"

text \<open>Every running child is owned by its service, every owned child belongs to an online row with its pid, and
  every online row owns a child, the services of \<open>X\<close> apart.\<close>

definition svc_accounted :: "string set \<Rightarrow> service_registry \<Rightarrow> bool" where
  "svc_accounted X s =
    ((\<forall>h < length (svc_children s). ch_exit (svc_children s ! h) = None \<longrightarrow>
        (\<exists>owned. hm_get (svc_live s) (ch_service (svc_children s ! h)) = Some owned \<and> os_process owned = h)) \<and>
     (\<forall>name owned. hm_get (svc_live s) name = Some owned \<longrightarrow>
        (\<exists>row. row_named name (svc_rows s) = Some row \<and> sr_status row = ''online'' \<and>
           sr_pid row = child_pid (svc_children s ! os_process owned))) \<and>
     (\<forall>name row. row_named name (svc_rows s) = Some row \<and> sr_status row = ''online'' \<and>
        sr_restart_count row \<le> U32_MAX \<and> name \<notin> X \<longrightarrow> hm_get (svc_live s) name \<noteq> None))"

definition svc_inv :: "string set \<Rightarrow> service_registry \<Rightarrow> bool" where
  "svc_inv X s = (svc_wf s \<and> svc_accounted X s)"

definition same_services :: "service_registry \<Rightarrow> service_registry \<Rightarrow> bool" where
  "same_services s s' = (svc_rows s' = svc_rows s \<and> svc_live s' = svc_live s \<and> svc_children s' = svc_children s \<and>
    svc_spawns s' = svc_spawns s)"

section \<open>A tick\<close>

text \<open>The services of the notes that are left own children that have exited.\<close>

definition notes_exited :: "exit_note list \<Rightarrow> service_registry \<Rightarrow> bool" where
  "notes_exited notes s =
    (distinct (map fst notes) \<and>
     (\<forall>note \<in> set notes. \<exists>owned. hm_get (svc_live s) (fst note) = Some owned \<and>
        os_process owned < length (svc_children s) \<and> ch_exit (svc_children s ! os_process owned) \<noteq> None))"

text \<open>The registries of a daemon, from the table a previous one left, on a reliable host.\<close>

inductive reached :: "json_codec \<Rightarrow> service_registry \<Rightarrow> bool" for jc where
  opened: "services_open w parent log_dir rows files = Ok s \<Longrightarrow> distinct (map sr_name rows) \<Longrightarrow> distinct (map sr_id rows) \<Longrightarrow> reached jc s"
| stepped: "reached jc s \<Longrightarrow> reliable w \<Longrightarrow> reached jc (service_step jc (w, op) s)"

section \<open>A stopped service\<close>

text \<open>What the supervisor and the children do on their own.\<close>

fun on_its_own :: "service_op \<Rightarrow> bool" where
  "on_its_own SupervisorTick = True"
| "on_its_own (ChildExits h code) = True"
| "on_its_own SaveServices = True"
| "on_its_own _ = False"

definition children_of :: "string \<Rightarrow> service_registry \<Rightarrow> child list" where
  "children_of name s = filter (\<lambda>c. ch_service c = name) (svc_children s)"

text \<open>Nothing of a service is touched.\<close>

definition untouched :: "string \<Rightarrow> service_registry \<Rightarrow> service_registry \<Rightarrow> bool" where
  "untouched name s s' = (row_named name (svc_rows s') = row_named name (svc_rows s) \<and>
    hm_get (svc_live s') name = hm_get (svc_live s) name \<and> children_of name s' = children_of name s)"

text \<open>The columns a supervised service keeps.\<close>

definition recipe :: "service_row \<Rightarrow> bool \<times> u32 \<times> u32 \<times> u32" where
  "recipe row = (sr_autorestart row, sr_max_restarts row, sr_restart_delay_ms row, sr_min_uptime_ms row)"

definition row_min_uptime :: "service_row \<Rightarrow> duration" where
  "row_min_uptime row = (if sr_min_uptime_ms row = 0 then from_secs 2 else from_millis (unat (sr_min_uptime_ms row)))"

definition row_base_delay :: "service_row \<Rightarrow> duration" where
  "row_base_delay row = (if sr_restart_delay_ms row = 0 then from_millis 500 else from_millis (unat (sr_restart_delay_ms row)))"

text \<open>Every tick finds the service up for less than its minimal uptime.\<close>

fun rapid_run :: "json_codec \<Rightarrow> string \<Rightarrow> (service_world \<times> service_op) list \<Rightarrow> service_registry \<Rightarrow> bool" where
  "rapid_run jc name [] s = True"
| "rapid_run jc name ((w, op) # ops) s =
    ((op = SupervisorTick \<longrightarrow>
        (case hm_get (svc_live s) name of
           None \<Rightarrow> True
         | Some owned \<Rightarrow> (case row_named name (svc_rows s) of
             None \<Rightarrow> True
           | Some row \<Rightarrow> sw_now w - os_started_at owned < row_min_uptime row))) \<and>
     rapid_run jc name ops (service_step jc (w, op) s))"

text \<open>At most one child for each crash that was counted, and none beyond the budget.\<close>

definition within_budget :: "string \<Rightarrow> nat \<Rightarrow> nat \<Rightarrow> bool \<times> u32 \<times> u32 \<times> u32 \<Rightarrow> service_registry \<Rightarrow> bool" where
  "within_budget name m k rcp s =
    (\<exists>row. row_named name (svc_rows s) = Some row \<and> recipe row = rcp \<and>
       length (children_of name s) \<le> k + min (sr_restart_count row) m \<and>
       (sr_restart_count row \<le> m \<or> (sr_restart_count row = Suc m \<and> sr_status row = ''errored'' \<and> hm_get (svc_live s) name = None)))"

section \<open>Snapshots: round trip\<close>

text \<open>The column codec reads back what it wrote for a definition.\<close>

definition codec_ok :: "json_codec \<Rightarrow> service_def \<Rightarrow> bool" where
  "codec_ok jc d =
    ((\<exists>t. jc_cmd_to jc (sd_cmd d) = Some t \<and> jc_cmd_from jc t = Some (sd_cmd d)) \<and>
     (\<exists>t. jc_env_to jc (sd_env d) = Some t \<and> jc_env_from jc t = Some (sd_env d)))"

definition defs_of :: "json_codec \<Rightarrow> service_registry \<Rightarrow> (u32 \<times> service_def) list" where
  "defs_of jc s = map (\<lambda>r. (sr_id r, row_def jc r)) (svc_rows s)"

text \<open>A host on which everything succeeds, with a codec for commands of one word and empty environments and a
  snapshot codec that keeps the services of one snapshot.\<close>

definition sample_service_world :: service_world where
  "sample_service_world =
    \<lparr> sw_db = (\<lambda>_. None), sw_spawn = (\<lambda>n. Ok (Some (100 + word_of_nat n))), sw_started_at = (\<lambda>_. 0), sw_poll_fails = (\<lambda>_. False),
      sw_soft = (\<lambda>_ _. None), sw_kill = (\<lambda>_. Some (- 9)), sw_unix_now = (\<lambda>_. 7), sw_now = 1, sw_unix_millis = 7000,
      sw_file_fails = (\<lambda>_ _. None), sw_written = 0 \<rparr>"

definition sample_web :: service_def where
  "sample_web =
    \<lparr> sd_name = ''web'', sd_cmd = [''serve''], sd_cwd = [], sd_env = [], sd_autorestart = True, sd_max_restarts = 2,
      sd_restart_delay_ms = 0, sd_kill_timeout_ms = 0, sd_min_uptime_ms = 0 \<rparr>"

definition sample_envelope :: snapshot_envelope where
  "sample_envelope =
    \<lparr> se_version = 1, se_saved_at_ms = 7000, se_services =
      [\<lparr> ss_id = 1, ss_name = ''web'', ss_cmd = [''serve''], ss_cwd = [], ss_env = [], ss_autorestart = True, ss_max_restarts = 2,
         ss_restart_delay_ms = 0, ss_kill_timeout_ms = 0, ss_min_uptime_ms = 0, ss_status = ''online'', ss_pid = 100,
         ss_restart_count = 0, ss_last_started_at = 7, ss_last_exited_at = 0, ss_last_exit_code = 0 \<rparr>] \<rparr>"

definition sample_json :: json_codec where
  "sample_json =
    \<lparr> jc_cmd_to = (\<lambda>cmd. Some (concat cmd)), jc_cmd_from = (\<lambda>t. Some [t]), jc_env_to = (\<lambda>_. Some []), jc_env_from = (\<lambda>_. Some []),
      jc_snapshot_to = (\<lambda>e. if e = sample_envelope then Ok ''{}'' else Err []), jc_snapshot_from = (\<lambda>_. Ok sample_envelope) \<rparr>"

definition sample_opened :: service_registry where
  "sample_opened =
    \<lparr> svc_rows = [], svc_live = hm_empty, svc_log_dir = ''/l'', svc_snapshot_path = ''/d/services.snapshot.json'', svc_next_id = 1,
      svc_children = [], svc_files = (\<lambda>_. None), svc_db_calls = 5, svc_spawns = 0 \<rparr>"

definition sample_started :: service_registry where
  "sample_started = service_step sample_json (sample_service_world, StartService sample_web) sample_opened"

definition sample_stopped :: service_registry where
  "sample_stopped = service_step sample_json (sample_service_world, StopService ''web'') sample_started"

definition sample_crashed :: service_registry where
  "sample_crashed = set_exit 0 1 sample_started"

definition sample_rec :: service_record where
  "sample_rec = \<lparr> rec_id = 1, rec_def = sample_web, rec_status = Online, rec_pid = 100, rec_restart_count = 0,
    rec_last_started_at = 7, rec_last_exited_at = 0, rec_last_exit_code = 0 \<rparr>"

section \<open>Rows\<close>

lemma row_named_Some: "row_named name rows = Some row \<Longrightarrow> sr_name row = name \<and> row \<in> set rows"
  by (auto simp: row_named_def find_Some_iff)

lemma row_named_None: "row_named name rows = None \<longleftrightarrow> name \<notin> sr_name ` set rows"
  by (auto simp: row_named_def find_None_iff)

lemma row_named_in: "distinct (map sr_name rows) \<Longrightarrow> row \<in> set rows \<Longrightarrow> row_named (sr_name row) rows = Some row"
  by (induction rows) (auto simp: row_named_def)

lemma row_named_update_where:
  assumes "\<And>r. sr_name (f r) = sr_name r"
  shows "row_named n (update_where name f rows) = (if n = name then map_option f (row_named n rows) else row_named n rows)"
  by (induction rows) (auto simp: row_named_def update_where_def assms)

lemma row_named_append: "row_named n (rows @ [r]) =
    (case row_named n rows of None \<Rightarrow> if sr_name r = n then Some r else None | Some x \<Rightarrow> Some x)"
  by (induction rows) (auto simp: row_named_def)

lemma row_named_filter: "row_named n (filter (\<lambda>r. sr_name r \<noteq> name) rows) = (if n = name then None else row_named n rows)"
  by (induction rows) (auto simp: row_named_def)

lemma update_where_names:
  assumes "\<And>r. sr_name (f r) = sr_name r" "\<And>r. sr_id (f r) = sr_id r"
  shows "map sr_name (update_where name f rows) = map sr_name rows" "map sr_id (update_where name f rows) = map sr_id rows"
  by (induction rows) (auto simp: update_where_def assms)

lemmas row_simps = row_named_update_where row_named_append row_named_filter update_where_names

lemma row_to_record_Ok:
  assumes "row_to_record jc row = Ok rec"
  shows "sd_name (rec_def rec) = sr_name row \<and> sr_restart_count row \<le> U32_MAX \<and> rec_id rec = sr_id row \<and>
    rec_status rec = status_from_str (sr_status row)"
  using assms by (auto simp: row_to_record_def row_def_def split: if_splits)

section \<open>Reliable statements\<close>

lemma db_call_reliable: "reliable w \<Longrightarrow> db_call w s = (Ok (), s\<lparr> svc_db_calls := Suc (svc_db_calls s) \<rparr>)"
  by (simp add: db_call_def reliable_def)

lemma db_update_reliable:
  "reliable w \<Longrightarrow> db_update w upd s = (Ok (), s\<lparr> svc_rows := upd (svc_rows s), svc_db_calls := Suc (svc_db_calls s) \<rparr>)"
  by (simp add: db_update_def try_then_def db_call_reliable)

lemma fetch_reliable:
  "reliable w \<Longrightarrow> fetch w jc name s =
    (case row_named name (svc_rows s) of
       Some row \<Rightarrow> result_bind (row_to_record jc row) (\<lambda>r. Ok (Some r))
     | None \<Rightarrow> Ok None, s\<lparr> svc_db_calls := Suc (svc_db_calls s) \<rparr>)"
  by (simp add: fetch_def try_then_def db_call_reliable)

lemma fetch_reliable_Some:
  assumes "reliable w" "fetch w jc name s = (Ok (Some rec), s1)"
  shows "\<exists>row. row_named name (svc_rows s) = Some row \<and> sr_restart_count row \<le> U32_MAX \<and> sd_name (rec_def rec) = name \<and>
    rec_status rec = status_from_str (sr_status row)"
proof -
  obtain row where row: "row_named name (svc_rows s) = Some row" "row_to_record jc row = Ok rec"
    using assms by (auto simp: fetch_reliable split: option.splits)
  then show ?thesis using row_to_record_Ok [OF row(2)] row_named_Some [OF row(1)] by auto
qed

section \<open>Steps of the invariant\<close>

lemma svc_inv_fields [simp]:
  "svc_inv X (s\<lparr> svc_db_calls := n \<rparr>) = svc_inv X s" "svc_inv X (s\<lparr> svc_spawns := n \<rparr>) = svc_inv X s"
  "svc_inv X (s\<lparr> svc_next_id := i \<rparr>) = svc_inv X s" "svc_inv X (s\<lparr> svc_files := files \<rparr>) = svc_inv X s"
  by (simp_all add: svc_inv_def svc_wf_def svc_accounted_def)

lemma svc_inv_mono: "svc_inv X s \<Longrightarrow> X \<subseteq> Y \<Longrightarrow> svc_inv Y s"
  by (fastforce simp: svc_inv_def svc_accounted_def)

lemma svc_invI:
  assumes "distinct (map sr_name (svc_rows s))" "distinct (map sr_id (svc_rows s))" "hm_ok (svc_live s)"
    and "\<And>name owned. hm_get (svc_live s) name = Some owned \<Longrightarrow>
      os_process owned < length (svc_children s) \<and> ch_service (svc_children s ! os_process owned) = name \<and> \<not> os_intentional_stop owned"
    and "\<And>h. h < length (svc_children s) \<Longrightarrow> ch_exit (svc_children s ! h) = None \<Longrightarrow>
      \<exists>owned. hm_get (svc_live s) (ch_service (svc_children s ! h)) = Some owned \<and> os_process owned = h"
    and "\<And>name owned. hm_get (svc_live s) name = Some owned \<Longrightarrow>
      \<exists>row. row_named name (svc_rows s) = Some row \<and> sr_status row = ''online'' \<and> sr_pid row = child_pid (svc_children s ! os_process owned)"
    and "\<And>name row. row_named name (svc_rows s) = Some row \<Longrightarrow> sr_status row = ''online'' \<Longrightarrow> sr_restart_count row \<le> U32_MAX \<Longrightarrow>
      name \<notin> X \<Longrightarrow> hm_get (svc_live s) name \<noteq> None"
  shows "svc_inv X s"
  using assms unfolding svc_inv_def svc_wf_def svc_accounted_def by blast

lemma svc_invD:
  assumes "svc_inv X s"
  shows "distinct (map sr_name (svc_rows s))" "distinct (map sr_id (svc_rows s))" "hm_ok (svc_live s)"
    and "hm_get (svc_live s) name = Some owned \<Longrightarrow> os_process owned < length (svc_children s)"
    and "hm_get (svc_live s) name = Some owned \<Longrightarrow> ch_service (svc_children s ! os_process owned) = name"
    and "hm_get (svc_live s) name = Some owned \<Longrightarrow> \<not> os_intentional_stop owned"
    and "h < length (svc_children s) \<Longrightarrow> ch_exit (svc_children s ! h) = None \<Longrightarrow>
      \<exists>owned. hm_get (svc_live s) (ch_service (svc_children s ! h)) = Some owned \<and> os_process owned = h"
    and "hm_get (svc_live s) name = Some owned \<Longrightarrow>
      \<exists>row. row_named name (svc_rows s) = Some row \<and> sr_status row = ''online'' \<and> sr_pid row = child_pid (svc_children s ! os_process owned)"
    and "row_named name (svc_rows s) = Some row \<Longrightarrow> sr_status row = ''online'' \<Longrightarrow> sr_restart_count row \<le> U32_MAX \<Longrightarrow>
      name \<notin> X \<Longrightarrow> hm_get (svc_live s) name \<noteq> None"
  using assms unfolding svc_inv_def svc_wf_def svc_accounted_def by blast+

text \<open>A change of columns that leaves name, id, status and pid, and does not make a count readable.\<close>

lemma svc_inv_columns:
  assumes "svc_inv X s" "\<And>r. sr_name (f r) = sr_name r" "\<And>r. sr_id (f r) = sr_id r" "\<And>r. sr_status (f r) = sr_status r" "\<And>r. sr_pid (f r) = sr_pid r"
    and "\<And>row. row_named name (svc_rows s) = Some row \<Longrightarrow> sr_restart_count (f row) \<le> U32_MAX \<Longrightarrow> sr_restart_count row \<le> U32_MAX"
  shows "svc_inv X (s\<lparr> svc_rows := update_where name f (svc_rows s) \<rparr>)"
proof (rule svc_invI, goal_cases)
  case (6 n owned)
  then show ?case using svc_invD(8) [OF assms(1), of n owned] assms(4,5) by (auto simp: row_simps assms(2,3))
next
  case (7 n row)
  then show ?case using svc_invD(9) [OF assms(1), of n] assms(4,6) by (auto simp: row_simps assms(2,3) split: if_splits)
qed (use svc_invD [OF assms(1)] in \<open>simp_all add: row_simps assms(2,3)\<close>)

lemma svc_inv_append_row:
  assumes "svc_inv X s" "row_named (sr_name r) (svc_rows s) = None" "sr_id r \<notin> sr_id ` set (svc_rows s)" "sr_status r \<noteq> ''online''"
  shows "svc_inv X (s\<lparr> svc_rows := svc_rows s @ [r] \<rparr>)"
proof (rule svc_invI, goal_cases)
  case 1
  then show ?case using svc_invD(1) [OF assms(1)] assms(2) by (simp add: row_named_None)
next
  case (6 n owned)
  then show ?case using svc_invD(8) [OF assms(1), of n owned] by (auto simp: row_simps)
next
  case (7 n row)
  then show ?case using svc_invD(9) [OF assms(1), of n row] assms(4) by (auto simp: row_simps split: option.splits if_splits)
qed (use svc_invD [OF assms(1)] assms(3) in simp_all)

lemma svc_inv_not_online:
  assumes "svc_inv (insert name X) s" "hm_get (svc_live s) name = None"
    and "\<And>r. sr_name (f r) = sr_name r" "\<And>r. sr_id (f r) = sr_id r" "\<And>r. sr_status (f r) \<noteq> ''online''"
  shows "svc_inv X (s\<lparr> svc_rows := update_where name f (svc_rows s) \<rparr>)"
proof (rule svc_invI, goal_cases)
  case (6 n owned)
  then have "n \<noteq> name" using assms(2) by auto
  then show ?case using 6 svc_invD(8) [OF assms(1), of n owned] by (auto simp: row_simps assms(3,4))
next
  case (7 n row)
  then have "n \<noteq> name" using assms(5) by (auto simp: row_simps assms(3,4))
  then show ?case using 7 svc_invD(9) [OF assms(1), of n row] by (auto simp: row_simps assms(3,4))
qed (use svc_invD [OF assms(1)] in \<open>simp_all add: row_simps assms(3,4)\<close>)

lemma svc_inv_delete_row:
  assumes "svc_inv X s" "hm_get (svc_live s) name = None"
  shows "svc_inv X (s\<lparr> svc_rows := filter (\<lambda>r. sr_name r \<noteq> name) (svc_rows s) \<rparr>)"
proof (rule svc_invI, goal_cases)
  case (6 n owned)
  then have "n \<noteq> name" using assms(2) by auto
  then show ?case using 6 svc_invD(8) [OF assms(1), of n owned] by (auto simp: row_simps)
next
  case (7 n row)
  then show ?case using svc_invD(9) [OF assms(1), of n row] by (auto simp: row_simps split: if_splits)
qed (use svc_invD [OF assms(1)] in \<open>simp_all add: distinct_map_filter\<close>)

lemma svc_inv_set_exit:
  assumes "svc_inv X s" "h < length (svc_children s)"
  shows "svc_inv X (set_exit h code s)"
proof (rule svc_invI, goal_cases)
  case (4 n owned)
  then show ?case using svc_invD(4,5,6) [OF assms(1), of n owned] by (auto simp: set_exit_def nth_list_update assms(2))
next
  case (5 i)
  then have "i \<noteq> h" using assms(2) by (auto simp: set_exit_def)
  then show ?case using 5 svc_invD(7) [OF assms(1), of i] by (auto simp: set_exit_def)
next
  case (6 n owned)
  then show ?case using svc_invD(4,8) [OF assms(1), of n owned] by (auto simp: set_exit_def nth_list_update assms(2) child_pid_def)
next
  case (7 n row)
  then show ?case using svc_invD(9) [OF assms(1), of n row] by (simp add: set_exit_def)
qed (use svc_invD [OF assms(1)] in \<open>simp_all add: set_exit_def\<close>)

text \<open>Giving up a handle whose child has exited, and taking a new one for a service that owns no running child.\<close>

lemma svc_inv_release:
  assumes "svc_inv X s" "\<And>owned. hm_get (svc_live s) name = Some owned \<Longrightarrow> ch_exit (svc_children s ! os_process owned) \<noteq> None"
  shows "svc_inv (insert name X) (s\<lparr> svc_live := hm_remove name (svc_live s) \<rparr>)"
proof (rule svc_invI, goal_cases)
  case (5 h)
  then obtain owned where "hm_get (svc_live s) (ch_service (svc_children s ! h)) = Some owned" "os_process owned = h"
    using svc_invD(7) [OF assms(1), of h] by auto
  then show ?case using 5 assms(2) by (auto simp: hm_simps)
next
  case (6 n owned)
  then show ?case using svc_invD(8) [OF assms(1), of n owned] by (auto simp: hm_simps split: if_splits)
next
  case (7 n row)
  then show ?case using svc_invD(9) [OF assms(1), of n row] by (auto simp: hm_simps)
qed (use svc_invD [OF assms(1)] in \<open>auto simp: hm_simps split: if_splits\<close>)

lemma svc_inv_own:
  assumes "svc_inv (insert name X) s" "\<And>owned. hm_get (svc_live s) name = Some owned \<Longrightarrow> ch_exit (svc_children s ! os_process owned) \<noteq> None"
    and "row_named name (svc_rows s) \<noteq> None" "ch_service c = name" "os_process new = length (svc_children s)" "\<not> os_intentional_stop new"
    and "\<And>r. sr_name (f r) = sr_name r" "\<And>r. sr_id (f r) = sr_id r" "\<And>r. sr_status (f r) = ''online''" "\<And>r. sr_pid (f r) = child_pid c"
  shows "svc_inv X (s\<lparr> svc_live := hm_insert name new (svc_live s), svc_children := svc_children s @ [c],
    svc_rows := update_where name f (svc_rows s) \<rparr>)"
proof (rule svc_invI, goal_cases)
  case (4 n owned)
  then show ?case using svc_invD(4,5,6) [OF assms(1), of n owned] assms(4,5,6) by (auto simp: hm_simps nth_append split: if_splits)
next
  case (5 h)
  show ?case
  proof (cases "h = length (svc_children s)")
    case False
    then obtain owned where "hm_get (svc_live s) (ch_service (svc_children s ! h)) = Some owned" "os_process owned = h"
      using 5 svc_invD(7) [OF assms(1), of h] by (auto simp: nth_append)
    then show ?thesis using 5 False assms(2) by (auto simp: hm_simps nth_append)
  qed (use assms(4,5) in \<open>simp add: hm_simps\<close>)
next
  case (6 n owned)
  then show ?case
    using svc_invD(4,8) [OF assms(1), of n owned] assms(3,5,9,10)
    by (auto simp: hm_simps nth_append row_simps assms(7,8) split: if_splits)
next
  case (7 n row)
  then show ?case using svc_invD(9) [OF assms(1), of n row] by (auto simp: hm_simps row_simps assms(7,8) split: if_splits)
qed (use svc_invD [OF assms(1)] in \<open>simp_all add: row_simps assms(7,8) hm_simps\<close>)

section \<open>The operations keep the invariant\<close>

lemma set_exit_sel [simp]:
  "svc_rows (set_exit h code s) = svc_rows s" "svc_live (set_exit h code s) = svc_live s"
  "svc_db_calls (set_exit h code s) = svc_db_calls s" "length (svc_children (set_exit h code s)) = length (svc_children s)"
  by (simp_all add: set_exit_def)

lemma terminate_child_cases:
  assumes "reliable w"
  shows "(terminate_child w h grace s = s \<and> ch_exit (svc_children s ! h) \<noteq> None) \<or> (\<exists>code. terminate_child w h grace s = set_exit h code s)"
proof -
  obtain code where "sw_kill w h = Some code" using assms by (auto simp: reliable_def)
  then show ?thesis by (cases "sw_soft w h grace") (auto simp: terminate_child_def)
qed

lemma terminate_child_sel [simp]:
  "svc_rows (terminate_child w h grace s) = svc_rows s" "svc_live (terminate_child w h grace s) = svc_live s"
  by (simp_all add: terminate_child_def split: option.splits)

lemma terminate_child_live: "terminate_child w h grace (s\<lparr> svc_live := l \<rparr>) = (terminate_child w h grace s)\<lparr> svc_live := l \<rparr>"
  by (simp add: terminate_child_def set_exit_def split: option.splits)

lemma terminate_child_inv:
  assumes "reliable w" "svc_inv X s" "h < length (svc_children s)"
  shows "svc_inv X (terminate_child w h grace s) \<and> ch_exit (svc_children (terminate_child w h grace s) ! h) \<noteq> None"
  using terminate_child_cases [OF assms(1), of h grace s] svc_inv_set_exit [OF assms(2,3)] assms(2,3)
  by (auto simp: set_exit_def)

lemma stop_one_owned:
  assumes "reliable w" "hm_get (svc_live s) name = Some owned" "stop_one w jc name status s = (stopped, s')"
  shows "\<exists>grace code ts. s' = snd (mark_exited w name status code ts (terminate_child w (os_process owned) grace
    (s\<lparr> svc_db_calls := Suc (svc_db_calls s), svc_live := hm_remove name (svc_live s) \<rparr>)))"
proof -
  obtain r s2 where f: "fetch w jc name (s\<lparr> svc_live := hm_remove name (svc_live s) \<rparr>) = (r, s2)" by fastforce
  then have s2: "s2 = s\<lparr> svc_db_calls := Suc (svc_db_calls s), svc_live := hm_remove name (svc_live s) \<rparr>"
    by (auto simp: fetch_reliable [OF assms(1)])
  show ?thesis unfolding s2 [symmetric] using assms(2,3) f by (simp add: stop_one_def Let_def) (metis (no_types))
qed

lemma stop_one_inv:
  assumes "reliable w" "svc_inv X s" "status \<noteq> Online" "stop_one w jc name status s = (stopped, s')"
  shows "svc_inv X s' \<and> hm_get (svc_live s') name = None \<and> (\<forall>n. n \<noteq> name \<longrightarrow> hm_get (svc_live s') n = hm_get (svc_live s) n) \<and>
    map sr_name (svc_rows s') = map sr_name (svc_rows s)"
proof -
  have str: "status_as_str status \<noteq> ''online''" using assms(3) by (cases status) auto
  show ?thesis
  proof (cases "hm_get (svc_live s) name")
    case None
    have "svc_inv X (s\<lparr> svc_rows := update_where name (\<lambda>r. r\<lparr> sr_status := status_as_str status, sr_pid := 0 \<rparr>) (svc_rows s) \<rparr>)"
      using svc_inv_not_online [OF svc_inv_mono [OF assms(2) subset_insertI] None] str by simp
    then show ?thesis
      using assms(4) None unfolding stop_one_def set_status_def db_update_reliable [OF assms(1)] by (auto simp: row_simps)
  next
    case (Some owned)
    let ?h = "os_process owned"
    let ?s2 = "s\<lparr> svc_db_calls := Suc (svc_db_calls s), svc_live := hm_remove name (svc_live s) \<rparr>"
    obtain grace code ts where s': "s' = snd (mark_exited w name status code ts (terminate_child w ?h grace ?s2))"
      using stop_one_owned [OF assms(1) Some assms(4)] by blast
    let ?t = "terminate_child w ?h grace (s\<lparr> svc_db_calls := Suc (svc_db_calls s) \<rparr>)"
    have t: "terminate_child w ?h grace ?s2 = ?t\<lparr> svc_live := hm_remove name (svc_live s) \<rparr>"
      using terminate_child_live [where s = "s\<lparr> svc_db_calls := Suc (svc_db_calls s) \<rparr>" and l = "hm_remove name (svc_live s)" and h = ?h and grace = grace] by simp
    have "svc_inv X ?t \<and> ch_exit (svc_children ?t ! ?h) \<noteq> None"
      using terminate_child_inv [OF assms(1)] assms(2) svc_invD(4) [OF assms(2) Some] by simp
    then have "svc_inv (insert name X) (?t\<lparr> svc_live := hm_remove name (svc_live ?t) \<rparr>)"
      using Some by (intro svc_inv_release) auto
    then have "svc_inv (insert name X) (terminate_child w ?h grace ?s2)" by (simp add: t)
    then have "svc_inv X (snd (mark_exited w name status code ts (terminate_child w ?h grace ?s2)))"
      unfolding mark_exited_def db_update_reliable [OF assms(1)] snd_conv svc_inv_fields
      by (rule svc_inv_not_online) (use str in \<open>simp_all add: t hm_simps\<close>)
    then show ?thesis
      by (auto simp: s' mark_exited_def db_update_reliable [OF assms(1)] hm_simps row_simps)
  qed
qed

text \<open>Starting a child for a service that has a row and owns no running child.\<close>

lemma spawn_child_inv:
  assumes "reliable w" "svc_inv (insert (sd_name d) X) s" "row_named (sd_name d) (svc_rows s) \<noteq> None"
    and "\<And>owned. hm_get (svc_live s) (sd_name d) = Some owned \<Longrightarrow> ch_exit (svc_children s ! os_process owned) \<noteq> None"
    and "spawn_child w d s = (r, s')"
  shows "(case r of Ok _ \<Rightarrow> svc_inv X s' | Err _ \<Rightarrow> svc_rows s' = svc_rows s \<and> svc_live s' = svc_live s \<and> (\<forall>Y. svc_inv Y s' = svc_inv Y s)) \<and>
    (\<forall>n. n \<noteq> sd_name d \<longrightarrow> hm_get (svc_live s') n = hm_get (svc_live s) n) \<and>
    (\<forall>h < length (svc_children s). svc_children s' ! h = svc_children s ! h) \<and> length (svc_children s) \<le> length (svc_children s') \<and>
    map sr_name (svc_rows s') = map sr_name (svc_rows s)"
proof (cases "sd_cmd d = [] \<or> \<not> is_ok (sw_spawn w (svc_spawns s))")
  case True
  then show ?thesis using assms(5)
    by (cases "sw_spawn w (svc_spawns s)") (auto simp: spawn_child_def Let_def split: if_splits)
next
  case False
  then obtain started where ok: "sw_spawn w (svc_spawns s) = Ok started" by (cases "sw_spawn w (svc_spawns s)") auto
  define c where "c = \<lparr> ch_service = sd_name d, ch_command = sd_cmd d, ch_cwd = (if sd_cwd d = [] then None else Some (sd_cwd d)),
    ch_env = (if sd_env d = [] then None else Some (sd_env d)), ch_pid = started, ch_exit = None \<rparr>"
  define new where "new = \<lparr> os_process = length (svc_children s), os_started_at = sw_started_at w (svc_spawns s), os_intentional_stop = False \<rparr>"
  define f :: "service_row \<Rightarrow> service_row" where "f = (\<lambda>r. r\<lparr> sr_status := ''online'', sr_pid := child_pid c, sr_last_started_at := sw_unix_now w (svc_db_calls s) \<rparr>)"
  let ?s = "s\<lparr> svc_live := hm_insert (sd_name d) new (svc_live s), svc_children := svc_children s @ [c],
    svc_rows := update_where (sd_name d) f (svc_rows s) \<rparr>"
  have "svc_inv X ?s"
    by (rule svc_inv_own [OF assms(2) assms(4) assms(3)]) (simp_all add: c_def new_def f_def)
  moreover have "s' = ?s\<lparr> svc_db_calls := Suc (svc_db_calls s), svc_spawns := Suc (svc_spawns s) \<rparr>" "is_ok r"
    using assms(5) False ok
    by (auto simp: spawn_child_def own_child_def Let_def try_then_def mark_started_def db_update_reliable [OF assms(1)] c_def new_def f_def child_pid_def
        split: if_splits option.splits)
  ultimately show ?thesis by (cases r) (auto simp: nth_append hm_simps row_simps f_def)
qed

lemma spawn_child_keeps:
  assumes "reliable w" "svc_inv X s" "row_named (sd_name d) (svc_rows s) \<noteq> None"
    and "\<And>owned. hm_get (svc_live s) (sd_name d) = Some owned \<Longrightarrow> ch_exit (svc_children s ! os_process owned) \<noteq> None"
    and "spawn_child w d s = (r, s')"
  shows "svc_inv X s'"
proof -
  have "case r of Ok _ \<Rightarrow> svc_inv X s' | Err _ \<Rightarrow> svc_inv X s' = svc_inv X s"
    using spawn_child_inv [OF assms(1) svc_inv_mono [OF assms(2) subset_insertI] assms(3-5)] by (simp split: sum.splits)
  then show ?thesis using assms(2) by (simp split: sum.splits)
qed

lemma same_services_refl [simp]: "same_services s s"
  by (simp add: same_services_def)

lemma same_services_fields [simp]:
  "same_services s (s'\<lparr> svc_db_calls := n \<rparr>) = same_services s s'" "same_services s (s'\<lparr> svc_next_id := i \<rparr>) = same_services s s'"
  "same_services s (put_file path content s') = same_services s s'"
  by (simp_all add: same_services_def put_file_def)

lemma svc_inv_same: "same_services s s' \<Longrightarrow> svc_inv X s' = svc_inv X s"
  by (simp add: same_services_def svc_inv_def svc_wf_def svc_accounted_def)

lemma db_call_same: "same_services s s1 \<Longrightarrow> same_services s (snd (db_call w s1))"
  by (simp add: db_call_def)

lemma fetch_same: "fetch w jc name s = (r, s') \<Longrightarrow> same_services s s'"
  using db_call_same [of s s w] by (auto simp: fetch_def try_then_def split: prod.splits sum.splits)

lemma query_name_same: "query_name w p s = (r, s') \<Longrightarrow> same_services s s'"
  using db_call_same [of s s w] by (auto simp: query_name_def split: prod.splits sum.splits)

lemma same_services_trans: "same_services s s1 \<Longrightarrow> same_services s1 s2 \<Longrightarrow> same_services s s2"
  by (simp add: same_services_def)

lemma resolve_target_same: "resolve_target w target s = (r, s') \<Longrightarrow> same_services s s'"
  by (auto simp: resolve_target_def split: option.splits prod.splits dest: query_name_same intro: same_services_trans)

lemma services_list_same: "services_list w jc s = (r, s') \<Longrightarrow> same_services s s'"
  using db_call_same [of s s w] by (auto simp: services_list_def try_then_def split: prod.splits sum.splits)

lemma targets_same: "targets w jc target s = (r, s') \<Longrightarrow> same_services s s'"
  by (auto simp: targets_def try_then_def split: if_splits option.splits prod.splits sum.splits dest: services_list_same resolve_target_same)

lemma allocate_id_same: "allocate_id w jc d s = (r, s') \<Longrightarrow> same_services s s'"
  by (auto simp: allocate_id_def try_then_def split: prod.splits sum.splits option.splits dest: fetch_same)

lemma fetch_or_not_found_same: "fetch_or_not_found w jc d s = (r, s') \<Longrightarrow> same_services s s'"
  by (auto simp: fetch_or_not_found_def try_then_def split: prod.splits sum.splits option.splits dest: fetch_same)

lemmas same_rules = fetch_same query_name_same resolve_target_same services_list_same targets_same allocate_id_same fetch_or_not_found_same

section \<open>Definitions\<close>

lemma def_columns_sel [simp]:
  "sr_name (def_columns jc d r) = sr_name r" "sr_id (def_columns jc d r) = sr_id r" "sr_status (def_columns jc d r) = sr_status r"
  "sr_pid (def_columns jc d r) = sr_pid r" "sr_restart_count (def_columns jc d r) = sr_restart_count r"
  by (simp_all add: def_columns_def)

lemma default_row_sel [simp]:
  "sr_name (default_row i name) = name" "sr_id (default_row i name) = i" "sr_status (default_row i name) = ''stopped''"
  "sr_restart_count (default_row i name) = 0"
  by (simp_all add: default_row_def)

lemma upsert_def_inv:
  assumes "svc_inv X s" "upsert_def w jc d i s = (r, s')"
  shows "svc_inv X s' \<and> svc_live s' = svc_live s \<and> svc_children s' = svc_children s \<and>
    (is_ok r \<longrightarrow> (\<exists>row. row_named (sd_name d) (svc_rows s') = Some row \<and>
       ((\<exists>old. row_named (sd_name d) (svc_rows s) = Some old \<and> sr_restart_count row = sr_restart_count old) \<or> sr_restart_count row = 0)))"
proof -
  obtain c s1 where c: "db_call w s = (c, s1)" by fastforce
  then have s1: "s1 = s\<lparr> svc_db_calls := Suc (svc_db_calls s) \<rparr>" by (auto simp: db_call_def)
  have inv: "svc_inv X s1" using assms(1) s1 by simp
  show ?thesis
  proof (cases "row_named (sd_name d) (svc_rows s)")
    case None
    let ?row = "def_columns jc d (default_row i (sd_name d))"
    have "svc_inv X (s1\<lparr> svc_rows := svc_rows s1 @ [?row] \<rparr>)" if "i \<notin> sr_id ` set (svc_rows s)"
      by (rule svc_inv_append_row [OF inv]) (use None s1 that in simp_all)
    then show ?thesis using assms(2) c s1 None inv
      by (auto simp: upsert_def_def try_then_def row_simps split: sum.splits if_splits)
  next
    case (Some old)
    have "svc_inv X (s1\<lparr> svc_rows := update_where (sd_name d) (def_columns jc d) (svc_rows s1) \<rparr>)"
      by (rule svc_inv_columns [OF inv]) simp_all
    then show ?thesis using assms(2) c s1 Some inv
      by (auto simp: upsert_def_def try_then_def row_simps split: sum.splits)
  qed
qed

lemma register_def_inv:
  assumes "svc_inv X s" "register_def w jc d s = (r, s')"
  shows "svc_inv X s'"
proof -
  obtain ri s1 where a: "allocate_id w jc d s = (ri, s1)" by fastforce
  then have inv: "svc_inv X s1" using assms(1) allocate_id_same svc_inv_same by blast
  show ?thesis
  proof (cases ri)
    case (Inr i)
    obtain ru s2 where u: "upsert_def w jc d i s1 = (ru, s2)" by fastforce
    then have "svc_inv X s2" using upsert_def_inv [OF inv] by blast
    then show ?thesis using assms(2) a Inr u fetch_or_not_found_same [of w jc d s2 r s'] svc_inv_same
      by (cases ru) (auto simp: register_def_def try_then_def)
  qed (use assms(2) a inv in \<open>simp add: register_def_def try_then_def\<close>)
qed

section \<open>Starting\<close>

lemma not_live_exited:
  assumes "\<not> is_live w name s" "hm_get (svc_live s) name = Some owned"
  shows "ch_exit (svc_children s ! os_process owned) \<noteq> None"
  using assms by (auto simp: is_live_def poll_child_def split: if_splits)

lemma is_live_same: "same_services s s' \<Longrightarrow> is_live w name s' = is_live w name s"
  by (auto simp: same_services_def is_live_def poll_child_def split: option.split)

lemma start_owns_no_running_child:
  assumes "reliable w" "svc_inv X s" "fetch w jc name s = (Ok existing, s1)"
    and "\<not> (case existing of None \<Rightarrow> False | Some rec \<Rightarrow> rec_status rec = Online \<and> is_live w name s1)"
    and "hm_get (svc_live s) name = Some owned"
  shows "ch_exit (svc_children s ! os_process owned) \<noteq> None"
proof -
  obtain row where row: "row_named name (svc_rows s) = Some row" "sr_status row = ''online''"
    using svc_invD(8) [OF assms(2,5)] by blast
  then obtain rec where rec: "existing = Some rec"
    using assms(3) by (auto simp: fetch_reliable [OF assms(1)])
  then have "rec_status rec = Online"
    using fetch_reliable_Some [OF assms(1), of jc name s rec s1] assms(3) row by (auto simp: status_from_str_def)
  then have "\<not> is_live w name s" using assms(4) rec is_live_same [OF fetch_same [OF assms(3)]] by simp
  then show ?thesis by (rule not_live_exited [OF _ assms(5)])
qed

lemma fetched_count:
  assumes "reliable w" "fetch w jc name s = (Ok existing, s1)" "row_named name (svc_rows s) = Some row"
  shows "sr_restart_count row \<le> U32_MAX"
  using assms row_to_record_Ok by (fastforce simp: fetch_reliable)

lemma services_start_inv:
  assumes "reliable w" "svc_inv {} s" "services_start w jc d s = (r, s')"
  shows "svc_inv {} s'"
proof (cases "sd_name d = [] \<or> sd_cmd d = []")
  case False
  obtain rf s1 where f: "fetch w jc (sd_name d) s = (rf, s1)" by fastforce
  then have s1: "same_services s s1" by (rule fetch_same)
  then have inv1: "svc_inv {} s1" using assms(2) svc_inv_same by blast
  show ?thesis
  proof (cases "\<exists>existing. rf = Ok existing \<and>
      \<not> (case existing of None \<Rightarrow> False | Some rec \<Rightarrow> rec_status rec = Online \<and> is_live w (sd_name d) s1)")
    case True
    then obtain existing where e: "rf = Ok existing"
      "\<not> (case existing of None \<Rightarrow> False | Some rec \<Rightarrow> rec_status rec = Online \<and> is_live w (sd_name d) s1)" by blast
    obtain ra s2 where a: "allocate_id w jc d s1 = (ra, s2)" by fastforce
    have s2: "same_services s s2" using s1 allocate_id_same [OF a] by (rule same_services_trans)
    have inv2: "svc_inv {} s2" using assms(2) s2 svc_inv_same by blast
    show ?thesis
    proof (cases ra)
      case (Inr i)
      obtain ru s3 where u: "upsert_def w jc d i s2 = (ru, s3)" by fastforce
      note up = upsert_def_inv [OF inv2 u]
      show ?thesis
      proof (cases ru)
        case (Inr u')
        let ?f = "\<lambda>r :: service_row. r\<lparr> sr_restart_count := 0 \<rparr>"
        let ?s4 = "s3\<lparr> svc_rows := update_where (sd_name d) ?f (svc_rows s3), svc_db_calls := Suc (svc_db_calls s3) \<rparr>"
        have "sr_restart_count row \<le> U32_MAX" if "row_named (sd_name d) (svc_rows s3) = Some row" for row
          using up Inr that fetched_count [OF assms(1), of jc "sd_name d" s existing s1] f e(1) s2 by (auto simp: same_services_def)
        then have inv4: "svc_inv {} ?s4" unfolding svc_inv_fields
          by (intro svc_inv_columns) (use up in simp_all)
        obtain rs s5 where sp: "spawn_child w d ?s4 = (rs, s5)" by fastforce
        have "svc_inv {} s5"
          by (rule spawn_child_keeps [OF assms(1) inv4 _ _ sp])
            (use up Inr s2 start_owns_no_running_child [OF assms(1,2)] f e in \<open>auto simp: row_simps same_services_def\<close>)
        then show ?thesis
          using assms(3) False f e a \<open>ra = Inr i\<close> u Inr sp fetch_or_not_found_same [of w jc d s5 r s'] svc_inv_same
          by (cases rs) (auto simp: services_start_def try_then_def reset_restart_count_def db_update_reliable [OF assms(1)])
      qed (use assms(3) False f e a Inr u up in \<open>auto simp: services_start_def try_then_def\<close>)
    qed (use assms(3) False f e a inv2 in \<open>auto simp: services_start_def try_then_def\<close>)
  next
    case no: False
    then show ?thesis using assms(3) False f inv1
      by (cases rf) (auto simp: services_start_def try_then_def)
  qed
qed (use assms in \<open>auto simp: services_start_def split: if_splits\<close>)

section \<open>Stopping, restarting, deleting\<close>

lemma stop_names_inv:
  assumes "reliable w" "svc_inv X s" "stop_names w jc names count s = (n, s')"
  shows "svc_inv X s'"
  using assms(2,3)
proof (induction names arbitrary: count s)
  case (Cons name names)
  obtain stopped s1 where "stop_one w jc name Stopped s = (stopped, s1)" by fastforce
  moreover from this have "svc_inv X s1" using stop_one_inv [OF assms(1) Cons(2), of Stopped] by simp
  ultimately show ?case using Cons(1,3) by simp
qed simp

lemma services_stop_inv:
  assumes "reliable w" "svc_inv X s" "services_stop w jc target s = (r, s')"
  shows "svc_inv X s'"
proof -
  obtain rt s1 where t: "targets w jc target s = (rt, s1)" by fastforce
  then have "svc_inv X s1" using assms(2) targets_same svc_inv_same by blast
  then show ?thesis using assms(3) t stop_names_inv [OF assms(1)]
    by (cases rt) (auto simp: services_stop_def try_then_def split: prod.splits)
qed

lemma bump_restart_count_inv:
  assumes "reliable w" "svc_inv X s" "bump_restart_count w name s = (r, s')"
  shows "svc_inv X s' \<and> is_ok r \<and> svc_live s' = svc_live s \<and> svc_children s' = svc_children s \<and> map sr_name (svc_rows s') = map sr_name (svc_rows s)"
proof -
  have "svc_inv X (s\<lparr> svc_rows := update_where name (\<lambda>r. r\<lparr> sr_restart_count := sr_restart_count r + 1 \<rparr>) (svc_rows s) \<rparr>)"
    by (rule svc_inv_columns [OF assms(2)]) simp_all
  then show ?thesis using assms(3)
    by (auto simp: bump_restart_count_def try_then_def db_update_reliable [OF assms(1)] db_call_reliable [OF assms(1)] row_simps)
qed

lemma row_named_names: "map sr_name rows = map sr_name rows' \<Longrightarrow> (row_named name rows = None) = (row_named name rows' = None)"
  unfolding row_named_None by (metis list.set_map)

lemma restart_names_inv:
  assumes "reliable w" "svc_inv {} s" "restart_names w jc names count s = (r, s')"
  shows "svc_inv {} s'"
  using assms(2,3)
proof (induction names arbitrary: count s)
  case (Cons name names)
  obtain rf s1 where f: "fetch w jc name s = (rf, s1)" by fastforce
  have inv1: "svc_inv {} s1" using Cons(2) fetch_same [OF f] svc_inv_same by blast
  show ?case
  proof (cases "\<exists>rec. rf = Ok (Some rec)")
    case True
    then obtain rec where rec: "rf = Ok (Some rec)" by blast
    obtain row where row: "row_named name (svc_rows s) = Some row" "sd_name (rec_def rec) = name"
      using fetch_reliable_Some [OF assms(1), of jc name s rec s1] f rec by auto
    obtain b s2 where so: "stop_one w jc name Stopped s1 = (b, s2)" by fastforce
    note st = stop_one_inv [OF assms(1) inv1 _ so, simplified]
    obtain rb s3 where bu: "bump_restart_count w name s2 = (rb, s3)" by fastforce
    note bm = bump_restart_count_inv [OF assms(1) conjunct1 [OF st] bu]
    obtain rs s4 where sp: "spawn_child w (rec_def rec) s3 = (rs, s4)" by fastforce
    have "row_named name (svc_rows s3) \<noteq> None"
      using row(1) st bm fetch_same [OF f] row_named_names [of "svc_rows s3" "svc_rows s" name] by (simp add: same_services_def)
    then have "svc_inv {} s4"
      by (intro spawn_child_keeps [OF assms(1) conjunct1 [OF bm] _ _ sp]) (use row(2) st bm in auto)
    then show ?thesis using Cons(1,3) f rec so bu bm sp
      by (cases rb; cases rs) (auto simp: try_then_def)
  next
    case False
    then show ?thesis using Cons(1,3) f inv1
      by (auto simp: try_then_def split: sum.splits option.splits)
  qed
qed simp

lemma services_restart_inv:
  assumes "reliable w" "svc_inv {} s" "services_restart w jc target s = (r, s')"
  shows "svc_inv {} s'"
proof -
  obtain rt s1 where t: "targets w jc target s = (rt, s1)" by fastforce
  then have "svc_inv {} s1" using assms(2) targets_same svc_inv_same by blast
  then show ?thesis using assms(3) t restart_names_inv [OF assms(1)]
    by (cases rt) (auto simp: services_restart_def try_then_def)
qed

lemma delete_names_inv:
  assumes "reliable w" "svc_inv X s" "delete_names w jc names count s = (r, s')"
  shows "svc_inv X s'"
  using assms(2,3)
proof (induction names arbitrary: count s)
  case (Cons name names)
  obtain b s1 where so: "stop_one w jc name Stopped s = (b, s1)" by fastforce
  have "svc_inv X (s1\<lparr> svc_rows := filter (\<lambda>r. sr_name r \<noteq> name) (svc_rows s1) \<rparr>)"
    using stop_one_inv [OF assms(1) Cons(2) _ so] by (intro svc_inv_delete_row) simp_all
  then have "svc_inv X (s1\<lparr> svc_rows := filter (\<lambda>r. sr_name r \<noteq> name) (svc_rows s1), svc_db_calls := Suc (svc_db_calls s1) \<rparr>)" by simp
  from Cons(1) [OF this] show ?case using Cons(3) so by (simp add: Let_def try_then_def db_update_reliable [OF assms(1)])
qed simp

lemma services_delete_inv:
  assumes "reliable w" "svc_inv X s" "services_delete w jc target s = (r, s')"
  shows "svc_inv X s'"
proof -
  obtain rt s1 where t: "targets w jc target s = (rt, s1)" by fastforce
  then have "svc_inv X s1" using assms(2) targets_same svc_inv_same by blast
  then show ?thesis using assms(3) t delete_names_inv [OF assms(1)]
    by (cases rt) (auto simp: services_delete_def try_then_def)
qed

section \<open>Snapshots\<close>

lemma file_step_same:
  assumes "same_services s s1" "\<And>s'. same_services s s' \<Longrightarrow> same_services s (effect s')" "\<And>s'. same_services s s' \<Longrightarrow> same_services s (failed s')"
  shows "same_services s (snd (file_step w op path message effect failed s1))"
  using assms by (simp add: file_step_def split: option.split)

lemma try_then_same:
  assumes "same_services s (snd r)" "\<And>x s1. same_services s s1 \<Longrightarrow> same_services s (snd (f x s1))"
  shows "same_services s (snd (try_then r f))"
  using assms by (cases r) (auto simp: try_then_def split: sum.splits)

lemma save_snapshot_same: "same_services s (snd (save_snapshot w jc s))"
proof -
  have "same_services s (snd (services_list w jc s))" using services_list_same by (metis prod.collapse)
  then show ?thesis by (auto simp: save_snapshot_def Let_def split: sum.split intro!: try_then_same file_step_same)
qed

lemma resurrect_entries_inv:
  assumes "reliable w" "svc_inv {} s" "resurrect_entries w jc entries restored restarted s = (counts, s')"
  shows "svc_inv {} s'"
  using assms(2,3)
proof (induction entries arbitrary: restored restarted s)
  case (Cons e entries)
  let ?d = "to_def e"
  obtain i s1 where i: "(if ss_id e = 0 then (svc_next_id s, s\<lparr> svc_next_id := svc_next_id s + 1 \<rparr>)
      else (ss_id e, s\<lparr> svc_next_id := max (svc_next_id s) (ss_id e + 1) \<rparr>)) = (i, s1)" by fastforce
  then have inv1: "svc_inv {} s1" using Cons(2) by (auto split: if_splits)
  obtain ru s2 where u: "upsert_def w jc ?d i s1 = (ru, s2)" by fastforce
  note up = upsert_def_inv [OF inv1 u]
  note step = Cons(3) [unfolded resurrect_entries.simps Let_def i prod.case u]
  show ?case
  proof (cases "is_ok ru \<and> ss_status e = status_as_str Online \<and> \<not> is_live w (sd_name ?d) s2")
    case True
    obtain rs s3 where sp: "spawn_child w ?d s2 = (rs, s3)" by fastforce
    have "row_named (sd_name ?d) (svc_rows s2) \<noteq> None" using up True by blast
    moreover have "ch_exit (svc_children s2 ! os_process owned) \<noteq> None" if "hm_get (svc_live s2) (sd_name ?d) = Some owned" for owned
      using not_live_exited that True by blast
    ultimately have "svc_inv {} s3" by (rule spawn_child_keeps [OF assms(1) conjunct1 [OF up] _ _ sp])
    then show ?thesis using True step Cons(1) sp by (cases ru; cases rs) auto
  next
    case False
    then show ?thesis using step Cons(1) up by (cases ru) auto
  qed
qed simp

lemma resurrect_inv:
  assumes "reliable w" "svc_inv {} s" "resurrect_from_snapshot w jc s = (r, s')"
  shows "svc_inv {} s'"
  using assms(2,3) resurrect_entries_inv [OF assms(1,2)]
  by (auto simp: resurrect_from_snapshot_def Let_def split: option.splits sum.splits if_splits prod.splits)

lemma notes_exited_tl:
  assumes "notes_exited (note # notes) s" "\<And>n. n \<noteq> fst note \<Longrightarrow> hm_get (svc_live s') n = hm_get (svc_live s) n"
    and "\<And>h. h < length (svc_children s) \<Longrightarrow> svc_children s' ! h = svc_children s ! h" "length (svc_children s) \<le> length (svc_children s')"
  shows "notes_exited notes s'"
proof -
  have "\<exists>owned. hm_get (svc_live s') (fst x) = Some owned \<and> os_process owned < length (svc_children s') \<and>
      ch_exit (svc_children s' ! os_process owned) \<noteq> None" if x: "x \<in> set notes" for x
  proof -
    have "fst x \<in> fst ` set notes" using x by simp
    moreover have "fst note \<notin> fst ` set notes" using assms(1) by (simp add: notes_exited_def)
    ultimately have "fst x \<noteq> fst note" by metis
    moreover obtain owned where "hm_get (svc_live s) (fst x) = Some owned" "os_process owned < length (svc_children s)"
      "ch_exit (svc_children s ! os_process owned) \<noteq> None" using assms(1) x unfolding notes_exited_def by (meson list.set_intros(2))
    ultimately show ?thesis using assms(2) [of "fst x"] assms(3) [of "os_process owned"] assms(4) by auto
  qed
  then show ?thesis using assms(1) by (auto simp: notes_exited_def)
qed

lemma exited_childrenD:
  assumes "x \<in> set (exited_children w s)"
  obtains name owned code where "(name, owned) \<in> set (svc_live s)" "poll_child w (os_process owned) s = Some code"
    "x = (name, code, sw_now w - os_started_at owned, os_intentional_stop owned)"
proof -
  have "\<exists>(name, owned) \<in> set l. \<exists>code. poll_child w (os_process owned) s = Some code \<and>
      x = (name, code, sw_now w - os_started_at owned, os_intentional_stop owned)"
    if "x \<in> set (List.map_filter (\<lambda>(name, owned). case poll_child w (os_process owned) s of
      None \<Rightarrow> None | Some code \<Rightarrow> Some (name, code, sw_now w - os_started_at owned, os_intentional_stop owned)) l)" for l
    using that
  proof (induction l)
    case (Cons p l)
    then show ?case by (cases p) (auto simp: List.map_filter_simps split: option.splits)
  qed (simp add: List.map_filter_simps)
  then show ?thesis using assms that unfolding exited_children_def by blast
qed

lemma exited_children_notes:
  assumes "svc_inv X s"
  shows "notes_exited (exited_children w s) s"
proof -
  let ?note = "\<lambda>(name, owned). case poll_child w (os_process owned) s of
      None \<Rightarrow> None | Some code \<Rightarrow> Some (name, code, sw_now w - os_started_at owned, os_intentional_stop owned)"
  have sub: "map fst (List.map_filter ?note l) = map fst (filter (\<lambda>(name, owned). poll_child w (os_process owned) s \<noteq> None) l)" for l
    by (induction l) (auto simp: List.map_filter_def split: option.splits)
  have "distinct (map fst (exited_children w s))"
    using svc_invD(3) [OF assms] unfolding exited_children_def sub hm_ok_def by (rule distinct_map_filter)
  moreover have "\<exists>owned. hm_get (svc_live s) (fst x) = Some owned \<and> os_process owned < length (svc_children s) \<and>
      ch_exit (svc_children s ! os_process owned) \<noteq> None" if x: "x \<in> set (exited_children w s)" for x
  proof -
    obtain name owned where o: "(name, owned) \<in> set (svc_live s)" "poll_child w (os_process owned) s \<noteq> None" "fst x = name"
      using x by (auto elim!: exited_childrenD)
    then have "hm_get (svc_live s) name = Some owned"
      using svc_invD(3) [OF assms] by (simp add: hm_get_def hm_ok_def)
    then show ?thesis using o svc_invD(4) [OF assms] by (auto simp: poll_child_def split: if_splits)
  qed
  ultimately show ?thesis by (simp add: notes_exited_def)
qed

lemma mark_exited_inv:
  assumes "reliable w" "svc_inv (insert name X) s" "hm_get (svc_live s) name = None" "status \<noteq> Online"
  shows "svc_inv X (snd (mark_exited w name status code ts s))"
proof -
  have "status_as_str status \<noteq> ''online''" using assms(4) by (cases status) auto
  then show ?thesis unfolding mark_exited_def db_update_reliable [OF assms(1)] snd_conv svc_inv_fields
    by (intro svc_inv_not_online [OF assms(2,3)]) simp_all
qed

lemma mark_exited_sel:
  "svc_live (snd (mark_exited w name status code ts s)) = svc_live s" "svc_children (snd (mark_exited w name status code ts s)) = svc_children s"
  by (simp_all add: mark_exited_def db_update_def try_then_def db_call_def split: option.split)

lemma reset_restart_count_inv:
  assumes "reliable w" "svc_inv X s" "row_named name (svc_rows s) = Some row" "sr_restart_count row \<le> U32_MAX"
  shows "svc_inv X (snd (reset_restart_count w name s))"
  unfolding reset_restart_count_def db_update_reliable [OF assms(1)] snd_conv svc_inv_fields
  by (intro svc_inv_columns [OF assms(2)]) (use assms(3,4) in simp_all)

lemma reset_restart_count_sel:
  assumes "reliable w"
  shows "svc_live (snd (reset_restart_count w name s)) = svc_live s" "svc_children (snd (reset_restart_count w name s)) = svc_children s"
    "map sr_name (svc_rows (snd (reset_restart_count w name s))) = map sr_name (svc_rows s)"
  by (simp_all add: reset_restart_count_def db_update_reliable [OF assms] row_simps)

text \<open>What is left open by a decision to start a service again is that service alone.\<close>

lemma before_backoff_inv:
  assumes "reliable w" "svc_inv {} s" "notes_exited ((name, code, uptime, intentional) # notes) s" "\<not> intentional"
    and "before_backoff w jc (name, code, uptime, intentional) s = (r, s')"
  shows "hm_get (svc_live s') name = None \<and> (\<forall>n. n \<noteq> name \<longrightarrow> hm_get (svc_live s') n = hm_get (svc_live s) n) \<and>
    svc_children s' = svc_children s \<and>
    (case r of None \<Rightarrow> svc_inv {} s' | Some (d, delay) \<Rightarrow> svc_inv {name} s' \<and> sd_name d = name \<and> row_named name (svc_rows s') \<noteq> None)"
proof -
  let ?s1 = "s\<lparr> svc_live := hm_remove name (svc_live s) \<rparr>"
  have inv1: "svc_inv {name} ?s1"
    by (rule svc_inv_release [OF assms(2)]) (use assms(3) in \<open>auto simp: notes_exited_def\<close>)
  obtain rf s2 where f: "fetch w jc name ?s1 = (rf, s2)" by fastforce
  have s2: "same_services ?s1 s2" by (rule fetch_same [OF f])
  then have inv2: "svc_inv {name} s2" using inv1 svc_inv_same by blast
  show ?thesis
  proof (cases "\<exists>rec. rf = Ok (Some rec)")
    case True
    then obtain rec where rec: "rf = Ok (Some rec)" by blast
    then obtain row where row: "row_named name (svc_rows s) = Some row" "sr_restart_count row \<le> U32_MAX" "sd_name (rec_def rec) = name"
      using fetch_reliable_Some [OF assms(1), of jc name ?s1 rec s2] f by auto
    let ?p = "policy_from_config (rec_def rec)"
    define s3 where "s3 = (if uptime \<ge> rp_min_uptime ?p then snd (reset_restart_count w name s2) else s2)"
    have s3: "svc_inv {name} s3" "svc_live s3 = svc_live s2" "svc_children s3 = svc_children s2" "map sr_name (svc_rows s3) = map sr_name (svc_rows s2)"
      using inv2 reset_restart_count_inv [OF assms(1) inv2] row s2 reset_restart_count_sel [OF assms(1)]
      by (auto simp: s3_def same_services_def)
    obtain rb s4 where b: "bump_restart_count w name s3 = (rb, s4)" by fastforce
    note s4 = bump_restart_count_inv [OF assms(1) s3(1) b]
    have names: "row_named name (svc_rows s4) \<noteq> None"
      using row(1) row_named_names [of "svc_rows s4" "svc_rows s" name] s4 s3(4) s2 by (simp add: same_services_def)
    have live: "svc_live s4 = hm_remove name (svc_live s)" "svc_live s2 = hm_remove name (svc_live s)"
      "svc_children s4 = svc_children s" "svc_children s2 = svc_children s"
      using s4 s3 s2 by (simp_all add: same_services_def)
    note bb = assms(5) [unfolded before_backoff_def prod.case Let_def f rec sum.case option.case, folded s3_def, unfolded b prod.case]
    show ?thesis
      using bb assms(4) live names s4 row(3)
        mark_exited_inv [OF assms(1) inv2, of Stopped] mark_exited_inv [OF assms(1) conjunct1 [OF s4], of Errored]
      by (auto simp: mark_exited_sel hm_simps split: if_splits)
  next
    case False
    have "svc_inv {} s2"
    proof -
      have "row_named name (svc_rows s2) = None \<or> (\<exists>row. row_named name (svc_rows s2) = Some row \<and> sr_restart_count row > U32_MAX)"
        using False f s2 by (auto simp: fetch_reliable [OF assms(1)] row_to_record_def same_services_def split: option.splits if_splits)
      then show ?thesis using inv2 svc_invD [OF inv2] by (intro svc_invI) fastforce+
    qed
    then show ?thesis
      using assms(4,5) f False s2 by (auto simp: before_backoff_def Let_def same_services_def hm_simps split: sum.splits option.splits)
  qed
qed

lemma after_backoff_inv:
  assumes "reliable w" "svc_inv {name} s" "sd_name d = name" "row_named name (svc_rows s) \<noteq> None" "hm_get (svc_live s) name = None"
    and "after_backoff w name code d s = (restarted, s')"
  shows "svc_inv {} s' \<and> (\<forall>n. n \<noteq> name \<longrightarrow> hm_get (svc_live s') n = hm_get (svc_live s) n) \<and>
    (\<forall>h < length (svc_children s). svc_children s' ! h = svc_children s ! h) \<and> length (svc_children s) \<le> length (svc_children s')"
proof -
  obtain r s1 where sp: "spawn_child w d s = (r, s1)" by fastforce
  note s1 = spawn_child_inv [where X = "{}", OF assms(1) _ _ _ sp, unfolded assms(3)]
  show ?thesis
    using s1 sp assms mark_exited_inv [where X = "{}", OF assms(1), of name s1 Errored]
    by (cases r) (auto simp: after_backoff_def mark_exited_sel)
qed

lemma supervise_notes_inv:
  assumes "reliable w" "svc_inv {} s" "notes_exited ns s" "\<forall>(name, code, uptime, intentional) \<in> set ns. \<not> intentional"
    and "supervise_notes w jc ns restarts s = (n, s')"
  shows "svc_inv {} s'"
  using assms(2-5)
proof (induction ns arbitrary: restarts s)
  case (Cons x xs)
  obtain name code uptime where x: "x = (name, code, uptime, False)" using Cons(4) by (cases x) auto
  obtain r s1 where b: "before_backoff w jc x s = (r, s1)" by fastforce
  note bi = before_backoff_inv [OF assms(1) Cons(2) Cons(3) [unfolded x] _ b [unfolded x], simplified]
  show ?case
  proof (cases r)
    case None
    have "notes_exited xs s1" by (rule notes_exited_tl [OF Cons(3)]) (use bi x in auto)
    then show ?thesis using Cons(1) [of s1 restarts] Cons(4,5) bi None b by auto
  next
    case (Some p)
    obtain d delay where p: "p = (d, delay)" by fastforce
    obtain restarted s2 where a: "after_backoff w name code d s1 = (restarted, s2)" by fastforce
    have ai: "svc_inv {} s2 \<and> (\<forall>n. n \<noteq> name \<longrightarrow> hm_get (svc_live s2) n = hm_get (svc_live s1) n) \<and>
      (\<forall>h < length (svc_children s1). svc_children s2 ! h = svc_children s1 ! h) \<and> length (svc_children s1) \<le> length (svc_children s2)"
      by (rule after_backoff_inv [OF assms(1) _ _ _ _ a]) (use bi Some p in auto)
    have "notes_exited xs s2" by (rule notes_exited_tl [OF Cons(3)]) (use ai bi x in auto)
    then show ?thesis using Cons(1) [of s2 "if restarted then restarts + 1 else restarts"] Cons(4,5) ai Some p b a x by auto
  qed
qed simp

lemma exited_children_unintentional:
  assumes "svc_inv X s"
  shows "\<forall>(name, code, uptime, intentional) \<in> set (exited_children w s). \<not> intentional"
proof -
  have "\<not> os_intentional_stop owned" if "(name, owned) \<in> set (svc_live s)" for name owned
    using svc_invD(3) [OF assms] svc_invD(6) [OF assms, of name owned] that by (simp add: hm_get_def hm_ok_def)
  then show ?thesis by (auto elim!: exited_childrenD)
qed

lemma supervise_tick_inv:
  assumes "reliable w" "svc_inv {} s" "supervise_tick w jc s = (n, s')"
  shows "svc_inv {} s'"
  using supervise_notes_inv [OF assms(1,2) exited_children_notes [OF assms(2)] exited_children_unintentional [OF assms(2)]] assms(3)
  by (simp add: supervise_tick_def)

section \<open>Runs\<close>

lemma service_step_inv:
  assumes "reliable w" "svc_inv {} s"
  shows "svc_inv {} (service_step jc (w, op) s)"
proof (cases op)
  case (StartService d)
  then show ?thesis using services_start_inv [OF assms] by (metis service_step.simps(1) prod.collapse)
next
  case (RegisterService d)
  then show ?thesis using register_def_inv [OF assms(2)] by (metis service_step.simps(2) prod.collapse)
next
  case (StopService target)
  then show ?thesis using services_stop_inv [OF assms] by (metis service_step.simps(3) prod.collapse)
next
  case (RestartService target)
  then show ?thesis using services_restart_inv [OF assms] by (metis service_step.simps(4) prod.collapse)
next
  case (DeleteService target)
  then show ?thesis using services_delete_inv [OF assms] by (metis service_step.simps(5) prod.collapse)
next
  case SaveServices
  then show ?thesis using svc_inv_same [OF save_snapshot_same] assms(2) by simp
next
  case ResurrectServices
  then show ?thesis using resurrect_inv [OF assms] by (metis service_step.simps(7) prod.collapse)
next
  case ShutdownServices
  then show ?thesis using stop_names_inv [OF assms] by (metis service_step.simps(8) shutdown_all_def prod.collapse)
next
  case SupervisorTick
  then show ?thesis using supervise_tick_inv [OF assms] by (metis service_step.simps(9) prod.collapse)
next
  case (ChildExits h code)
  then show ?thesis using svc_inv_set_exit assms(2) by simp
qed

lemma services_open_inv:
  assumes "services_open w parent log_dir rows files = Ok s" "distinct (map sr_name rows)" "distinct (map sr_id rows)"
  shows "svc_inv {} s \<and> svc_children s = []"
proof -
  define f :: "service_row \<Rightarrow> service_row" where
    "f = (\<lambda>r. if sr_status r = ''online'' then r\<lparr> sr_status := ''stopped'', sr_pid := 0 \<rparr> else r)"
  have keep: "sr_name \<circ> f = sr_name" "sr_id \<circ> f = sr_id" by (auto simp: f_def)
  have s: "svc_rows s = map f rows" "svc_live s = hm_empty" "svc_children s = []"
    using assms(1) unfolding services_open_def Let_def f_def [symmetric]
    by (auto simp: try_then_def db_call_def db_update_def split: option.splits)
  have "sr_status row \<noteq> ''online''" if "row_named name (svc_rows s) = Some row" for name row
    using row_named_Some [OF that] s(1) by (auto simp: f_def)
  then have "svc_inv {} s"
    by (intro svc_invI) (use assms(2,3) keep s in \<open>simp_all add: hm_simps\<close>)
  then show ?thesis using s(3) by simp
qed

lemma reached_inv: "reached jc s \<Longrightarrow> svc_inv {} s"
  by (induction rule: reached.induct) (auto simp: service_step_inv dest: services_open_inv)

lemma untouched_refl [simp]: "untouched name s s"
  by (simp add: untouched_def)

lemma untouched_trans: "untouched name s s1 \<Longrightarrow> untouched name s1 s2 \<Longrightarrow> untouched name s s2"
  by (simp add: untouched_def)

lemma same_untouched: "same_services s s' \<Longrightarrow> untouched name s s'"
  by (simp add: same_services_def untouched_def children_of_def)

lemma db_update_untouched:
  assumes "\<And>rows. row_named name (upd rows) = row_named name rows"
  shows "untouched name s (snd (db_update w upd s))"
  using assms by (auto simp: db_update_def try_then_def db_call_def untouched_def children_of_def split: option.splits)

lemma row_updates_untouched:
  assumes "n \<noteq> name"
  shows "untouched name s (snd (mark_exited w n status code ts s))" "untouched name s (snd (reset_restart_count w n s))"
    "untouched name s (snd (mark_started w n pid ts s))"
  using assms
  by (auto simp: mark_exited_def reset_restart_count_def mark_started_def row_simps intro!: db_update_untouched)

lemma bump_untouched:
  assumes "n \<noteq> name" "bump_restart_count w n s = (r, s')"
  shows "untouched name s s'"
proof -
  let ?u = "db_update w (update_where n (\<lambda>r. r\<lparr> sr_restart_count := sr_restart_count r + 1 \<rparr>)) s"
  have u: "untouched name s (snd ?u)" using assms(1) by (intro db_update_untouched) (simp add: row_simps)
  moreover have "untouched name (snd ?u) (snd (db_call w (snd ?u)))" by (intro same_untouched db_call_same) simp
  ultimately have "untouched name s (snd (db_call w (snd ?u)))" by (rule untouched_trans)
  then show ?thesis using assms(2) u
    by (cases ?u) (auto simp: bump_restart_count_def try_then_def split: sum.splits prod.splits)
qed

lemma spawn_untouched:
  assumes "sd_name d \<noteq> name" "spawn_child w d s = (r, s')"
  shows "untouched name s s'"
proof (cases "sd_cmd d = [] \<or> \<not> is_ok (sw_spawn w (svc_spawns s))")
  case True
  then show ?thesis using assms(2)
    by (cases "sw_spawn w (svc_spawns s)") (auto simp: spawn_child_def Let_def untouched_def children_of_def split: if_splits)
next
  case False
  then obtain started where "sw_spawn w (svc_spawns s) = Ok started" by (cases "sw_spawn w (svc_spawns s)") auto
  then have "s' = snd (mark_started w (sd_name d) (case started of None \<Rightarrow> 0 | Some p \<Rightarrow> p) (sw_unix_now w (svc_db_calls s)) (own_child w d started s))"
    using assms(2) False by (auto simp: spawn_child_def try_then_def Let_def split: sum.splits prod.splits)
  moreover have "untouched name s (own_child w d started s)"
    using assms(1) by (simp add: untouched_def children_of_def own_child_def hm_simps)
  ultimately show ?thesis using row_updates_untouched(3) [OF assms(1)] untouched_trans by blast
qed

lemma before_backoff_untouched:
  assumes "fst x \<noteq> name" "before_backoff w jc x s = (r, s')"
  shows "untouched name s s'"
proof -
  obtain n code uptime intentional where x: "x = (n, code, uptime, intentional)" by (cases x) auto
  then have n: "n \<noteq> name" using assms(1) by simp
  let ?s1 = "s\<lparr> svc_live := hm_remove n (svc_live s) \<rparr>"
  have s1: "untouched name s ?s1" using n by (simp add: untouched_def children_of_def hm_simps)
  obtain rf s2 where f: "fetch w jc n ?s1 = (rf, s2)" by fastforce
  have s2: "untouched name s s2" using s1 same_untouched [OF fetch_same [OF f]] untouched_trans by blast
  define s3 where "s3 p = (if uptime \<ge> rp_min_uptime p then snd (reset_restart_count w n s2) else s2)" for p :: restart_policy
  have s3: "untouched name s (s3 p)" for p
    using s2 row_updates_untouched(2) [OF n] untouched_trans by (auto simp: s3_def)
  have s4: "untouched name s s4" if "bump_restart_count w n (s3 p) = (rb, s4)" for p rb s4
    using s3 bump_untouched [OF n that] untouched_trans by blast
  have m: "untouched name s (snd (mark_exited w n status c ts t))" if "untouched name s t" for status c ts t
    using that row_updates_untouched(1) [OF n] untouched_trans by blast
  show ?thesis
    using assms(2) [unfolded x before_backoff_def prod.case Let_def f, folded s3_def] s1 s2 s4 m
    by (auto split: if_splits sum.splits option.splits prod.splits)
qed

lemma after_backoff_untouched:
  assumes "n \<noteq> name" "sd_name d = n" "after_backoff w n code d s = (restarted, s')"
  shows "untouched name s s'"
proof -
  obtain r s1 where sp: "spawn_child w d s = (r, s1)" by fastforce
  then have "untouched name s s1" using spawn_untouched assms(1,2) by blast
  then show ?thesis using assms(3) sp row_updates_untouched(1) [OF assms(1)] untouched_trans
    by (auto simp: after_backoff_def split: sum.splits)
qed

lemma before_backoff_def_name:
  assumes "before_backoff w jc (name, code, uptime, intentional) s = (Some (d, delay), s')"
  shows "sd_name d = name"
proof -
  obtain rf s2 where f: "fetch w jc name (s\<lparr> svc_live := hm_remove name (svc_live s) \<rparr>) = (rf, s2)" by fastforce
  then obtain rec where rec: "rf = Ok (Some rec)" "d = rec_def rec"
    using assms by (auto simp: before_backoff_def Let_def split: if_splits sum.splits option.splits prod.splits)
  then obtain row where "row_to_record jc row = Ok rec" "sr_name row = name"
    using f row_named_Some by (fastforce simp: fetch_def try_then_def db_call_def split: option.splits prod.splits sum.splits)
  then show ?thesis using row_to_record_Ok rec(2) by blast
qed

lemma supervise_notes_untouched:
  assumes "name \<notin> fst ` set ns" "supervise_notes w jc ns restarts s = (n, s')"
  shows "untouched name s s'"
  using assms
proof (induction ns arbitrary: restarts s)
  case (Cons x xs)
  obtain r s1 where b: "before_backoff w jc x s = (r, s1)" by fastforce
  have s1: "untouched name s s1" by (rule before_backoff_untouched [OF _ b]) (use Cons(2) in auto)
  show ?case
  proof (cases r)
    case None
    then show ?thesis using Cons b s1 untouched_trans by fastforce
  next
    case (Some p)
    obtain d delay where p: "p = (d, delay)" by fastforce
    obtain restarted s2 where a: "after_backoff w (fst x) (fst (snd x)) d s1 = (restarted, s2)" by fastforce
    have "sd_name d = fst x" using before_backoff_def_name [of w jc "fst x" "fst (snd x)"] b Some p by (cases x) auto
    then have "untouched name s1 s2" using after_backoff_untouched [OF _ _ a] Cons(2) by auto
    then have "untouched name s s2" using s1 untouched_trans by blast
    then show ?thesis using Cons(1) [of "if restarted then restarts + 1 else restarts" s2] Cons(2,3) b Some p a untouched_trans
      by (auto split: if_splits)
  qed
qed simp

lemma exited_children_live: "x \<in> set (exited_children w s) \<Longrightarrow> hm_get (svc_live s) (fst x) \<noteq> None"
  by (auto elim!: exited_childrenD simp: hm_get_def map_of_eq_None_iff image_iff) (metis fst_conv)

lemma on_its_own_step:
  assumes "on_its_own op" "hm_get (svc_live s) name = None" "s' = service_step jc (w, op) s"
  shows "row_named name (svc_rows s') = row_named name (svc_rows s) \<and> hm_get (svc_live s') name = None \<and>
    ((\<forall>c \<in> set (children_of name s). ch_exit c \<noteq> None) \<longrightarrow> (\<forall>c \<in> set (children_of name s'). ch_exit c \<noteq> None))"
proof (cases op)
  case SupervisorTick
  have "name \<notin> fst ` set (exited_children w s)" using exited_children_live assms(2) by fastforce
  then have "untouched name s s'" using supervise_notes_untouched assms(3) SupervisorTick
    by (metis prod.collapse service_step.simps(9) supervise_tick_def)
  then show ?thesis using assms(2) by (simp add: untouched_def)
next
  case SaveServices
  then have "untouched name s s'" using same_untouched [OF save_snapshot_same] assms(3) by simp
  then show ?thesis using assms(2) by (simp add: untouched_def)
next
  case (ChildExits h code)
  then show ?thesis using assms(2,3)
    by (auto simp: children_of_def set_exit_def dest!: set_update_subset_insert [THEN subsetD])
qed (use assms(1) in simp_all)

lemma on_its_own_run:
  assumes "\<forall>(w, op) \<in> set ops. on_its_own op" "hm_get (svc_live s) name = None" "\<forall>c \<in> set (children_of name s). ch_exit c \<noteq> None"
  shows "row_named name (svc_rows (service_run jc ops s)) = row_named name (svc_rows s) \<and>
    (\<forall>c \<in> set (children_of name (service_run jc ops s)). ch_exit c \<noteq> None)"
  using assms
proof (induction ops arbitrary: s)
  case (Cons x ops)
  obtain w op where x: "x = (w, op)" by fastforce
  have *: "on_its_own op" using Cons(2) x by simp
  note st = on_its_own_step [OF * Cons(3) refl, of jc w]
  have "row_named name (svc_rows (service_run jc ops (service_step jc x s))) = row_named name (svc_rows (service_step jc x s)) \<and>
    (\<forall>c \<in> set (children_of name (service_run jc ops (service_step jc x s))). ch_exit c \<noteq> None)"
    by (rule Cons(1)) (use Cons(2,4) st x in auto)
  then show ?case using st x by (simp add: service_run_def)
qed (simp add: service_run_def)

lemma stop_one_row:
  assumes "reliable w" "row_named name (svc_rows s) = Some row" "stop_one w jc name status s = (b, s')"
  shows "\<exists>row'. row_named name (svc_rows s') = Some row' \<and> sr_status row' = status_as_str status \<and> sr_pid row' = 0"
proof (cases "hm_get (svc_live s) name")
  case None
  then show ?thesis using assms(2,3) by (auto simp: stop_one_def set_status_def db_update_reliable [OF assms(1)] row_simps)
next
  case (Some owned)
  show ?thesis using stop_one_owned [OF assms(1) Some assms(3)] assms(2)
    by (auto simp: mark_exited_def db_update_reliable [OF assms(1)] row_simps)
qed

section \<open>Requests while the supervisor sleeps\<close>

lemma before_backoff_Some:
  assumes "reliable w" "before_backoff w jc (name, code, uptime, False) s = (Some (d, delay), s')"
  shows "hm_get (svc_live s') name = None \<and> sd_name d = name \<and> row_named name (svc_rows s') \<noteq> None"
proof -
  let ?s1 = "s\<lparr> svc_live := hm_remove name (svc_live s) \<rparr>"
  obtain rf s2 where f: "fetch w jc name ?s1 = (rf, s2)" by fastforce
  then obtain rec where rec: "rf = Ok (Some rec)" "d = rec_def rec"
    using assms(2) by (auto simp: before_backoff_def Let_def split: sum.splits option.splits prod.splits if_splits)
  obtain row where row: "row_named name (svc_rows s2) = Some row"
    using fetch_reliable_Some [OF assms(1), of jc name ?s1 rec s2] f rec fetch_same [OF f] by (auto simp: same_services_def)
  define s3 where "s3 = (if uptime \<ge> rp_min_uptime (policy_from_config (rec_def rec)) then snd (reset_restart_count w name s2) else s2)"
  have s3: "svc_live s3 = hm_remove name (svc_live s)" "row_named name (svc_rows s3) \<noteq> None"
    using fetch_same [OF f] row
    by (auto simp: s3_def same_services_def reset_restart_count_def db_update_reliable [OF assms(1)] row_simps)
  obtain rb s4 where b: "bump_restart_count w name s3 = (rb, s4)" by fastforce
  then have s4: "svc_live s4 = svc_live s3" "row_named name (svc_rows s4) \<noteq> None"
    using s3(2) by (auto simp: bump_restart_count_def try_then_def db_update_reliable [OF assms(1)] db_call_reliable [OF assms(1)] row_simps)
  have "s' = s4"
    using assms(2) [unfolded before_backoff_def prod.case Let_def f rec sum.case option.case, folded s3_def, unfolded b prod.case]
    by (auto split: if_splits)
  then show ?thesis using s3 s4 before_backoff_def_name [OF assms(2)] by (simp add: hm_simps)
qed

lemma spawn_child_runs:
  assumes "reliable w" "sd_cmd d \<noteq> []" "sw_spawn w (svc_spawns s) = Ok started" "row_named (sd_name d) (svc_rows s) \<noteq> None"
  obtains s' where "spawn_child w d s = (Ok (case started of None \<Rightarrow> 0 | Some p \<Rightarrow> p), s')"
    "\<exists>row. row_named (sd_name d) (svc_rows s') = Some row \<and> sr_status row = ''online''"
    "svc_children s' = svc_children (own_child w d started s)" "svc_live s' = svc_live (own_child w d started s)"
proof -
  let ?pid = "case started of None \<Rightarrow> 0 | Some p \<Rightarrow> p"
  let ?s' = "snd (mark_started w (sd_name d) ?pid (sw_unix_now w (svc_db_calls s)) (own_child w d started s))"
  have "spawn_child w d s = (Ok ?pid, ?s')"
    using assms(2,3) by (simp add: spawn_child_def try_then_def Let_def mark_started_def db_update_reliable [OF assms(1)])
  moreover have "\<exists>row. row_named (sd_name d) (svc_rows ?s') = Some row \<and> sr_status row = ''online''"
    using assms(4) by (auto simp: mark_started_def db_update_reliable [OF assms(1)] own_child_def row_simps)
  ultimately show ?thesis by (rule that) (simp_all add: mark_started_def db_update_reliable [OF assms(1)])
qed

lemma spawn_child_runs_child:
  assumes "svc_children s' = svc_children (own_child w d started s)" "svc_live s' = svc_live (own_child w d started s)"
  shows "\<exists>owned. hm_get (svc_live s') (sd_name d) = Some owned \<and> os_process owned = length (svc_children s)"
    "length (svc_children s') = Suc (length (svc_children s))" "ch_exit (svc_children s' ! length (svc_children s)) = None"
    "ch_service (svc_children s' ! length (svc_children s)) = sd_name d"
    "\<And>h. h < length (svc_children s) \<Longrightarrow> svc_children s' ! h = svc_children s ! h"
  using assms by (simp_all add: own_child_def hm_simps nth_append)

text \<open>A start request that is served owns a new running child.\<close>

lemma services_start_Ok:
  assumes "reliable w" "services_start w jc d s = (Ok rec, s')"
  shows "\<exists>owned. hm_get (svc_live s') (sd_name d) = Some owned \<and> os_process owned = length (svc_children s) \<and>
    length (svc_children s') = Suc (length (svc_children s)) \<and> ch_exit (svc_children s' ! os_process owned) = None \<and>
    row_named (sd_name d) (svc_rows s') \<noteq> None"
proof -
  obtain existing s1 i s2 s3 s4 pid s5 where st: "fetch w jc (sd_name d) s = (Ok existing, s1)" "allocate_id w jc d s1 = (Ok i, s2)"
    "upsert_def w jc d i s2 = (Ok (), s3)" "reset_restart_count w (sd_name d) s3 = (Ok (), s4)"
    "spawn_child w d s4 = (Ok pid, s5)" "fetch_or_not_found w jc d s5 = (Ok rec, s')" "sd_cmd d \<noteq> []"
    using assms(2) by (auto simp: services_start_def try_then_def split: if_splits prod.splits sum.splits)
  have same: "svc_children s4 = svc_children s" "svc_rows s' = svc_rows s5" "svc_live s' = svc_live s5" "svc_children s' = svc_children s5"
    using st(3,4) fetch_same [OF st(1)] allocate_id_same [OF st(2)] fetch_or_not_found_same [OF st(6)]
    by (auto simp: same_services_def upsert_def_def try_then_def reset_restart_count_def db_update_reliable [OF assms(1)]
        db_call_reliable [OF assms(1)] split: if_splits)
  obtain started where "sw_spawn w (svc_spawns s4) = Ok started"
    using st(5,7) by (auto simp: spawn_child_def split: sum.splits)
  then have own: "svc_children s5 = svc_children (own_child w d started s4)" "svc_live s5 = svc_live (own_child w d started s4)"
    using st(5,7) by (auto simp: spawn_child_def Let_def try_then_def mark_started_def db_update_reliable [OF assms(1)])
  have "row_named (sd_name d) (svc_rows s5) \<noteq> None"
    using st(6) by (auto simp: fetch_or_not_found_def try_then_def fetch_reliable [OF assms(1)] split: option.splits prod.splits sum.splits)
  then show ?thesis using spawn_child_runs_child [OF own] same by auto
qed

text \<open>A start during the backoff leaves two processes. The record still says online, but no handle is left, so the
  request is served; when the supervisor wakes it starts another child and takes over the handle.\<close>

lemma start_during_backoff_doubles_child:
  assumes "reliable w" "reliable w1" "services_start w jc d' s1 = (Ok rec, s2)" "sd_name d' = sd_name d"
    and "sd_cmd d \<noteq> []" "sw_spawn w1 (svc_spawns s2) = Ok started"
  shows "\<exists>s3 h h'. daemon_step jc (Sleeping (sd_name d) code d others, s1) (Sleeping (sd_name d) code d others, s2) \<and>
    daemon_step jc (Sleeping (sd_name d) code d others, s2) (Looking others, s3) \<and>
    h < h' \<and> h' < length (svc_children s3) \<and> ch_exit (svc_children s3 ! h) = None \<and> ch_exit (svc_children s3 ! h') = None \<and>
    (\<exists>owned. hm_get (svc_live s3) (sd_name d) = Some owned \<and> os_process owned = h')"
proof -
  have first: "length (svc_children s2) = Suc (length (svc_children s1))"
    "ch_exit (svc_children s2 ! length (svc_children s1)) = None" "row_named (sd_name d) (svc_rows s2) \<noteq> None"
    using services_start_Ok [OF assms(1,3)] assms(4) by auto
  obtain pid s3 where s3: "spawn_child w1 d s2 = (Ok pid, s3)"
    "svc_children s3 = svc_children (own_child w1 d started s2)" "svc_live s3 = svc_live (own_child w1 d started s2)"
    by (rule spawn_child_runs [OF assms(2,5,6) first(3)])
  note own = spawn_child_runs_child [OF s3(2,3)]
  have "daemon_step jc (Sleeping (sd_name d) code d others, s2) (Looking others, s3)"
    by (rule wake [of w1 "sd_name d" code d s2 True]) (simp add: after_backoff_def s3(1))
  moreover have "daemon_step jc (Sleeping (sd_name d) code d others, s1) (Sleeping (sd_name d) code d others, s2)"
    using request [where jc = jc and v = "Sleeping (sd_name d) code d others" and op = "StartService d'" and w = w and s = s1] assms(3)
    by (simp add: is_request_def)
  moreover have "length (svc_children s1) < length (svc_children s2)" "ch_exit (svc_children s3 ! length (svc_children s1)) = None"
    using first own(5) [of "length (svc_children s1)"] by simp_all
  ultimately show ?thesis using own(1,2,3) by (intro exI [of _ s3] exI [of _ "length (svc_children s1)"] exI [of _ "length (svc_children s2)"]) auto
qed

section \<open>The restart budget\<close>

lemma checked_mul_capped: "min (case duration_checked_mul d n of None \<Rightarrow> MAX_BACKOFF | Some x \<Rightarrow> x) MAX_BACKOFF = min (d * n) MAX_BACKOFF"
  by (auto simp: duration_checked_mul_def MAX_BACKOFF_def U64_MAX_def)

lemma backoff_for_eq: "backoff_for p n = min (rp_base_delay p * 2 ^ min (unat n) 16) MAX_BACKOFF"
  by (simp only: backoff_for_def Let_def checked_mul_capped min.assoc min.idem)

lemma recipe_update [simp]:
  "recipe (row\<lparr> sr_status := st \<rparr>) = recipe row" "recipe (row\<lparr> sr_pid := p \<rparr>) = recipe row"
  "recipe (row\<lparr> sr_restart_count := n \<rparr>) = recipe row" "recipe (row\<lparr> sr_last_started_at := ts \<rparr>) = recipe row"
  "recipe (row\<lparr> sr_last_exited_at := ts \<rparr>) = recipe row" "recipe (row\<lparr> sr_last_exit_code := code \<rparr>) = recipe row"
  by (simp_all add: recipe_def)

lemma bump_restart_count_eq:
  assumes "reliable w" "row_named name (svc_rows s) = Some row"
  shows "bump_restart_count w name s =
    (Ok (if sr_restart_count row + 1 > U32_MAX then 0 else word_of_nat (sr_restart_count row + 1)),
     s\<lparr> svc_rows := update_where name (\<lambda>r. r\<lparr> sr_restart_count := sr_restart_count r + 1 \<rparr>) (svc_rows s),
       svc_db_calls := Suc (Suc (svc_db_calls s)) \<rparr>)"
  using assms(2) by (simp add: bump_restart_count_def try_then_def db_update_reliable [OF assms(1)] db_call_reliable [OF assms(1)] row_simps)

text \<open>What a tick decides about one crash.\<close>

lemma before_backoff_crash:
  assumes "reliable w" "row_named name (svc_rows s) = Some row" "sr_autorestart row" "sr_restart_count row < U32_MAX"
    and "c = (if uptime \<ge> row_min_uptime row then 0 else sr_restart_count row) + 1"
    and "before_backoff w jc (name, code, uptime, False) s = (r, s')"
  shows "svc_children s' = svc_children s \<and> svc_live s' = hm_remove name (svc_live s) \<and>
    (\<exists>row'. row_named name (svc_rows s') = Some row' \<and> recipe row' = recipe row \<and> sr_restart_count row' = c \<and>
      (if sr_max_restarts row \<noteq> 0 \<and> c > unat (sr_max_restarts row) then r = None \<and> sr_status row' = ''errored''
       else \<exists>d. r = Some (d, min (row_base_delay row * 2 ^ min (c - 1) 16) MAX_BACKOFF) \<and> sd_name d = name))"
proof -
  let ?s1 = "s\<lparr> svc_live := hm_remove name (svc_live s) \<rparr>"
  have "row_to_record jc row \<noteq> Err e" for e using assms(4) by (simp add: row_to_record_def)
  then obtain rec where rec: "row_to_record jc row = Ok rec" by (cases "row_to_record jc row") auto
  let ?s2 = "?s1\<lparr> svc_db_calls := Suc (svc_db_calls s) \<rparr>"
  have f: "fetch w jc name ?s1 = (Ok (Some rec), ?s2)" using assms(2) rec by (simp add: fetch_reliable [OF assms(1)])
  let ?p = "policy_from_config (rec_def rec)"
  have p: "rp_autorestart ?p" "rp_max_restarts ?p = sr_max_restarts row" "rp_min_uptime ?p = row_min_uptime row" "rp_base_delay ?p = row_base_delay row"
    using rec assms(3) by (auto simp: policy_from_config_def row_to_record_def row_def_def row_min_uptime_def row_base_delay_def split: if_splits)
  define s3 where "s3 = (if uptime \<ge> rp_min_uptime ?p then snd (reset_restart_count w name ?s2) else ?s2)"
  have "\<exists>row3. row_named name (svc_rows s3) = Some row3 \<and> recipe row3 = recipe row \<and> sr_restart_count row3 + 1 = c"
    using assms(2,5) by (auto simp: s3_def p(3) reset_restart_count_def db_update_reliable [OF assms(1)] row_simps)
  then obtain row3 where row3: "row_named name (svc_rows s3) = Some row3" "recipe row3 = recipe row" "sr_restart_count row3 + 1 = c" by blast
  have s3: "svc_children s3 = svc_children s" "svc_live s3 = hm_remove name (svc_live s)"
    by (simp_all add: s3_def reset_restart_count_def db_update_reliable [OF assms(1)])
  have c: "c \<le> U32_MAX" "0 < c" using assms(4,5) by auto
  then have u: "unat (word_of_nat c :: u32) = c" by (simp add: U32_MAX_def unat_of_nat)
  let ?s4 = "s3\<lparr> svc_rows := update_where name (\<lambda>r. r\<lparr> sr_restart_count := sr_restart_count r + 1 \<rparr>) (svc_rows s3),
       svc_db_calls := Suc (Suc (svc_db_calls s3)) \<rparr>"
  have b: "bump_restart_count w name s3 = (Ok (word_of_nat c), ?s4)"
    using bump_restart_count_eq [OF assms(1) row3(1), unfolded row3(3)] c(1) by simp
  have gt: "(word_of_nat c > sr_max_restarts row) = (c > unat (sr_max_restarts row))"
    by (simp add: word_less_nat_alt u)
  have ne: "(word_of_nat c :: u32) \<noteq> 0" using c(2) u by (metis less_irrefl unat_0)
  have less: "unat ((word_of_nat c :: u32) - 1) = c - 1" using ne u by (metis unat_minus_one)
  have row4: "\<exists>row4. row_named name (svc_rows ?s4) = Some row4 \<and> recipe row4 = recipe row \<and> sr_restart_count row4 = c"
    using row3 by (auto simp: row_simps)
  note bb = assms(6) [unfolded before_backoff_def prod.case Let_def f sum.case option.case, folded s3_def, unfolded b prod.case sum.case p(2)]
  show ?thesis
    using bb p(1) gt row4 s3 ne less p(4) row_to_record_Ok [OF rec] row_named_Some [OF assms(2)]
    by (auto simp: mark_exited_def db_update_reliable [OF assms(1)] row_simps backoff_for_eq split: if_splits)
qed

lemma length_children_of: "length (children_of name s) = count_list (map ch_service (svc_children s)) name"
proof -
  have "length (filter (\<lambda>c. ch_service c = name) cs) = count_list (map ch_service cs) name" for cs
    by (induction cs) auto
  then show ?thesis by (simp add: children_of_def)
qed

lemma set_exit_services:
  assumes "h < length (svc_children s)"
  shows "map ch_service (svc_children (set_exit h code s)) = map ch_service (svc_children s)"
proof -
  have "map ch_service (svc_children (set_exit h code s)) = (map ch_service (svc_children s))[h := ch_service (svc_children s ! h)]"
    by (simp add: set_exit_def map_update)
  also have "\<dots> = map ch_service (svc_children s)" using assms by (metis list_update_id nth_map)
  finally show ?thesis .
qed

lemma supervise_notes_append:
  "supervise_notes w jc (xs @ ys) n s = (case supervise_notes w jc xs n s of (n1, s1) \<Rightarrow> supervise_notes w jc ys n1 s1)"
  by (induction xs arbitrary: n s) (simp_all split: option.splits prod.splits)

lemma untouched_within_budget: "untouched name s s' \<Longrightarrow> within_budget name m k rcp s' = within_budget name m k rcp s"
  by (simp add: untouched_def within_budget_def)

lemma after_backoff_children:
  assumes "reliable w" "sd_name d = name" "after_backoff w name code d s = (restarted, s')" "row_named name (svc_rows s) = Some row"
  shows "length (children_of name s') \<le> Suc (length (children_of name s)) \<and>
    (\<exists>row'. row_named name (svc_rows s') = Some row' \<and> recipe row' = recipe row \<and> sr_restart_count row' = sr_restart_count row)"
  using assms(2-4)
  by (cases "sd_cmd d = []"; cases "sw_spawn w (svc_spawns s)")
    (auto simp: after_backoff_def spawn_child_def Let_def try_then_def mark_started_def mark_exited_def own_child_def
      db_update_reliable [OF assms(1)] row_simps children_of_def)

lemma supervise_note_within_budget:
  assumes "reliable w" "within_budget name m k (True, mr, dl, mu) s" "m = unat mr" "mr \<noteq> 0" "m < U32_MAX"
    and "hm_get (svc_live s) name \<noteq> None" "row_named name (svc_rows s) = Some row" "uptime < row_min_uptime row"
    and "supervise_notes w jc [(name, code, uptime, False)] n s = (n', s')"
  shows "within_budget name m k (True, mr, dl, mu) s'"
proof -
  have row: "recipe row = (True, mr, dl, mu)" "length (children_of name s) \<le> k + min (sr_restart_count row) m" "sr_restart_count row \<le> m"
    using assms(2,6,7) by (auto simp: within_budget_def)
  obtain r s1 where b: "before_backoff w jc (name, code, uptime, False) s = (r, s1)" by fastforce
  have "sr_autorestart row" "sr_max_restarts row = mr" using row(1) by (auto simp: recipe_def)
  note crash = before_backoff_crash [OF assms(1,7) \<open>sr_autorestart row\<close> _ refl b]
  have "sr_restart_count row < U32_MAX" using row(3) assms(5) by simp
  from crash [OF this] obtain row' where s1: "svc_children s1 = svc_children s" "svc_live s1 = hm_remove name (svc_live s)"
    "row_named name (svc_rows s1) = Some row'" "recipe row' = recipe row" "sr_restart_count row' = Suc (sr_restart_count row)"
    "if sr_max_restarts row \<noteq> 0 \<and> Suc (sr_restart_count row) > m then r = None \<and> sr_status row' = ''errored'' else \<exists>d delay. r = Some (d, delay) \<and> sd_name d = name"
    using assms(3,8) \<open>sr_max_restarts row = mr\<close> by (cases r) (auto split: if_splits)
  show ?thesis
  proof (cases "Suc (sr_restart_count row) > m")
    case True
    then have "sr_restart_count row' = Suc m" "r = None" "sr_status row' = ''errored''" using s1 row(3) assms(4) \<open>sr_max_restarts row = mr\<close> by auto
    then show ?thesis using assms(9) b s1 row by (auto simp: within_budget_def children_of_def hm_simps)
  next
    case False
    then obtain d delay where d: "r = Some (d, delay)" "sd_name d = name" using s1(6) by auto
    obtain restarted s2 where a: "after_backoff w name code d s1 = (restarted, s2)" by fastforce
    have "s' = s2" using assms(9) b d a by simp
    then show ?thesis using after_backoff_children [OF assms(1) d(2) a s1(3)] s1 row False
      by (auto simp: within_budget_def children_of_def)
  qed
qed

lemma supervise_tick_within_budget:
  assumes "reliable w" "svc_inv {} s" "within_budget name m k (True, mr, dl, mu) s" "m = unat mr" "mr \<noteq> 0" "m < U32_MAX"
    and "\<And>owned row. hm_get (svc_live s) name = Some owned \<Longrightarrow> row_named name (svc_rows s) = Some row \<Longrightarrow>
      sw_now w - os_started_at owned < row_min_uptime row"
    and "supervise_tick w jc s = (n, s')"
  shows "within_budget name m k (True, mr, dl, mu) s'"
proof (cases "name \<in> fst ` set (exited_children w s)")
  case False
  then have "untouched name s s'" using supervise_notes_untouched assms(8) unfolding supervise_tick_def by blast
  then show ?thesis using untouched_within_budget assms(3) by blast
next
  case True
  then obtain x where x: "x \<in> set (exited_children w s)" "fst x = name" by blast
  obtain owned code where xe: "hm_get (svc_live s) name = Some owned" "x = (name, code, sw_now w - os_started_at owned, False)"
    using x svc_invD(3,6) [OF assms(2)] by (auto elim!: exited_childrenD simp: hm_get_def hm_ok_def)
  obtain xs ys where ns: "exited_children w s = xs @ x # ys" using x(1) by (meson split_list)
  have "distinct (map fst (exited_children w s))" using exited_children_notes [OF assms(2)] by (simp add: notes_exited_def)
  then have others: "name \<notin> fst ` set xs" "name \<notin> fst ` set ys" using ns x(2) by auto
  obtain n1 s1 where s1: "supervise_notes w jc xs 0 s = (n1, s1)" by fastforce
  obtain n2 s2 where s2: "supervise_notes w jc [x] n1 s1 = (n2, s2)" by fastforce
  have s3: "supervise_notes w jc ys n2 s2 = (n, s')"
    using assms(8) ns s1 s2 supervise_notes_append [of w jc xs "[x] @ ys"] supervise_notes_append [of w jc "[x]" ys]
    by (simp add: supervise_tick_def del: supervise_notes.simps)
  have u1: "untouched name s s1" by (rule supervise_notes_untouched [OF others(1) s1])
  obtain row where row: "row_named name (svc_rows s) = Some row" using assms(3) by (auto simp: within_budget_def)
  have b1: "within_budget name m k (True, mr, dl, mu) s1" "hm_get (svc_live s1) name \<noteq> None" "row_named name (svc_rows s1) = Some row"
    using untouched_within_budget [OF u1] assms(3) u1 xe(1) row by (simp_all add: untouched_def)
  have "within_budget name m k (True, mr, dl, mu) s2"
    by (rule supervise_note_within_budget [OF assms(1) b1(1) assms(4-6) b1(2,3) assms(7) [OF xe(1) row] s2 [unfolded xe(2)]])
  then show ?thesis using untouched_within_budget supervise_notes_untouched [OF others(2) s3] by blast
qed

lemma on_its_own_within_budget:
  assumes "\<forall>(w, op) \<in> set ops. reliable w \<and> on_its_own op" "rapid_run jc name ops s" "svc_inv {} s"
    and "within_budget name m k (True, mr, dl, mu) s" "m = unat mr" "mr \<noteq> 0" "m < U32_MAX"
  shows "within_budget name m k (True, mr, dl, mu) (service_run jc ops s)"
  using assms(1-4)
proof (induction ops arbitrary: s)
  case (Cons x ops)
  obtain w op where x: "x = (w, op)" by fastforce
  have w: "reliable w" "on_its_own op" using Cons(2) x by auto
  have "within_budget name m k (True, mr, dl, mu) (service_step jc (w, op) s)"
  proof (cases op)
    case SupervisorTick
    obtain n s' where t: "supervise_tick w jc s = (n, s')" by fastforce
    have "sw_now w - os_started_at owned < row_min_uptime row"
      if "hm_get (svc_live s) name = Some owned" "row_named name (svc_rows s) = Some row" for owned row
      using Cons(3) x SupervisorTick that by simp
    from supervise_tick_within_budget [OF w(1) Cons(4,5) assms(5-7) this t] show ?thesis using t SupervisorTick by simp
  next
    case SaveServices
    then show ?thesis using untouched_within_budget [OF same_untouched [OF save_snapshot_same]] Cons(5) by simp
  next
    case (ChildExits h code)
    then show ?thesis using Cons(5) set_exit_services [of h s code] by (simp add: within_budget_def length_children_of)
  qed (use w(2) in simp_all)
  moreover have "svc_inv {} (service_step jc (w, op) s)" by (rule service_step_inv [OF w(1) Cons(4)])
  ultimately show ?case using Cons(1) [of "service_step jc (w, op) s"] Cons(2,3) x by (simp add: service_run_def)
qed (simp add: service_run_def)

lemma row_def_new: "codec_ok jc d \<Longrightarrow> row_def jc (def_columns jc d (default_row i (sd_name d))) = d"
  by (auto simp: codec_ok_def row_def_def def_columns_def default_row_def)

lemma defs_of_update:
  assumes "\<And>r. sr_id (f r) = sr_id r" "\<And>r. row_def jc (f r) = row_def jc r" "svc_rows s' = update_where name f (svc_rows s)"
  shows "defs_of jc s' = defs_of jc s"
  unfolding defs_of_def assms(3) update_where_def using assms(1,2) by (simp add: comp_def)

lemma spawn_child_defs:
  assumes "reliable w" "spawn_child w d s = (r, s')"
  shows "defs_of jc s' = defs_of jc s \<and> map sr_restart_count (svc_rows s') = map sr_restart_count (svc_rows s) \<and>
    (\<forall>n. n \<noteq> sd_name d \<longrightarrow> hm_get (svc_live s') n = hm_get (svc_live s) n) \<and>
    ((\<forall>n. is_ok (sw_spawn w n)) \<longrightarrow> is_ok r = (sd_cmd d \<noteq> []))"
proof (cases "sd_cmd d = [] \<or> \<not> is_ok (sw_spawn w (svc_spawns s))")
  case True
  then show ?thesis using assms(2) by (cases "sw_spawn w (svc_spawns s)") (auto simp: spawn_child_def defs_of_def split: if_splits dest: spec [of _ "svc_spawns s"])
next
  case False
  then obtain started where started: "sw_spawn w (svc_spawns s) = Ok started" by (cases "sw_spawn w (svc_spawns s)") auto
  let ?f = "\<lambda>r :: service_row. r\<lparr> sr_status := ''online'', sr_pid := case started of None \<Rightarrow> 0 | Some p \<Rightarrow> p, sr_last_started_at := sw_unix_now w (svc_db_calls s) \<rparr>"
  have s': "svc_rows s' = update_where (sd_name d) ?f (svc_rows s)" "svc_live s' = svc_live (own_child w d started s)" "is_ok r"
    using assms(2) False started
    by (auto simp: spawn_child_def Let_def try_then_def mark_started_def db_update_reliable [OF assms(1)] own_child_def)
  have "defs_of jc s' = defs_of jc s" by (rule defs_of_update [OF _ _ s'(1)]) (simp_all add: row_def_def)
  moreover have "map sr_restart_count (svc_rows s') = map sr_restart_count (svc_rows s)" by (simp add: s'(1) update_where_def)
  ultimately show ?thesis using False s'(2,3) by (simp add: own_child_def hm_simps)
qed

lemma defs_of_names: "map sr_name (svc_rows s) = map (sd_name \<circ> snd) (defs_of jc s)" "map sr_id (svc_rows s) = map fst (defs_of jc s)"
  by (simp_all add: defs_of_def row_def_def)

lemma resurrect_entries_fresh:
  assumes "reliable w" "\<forall>e \<in> set es. ss_id e \<noteq> 0 \<and> codec_ok jc (to_def e) \<and> hm_get (svc_live s) (ss_name e) = None"
    and "distinct (map fst (defs_of jc s) @ map ss_id es)" "distinct (map (sd_name \<circ> snd) (defs_of jc s) @ map ss_name es)"
    and "\<forall>r \<in> set (svc_rows s). sr_restart_count r = 0" "resurrect_entries w jc es a b s = ((a', b'), s')"
  shows "a' = a + length es \<and> defs_of jc s' = defs_of jc s @ map (\<lambda>e. (ss_id e, to_def e)) es \<and> (\<forall>r \<in> set (svc_rows s'). sr_restart_count r = 0) \<and>
    ((\<forall>n. is_ok (sw_spawn w n)) \<longrightarrow> b' = b + length (filter (\<lambda>e. ss_status e = ''online'' \<and> ss_cmd e \<noteq> []) es))"
  using assms(2-6)
proof (induction es arbitrary: a b s)
  case (Cons e es)
  let ?d = "to_def e" and ?s1 = "s\<lparr> svc_next_id := max (svc_next_id s) (ss_id e + 1) \<rparr>"
  let ?row = "def_columns jc ?d (default_row (ss_id e) (sd_name ?d))"
  let ?s2 = "s\<lparr> svc_next_id := max (svc_next_id s) (ss_id e + 1), svc_db_calls := Suc (svc_db_calls s), svc_rows := svc_rows s @ [?row] \<rparr>"
  have name: "sd_name ?d = ss_name e" by (simp add: to_def_def)
  have new: "ss_name e \<notin> sr_name ` set (svc_rows s)" "ss_id e \<notin> sr_id ` set (svc_rows s)"
    using Cons(3,4) defs_of_names [of s jc] by (metis (no_types, lifting) append_Cons disjoint_iff distinct_append list.set_intros(1) list.simps(9) set_map)+
  have u: "upsert_def w jc ?d (ss_id e) ?s1 = (Ok (), ?s2)"
    using new by (simp add: upsert_def_def try_then_def db_call_reliable [OF assms(1)] name row_named_None)
  have d2: "defs_of jc ?s2 = defs_of jc s @ [(ss_id e, ?d)]" using Cons(2) row_def_new [of jc ?d] by (simp add: defs_of_def)
  have step: "resurrect_entries w jc (e # es) a b s = (if ss_status e = ''online''
      then (case spawn_child w ?d ?s2 of (Err _, s3) \<Rightarrow> resurrect_entries w jc es (a + 1) b s3 | (Ok _, s3) \<Rightarrow> resurrect_entries w jc es (a + 1) (b + 1) s3)
      else resurrect_entries w jc es (a + 1) b ?s2)"
    using u Cons(2) by (simp add: is_live_def name Let_def)
  show ?case
  proof (cases "ss_status e = ''online''")
    case True
    obtain r s3 where sp: "spawn_child w ?d ?s2 = (r, s3)" by fastforce
    note sd = spawn_child_defs [OF assms(1) sp, of jc]
    have d3: "defs_of jc s3 = defs_of jc s @ [(ss_id e, ?d)]" using sd d2 by simp
    have "set (map sr_restart_count (svc_rows s3)) \<subseteq> {0}" using sd Cons(5) by (auto simp: def_columns_def default_row_def)
    then have z: "\<forall>r \<in> set (svc_rows s3). sr_restart_count r = 0" by auto
    have l: "\<forall>x \<in> set es. ss_id x \<noteq> 0 \<and> codec_ok jc (to_def x) \<and> hm_get (svc_live s3) (ss_name x) = None"
      using Cons(2,4) sd name by (auto simp: image_iff)
    have "distinct (map fst (defs_of jc s3) @ map ss_id es)" "distinct (map (sd_name \<circ> snd) (defs_of jc s3) @ map ss_name es)"
      using Cons(3,4) by (auto simp: d3 name comp_def)
    note ih = Cons(1) [OF l this z, of "a + 1" "if is_ok r then b + 1 else b"]
    show ?thesis using ih Cons(6) step True sp sd d3 by (cases r) (auto simp: to_def_def)
  next
    case False
    have "distinct (map fst (defs_of jc ?s2) @ map ss_id es)" "distinct (map (sd_name \<circ> snd) (defs_of jc ?s2) @ map ss_name es)"
      unfolding d2 using Cons(3,4) by (auto simp: name comp_def)
    moreover have "\<forall>r \<in> set (svc_rows ?s2). sr_restart_count r = 0" using Cons(5) by simp
    moreover have "\<forall>x \<in> set es. ss_id x \<noteq> 0 \<and> codec_ok jc (to_def x) \<and> hm_get (svc_live ?s2) (ss_name x) = None" using Cons(2) by simp
    moreover have "resurrect_entries w jc es (a + 1) b ?s2 = ((a', b'), s')" using step False Cons(6) by presburger
    ultimately have "a' = a + 1 + length es \<and> defs_of jc s' = defs_of jc ?s2 @ map (\<lambda>e. (ss_id e, to_def e)) es \<and> (\<forall>r \<in> set (svc_rows s'). sr_restart_count r = 0) \<and>
      ((\<forall>n. is_ok (sw_spawn w n)) \<longrightarrow> b' = b + length (filter (\<lambda>e. ss_status e = ''online'' \<and> ss_cmd e \<noteq> []) es))"
      by (intro Cons(1))
    then show ?thesis unfolding d2 using False by simp
  qed
qed simp

lemma collect_records:
  assumes "collect_results (map (row_to_record jc) rows) = Ok recs"
  shows "map (\<lambda>r. (rec_id r, rec_def r)) recs = map (\<lambda>r. (sr_id r, row_def jc r)) rows"
  using assms by (induction rows arbitrary: recs) (auto simp: row_to_record_def split: if_splits)

lemma collect_records_Ok:
  assumes "\<forall>r \<in> set rows. sr_restart_count r = 0"
  shows "\<exists>recs. collect_results (map (row_to_record jc) rows) = Ok recs"
  using assms by (induction rows) (auto simp: row_to_record_def)

lemma from_record_sel [simp]:
  "to_def (from_record r) = rec_def r" "ss_id (from_record r) = rec_id r" "ss_name (from_record r) = sd_name (rec_def r)"
  "ss_cmd (from_record r) = sd_cmd (rec_def r)" "(ss_status (from_record r) = ''online'') = (rec_status r = Online)"
  by (simp_all add: from_record_def to_def_def) (cases "rec_status r"; simp)

lemma sort_key_sorted: "sorted (map f xs) \<Longrightarrow> sort_key f xs = xs"
  by (induction xs) (auto simp: insort_is_Cons)

text \<open>What a saved snapshot holds.\<close>

lemma save_snapshot_file:
  assumes "reliable w" "save_snapshot w jc s = (Ok (path, n), s1)" "services_list w jc s = (Ok recs, s0)"
  shows "path = svc_snapshot_path s \<and> svc_snapshot_path s1 = path \<and>
    (\<exists>json. svc_files s1 path = Some json \<and> jc_snapshot_to jc \<lparr> se_version = SNAPSHOT_VERSION,
      se_saved_at_ms = word_of_nat (sw_unix_millis w), se_services = map from_record recs \<rparr> = Ok json)"
proof -
  have "svc_snapshot_path s0 = svc_snapshot_path s"
    using assms(3) by (auto simp: services_list_def try_then_def db_call_reliable [OF assms(1)])
  then show ?thesis using assms(2,3)
    by (auto simp: save_snapshot_def try_then_def Let_def file_step_def put_file_def split: sum.splits option.splits if_splits)
qed

lemma services_open_fresh:
  assumes "services_open w parent log_dir [] files = Ok s"
  shows "svc_rows s = [] \<and> svc_live s = hm_empty \<and> svc_files s = files"
  using assms by (auto simp: services_open_def Let_def try_then_def db_call_def db_update_def split: option.splits)

lemma sample_reliable [simp]: "reliable sample_service_world"
  by (simp add: reliable_def sample_service_world_def)

lemma sample_open: "services_open sample_service_world ''/d'' ''/l'' [] (\<lambda>_. None) = Ok sample_opened"
  by (simp add: services_open_def Let_def try_then_def db_call_def db_update_def sample_service_world_def sample_opened_def path_join_def
      SNAPSHOT_FILE_NAME_def)

lemma sample_reached: "reached sample_json sample_opened" "reached sample_json sample_started"
proof -
  show "reached sample_json sample_opened" by (rule reached.opened [OF sample_open]) simp_all
  then show "reached sample_json sample_started" unfolding sample_started_def by (rule reached.stepped) simp
qed

lemma sample_service_sel [simp]:
  "sw_spawn sample_service_world n = Ok (Some (100 + word_of_nat n))" "sw_started_at sample_service_world n = 0"
  "\<not> sw_poll_fails sample_service_world h" "sw_kill sample_service_world h = Some (- 9)" "sw_soft sample_service_world h grace = None"
  "sw_unix_now sample_service_world n = 7" "sw_now sample_service_world = 1"
  by (simp_all add: sample_service_world_def)

lemma sample_web_sel [simp]:
  "sd_name sample_web = ''web''" "sd_cmd sample_web = [''serve'']" "sd_cwd sample_web = []" "sd_env sample_web = []" "sd_autorestart sample_web"
  "sd_max_restarts sample_web = 2" "sd_restart_delay_ms sample_web = 0" "sd_kill_timeout_ms sample_web = 0" "sd_min_uptime_ms sample_web = 0"
  by (simp_all add: sample_web_def)

text \<open>Evaluation of the operations.\<close>

lemmas service_eval =
  services_start_def try_then_def fetch_reliable [OF sample_reliable] allocate_id_def fetch_or_not_found_def upsert_def_def
  db_call_reliable [OF sample_reliable] db_update_reliable [OF sample_reliable] reset_restart_count_def spawn_child_def own_child_def
  mark_started_def mark_exited_def set_status_def row_named_def update_where_def row_to_record_def row_def_def def_columns_def default_row_def
  is_live_def poll_child_def hm_get_def hm_insert_def hm_remove_def hm_empty_def Let_def

lemma sample_started_eq: "sample_started = sample_opened\<lparr> svc_rows := [def_columns sample_json sample_web (default_row 1 ''web'')
      \<lparr> sr_status := ''online'', sr_pid := 100, sr_last_started_at := 7 \<rparr>],
    svc_live := [(''web'', \<lparr> os_process = 0, os_started_at = 0, os_intentional_stop = False \<rparr>)], svc_next_id := 2,
    svc_children := [\<lparr> ch_service = ''web'', ch_command = [''serve''], ch_cwd = None, ch_env = None, ch_pid = Some 100, ch_exit = None \<rparr>],
    svc_db_calls := 11, svc_spawns := 1 \<rparr>"
  by (simp add: sample_started_def service_eval sample_opened_def sample_json_def U32_MAX_def)

lemma sample_targets: "targets sample_service_world sample_json ''web'' s = (case row_named ''web'' (svc_rows s) of
    Some row \<Rightarrow> (Ok [''web''], s\<lparr> svc_db_calls := Suc (svc_db_calls s) \<rparr>)
  | None \<Rightarrow> (Err (ServiceNotFound ''web''), s\<lparr> svc_db_calls := Suc (svc_db_calls s) \<rparr>))"
proof -
  have "parse_u32 ''web'' = None" by code_simp
  then show ?thesis using row_named_Some [of "''web''" "svc_rows s"]
    by (auto simp: targets_def resolve_target_def query_name_def db_call_reliable row_named_def split: option.splits)
qed

lemma sample_started_row: "\<exists>row. row_named ''web'' (svc_rows sample_started) = Some row \<and> sr_autorestart row \<and> sr_restart_count row = 0 \<and>
    sr_max_restarts row = 2 \<and> sr_min_uptime_ms row = 0"
  by (simp add: sample_started_eq row_named_def def_columns_def default_row_def)

lemma sample_backoff:
  "\<exists>delay s1. before_backoff sample_service_world sample_json (''web'', 1, 1, False) sample_crashed = (Some (sample_web, delay), s1) \<and>
    row_named ''web'' (svc_rows s1) \<noteq> None"
proof -
  obtain row where row: "row_named ''web'' (svc_rows sample_crashed) = Some row" "sr_autorestart row" "sr_restart_count row = 0"
    "sr_max_restarts row = 2" "sr_min_uptime_ms row = 0" "row_def sample_json row = sample_web"
    by (simp add: sample_crashed_def sample_started_eq row_named_def row_def_def def_columns_def default_row_def sample_json_def sample_web_def)
  have rec: "fetch sample_service_world sample_json ''web'' (sample_crashed\<lparr> svc_live := l \<rparr>) = (Ok (Some rec), s2) \<Longrightarrow> rec_def rec = sample_web" for l rec s2
    using row(1,6) by (auto simp: fetch_reliable row_to_record_def split: if_splits)
  obtain r s1 where b: "before_backoff sample_service_world sample_json (''web'', 1, 1, False) sample_crashed = (r, s1)" by fastforce
  have "sr_restart_count row < U32_MAX" "1 = (if row_min_uptime row \<le> 1 then 0 else sr_restart_count row) + 1"
    using row(3,5) by (simp_all add: row_min_uptime_def U32_MAX_def)
  from before_backoff_crash [OF sample_reliable row(1,2) this b] have "\<exists>d delay. r = Some (d, delay)" using row(4) by auto
  then obtain d delay where r: "r = Some (d, delay)" by blast
  have "d = sample_web"
    using b r rec by (auto simp: before_backoff_def Let_def split: sum.splits option.splits prod.splits if_splits)
  then show ?thesis using b r before_backoff_Some [OF sample_reliable] by blast
qed

lemma sample_list: "services_list sample_service_world sample_json sample_started = (Ok [sample_rec], sample_started\<lparr> svc_db_calls := 12 \<rparr>)"
  by (simp add: services_list_def try_then_def db_call_reliable sample_started_eq row_to_record_def row_def_def def_columns_def default_row_def
      sample_json_def sample_rec_def sample_web_def status_from_str_def U32_MAX_def)

lemma sample_envelope_eq: "\<lparr> se_version = SNAPSHOT_VERSION, se_saved_at_ms = word_of_nat (sw_unix_millis sample_service_world),
    se_services = map from_record [sample_rec] \<rparr> = sample_envelope"
  by (simp add: sample_envelope_def SNAPSHOT_VERSION_def sample_service_world_def from_record_def sample_rec_def)

lemma sample_save: "\<exists>s1. save_snapshot sample_service_world sample_json sample_started = (Ok (''/d/services.snapshot.json'', 1), s1)"
proof -
  have f: "sw_file_fails sample_service_world op path = None" for op path by (simp add: sample_service_world_def)
  have j: "jc_snapshot_to sample_json sample_envelope = Ok ''{}''" by (simp add: sample_json_def)
  show ?thesis
    unfolding save_snapshot_def Let_def sample_list try_then_def prod.case sum.case sample_envelope_eq j
    by (simp add: file_step_def f put_file_def sample_started_eq sample_opened_def)
qed

lemma sample_reopen:
  "\<exists>s. services_open sample_service_world ''/d'' ''/l'' [] files = Ok s \<and> svc_snapshot_path s = ''/d/services.snapshot.json''"
  by (simp add: services_open_def Let_def try_then_def db_call_reliable db_update_reliable path_join_def SNAPSHOT_FILE_NAME_def)

section \<open>Properties\<close>

text \<open>C12: One process per service. Over any sequence of requests, whole ticks and exits of children, on a host whose
  statements succeed and whose kills end a child, every running child is the one its service owns; the service is
  recorded as online with that child's pid, and no other child of the service runs.\<close>

theorem one_child_per_service:
  assumes "reached jc s" "h < length (svc_children s)" "ch_exit (svc_children s ! h) = None" "name = ch_service (svc_children s ! h)"
  shows "(\<exists>owned row. hm_get (svc_live s) name = Some owned \<and> os_process owned = h \<and> row_named name (svc_rows s) = Some row \<and>
      sr_status row = ''online'' \<and> sr_pid row = child_pid (svc_children s ! h)) \<and>
    (\<forall>h' < length (svc_children s). ch_exit (svc_children s ! h') = None \<and> ch_service (svc_children s ! h') = name \<longrightarrow> h' = h)"
proof -
  note inv = reached_inv [OF assms(1)]
  obtain owned where owned: "hm_get (svc_live s) name = Some owned" "os_process owned = h"
    using svc_invD(7) [OF inv assms(2,3)] assms(4) by blast
  have "h' = h" if "h' < length (svc_children s)" "ch_exit (svc_children s ! h') = None" "ch_service (svc_children s ! h') = name" for h'
    using svc_invD(7) [OF inv that(1,2)] that(3) owned by auto
  then show ?thesis using owned svc_invD(8) [OF inv owned(1)] by auto
qed

theorem one_child_per_service_witness:
  "\<exists>owned row. hm_get (svc_live sample_started) ''web'' = Some owned \<and> os_process owned = 0 \<and>
    row_named ''web'' (svc_rows sample_started) = Some row \<and> sr_status row = ''online'' \<and> sr_pid row = 100"
proof -
  have "0 < length (svc_children sample_started)" "ch_exit (svc_children sample_started ! 0) = None"
    "''web'' = ch_service (svc_children sample_started ! 0)" "child_pid (svc_children sample_started ! 0) = 100"
    by (simp_all add: sample_started_eq child_pid_def)
  from one_child_per_service [OF sample_reached(2) this(1-3)] this(4) show ?thesis by metis
qed

text \<open>C13: A stop is final for the supervisor. When a stop request for a service has been served between ticks,
  no tick and no exit of a child changes the record of the service, which says stopped, and no child of
  the service runs, until an operator asks for it again.\<close>

theorem stopped_stays_stopped:
  assumes "reached jc s" "reliable w" "targets w jc target s = (Ok [name], s0)" "services_stop w jc target s = (Ok n, s1)"
    and "\<forall>(w, op) \<in> set ops. on_its_own op" "row_named name (svc_rows s) = Some row" "s2 = service_run jc ops s1"
  shows "(\<exists>row'. row_named name (svc_rows s2) = Some row' \<and> sr_status row' = ''stopped'' \<and> sr_pid row' = 0) \<and>
    (\<forall>c \<in> set (children_of name s2). ch_exit c \<noteq> None)"
proof -
  note inv = reached_inv [OF assms(1)]
  have inv0: "svc_inv {} s0" "row_named name (svc_rows s0) = Some row"
    using inv assms(6) targets_same [OF assms(3)] svc_inv_same [OF targets_same [OF assms(3)], of "{}"] by (simp_all add: same_services_def)
  obtain b where so: "stop_one w jc name Stopped s0 = (b, s1)"
    using assms(3,4) by (cases "stop_one w jc name Stopped s0") (auto simp: services_stop_def try_then_def)
  note st = stop_one_inv [OF assms(2) inv0(1) _ so, simplified]
  have "\<exists>row'. row_named name (svc_rows s1) = Some row' \<and> sr_status row' = ''stopped'' \<and> sr_pid row' = 0"
    using stop_one_row [OF assms(2) inv0(2) so] by simp
  moreover have "ch_exit c \<noteq> None" if c: "c \<in> set (children_of name s1)" for c
  proof -
    obtain h where h: "h < length (svc_children s1)" "svc_children s1 ! h = c" "ch_service c = name"
      using c by (auto simp: children_of_def in_set_conv_nth)
    show ?thesis using svc_invD(7) [OF conjunct1 [OF st] h(1)] h st by auto
  qed
  ultimately show ?thesis using on_its_own_run [OF assms(5), of s1 name jc] st assms(7) by auto
qed

theorem stopped_stays_stopped_witness:
  "\<exists>row. row_named ''web'' (svc_rows (service_run sample_json [(sample_service_world, SupervisorTick)] sample_stopped)) = Some row \<and>
    sr_status row = ''stopped''"
proof -
  obtain row where row: "row_named ''web'' (svc_rows sample_started) = Some row" using sample_started_row by blast
  then have t: "targets sample_service_world sample_json ''web'' sample_started =
      (Ok [''web''], sample_started\<lparr> svc_db_calls := Suc (svc_db_calls sample_started) \<rparr>)" by (simp add: sample_targets)
  then have "\<exists>n. services_stop sample_service_world sample_json ''web'' sample_started = (Ok n, sample_stopped)"
    by (simp add: sample_stopped_def services_stop_def try_then_def split: prod.split)
  then obtain n where n: "services_stop sample_service_world sample_json ''web'' sample_started = (Ok n, sample_stopped)" by blast
  have "\<forall>(w, op) \<in> set [(sample_service_world, SupervisorTick)]. on_its_own op" by simp
  from stopped_stays_stopped [OF sample_reached(2) sample_reliable t n this row refl] show ?thesis by blast
qed

text \<open>C16: A stop during the backoff is undone. The supervisor gives up the handle of a crashed service before it
  sleeps. A stop request that is served meanwhile finds nothing to stop and records the service as
  stopped; when the supervisor wakes, it starts the service and records it as online.\<close>

theorem stop_during_backoff_is_undone:
  assumes "reliable w0" "reliable w" "reliable w1"
    and "before_backoff w0 jc (name, code, uptime, False) s = (Some (d, delay), s1)"
    and "targets w jc target s1 = (Ok [name], s1')" "sd_cmd d \<noteq> []" "sw_spawn w1 (svc_spawns s1) = Ok started"
  shows "\<exists>s2 s3 row row' owned.
    daemon_step jc (Looking ((name, code, uptime, False) # others), s) (Sleeping name code d others, s1) \<and>
    services_stop w jc target s1 = (Ok 0, s2) \<and>
    daemon_step jc (Sleeping name code d others, s1) (Sleeping name code d others, s2) \<and>
    row_named name (svc_rows s2) = Some row \<and> sr_status row = ''stopped'' \<and>
    daemon_step jc (Sleeping name code d others, s2) (Looking others, s3) \<and>
    row_named name (svc_rows s3) = Some row' \<and> sr_status row' = ''online'' \<and>
    hm_get (svc_live s3) name = Some owned \<and> ch_exit (svc_children s3 ! os_process owned) = None"
proof -
  note bb = before_backoff_Some [OF assms(1,4)]
  have s1': "hm_get (svc_live s1') name = None" "row_named name (svc_rows s1') \<noteq> None" "svc_spawns s1' = svc_spawns s1"
    using bb targets_same [OF assms(5)] by (simp_all add: same_services_def)
  define s2 where "s2 = snd (set_status w name Stopped 0 s1')"
  have stop: "services_stop w jc target s1 = (Ok 0, s2)"
    using assms(5) s1' by (simp add: services_stop_def try_then_def stop_one_def s2_def)
  obtain row where row: "row_named name (svc_rows s2) = Some row" "sr_status row = ''stopped''"
    using s1'(2) by (auto simp: s2_def set_status_def db_update_reliable [OF assms(2)] row_simps)
  have sp: "sw_spawn w1 (svc_spawns s2) = Ok started" "row_named (sd_name d) (svc_rows s2) \<noteq> None"
    using assms(7) s1'(3) row bb by (simp_all add: s2_def set_status_def db_update_reliable [OF assms(2)])
  obtain pid s3 where s3: "spawn_child w1 d s2 = (Ok pid, s3)" "\<exists>row. row_named (sd_name d) (svc_rows s3) = Some row \<and> sr_status row = ''online''"
    "svc_children s3 = svc_children (own_child w1 d started s2)" "svc_live s3 = svc_live (own_child w1 d started s2)"
    by (rule spawn_child_runs [OF assms(3,6) sp])
  have "daemon_step jc (Sleeping name code d others, s2) (Looking others, s3)"
    by (rule wake [of w1 name code d s2 True]) (simp add: after_backoff_def s3(1))
  moreover have "daemon_step jc (Looking ((name, code, uptime, False) # others), s) (Sleeping name code d others, s1)"
    using backoff [OF assms(4)] by simp
  moreover have "daemon_step jc (Sleeping name code d others, s1) (Sleeping name code d others, s2)"
    using request [where jc = jc and v = "Sleeping name code d others" and op = "StopService target" and w = w and s = s1] stop by (simp add: is_request_def)
  ultimately show ?thesis using stop row s3(2) spawn_child_runs_child(1,3) [OF s3(3,4)] bb by auto
qed

theorem stop_during_backoff_is_undone_witness:
  "\<exists>s1 s2 s3 row row'. daemon_step sample_json (Looking [(''web'', 1, 1, False)], sample_crashed) (Sleeping ''web'' 1 sample_web [], s1) \<and>
    services_stop sample_service_world sample_json ''web'' s1 = (Ok 0, s2) \<and>
    row_named ''web'' (svc_rows s2) = Some row \<and> sr_status row = ''stopped'' \<and>
    daemon_step sample_json (Sleeping ''web'' 1 sample_web [], s2) (Looking [], s3) \<and>
    row_named ''web'' (svc_rows s3) = Some row' \<and> sr_status row' = ''online''"
proof -
  obtain delay s1 where b: "before_backoff sample_service_world sample_json (''web'', 1, 1, False) sample_crashed = (Some (sample_web, delay), s1)"
    "row_named ''web'' (svc_rows s1) \<noteq> None" using sample_backoff by blast
  have t: "targets sample_service_world sample_json ''web'' s1 = (Ok [''web''], s1\<lparr> svc_db_calls := Suc (svc_db_calls s1) \<rparr>)"
    using b(2) by (auto simp: sample_targets)
  have "sd_cmd sample_web \<noteq> []" by simp
  from stop_during_backoff_is_undone [OF sample_reliable sample_reliable sample_reliable b(1) t this sample_service_sel(1), of "[]"]
  show ?thesis by blast
qed

text \<open>C14: The restart budget. When a service with a bound on restarts crashes again and again before its minimal
  uptime, the supervisor starts at most as many further children as the bound allows, over any ticks and
  exits; once the crashes exceed the bound, the service is recorded as errored and owns no child.\<close>

theorem rapid_crashes_bounded:
  assumes "reached jc s" "row_named name (svc_rows s) = Some row" "sr_autorestart row" "sr_restart_count row = 0"
    and "sr_max_restarts row \<noteq> 0" "unat (sr_max_restarts row) < U32_MAX"
    and "\<forall>(w, op) \<in> set ops. reliable w \<and> on_its_own op" "rapid_run jc name ops s" "s' = service_run jc ops s"
  shows "length (children_of name s') \<le> length (children_of name s) + unat (sr_max_restarts row) \<and>
    (\<exists>row'. row_named name (svc_rows s') = Some row' \<and> (sr_restart_count row' \<le> unat (sr_max_restarts row) \<or>
      sr_status row' = ''errored'' \<and> hm_get (svc_live s') name = None))"
proof -
  let ?m = "unat (sr_max_restarts row)" and ?k = "length (children_of name s)"
  have "recipe row = (True, sr_max_restarts row, sr_restart_delay_ms row, sr_min_uptime_ms row)" using assms(3) by (simp add: recipe_def)
  then have "within_budget name ?m ?k (True, sr_max_restarts row, sr_restart_delay_ms row, sr_min_uptime_ms row) s"
    using assms(2,4) by (simp add: within_budget_def)
  then have "within_budget name ?m ?k (True, sr_max_restarts row, sr_restart_delay_ms row, sr_min_uptime_ms row) s'"
    using on_its_own_within_budget [OF assms(7,8) reached_inv [OF assms(1)] _ refl assms(5,6)] assms(9) by simp
  then show ?thesis by (auto simp: within_budget_def)
qed

theorem rapid_crashes_bounded_witness:
  "length (children_of ''web'' (service_run sample_json [(sample_service_world, ChildExits 0 1), (sample_service_world, SupervisorTick)] sample_started)) \<le> 3"
proof -
  let ?ops = "[(sample_service_world, ChildExits 0 1), (sample_service_world, SupervisorTick)]"
  obtain row where row: "row_named ''web'' (svc_rows sample_started) = Some row" "sr_autorestart row" "sr_restart_count row = 0"
    "sr_max_restarts row = 2" "sr_min_uptime_ms row = 0" using sample_started_row by blast
  have "length (children_of ''web'' sample_started) = 1" by (simp add: children_of_def sample_started_eq)
  moreover have "rapid_run sample_json ''web'' ?ops sample_started"
    using row by (simp add: sample_started_eq hm_get_def set_exit_def row_min_uptime_def)
  moreover have "\<forall>(w, op) \<in> set ?ops. reliable w \<and> on_its_own op" by simp
  moreover have "sr_max_restarts row \<noteq> 0" "unat (sr_max_restarts row) < U32_MAX" "unat (sr_max_restarts row) = 2"
    using row(4) by (simp_all add: U32_MAX_def)
  ultimately show ?thesis using rapid_crashes_bounded [OF sample_reached(2) row(1-3), of ?ops] by simp
qed



end
