(* ===== verification/Service_Logs.thy ===== *)
theory Service_Logs
  imports Service_Supervisor
begin

text \<open>
  The logs of supervised services (\<open>daemon/services.rs\<close>: \<open>log_paths\<close>, \<open>read_logs\<close>, \<open>flush_logs\<close> and their
  helpers) and the request handlers in front of the registry (\<open>daemon/handlers/services.rs\<close>). The threads that
  append the output of a child to its log are not modelled: the files are those of the registry's state.
\<close>

section \<open>Paths\<close>

definition is_continuation :: "char \<Rightarrow> bool" where
  "is_continuation c = (0x80 \<le> char_code c \<and> char_code c \<le> 0xBF)"

definition log_name_char :: "char \<Rightarrow> bool" where
  "log_name_char c = (is_ascii_digit c \<or> is_ascii_lower c \<or> is_ascii_upper c \<or> c = CHR ''-'' \<or> c = CHR ''_'' \<or> c = CHR ''.'')"

text \<open>Characters are replaced one by one, and a character of several bytes by one underscore.\<close>

definition sanitize_name :: "string \<Rightarrow> string" where
  "sanitize_name name =
    concat (map (\<lambda>c. if log_name_char c then [c] else if is_continuation c then [] else ''_'') name)"

definition log_paths :: "service_registry \<Rightarrow> string \<Rightarrow> string \<times> string" where
  "log_paths s name =
    (let safe = sanitize_name name in
     (path_join (svc_log_dir s) (safe @ ''-out.log''), path_join (svc_log_dir s) (safe @ ''-err.log'')))"

section \<open>Text of a log\<close>

text \<open>\<open>String::from_utf8_lossy\<close>: the length of the character in front, or of the longest part of one that is
  replaced.\<close>

definition byte_at :: "string \<Rightarrow> nat \<Rightarrow> nat" where
  "byte_at s i = (if i < length s then char_code (s ! i) else 0)"

definition in_range :: "nat \<Rightarrow> nat \<Rightarrow> nat \<Rightarrow> bool" where
  "in_range n lo hi = (lo \<le> n \<and> n \<le> hi)"

definition utf8_width :: "string \<Rightarrow> nat \<times> bool" where
  "utf8_width s =
    (let b = byte_at s 0; cont = (\<lambda>i. in_range (byte_at s i) 0x80 0xBF) in
     if b < 0x80 then (1, True)
     else if in_range b 0xC2 0xDF then (if cont 1 then (2, True) else (1, False))
     else if in_range b 0xE0 0xEF then
       (if \<not> in_range (byte_at s 1) (if b = 0xE0 then 0xA0 else 0x80) (if b = 0xED then 0x9F else 0xBF) then (1, False)
        else if cont 2 then (3, True) else (2, False))
     else if in_range b 0xF0 0xF4 then
       (if \<not> in_range (byte_at s 1) (if b = 0xF0 then 0x90 else 0x80) (if b = 0xF4 then 0x8F else 0xBF) then (1, False)
        else if \<not> cont 2 then (2, False) else if cont 3 then (4, True) else (3, False))
     else (1, False))"

definition replacement_character :: string where
  "replacement_character = [char_of (0xEF :: nat), char_of (0xBF :: nat), char_of (0xBD :: nat)]"

function from_utf8_lossy :: "string \<Rightarrow> string" where
  "from_utf8_lossy s =
    (if s = [] then []
     else (case utf8_width s of (n, valid) \<Rightarrow>
       (if valid then take n s else replacement_character) @ from_utf8_lossy (drop n s)))"
  by pat_completeness auto

termination
  by (relation "measure length") (auto simp: utf8_width_def Let_def split: if_splits)

definition MAX_LOG_LINE_BYTES :: nat where
  "MAX_LOG_LINE_BYTES = 4096"

definition TRUNC_MARK :: string where
  "TRUNC_MARK = ''...(truncated)''"

definition is_char_boundary :: "string \<Rightarrow> nat \<Rightarrow> bool" where
  "is_char_boundary s i = (i = 0 \<or> i = length s \<or> (i < length s \<and> \<not> is_continuation (s ! i)))"

primrec snap_to_boundary :: "string \<Rightarrow> nat \<Rightarrow> nat" where
  "snap_to_boundary line 0 = 0"
| "snap_to_boundary line (Suc n) =
    (if is_char_boundary line (Suc n) then Suc n else snap_to_boundary line n)"

text \<open>The loop over the lines, with the output so far and the bytes that remain.\<close>

fun append_lines :: "string \<Rightarrow> string list \<Rightarrow> string \<times> nat \<Rightarrow> string \<times> nat" where
  "append_lines pre [] acc = acc"
| "append_lines pre (line # rest) (output, remaining) =
    (if remaining = 0 then (output, remaining)
     else
       let frame_overhead = length pre + 2 in
       if remaining \<le> frame_overhead then (output, remaining)
       else
         let body_room = min (remaining - frame_overhead) MAX_LOG_LINE_BYTES;
             body = (if length line > body_room
                     then take (snap_to_boundary line (min (body_room - length TRUNC_MARK) (length line))) line @ TRUNC_MARK
                     else line);
             output' = output @ pre @ '' '' @ body @ [CHR 0x0A]
         in append_lines pre rest (output', remaining - (length output' - length output)))"

definition log_lines :: "string \<Rightarrow> string list" where
  "log_lines bytes =
    (let all = split_on (CHR 0x0A) (from_utf8_lossy bytes) in if last all = [] then butlast all else all)"

definition append_tail ::
  "service_world \<Rightarrow> service_registry \<Rightarrow> string \<Rightarrow> string \<Rightarrow> nat \<Rightarrow> string \<times> nat \<Rightarrow> string \<times> nat" where
  "append_tail w s path pre lines acc =
    (if snd acc = 0 then acc
     else if sw_file_fails w ReadFile path \<noteq> None then acc
     else (case svc_files s path of
             None \<Rightarrow> acc
           | Some bytes \<Rightarrow>
             let all = log_lines bytes in append_lines pre (drop (length all - lines) all) acc))"

definition read_logs ::
  "service_world \<Rightarrow> string \<Rightarrow> u32 \<Rightarrow> u32 \<Rightarrow> nat \<Rightarrow> service_registry \<Rightarrow> (service_error, string) result \<times> service_registry" where
  "read_logs w target lines default_lines byte_budget s =
    (case resolve_target w target s of
       (None, s1) \<Rightarrow> (Err (ServiceNotFound target), s1)
     | (Some name, s1) \<Rightarrow>
       let (out_path, err_path) = log_paths s1 name;
           effective_lines = unat (if lines = 0 then default_lines else lines);
           acc = append_tail w s1 out_path ''[stdout]'' effective_lines ([], byte_budget);
           acc' = append_tail w s1 err_path ''[stderr]'' effective_lines acc
       in (Ok (fst acc'), s1))"

section \<open>Flushing\<close>

definition truncate_if_exists :: "service_world \<Rightarrow> string \<Rightarrow> service_registry \<Rightarrow> bool \<times> service_registry" where
  "truncate_if_exists w path s =
    (case svc_files s path of
       None \<Rightarrow> (True, s)
     | Some _ \<Rightarrow>
       if sw_file_fails w TruncateFile path \<noteq> None then (False, s) else (True, put_file path (Some []) s))"

definition truncate_log_pair :: "service_world \<Rightarrow> string \<Rightarrow> service_registry \<Rightarrow> bool \<times> service_registry" where
  "truncate_log_pair w name s =
    (let (out_path, err_path) = log_paths s name;
         (out_ok, s1) = truncate_if_exists w out_path s;
         (err_ok, s2) = truncate_if_exists w err_path s1
     in (out_ok \<or> err_ok, s2))"

fun flush_names :: "service_world \<Rightarrow> string list \<Rightarrow> nat \<Rightarrow> service_registry \<Rightarrow> nat \<times> service_registry" where
  "flush_names w [] count s = (count, s)"
| "flush_names w (name # names) count s =
    (case truncate_log_pair w name s of (flushed, s1) \<Rightarrow> flush_names w names (if flushed then count + 1 else count) s1)"

definition flush_logs ::
  "service_world \<Rightarrow> json_codec \<Rightarrow> string \<Rightarrow> service_registry \<Rightarrow> (service_error, nat) result \<times> service_registry" where
  "flush_logs w jc target s =
    (if target = ''all'' \<or> target = []
     then try_then (services_list w jc s) (\<lambda>recs s1.
       case flush_names w (map (sd_name \<circ> rec_def) recs) 0 s1 of (count, s2) \<Rightarrow> (Ok count, s2))
     else
       (case resolve_target w target s of
          (None, s1) \<Rightarrow> (Err (ServiceNotFound target), s1)
        | (Some name, s1) \<Rightarrow> (case truncate_log_pair w name s1 of (flushed, s2) \<Rightarrow> (Ok (if flushed then 1 else 0), s2))))"

section \<open>Request handlers\<close>

record service_config =
  cfg_name :: string
  cfg_cmd :: "string list"
  cfg_cwd :: string
  cfg_env :: "(string, string) hash_map"
  cfg_autorestart :: bool
  cfg_max_restarts :: u32
  cfg_restart_delay_ms :: u32
  cfg_kill_timeout_ms :: u32
  cfg_min_uptime_ms :: u32

record service_state =
  sst_name :: string
  sst_id :: u32
  sst_status :: string
  sst_pid :: u32
  sst_restart_count :: u32
  sst_last_started_at :: unix_time
  sst_last_exited_at :: unix_time
  sst_last_exit_code :: int
  sst_config :: "service_config option"

datatype daemon_status_code =
    StatusOk | StatusError | StatusUnknownRequest | StatusInvalidArgument | StatusNotFound | StatusInternal
  | StatusUnavailable | StatusVersionMismatch | StatusRateLimited | StatusUnimplemented | StatusAlreadyAttached

datatype service_body =
    NoBody
  | StartBody service_state
  | StopBody nat
  | RestartBody nat
  | DeleteBody nat
  | ListBody "service_state list"
  | DescribeBody service_state
  | LogsBody string
  | FlushBody nat
  | SaveBody string u32
  | ResurrectBody nat

record service_response =
  rsp_request_id :: u64
  rsp_code :: daemon_status_code
  rsp_message :: string
  rsp_body :: service_body

definition def_from_config :: "service_config \<Rightarrow> service_def" where
  "def_from_config config =
    \<lparr> sd_name = cfg_name config, sd_cmd = cfg_cmd config, sd_cwd = cfg_cwd config, sd_env = cfg_env config,
      sd_autorestart = cfg_autorestart config, sd_max_restarts = cfg_max_restarts config,
      sd_restart_delay_ms = cfg_restart_delay_ms config, sd_kill_timeout_ms = cfg_kill_timeout_ms config,
      sd_min_uptime_ms = cfg_min_uptime_ms config \<rparr>"

definition config_from_def :: "service_def \<Rightarrow> service_config" where
  "config_from_def d =
    \<lparr> cfg_name = sd_name d, cfg_cmd = sd_cmd d, cfg_cwd = sd_cwd d,
      cfg_env = foldl (\<lambda>m (k, v). hm_insert k v m) hm_empty (sd_env d),
      cfg_autorestart = sd_autorestart d, cfg_max_restarts = sd_max_restarts d,
      cfg_restart_delay_ms = sd_restart_delay_ms d, cfg_kill_timeout_ms = sd_kill_timeout_ms d,
      cfg_min_uptime_ms = sd_min_uptime_ms d \<rparr>"

definition state_from_record :: "service_record \<Rightarrow> service_state" where
  "state_from_record rec =
    \<lparr> sst_name = sd_name (rec_def rec), sst_id = rec_id rec, sst_status = status_as_str (rec_status rec),
      sst_pid = rec_pid rec, sst_restart_count = rec_restart_count rec,
      sst_last_started_at = rec_last_started_at rec, sst_last_exited_at = rec_last_exited_at rec,
      sst_last_exit_code = rec_last_exit_code rec, sst_config = Some (config_from_def (rec_def rec)) \<rparr>"

fun status_for :: "service_error \<Rightarrow> daemon_status_code" where
  "status_for (ServiceNotFound _) = StatusNotFound"
| "status_for (AlreadyExists _) = StatusInvalidArgument"
| "status_for (InvalidConfig _) = StatusInvalidArgument"
| "status_for (SpawnFailed _) = StatusInternal"
| "status_for (DbError _) = StatusInternal"

fun service_error_message :: "service_error \<Rightarrow> string" where
  "service_error_message (AlreadyExists n) = ''service '' @ [CHR 0x27] @ n @ [CHR 0x27] @ '' already exists''"
| "service_error_message (ServiceNotFound t) = ''no service matched '' @ [CHR 0x27] @ t @ [CHR 0x27]"
| "service_error_message (InvalidConfig m) = ''invalid service config: '' @ m"
| "service_error_message (SpawnFailed m) = ''failed to spawn service: '' @ m"
| "service_error_message (DbError m) = ''service db error: '' @ m"

definition err_response :: "u64 \<Rightarrow> service_error \<Rightarrow> service_response" where
  "err_response i e =
    \<lparr> rsp_request_id = i, rsp_code = status_for e, rsp_message = service_error_message e, rsp_body = NoBody \<rparr>"

definition service_reply ::
  "u64 \<Rightarrow> ('a \<Rightarrow> service_body) \<Rightarrow> (service_error, 'a) result \<times> service_registry \<Rightarrow> service_response \<times> service_registry" where
  "service_reply i body r =
    (case r of
       (Ok x, s) \<Rightarrow> (\<lparr> rsp_request_id = i, rsp_code = StatusOk, rsp_message = [], rsp_body = body x \<rparr>, s)
     | (Err e, s) \<Rightarrow> (err_response i e, s))"

text \<open>The optional payloads of a request: a missing target is the empty one.\<close>

definition target_or_default :: "string option \<Rightarrow> string" where
  "target_or_default payload = (case payload of None \<Rightarrow> [] | Some target \<Rightarrow> target)"

definition handle_service_start ::
  "service_world \<Rightarrow> json_codec \<Rightarrow> u64 \<Rightarrow> service_config option option \<Rightarrow> service_registry \<Rightarrow> service_response \<times> service_registry" where
  "handle_service_start w jc i payload s =
    (case payload of
       None \<Rightarrow> (err_response i (InvalidConfig ''missing service_start payload''), s)
     | Some None \<Rightarrow> (err_response i (InvalidConfig ''missing service config''), s)
     | Some (Some config) \<Rightarrow>
       service_reply i (\<lambda>rec. StartBody (state_from_record rec)) (services_start w jc (def_from_config config) s))"

definition handle_service_stop ::
  "service_world \<Rightarrow> json_codec \<Rightarrow> u64 \<Rightarrow> string option \<Rightarrow> service_registry \<Rightarrow> service_response \<times> service_registry" where
  "handle_service_stop w jc i payload s = service_reply i StopBody (services_stop w jc (target_or_default payload) s)"

definition handle_service_restart ::
  "service_world \<Rightarrow> json_codec \<Rightarrow> u64 \<Rightarrow> string option \<Rightarrow> service_registry \<Rightarrow> service_response \<times> service_registry" where
  "handle_service_restart w jc i payload s = service_reply i RestartBody (services_restart w jc (target_or_default payload) s)"

definition handle_service_delete ::
  "service_world \<Rightarrow> json_codec \<Rightarrow> u64 \<Rightarrow> string option \<Rightarrow> service_registry \<Rightarrow> service_response \<times> service_registry" where
  "handle_service_delete w jc i payload s = service_reply i DeleteBody (services_delete w jc (target_or_default payload) s)"

definition handle_service_list ::
  "service_world \<Rightarrow> json_codec \<Rightarrow> u64 \<Rightarrow> service_registry \<Rightarrow> service_response \<times> service_registry" where
  "handle_service_list w jc i s = service_reply i (\<lambda>recs. ListBody (map state_from_record recs)) (services_list w jc s)"

definition handle_service_describe ::
  "service_world \<Rightarrow> json_codec \<Rightarrow> u64 \<Rightarrow> string option \<Rightarrow> service_registry \<Rightarrow> service_response \<times> service_registry" where
  "handle_service_describe w jc i payload s =
    service_reply i (\<lambda>rec. DescribeBody (state_from_record rec)) (services_describe w jc (target_or_default payload) s)"

definition LOGS_RESPONSE_BYTE_BUDGET :: nat where
  "LOGS_RESPONSE_BYTE_BUDGET = 64 * 1024"

definition LOGS_DEFAULT_LINES :: u32 where
  "LOGS_DEFAULT_LINES = 100"

definition handle_service_logs ::
  "service_world \<Rightarrow> u64 \<Rightarrow> (string \<times> u32) option \<Rightarrow> service_registry \<Rightarrow> service_response \<times> service_registry" where
  "handle_service_logs w i payload s =
    (case payload of
       None \<Rightarrow> (err_response i (InvalidConfig ''missing service_logs payload''), s)
     | Some (target, lines) \<Rightarrow>
       service_reply i LogsBody (read_logs w target lines LOGS_DEFAULT_LINES LOGS_RESPONSE_BYTE_BUDGET s))"

definition handle_service_flush ::
  "service_world \<Rightarrow> json_codec \<Rightarrow> u64 \<Rightarrow> string option \<Rightarrow> service_registry \<Rightarrow> service_response \<times> service_registry" where
  "handle_service_flush w jc i payload s = service_reply i FlushBody (flush_logs w jc (target_or_default payload) s)"

definition handle_service_save ::
  "service_world \<Rightarrow> json_codec \<Rightarrow> u64 \<Rightarrow> service_registry \<Rightarrow> service_response \<times> service_registry" where
  "handle_service_save w jc i s = service_reply i (\<lambda>(path, count). SaveBody path count) (save_snapshot w jc s)"

definition handle_service_resurrect ::
  "service_world \<Rightarrow> json_codec \<Rightarrow> u64 \<Rightarrow> service_registry \<Rightarrow> service_response \<times> service_registry" where
  "handle_service_resurrect w jc i s =
    service_reply i (\<lambda>(restored, _). ResurrectBody restored) (resurrect_from_snapshot w jc s)"

definition framed :: "string \<Rightarrow> nat \<Rightarrow> string \<Rightarrow> string" where
  "framed pre remaining line =
    (let body_room = min (remaining - (length pre + 2)) MAX_LOG_LINE_BYTES in
     pre @ '' '' @ (if length line > body_room
       then take (snap_to_boundary line (min (body_room - length TRUNC_MARK) (length line))) line @ TRUNC_MARK
       else line) @ [CHR 0x0A])"

text \<open>The bytes written and the bytes that remain stay within the budget and the 13 bytes of a last marker; once
  the budget is passed, nothing is left to write.\<close>

definition within_budget_13 :: "nat \<Rightarrow> string \<times> nat \<Rightarrow> bool" where
  "within_budget_13 budget acc =
    (length (fst acc) + snd acc \<le> budget \<or> (snd acc = 0 \<and> length (fst acc) \<le> budget + 13))"

section \<open>A log that fits is returned whole\<close>

definition frame_all :: "string \<Rightarrow> string list \<Rightarrow> string" where
  "frame_all pre lines = concat (map (\<lambda>line. pre @ '' '' @ line @ [CHR 0x0A]) lines)"

section \<open>Flushing touches the log directory only\<close>

definition in_directory :: "string \<Rightarrow> string \<Rightarrow> bool" where
  "in_directory dir path = (\<exists>leaf. CHR ''/'' \<notin> set leaf \<and> leaf \<noteq> ''.'' \<and> leaf \<noteq> ''..''
    \<and> (path = dir @ leaf \<and> (dir = [] \<or> last dir = CHR ''/'') \<or> path = dir @ ''/'' @ leaf))"

text \<open>Two states that differ in files of the log directory and in the count of statements only.\<close>

definition flushed :: "service_registry \<Rightarrow> service_registry \<Rightarrow> bool" where
  "flushed s t = (svc_log_dir t = svc_log_dir s \<and> svc_rows t = svc_rows s \<and> svc_live t = svc_live s
    \<and> svc_children t = svc_children s
    \<and> (\<forall>p. svc_files t p = svc_files s p
         \<or> in_directory (svc_log_dir s) p \<and> svc_files s p \<noteq> None \<and> svc_files t p = Some []))"

definition sample_logged :: service_registry where
  "sample_logged = sample_started\<lparr> svc_files := (\<lambda>_. None)(''/l/web-out.log'' \<mapsto> [CHR ''a'', CHR ''b'', CHR 0x0A]) \<rparr>"

declare from_utf8_lossy.simps [simp del]

section \<open>Paths stay in the log directory\<close>

lemma sanitize_name_chars: "c \<in> set (sanitize_name name) \<Longrightarrow> log_name_char c"
  by (auto simp: sanitize_name_def log_name_char_def split: if_splits)

lemma sanitize_name_safe: "log_name_char c = False \<Longrightarrow> c \<notin> set (sanitize_name name)"
  using sanitize_name_chars by blast

lemma slash_not_log_name_char [simp]: "\<not> log_name_char (CHR ''/'')"
  by (simp add: log_name_char_def is_ascii_digit_def is_ascii_lower_def is_ascii_upper_def)

lemma sanitize_name_id: "list_all log_name_char name \<Longrightarrow> sanitize_name name = name"
  by (induction name) (auto simp: sanitize_name_def)

lemma sanitize_name_no_slash: "CHR ''/'' \<notin> set (sanitize_name name)"
  using sanitize_name_chars slash_not_log_name_char by blast

lemma path_join_inside:
  assumes "CHR ''/'' \<notin> set leaf" "leaf \<noteq> []"
  shows "path_join base leaf = base @ leaf \<or> path_join base leaf = base @ ''/'' @ leaf"
proof -
  have "hd leaf \<noteq> CHR ''/''" using assms by (metis list.set_sel(1))
  then show ?thesis by (auto simp: path_join_def)
qed

section \<open>The byte budget of a response\<close>

lemma snap_to_boundary_le: "snap_to_boundary line n \<le> n"
  by (induction n) (auto intro: le_SucI)

lemma snap_to_boundary_is_boundary: "is_char_boundary line (snap_to_boundary line n)"
  by (induction n) (auto simp: is_char_boundary_def)

lemma TRUNC_MARK_length [simp]: "length TRUNC_MARK = 14"
  by (simp add: TRUNC_MARK_def)

lemma append_lines_Cons:
  "append_lines pre (line # rest) (output, remaining) =
    (if remaining \<le> length pre + 2 then (output, remaining)
     else append_lines pre rest (output @ framed pre remaining line, remaining - length (framed pre remaining line)))"
  by (simp add: framed_def Let_def)

lemma framed_length:
  assumes "length pre + 2 < remaining"
  shows "length (framed pre remaining line) \<le> remaining + 13"
proof -
  define room where "room = min (remaining - (length pre + 2)) MAX_LOG_LINE_BYTES"
  have "1 \<le> room" "room + length pre + 2 \<le> remaining" using assms by (auto simp: room_def MAX_LOG_LINE_BYTES_def)
  moreover define k where "k = snap_to_boundary line (min (room - length TRUNC_MARK) (length line))"
  moreover have "k \<le> room - 14"
    using snap_to_boundary_le [of line "min (room - length TRUNC_MARK) (length line)"] by (simp add: k_def)
  moreover have "framed pre remaining line =
      pre @ '' '' @ (if length line > room then take k line @ TRUNC_MARK else line) @ [CHR 0x0A]"
    by (simp only: framed_def Let_def room_def k_def)
  ultimately show ?thesis by (cases "length line > room") auto
qed

lemma append_lines_budget:
  "within_budget_13 budget acc \<Longrightarrow> within_budget_13 budget (append_lines pre lines acc)"
proof (induction lines arbitrary: acc)
  case Nil
  then show ?case by simp
next
  case (Cons line rest)
  obtain out rem where acc: "acc = (out, rem)" by (cases acc)
  show ?case
  proof (cases "rem \<le> length pre + 2")
    case True
    then show ?thesis using Cons.prems by (simp only: acc append_lines_Cons if_True)
  next
    case False
    have "within_budget_13 budget (out @ framed pre rem line, rem - length (framed pre rem line))"
      using Cons.prems False framed_length [of pre rem line] by (auto simp: within_budget_13_def acc)
    then show ?thesis using Cons.IH False by (simp only: acc append_lines_Cons if_False)
  qed
qed

lemma append_tail_budget:
  "within_budget_13 budget acc \<Longrightarrow> within_budget_13 budget (append_tail w s path pre lines acc)"
  by (auto simp: append_tail_def Let_def intro: append_lines_budget split: option.splits)

lemma read_logs_length:
  assumes "read_logs w target lines default_lines budget s = (Ok text, s')"
  shows "length text \<le> budget + 13"
proof -
  have *: "length (fst acc) \<le> budget + 13" if "within_budget_13 budget acc" for acc
    using that by (auto simp: within_budget_13_def)
  have "within_budget_13 budget ([], budget)" by (simp add: within_budget_13_def)
  then show ?thesis
    using assms by (auto simp: read_logs_def Let_def split: option.splits prod.splits
        intro!: * append_tail_budget)
qed

lemma append_lines_fits:
  assumes "length (frame_all pre lines) < rem"
    and "list_all (\<lambda>line. length line \<le> MAX_LOG_LINE_BYTES) lines"
  shows "append_lines pre lines (out, rem) = (out @ frame_all pre lines, rem - length (frame_all pre lines))"
  using assms
proof (induction lines arbitrary: out rem)
  case Nil
  then show ?case by (simp add: frame_all_def)
next
  case (Cons line rest)
  have room: "length pre + 2 + length line + length (frame_all pre rest) < rem"
    using Cons.prems by (simp add: frame_all_def)
  have body: "length line \<le> MAX_LOG_LINE_BYTES" using Cons.prems by auto
  have "framed pre rem line = pre @ '' '' @ line @ [CHR 0x0A]"
    using room body by (auto simp: framed_def Let_def)
  then show ?case
    using room body Cons.prems Cons.IH [of "rem - (length pre + 2 + length line)" "out @ pre @ '' '' @ line @ [CHR 0x0A]"]
    by (simp only: append_lines_Cons) (simp add: frame_all_def)
qed

lemma append_tail_exact:
  assumes "svc_files s path = Some bytes" "sw_file_fails w ReadFile path = None"
    and "list_all (\<lambda>line. length line \<le> MAX_LOG_LINE_BYTES) (log_lines bytes)"
    and "length (frame_all pre tail) < rem"
    and tail: "tail = drop (length (log_lines bytes) - n) (log_lines bytes)"
  shows "append_tail w s path pre n (out, rem) = (out @ frame_all pre tail, rem - length (frame_all pre tail))"
proof -
  have "list_all (\<lambda>line. length line \<le> MAX_LOG_LINE_BYTES) tail"
    using assms(3) by (auto simp: tail list_all_iff dest: in_set_dropD)
  then show ?thesis
    using assms append_lines_fits [of pre tail rem out] by (simp add: append_tail_def Let_def)
qed

lemma path_join_in_directory:
  assumes "CHR ''/'' \<notin> set leaf" "leaf \<noteq> []" "leaf \<noteq> ''.''" "leaf \<noteq> ''..''"
  shows "in_directory dir (path_join dir leaf)"
proof -
  have "hd leaf \<noteq> CHR ''/''" using assms(1,2) by (metis list.set_sel(1))
  then show ?thesis using assms unfolding in_directory_def path_join_def by (intro exI [of _ leaf]) auto
qed

lemma log_leaf:
  assumes "ext = ''-out.log'' \<or> ext = ''-err.log''"
  shows "CHR ''/'' \<notin> set (sanitize_name name @ ext)" "sanitize_name name @ ext \<noteq> []"
    "sanitize_name name @ ext \<noteq> ''.''" "sanitize_name name @ ext \<noteq> ''..''"
proof -
  have "length ext = 8" "CHR ''/'' \<notin> set ext" using assms by auto
  then show "CHR ''/'' \<notin> set (sanitize_name name @ ext)" "sanitize_name name @ ext \<noteq> []"
    "sanitize_name name @ ext \<noteq> ''.''" "sanitize_name name @ ext \<noteq> ''..''"
    using sanitize_name_no_slash by (auto dest!: arg_cong [where f = length])
qed

lemma log_paths_in_directory:
  assumes "log_paths s name = (p, q)"
  shows "in_directory (svc_log_dir s) p" "in_directory (svc_log_dir s) q"
  using assms log_leaf [of "''-out.log''" name] log_leaf [of "''-err.log''" name]
  by (auto simp: log_paths_def Let_def intro!: path_join_in_directory)

lemma flushed_refl [simp]: "flushed s s"
  by (simp add: flushed_def)

lemma flushed_trans: "flushed s t \<Longrightarrow> flushed t u \<Longrightarrow> flushed s u"
  unfolding flushed_def by (metis option.discI)

lemma db_call_flushed: "flushed s (snd (db_call w s))"
  by (auto simp: db_call_def flushed_def split: option.splits)

lemma query_name_flushed: "flushed s (snd (query_name w p s))"
  using db_call_flushed [of s w] by (auto simp: query_name_def split: prod.splits sum.splits)

lemma resolve_target_flushed: "resolve_target w target s = (r, s') \<Longrightarrow> flushed s s'"
  using query_name_flushed flushed_trans
  by (auto simp: resolve_target_def split: option.splits prod.splits) (metis snd_conv)+

lemma services_list_flushed: "services_list w jc s = (r, s') \<Longrightarrow> flushed s s'"
  using db_call_flushed [of s w] by (auto simp: services_list_def try_then_def split: prod.splits sum.splits)

lemma truncate_if_exists_flushed:
  assumes "in_directory (svc_log_dir s) path" "truncate_if_exists w path s = (b, s')"
  shows "flushed s s'"
  using assms by (auto simp: truncate_if_exists_def put_file_def flushed_def split: option.splits if_splits)

lemma truncate_log_pair_flushed:
  assumes "truncate_log_pair w name s = (b, s')"
  shows "flushed s s'"
proof -
  obtain p q where pq: "log_paths s name = (p, q)" by fastforce
  obtain b1 s1 where s1: "truncate_if_exists w p s = (b1, s1)" by fastforce
  have f: "flushed s s1" using truncate_if_exists_flushed [OF log_paths_in_directory(1) [OF pq] s1] .
  then have dir: "svc_log_dir s1 = svc_log_dir s" by (simp add: flushed_def)
  obtain b2 s2 where s2: "truncate_if_exists w q s1 = (b2, s2)" by fastforce
  have "flushed s1 s2"
    using truncate_if_exists_flushed [OF _ s2] log_paths_in_directory(2) [OF pq] by (simp add: dir)
  moreover have "s' = s2" using assms by (simp add: truncate_log_pair_def pq s1 s2)
  ultimately show ?thesis using f flushed_trans by blast
qed

lemma flush_names_flushed: "flush_names w names n s = (m, s') \<Longrightarrow> flushed s s'"
  by (induction names arbitrary: n s)
    (auto split: prod.splits dest!: truncate_log_pair_flushed intro: flushed_trans)

lemma flush_logs_flushed:
  assumes "flush_logs w jc target s = (r, s')"
  shows "flushed s s'"
  using assms
  by (auto simp: flush_logs_def try_then_def split: prod.splits sum.splits option.splits if_splits
      dest!: services_list_flushed resolve_target_flushed flush_names_flushed truncate_log_pair_flushed
      intro: flushed_trans)

lemma read_logs_exact:
  assumes "resolve_target w target s = (Some name, s')" "log_paths s' name = (p, q)"
    and "svc_files s' p = Some out" "svc_files s' q = Some err"
    and "sw_file_fails w ReadFile p = None" "sw_file_fails w ReadFile q = None"
    and "list_all (\<lambda>line. length line \<le> MAX_LOG_LINE_BYTES) (log_lines out @ log_lines err)"
    and n: "n = unat (if lines = 0 then default_lines else lines)"
    and o: "outs = drop (length (log_lines out) - n) (log_lines out)"
    and e: "errs = drop (length (log_lines err) - n) (log_lines err)"
    and "length (frame_all ''[stdout]'' outs) + length (frame_all ''[stderr]'' errs) < budget"
  shows "read_logs w target lines default_lines budget s =
    (Ok (frame_all ''[stdout]'' outs @ frame_all ''[stderr]'' errs), s')"
  using assms append_tail_exact [of s' p out w "''[stdout]''" outs budget n "[]"]
    append_tail_exact [of s' q err w "''[stderr]''" errs "budget - length (frame_all ''[stdout]'' outs)" n
      "frame_all ''[stdout]'' outs"]
  by (simp add: read_logs_def Let_def)

lemma sample_logged_resolve:
  "resolve_target sample_service_world ''web'' sample_logged = (Some ''web'', sample_logged\<lparr> svc_db_calls := 12 \<rparr>)"
  by (simp add: resolve_target_def parse_u32_def is_ascii_digit_def query_name_def db_call_reliable sample_logged_def
      sample_started_eq def_columns_def default_row_def)

lemma sample_log_paths: "svc_log_dir s = ''/l'' \<Longrightarrow> log_paths s ''web'' = (''/l/web-out.log'', ''/l/web-err.log'')"
  by (simp add: log_paths_def Let_def sanitize_name_def log_name_char_def is_ascii_lower_def path_join_def)

lemma sample_log_lines: "log_lines ([CHR ''a'', CHR ''b'', CHR 0x0A]) = [''ab'']"
  by (simp add: log_lines_def Let_def from_utf8_lossy.simps utf8_width_def byte_at_def)

lemma sample_logged_read:
  "read_logs sample_service_world ''web'' 0 1 11 sample_logged =
    (Ok (''[stdout] ...(truncated)'' @ [CHR 0x0A]), sample_logged\<lparr> svc_db_calls := 12 \<rparr>)"
proof -
  let ?s = "sample_logged\<lparr> svc_db_calls := 12 \<rparr>"
  have f: "sw_file_fails sample_service_world op path = None" for op path by (simp add: sample_service_world_def)
  have d: "svc_log_dir ?s = ''/l''" by (simp add: sample_logged_def sample_started_eq sample_opened_def)
  have o: "svc_files ?s ''/l/web-out.log'' = Some ([CHR ''a'', CHR ''b'', CHR 0x0A])" and e: "svc_files ?s ''/l/web-err.log'' = None"
    by (simp_all add: sample_logged_def)
  have a: "append_tail sample_service_world ?s ''/l/web-out.log'' ''[stdout]'' 1 ([], 11) =
      (''[stdout] ...(truncated)'' @ [CHR 0x0A], 0)"
    by (simp only: append_tail_def o f sample_log_lines Let_def) (simp add: sample_log_lines Let_def MAX_LOG_LINE_BYTES_def TRUNC_MARK_def)
  have b: "append_tail sample_service_world ?s ''/l/web-err.log'' ''[stderr]'' 1 acc = acc" for acc
    by (simp only: append_tail_def e f option.case) simp
  show ?thesis
    unfolding read_logs_def sample_logged_resolve Let_def
    using a b by (simp add: sample_log_paths [OF d])
qed

lemma sample_logged_flush:
  "\<exists>s'. flush_logs sample_service_world sample_json ''web'' sample_logged = (Ok 1, s')
    \<and> svc_files s' ''/l/web-out.log'' \<noteq> svc_files sample_logged ''/l/web-out.log''"
proof -
  let ?s = "sample_logged\<lparr> svc_db_calls := 12 \<rparr>"
  have f: "sw_file_fails sample_service_world op path = None" for op path by (simp add: sample_service_world_def)
  have d: "svc_log_dir ?s = ''/l''" by (simp add: sample_logged_def sample_started_eq sample_opened_def)
  have "truncate_log_pair sample_service_world ''web'' ?s = (True, put_file ''/l/web-out.log'' (Some []) ?s)"
    unfolding truncate_log_pair_def sample_log_paths [OF d]
    by (simp add: truncate_if_exists_def f put_file_def sample_logged_def)
  then show ?thesis
    unfolding flush_logs_def sample_logged_resolve by (simp add: put_file_def sample_logged_def)
qed

section \<open>Properties\<close>

text \<open>C17: A log response is at most 13 bytes longer than its byte budget, whatever the log files hold, and there
  is a registry with a log of one line for which it is 13 bytes longer.\<close>

theorem log_response_within_budget_and_marker:
  "(\<forall>w target lines default_lines budget s text s'.
      read_logs w target lines default_lines budget s = (Ok text, s') \<longrightarrow> length text \<le> budget + 13)
   \<and> (\<exists>w target s s' text. read_logs w target 0 1 11 s = (Ok text, s') \<and> length text = 11 + 13)"
proof (intro conjI allI impI)
  show "\<exists>w target s s' text. read_logs w target 0 1 11 s = (Ok text, s') \<and> length text = 11 + 13"
    using sample_logged_read by fastforce
qed (rule read_logs_length)

theorem log_response_within_budget_and_marker_witness:
  "\<exists>text. read_logs sample_service_world ''web'' 0 1 11 sample_logged = (Ok text, sample_logged\<lparr> svc_db_calls := 12 \<rparr>)
    \<and> length text \<le> 24"
  using log_response_within_budget_and_marker sample_logged_read by fastforce

text \<open>C18: Flushing logs, of one service or of all of them, changes nothing but files directly inside the log directory
  that existed, which it empties, whatever the names of the services are.\<close>

theorem flush_stays_in_log_directory:
  assumes "flush_logs w jc target s = (r, s')"
    and "svc_files s' path \<noteq> svc_files s path"
  shows "in_directory (svc_log_dir s) path \<and> svc_files s path \<noteq> None \<and> svc_files s' path = Some []
    \<and> svc_rows s' = svc_rows s \<and> svc_live s' = svc_live s \<and> svc_children s' = svc_children s"
  using flush_logs_flushed [OF assms(1)] assms(2) by (auto simp: flushed_def)

theorem flush_stays_in_log_directory_witness:
  "\<exists>s'. flush_logs sample_service_world sample_json ''web'' sample_logged = (Ok 1, s')
    \<and> in_directory (svc_log_dir sample_logged) ''/l/web-out.log'' \<and> svc_files s' ''/l/web-out.log'' = Some []"
  using sample_logged_flush flush_stays_in_log_directory by blast

end
