(* ===== verification/Spec2Isabelle.thy ===== *)
theory Spec2Isabelle
  imports Backend_Sdk Service_Logs
begin

text \<open>
  A verification development for the v1 broker of \<open>running-process\<close>
  (\<open>src/crates/running-process/src/broker\<close>) and the service supervisor of its daemon
  (\<open>src/crates/running-process/src/daemon\<close>).

  \<^bold>\<open>The program.\<close> The broker is a long-lived process that connects clients to versioned backend
  daemons of one user. A client opens the broker's pipe, whose name is derived from the user and the
  service (\<open>lifecycle/names.rs\<close>, \<open>server/instance.rs\<close>), and sends a framed \<open>Hello\<close> that names a
  service and a version. The broker loads the definition of the service, checks its version policy,
  looks up a verified backend by the content hash of the executable, or launches one within a spawn
  budget, and replies with the pipe of the backend or a refusal. Where both sides can pass handles the
  reply carries a one-time token, and the connection is handed over once the backend acknowledges it.
  Session tokens bind clients to the broker and the daemon they were admitted to; a spawn storm or a
  handover rotates them. The daemon keeps a table of services, starts and stops their children on request,
  and a supervisor task restarts those that crash.

  \<^bold>\<open>The theories\<close>, in the order of the program:
  \<^item> \<open>Broker_Prelude\<close>: Rust's \<open>Result\<close>, fixed-width integers, \<open>Duration\<close> and \<open>Instant\<close> as
    nanoseconds, \<open>HashMap\<close> as an association list behind the locale \<open>keyed_map\<close>, and byte streams.
  \<^item> \<open>Rust_Strings\<close>: the string functions of the standard library that the broker calls.
  \<^item> \<open>Wire_Framing\<close>: \<open>protocol/framing.rs\<close>, \<open>protocol/io.rs\<close>, the envelope of
    \<open>protocol/envelope.rs\<close>, and the incremental decoder. Framing round trips, agreement of the two
    decoders, and the caps on lengths.
  \<^item> \<open>Pipe_Names\<close>: \<open>lifecycle/names.rs\<close>, \<open>lifecycle/names_v2.rs\<close>. Validation grammars and the
    injectivity of the names.
  \<^item> \<open>Service_Definitions\<close>: \<open>server/instance.rs\<close>, \<open>server/version_allow_list.rs\<close>,
    \<open>server/service_def_loader.rs\<close> and the writing of definitions. What a loaded definition satisfies,
    the write/load round trip, the numeric meaning of the version floor.
  \<^item> \<open>Endpoint_Allocator\<close>: \<open>server/backend_endpoint_allocator.rs\<close>. Endpoints are fresh and well formed.
  \<^item> \<open>Backend_Registry\<close>: \<open>backend_lifecycle/identity.rs\<close> and \<open>server/backend_registry.rs\<close>. A lookup
    only finds a handle of the exact content hash.
  \<^item> \<open>Budget_Windows\<close>: the locale \<open>fixed_window\<close> of a counter that starts over once its window has
    run out, interpreted by the spawn budget, the crash recovery, the handoff fallback and the rate
    limiter.
  \<^item> \<open>Spawn_Coordinator\<close>: \<open>server/spawn_coordinator.rs\<close>. The budget bound, single flight, the storm
    signal, and the file lock, with every other process able to act between two system calls.
  \<^item> \<open>Backend_Recovery\<close>: \<open>server/recovery.rs\<close> and \<open>server/handoff/fallback.rs\<close>.
  \<^item> \<open>Session_Tokens\<close>: \<open>server/session_token.rs\<close>. Acceptance, rotation and invalidation.
  \<^item> \<open>Handoff_Tokens\<close>: \<open>server/handoff/handoff_token.rs\<close>, the acknowledgement registry, the
    acceptance on the backend (\<open>backend_lib\<close>), and the queue of parked handoffs. At most one use of a
    token, exactly one way out of the registry, and a bounded queue.
  \<^item> \<open>Hello_Handler\<close>: \<open>server/hello_handler.rs\<close>. When a Hello is negotiated, what a refusal leaves
    behind, what a handoff token in a reply is worth, and the rate limit.
  \<^item> \<open>Backend_Probe\<close>: \<open>backend_lifecycle/probe.rs\<close> and \<open>backend_lifecycle/verify_pid.rs\<close>. The
    identity a successful probe establishes, its end by the deadline, and the answer of an honest
    backend.
  \<^item> \<open>Backend_Launcher\<close>: \<open>server/backend_launcher.rs\<close>. Containment of the launched binary and the fate
    of the child and of the pre-bound socket on each error.
  \<^item> \<open>Hello_Router\<close>: \<open>server/hello_router.rs\<close>, which composes the theories above into one request:
    definition, version policy, live registry, spawn budget, launch, registration and session token.
    A negotiated reply names a live backend of the requested hash, a spawn is authorized by the policy
    and by a budget slot that is given back, and a storm rotates the sessions once.
  \<^item> \<open>Handoff_Delivery\<close>: \<open>server/handoff/wire.rs\<close>, \<open>orchestrate.rs\<close>, \<open>orchestrate_unix.rs\<close>, the two
    transports and the backend's accepting side. A handoff ends acknowledged or with its token and
    its entry gone, and what one side writes the other side reads.
  \<^item> \<open>Deadline_Stream\<close>: \<open>server/deadline_stream.rs\<close>, and the framing calls on any stream of reads
    and writes. Through the locales \<open>byte_stream\<close>, \<open>prompt_stream\<close> and \<open>reads_like\<close>: what a write
    sends, that calls end by the deadline, and that a frame that arrives in pieces is read as it is by
    the blocking reader.
  \<^item> \<open>Admin_Verbs\<close>: \<open>server/admin.rs\<close>, \<open>server/metrics.rs\<close>. Snapshots, the bodies of every verb and
    the admin frames.
  \<^item> \<open>Control_Socket\<close>: \<open>server/connection.rs\<close>, \<open>server/fd_pressure.rs\<close>, \<open>server/control_socket.rs\<close>.
    Who is served, what is sent on a connection, the accept loop as a run over the outcomes of
    \<open>accept\<close>, its demotion under descriptor pressure and the ways it ends.
  \<^item> \<open>Broker_Serve\<close>: \<open>server/serve.rs\<close>, which runs the loop over the router. Both serve modes, the
    agreement of readiness with what happens to a Hello, and the invariants of a whole run.
  \<^item> \<open>Broker_Client\<close>: \<open>client.rs\<close>, \<open>adopt.rs\<close>, \<open>backend_sdk/frame_client.rs\<close>. The broker is the peer
    of the client's stream, so that what a client returns is determined by what the router decided and
    by whether its connection was handed off.
  \<^item> \<open>Backend_Sdk\<close>: \<open>backend_sdk/mux.rs\<close>, \<open>backend_sdk/identity_file.rs\<close>. A session of the frame client
    with a daemon behind the multiplexer, the verdicts of the multiplexer under any chunking, its
    agreement with the blocking probe responder, and a sidecar that is never torn.
  \<^item> \<open>Service_Supervisor\<close>: \<open>daemon/services.rs\<close>, \<open>daemon/services_snapshot.rs\<close>. The rows of the table, the
    handles and the children are one state. At most one child of a service runs, a stop is final
    between ticks and undone during a backoff (the relation \<open>daemon_step\<close> lets requests in while the
    supervisor sleeps), rapid crashes are bounded, and a snapshot restores what was saved.
  \<^item> \<open>Service_Logs\<close>: the logs of services in \<open>daemon/services.rs\<close> and \<open>daemon/handlers/services.rs\<close>. The
    length and the content of a log response, the files a flush can touch, and the responses of the
    service requests.

  \<^bold>\<open>How the model corresponds to the code.\<close> A struct is a record whose fields carry a prefix of the
  struct's name, an enum a datatype with the constructors of the source, a method a function that
  takes the state last or first as the source's receiver and returns the result with the new state.
  A Mutex-guarded state is passed and returned: one call holds the lock throughout, so interleavings
  are sequences of calls, and the properties over runs quantify over those sequences. Strings are the
  list of their UTF-8 bytes. The protobuf codec, the operating system (clock, random source, files,
  processes, sockets) and the hash function are arguments of the definitions; what a property relies
  on of them is a hypothesis of that property, and its witness instantiates them.

  \<^bold>\<open>Loops and bounds.\<close> Loops over collections are structural recursions. The retry loops of the
  endpoint and token allocators run for the number of attempts of their configuration, as in the
  source. The read, write and flush loops of the probe may spin for ever on a stream that never makes
  progress with a clock that stands still, so they are partial functions into option; that they
  return once the clock reaches the deadline is a theorem. The same holds of the loops of the deadline
  stream. The accept loop is a recursion over the outcomes of \<open>accept\<close> that the operating system will
  give; a run that has used them up is still serving.

  \<^bold>\<open>Not modelled\<close>: socket options, descriptor and handle passing, process
  creation, the asynchronous twins of the synchronous code and logging, which are calls
  of the operating system with no decision of their own; the threads that append to service logs; SQLite
  below the granularity of a statement; and the parts of the repository outside the broker and the
  service supervisor.
\<close>

end
